(* ===== verification/Prelude.thy ===== *)
theory Prelude
  imports Main "HOL-Library.Word"
begin

text \<open>
  Shared vocabulary of the development: the machine integers of the Rust sources as words,
  Rust's \<open>Result\<close> extended with the two ways a call can fail to return one (a panic, an
  await that is never completed), the \<open>?\<close> operator as a bind, checked and unchecked
  \<open>usize\<close> arithmetic, slices, and the big-endian cursor operations of \<open>bytes::Buf\<close> and
  \<open>bytes::BufMut\<close>, with the lemmas every component proof uses.
\<close>

unbundle bit_operations_syntax

section \<open>Machine integers and byte strings\<close>

type_synonym u8 = "8 word"
type_synonym u16 = "16 word"
type_synonym u32 = "32 word"
type_synonym u64 = "64 word"

text \<open>
  A \<open>usize\<close> counts bytes or entries on a 64-bit target. It is a natural number here; every
  sum the source forms goes through one of the two operations below, which spell out what
  happens at \<open>2 ^ 64\<close>.
\<close>

type_synonym usize = nat
type_synonym bytes = "u8 list"

text \<open>A Rust \<open>String\<close> or \<open>str\<close> is its UTF-8 byte sequence.\<close>

type_synonym rstring = "u8 list"

abbreviation usize_limit :: nat where
  "usize_limit \<equiv> 18446744073709551616"

abbreviation isize_max :: nat where
  "isize_max \<equiv> 9223372036854775807"

section \<open>Results, panics, early return\<close>

datatype ('e, 'a) result =
    Ok 'a
  | Err 'e
  | Panic
  | Blocked

primrec rbind :: "('e, 'a) result \<Rightarrow> ('a \<Rightarrow> ('e, 'b) result) \<Rightarrow> ('e, 'b) result" where
  "rbind (Ok x) f = f x"
| "rbind (Err e) f = Err e"
| "rbind Panic f = Panic"
| "rbind Blocked f = Blocked"

primrec map_err :: "('e \<Rightarrow> 'f) \<Rightarrow> ('e, 'a) result \<Rightarrow> ('f, 'a) result" where
  "map_err f (Ok x) = Ok x"
| "map_err f (Err e) = Err (f e)"
| "map_err f Panic = Panic"
| "map_err f Blocked = Blocked"

primrec ok_or :: "'e \<Rightarrow> 'a option \<Rightarrow> ('e, 'a) result" where
  "ok_or e None = Err e"
| "ok_or e (Some x) = Ok x"

primrec unwrap_or :: "'a \<Rightarrow> ('e, 'a) result \<Rightarrow> 'a" where
  "unwrap_or d (Ok x) = x"
| "unwrap_or d (Err e) = d"
| "unwrap_or d Panic = d"
| "unwrap_or d Blocked = d"

primrec is_err :: "('e, 'a) result \<Rightarrow> bool" where
  "is_err (Ok x) = False"
| "is_err (Err e) = True"
| "is_err Panic = False"
| "is_err Blocked = False"

text \<open>
  The \<open>?\<close> operator in a method on \<open>&mut self\<close>: an early return keeps the state reached
  so far.
\<close>

fun sbind :: "('e, 'a) result \<times> 's \<Rightarrow> ('a \<Rightarrow> 's \<Rightarrow> ('e, 'b) result \<times> 's) \<Rightarrow> ('e, 'b) result \<times> 's" where
  "sbind (Ok x, s) f = f x s"
| "sbind (Err e, s) f = (Err e, s)"
| "sbind (Panic, s) f = (Panic, s)"
| "sbind (Blocked, s) f = (Blocked, s)"

text \<open>
  Unchecked \<open>usize\<close> arithmetic panics on overflow (the overflow checks of the profile the
  repository's \<open>cargo run\<close> commands use); \<open>checked_add\<close> returns \<open>None\<close>.
\<close>

definition usize_add :: "usize \<Rightarrow> usize \<Rightarrow> ('e, usize) result" where
  "usize_add a b = (if a + b < usize_limit then Ok (a + b) else Panic)"

definition usize_sub :: "usize \<Rightarrow> usize \<Rightarrow> ('e, usize) result" where
  "usize_sub a b = (if b \<le> a then Ok (a - b) else Panic)"

definition checked_add :: "usize \<Rightarrow> usize \<Rightarrow> usize option" where
  "checked_add a b = (if a + b < usize_limit then Some (a + b) else None)"

definition u64_add :: "u64 \<Rightarrow> u64 \<Rightarrow> ('e, u64) result" where
  "u64_add a b = (if unat a + unat b < usize_limit then Ok (a + b) else Panic)"

definition u64_sub :: "u64 \<Rightarrow> u64 \<Rightarrow> ('e, u64) result" where
  "u64_sub a b = (if b \<le> a then Ok (a - b) else Panic)"

definition u32_add :: "u32 \<Rightarrow> u32 \<Rightarrow> ('e, u32) result" where
  "u32_add a b = (if unat a + unat b < 4294967296 then Ok (a + b) else Panic)"

definition u32_sub :: "u32 \<Rightarrow> u32 \<Rightarrow> ('e, u32) result" where
  "u32_sub a b = (if b \<le> a then Ok (a - b) else Panic)"

text \<open>\<open>vec![0u8; len]\<close>: a vector longer than \<open>isize::MAX\<close> panics.\<close>

definition vec_zeroed :: "usize \<Rightarrow> ('e, bytes) result" where
  "vec_zeroed len = (if len \<le> isize_max then Ok (replicate len 0) else Panic)"

section \<open>Slices\<close>

definition sub_slice :: "'a list \<Rightarrow> nat \<Rightarrow> nat \<Rightarrow> 'a list" where
  "sub_slice xs start stop = take (stop - start) (drop start xs)"

definition put_slice :: "'a list \<Rightarrow> nat \<Rightarrow> 'a list \<Rightarrow> 'a list" where
  "put_slice xs start ys = take start xs @ ys @ drop (start + length ys) xs"

section \<open>Big-endian integers and the byte cursor\<close>

primrec to_be :: "nat \<Rightarrow> 'a::len word \<Rightarrow> bytes" where
  "to_be 0 w = []"
| "to_be (Suc n) w = ucast (drop_bit (8 * n) w) # to_be n w"

definition from_be :: "bytes \<Rightarrow> 'a::len word" where
  "from_be bs = foldl (\<lambda>acc b. push_bit 8 acc OR ucast b) 0 bs"

definition get_be :: "nat \<Rightarrow> bytes \<Rightarrow> ('e, 'a::len word \<times> bytes) result" where
  "get_be n bs = (if length bs < n then Panic else Ok (from_be (take n bs), drop n bs))"

abbreviation put_u8 :: "u8 \<Rightarrow> bytes" where "put_u8 b \<equiv> [b]"
abbreviation put_u16 :: "u16 \<Rightarrow> bytes" where "put_u16 \<equiv> to_be 2"
abbreviation put_u32 :: "u32 \<Rightarrow> bytes" where "put_u32 \<equiv> to_be 4"
abbreviation put_u64 :: "u64 \<Rightarrow> bytes" where "put_u64 \<equiv> to_be 8"

definition get_u8 :: "bytes \<Rightarrow> ('e, u8 \<times> bytes) result" where
  "get_u8 bs = (if bs = [] then Panic else Ok (bs ! 0, drop 1 bs))"

abbreviation get_u16 :: "bytes \<Rightarrow> ('e, u16 \<times> bytes) result" where "get_u16 \<equiv> get_be 2"
abbreviation get_u32 :: "bytes \<Rightarrow> ('e, u32 \<times> bytes) result" where "get_u32 \<equiv> get_be 4"
abbreviation get_u64 :: "bytes \<Rightarrow> ('e, u64 \<times> bytes) result" where "get_u64 \<equiv> get_be 8"

text \<open>\<open>Buf::advance\<close> and \<open>Buf::copy_to_bytes\<close> panic when fewer bytes remain.\<close>

definition advance :: "nat \<Rightarrow> bytes \<Rightarrow> ('e, bytes) result" where
  "advance n bs = (if length bs < n then Panic else Ok (drop n bs))"

definition copy_to_bytes :: "nat \<Rightarrow> bytes \<Rightarrow> ('e, bytes \<times> bytes) result" where
  "copy_to_bytes n bs = (if length bs < n then Panic else Ok (take n bs, drop n bs))"

definition put_bytes :: "u8 \<Rightarrow> nat \<Rightarrow> bytes" where
  "put_bytes b n = replicate n b"

section \<open>Text literals and decimal display\<close>

definition lit :: "string \<Rightarrow> rstring" where
  "lit s = map of_char s"

fun show_dec :: "nat \<Rightarrow> rstring" where
  "show_dec n = (if n < 10 then [of_nat (48 + n)]
     else show_dec (n div 10) @ [of_nat (48 + n mod 10)])"

declare show_dec.simps [simp del]

definition hex_digit :: "nat \<Rightarrow> u8" where
  "hex_digit d = (if d < 10 then of_nat (48 + d) else of_nat (55 + d))"

fun show_hex :: "nat \<Rightarrow> rstring" where
  "show_hex n = (if n < 16 then [hex_digit n] else show_hex (n div 16) @ [hex_digit (n mod 16)])"

declare show_hex.simps [simp del]

text \<open>The format \<open>{:0wX}\<close>.\<close>

definition show_hex_pad :: "nat \<Rightarrow> nat \<Rightarrow> rstring" where
  "show_hex_pad w n = (let ds = show_hex n in replicate (w - length ds) 48 @ ds)"

section \<open>Collections\<close>

named_theorems wire \<open>encoders, decoders and layout facts of the wire format\<close>
named_theorems store_simps \<open>facts about the memory store\<close>
named_theorems session_simps \<open>facts about the server session\<close>

section \<open>Lemmas on results\<close>

lemma rbind_assoc: "rbind (rbind m f) g = rbind m (\<lambda>x. rbind (f x) g)"
  by (cases m) simp_all

lemma rbind_Ok_iff: "rbind m f = Ok y \<longleftrightarrow> (\<exists>x. m = Ok x \<and> f x = Ok y)"
  by (cases m) simp_all

lemma rbind_Err_iff: "rbind m f = Err e \<longleftrightarrow> m = Err e \<or> (\<exists>x. m = Ok x \<and> f x = Err e)"
  by (cases m) simp_all

lemma rbind_Panic_iff: "rbind m f = Panic \<longleftrightarrow> m = Panic \<or> (\<exists>x. m = Ok x \<and> f x = Panic)"
  by (cases m) simp_all

lemma rbind_Blocked_iff: "rbind m f = Blocked \<longleftrightarrow> m = Blocked \<or> (\<exists>x. m = Ok x \<and> f x = Blocked)"
  by (cases m) simp_all

lemma rbind_Ok_right [simp]: "rbind m Ok = m"
  by (cases m) simp_all

lemma sbind_Ok_iff: "sbind m f = (Ok y, t) \<longleftrightarrow> (\<exists>x s. m = (Ok x, s) \<and> f x s = (Ok y, t))"
  by (cases "(m, f)" rule: sbind.cases) auto

lemma sbind_lift_Ok_iff: "sbind (r, s) f = (Ok y, t) \<longleftrightarrow> (\<exists>x. r = Ok x \<and> f x s = (Ok y, t))"
  by (cases r) auto

lemma ok_or_Ok_iff [simp]: "ok_or e x = Ok y \<longleftrightarrow> x = Some y"
  by (cases x) auto

lemma ok_or_not_stuck [simp]: "ok_or e x \<noteq> Panic" "ok_or e x \<noteq> Blocked"
  by (cases x; simp)+

lemma sbind_cong [fundef_cong]:
  "m = m' \<Longrightarrow> (\<And>x s. m' = (Ok x, s) \<Longrightarrow> f x s = f' x s) \<Longrightarrow> sbind m f = sbind m' f'"
  by (cases "(m', f)" rule: sbind.cases) auto

lemma sbind_assoc: "sbind (sbind m f) g = sbind m (\<lambda>x s. sbind (f x s) g)"
  by (cases "(m, f)" rule: sbind.cases) simp_all

lemma sbind_Panic_iff:
  "fst (sbind m f) = Panic \<longleftrightarrow> fst m = Panic \<or> (\<exists>x s. m = (Ok x, s) \<and> fst (f x s) = Panic)"
  by (cases "(m, f)" rule: sbind.cases) auto

lemma sbind_Blocked_iff:
  "fst (sbind m f) = Blocked \<longleftrightarrow> fst m = Blocked \<or> (\<exists>x s. m = (Ok x, s) \<and> fst (f x s) = Blocked)"
  by (cases "(m, f)" rule: sbind.cases) auto

lemmas rbind_iffs = rbind_Ok_iff rbind_Err_iff rbind_Panic_iff rbind_Blocked_iff

section \<open>Lemmas on slices\<close>

lemma length_sub_slice [simp]: "stop \<le> length xs \<Longrightarrow> length (sub_slice xs start stop) = stop - start"
  by (simp add: sub_slice_def)

lemma length_put_slice [simp]:
  "start + length ys \<le> length xs \<Longrightarrow> length (put_slice xs start ys) = length xs"
  by (simp add: put_slice_def)

lemma sub_slice_put_slice_same:
  "start + length ys \<le> length xs \<Longrightarrow> sub_slice (put_slice xs start ys) start (start + length ys) = ys"
  by (simp add: sub_slice_def put_slice_def)

lemma put_slice_all: "length xs = length ys \<Longrightarrow> put_slice xs 0 ys = ys"
  by (simp add: put_slice_def)

lemma nth_put_slice:
  assumes "start + length ys \<le> length xs" and "i < length xs"
  shows "put_slice xs start ys ! i =
    (if start \<le> i \<and> i < start + length ys then ys ! (i - start) else xs ! i)"
  using assms by (auto simp: put_slice_def nth_append min_def)

lemma nth_sub_slice:
  "stop \<le> length xs \<Longrightarrow> i < stop - start \<Longrightarrow> sub_slice xs start stop ! i = xs ! (start + i)"
  by (simp add: sub_slice_def)

lemma sub_slice_put_slice_disjoint:
  assumes "start + length ys \<le> length xs" and "b \<le> length xs"
    and "b \<le> start \<or> start + length ys \<le> a"
  shows "sub_slice (put_slice xs start ys) a b = sub_slice xs a b"
proof (rule nth_equalityI)
  show "length (sub_slice (put_slice xs start ys) a b) = length (sub_slice xs a b)"
    using assms by simp
next
  fix i assume "i < length (sub_slice (put_slice xs start ys) a b)"
  then have i: "i < b - a" using assms by simp
  then have "a + i < length xs" using assms by simp
  then show "sub_slice (put_slice xs start ys) a b ! i = sub_slice xs a b ! i"
    using assms i by (auto simp: nth_sub_slice nth_put_slice)
qed

lemma put_slice_sub_slice_id:
  "start \<le> stop \<Longrightarrow> stop \<le> length xs \<Longrightarrow> put_slice xs start (sub_slice xs start stop) = xs"
  by (rule nth_equalityI) (auto simp: nth_put_slice nth_sub_slice)

section \<open>Lemmas on big-endian integers\<close>

lemma length_to_be [simp]: "length (to_be n w) = n"
  by (induction n) simp_all

lemma from_be_Nil [simp]: "from_be [] = 0"
  by (simp add: from_be_def)

lemma from_be_snoc: "from_be (bs @ [b]) = push_bit 8 (from_be bs) OR ucast b"
  by (simp add: from_be_def)

lemma to_be_snoc: "to_be (Suc n) w = to_be n (drop_bit 8 w) @ [ucast w]"
  by (induction n) (simp_all add: add.commute)

lemma from_be_to_be_take: "from_be (to_be n (w :: 'a::len word)) = take_bit (8 * n) w"
proof (induction n arbitrary: w)
  case 0
  then show ?case by simp
next
  case (Suc n)
  have "from_be (to_be (Suc n) w) = push_bit 8 (take_bit (8 * n) (drop_bit 8 w)) OR ucast (ucast w :: u8)"
    by (simp only: to_be_snoc from_be_snoc Suc.IH)
  also have "\<dots> = take_bit (8 * Suc n) w"
    by (rule bit_word_eqI) (auto simp: bit_simps)
  finally show ?case .
qed

lemma from_be_to_be [simp]:
  "8 * n = LENGTH('a) \<Longrightarrow> from_be (to_be n (w :: 'a::len word)) = w"
  by (simp add: from_be_to_be_take)

lemma to_be_inject:
  assumes "8 * n = LENGTH('a)" and "to_be n (v :: 'a::len word) = to_be n w"
  shows "v = w"
  using assms by (metis from_be_to_be)

lemma to_be_from_be:
  "length bs = n \<Longrightarrow> 8 * n \<le> LENGTH('a) \<Longrightarrow> to_be n (from_be bs :: 'a::len word) = bs"
proof (induction n arbitrary: bs)
  case 0
  then show ?case by simp
next
  case (Suc n)
  then obtain cs b where bs: "bs = cs @ [b]" and len: "length cs = n"
    by (metis length_Suc_conv_rev)
  have room: "8 + 8 * n \<le> LENGTH('a)" using Suc.prems by simp
  have small: "take_bit (8 * n) (from_be cs :: 'a word) = from_be cs"
    using Suc.IH [of cs] len room by (metis from_be_to_be_take add_leD2)
  have "drop_bit 8 (push_bit 8 (from_be cs) OR ucast b :: 'a word) = from_be cs"
  proof (rule bit_word_eqI)
    fix i assume "i < LENGTH('a)"
    have "bit (from_be cs :: 'a word) i \<Longrightarrow> i < 8 * n"
      by (subst (asm) small [symmetric]) (simp add: bit_simps)
    then show "bit (drop_bit 8 (push_bit 8 (from_be cs) OR ucast b :: 'a word)) i
        = bit (from_be cs :: 'a word) i"
      using room by (auto simp: bit_simps dest: bit_imp_le_length)
  qed
  moreover have "ucast (push_bit 8 (from_be cs) OR ucast b :: 'a word) = b"
    by (rule bit_word_eqI) (use room in \<open>auto simp: bit_simps\<close>)
  ultimately show ?case
    using Suc.IH [of cs] len room
    by (simp only: bs from_be_snoc to_be_snoc)
qed

lemma get_be_to_be [simp, wire]:
  "8 * n = LENGTH('a) \<Longrightarrow> get_be n (to_be n (w :: 'a::len word) @ rest) = Ok (w, rest)"
  by (simp add: get_be_def)

lemma get_u8_Cons [simp, wire]: "get_u8 (b # rest) = Ok (b, rest)"
  by (simp add: get_u8_def)

lemma get_u8_long: "0 < length bs \<Longrightarrow> get_u8 bs = Ok (bs ! 0, drop 1 bs)"
  by (simp add: get_u8_def)

lemma get_be_Ok_iff:
  "get_be n bs = Ok r \<longleftrightarrow> n \<le> length bs \<and> r = (from_be (take n bs), drop n bs)"
  by (auto simp: get_be_def)

lemma get_be_not_Err [simp]: "get_be n bs \<noteq> Err e"
  by (simp add: get_be_def)

lemma get_be_long: "n \<le> length bs \<Longrightarrow> get_be n bs = Ok (from_be (take n bs), drop n bs)"
  by (simp add: get_be_def)

lemma advance_append [simp, wire]: "n = length bs \<Longrightarrow> advance n (bs @ rest) = Ok rest"
  by (simp add: advance_def)

lemma advance_long: "n \<le> length bs \<Longrightarrow> advance n bs = Ok (drop n bs)"
  by (simp add: advance_def)

lemma copy_to_bytes_append [simp, wire]:
  "n = length bs \<Longrightarrow> copy_to_bytes n (bs @ rest) = Ok (bs, rest)"
  by (simp add: copy_to_bytes_def)

lemma length_put_bytes [simp]: "length (put_bytes b n) = n"
  by (simp add: put_bytes_def)

section \<open>Ranges of the machine integers\<close>

lemma unat_less_u16: "unat (w :: u16) < 65536"
  using unsigned_less [of w] by simp

lemma unat_less_u32: "unat (w :: u32) < 4294967296"
  using unsigned_less [of w] by simp

lemma unat_less_u64: "unat (w :: u64) < usize_limit"
  using unsigned_less [of w] by simp

lemma unat_of_nat_u16: "n < 65536 \<Longrightarrow> unat (of_nat n :: u16) = n"
  by (simp add: unat_of_nat)

lemma unat_of_nat_u32: "n < 4294967296 \<Longrightarrow> unat (of_nat n :: u32) = n"
  by (simp add: unat_of_nat)

lemma unat_of_nat_u64: "n < usize_limit \<Longrightarrow> unat (of_nat n :: u64) = n"
  by (simp add: unat_of_nat)

end
