(* ===== verification/Utf8.thy ===== *)
theory Utf8
  imports Prelude
begin

text \<open>
  Rust's strings are valid UTF-8, and \<open>String::from_utf8_lossy\<close> turns arbitrary bytes into
  one, replacing each maximal ill-formed piece by U+FFFD. The sources use it to read the
  description of an ERROR frame and the key and value of a hash-table slot. This theory
  models the standard library's chunk scanner and shows that the lossy conversion is the
  identity exactly on well-formed input and always yields well-formed output.
\<close>

section \<open>The scanner\<close>

text \<open>\<open>safe_get\<close>: the byte at an index, 0 past the end.\<close>

fun byte_at :: "bytes \<Rightarrow> nat \<Rightarrow> u8" where
  "byte_at [] i = 0"
| "byte_at (b # bs) 0 = b"
| "byte_at (b # bs) (Suc i) = byte_at bs i"

definition is_cont :: "u8 \<Rightarrow> bool" where
  "is_cont b \<longleftrightarrow> b AND 192 = 128"

definition utf8_char_width :: "u8 \<Rightarrow> nat" where
  "utf8_char_width b =
     (if b < 128 then 1
      else if 0xC2 \<le> b \<and> b \<le> 0xDF then 2
      else if 0xE0 \<le> b \<and> b \<le> 0xEF then 3
      else if 0xF0 \<le> b \<and> b \<le> 0xF4 then 4
      else 0)"

text \<open>Which second bytes may follow a three- or four-byte lead byte.\<close>

definition second_ok3 :: "u8 \<Rightarrow> u8 \<Rightarrow> bool" where
  "second_ok3 b c \<longleftrightarrow>
     (b = 0xE0 \<and> 0xA0 \<le> c \<and> c \<le> 0xBF) \<or>
     (0xE1 \<le> b \<and> b \<le> 0xEC \<and> 0x80 \<le> c \<and> c \<le> 0xBF) \<or>
     (b = 0xED \<and> 0x80 \<le> c \<and> c \<le> 0x9F) \<or>
     (0xEE \<le> b \<and> b \<le> 0xEF \<and> 0x80 \<le> c \<and> c \<le> 0xBF)"

definition second_ok4 :: "u8 \<Rightarrow> u8 \<Rightarrow> bool" where
  "second_ok4 b c \<longleftrightarrow>
     (b = 0xF0 \<and> 0x90 \<le> c \<and> c \<le> 0xBF) \<or>
     (0xF1 \<le> b \<and> b \<le> 0xF3 \<and> 0x80 \<le> c \<and> c \<le> 0xBF) \<or>
     (b = 0xF4 \<and> 0x80 \<le> c \<and> c \<le> 0x8F)"

text \<open>
  One turn of the scanner at a non-empty rest: how many bytes it consumes and whether they
  are one well-formed character. An ill-formed turn consumes the bytes that were acceptable
  so far, at least one.
\<close>

definition utf8_class :: "u8 \<Rightarrow> u8 \<Rightarrow> u8 \<Rightarrow> u8 \<Rightarrow> nat \<times> bool" where
  "utf8_class b c1 c2 c3 =
     (if b < 128 then (1, True)
      else if utf8_char_width b = 2 then (if is_cont c1 then (2, True) else (1, False))
      else if utf8_char_width b = 3 then
        (if \<not> second_ok3 b c1 then (1, False)
         else if \<not> is_cont c2 then (2, False) else (3, True))
      else if utf8_char_width b = 4 then
        (if \<not> second_ok4 b c1 then (1, False)
         else if \<not> is_cont c2 then (2, False)
         else if \<not> is_cont c3 then (3, False) else (4, True))
      else (1, False))"

definition utf8_step :: "bytes \<Rightarrow> nat \<times> bool" where
  "utf8_step bs = utf8_class (byte_at bs 0) (byte_at bs 1) (byte_at bs 2) (byte_at bs 3)"

text \<open>The replacement character U+FFFD in UTF-8.\<close>

definition replacement :: bytes where
  "replacement = [0xEF, 0xBF, 0xBD]"

function is_utf8 :: "bytes \<Rightarrow> bool" where
  "is_utf8 bs =
     (if bs = [] then True
      else if snd (utf8_step bs) then is_utf8 (drop (fst (utf8_step bs)) bs) else False)"
  by pat_completeness auto
termination
  by (relation "measure length") (auto simp: utf8_step_def utf8_class_def)

function from_utf8_lossy :: "bytes \<Rightarrow> rstring" where
  "from_utf8_lossy bs =
     (if bs = [] then []
      else (if snd (utf8_step bs) then take (fst (utf8_step bs)) bs else replacement)
        @ from_utf8_lossy (drop (fst (utf8_step bs)) bs))"
  by pat_completeness auto
termination
  by (relation "measure length") (auto simp: utf8_step_def utf8_class_def)

declare is_utf8.simps [simp del] from_utf8_lossy.simps [simp del]

section \<open>Well-formed steps do not depend on what follows\<close>

lemma byte_at_numeral [simp]:
  "byte_at (b # bs) (numeral k) = byte_at bs (pred_numeral k)"
  "byte_at (b # bs) 1 = byte_at bs 0"
  by (simp_all add: numeral_eq_Suc)

lemma byte_at_append_left: "i < length bs \<Longrightarrow> byte_at (bs @ cs) i = byte_at bs i"
  by (induction bs i rule: byte_at.induct) auto

lemma byte_at_short: "length bs \<le> i \<Longrightarrow> byte_at bs i = 0"
  by (induction bs i rule: byte_at.induct) auto

lemma not_cont_0 [simp]: "\<not> is_cont 0"
  by (simp add: is_cont_def)

lemma not_second_ok_0 [simp]: "\<not> second_ok3 b 0" "\<not> second_ok4 b 0"
  by (simp_all add: second_ok3_def second_ok4_def)

lemma utf8_class_pos: "0 < fst (utf8_class b c1 c2 c3)"
  by (simp add: utf8_class_def)

lemma utf8_class_okE:
  assumes "snd (utf8_class b c1 c2 c3)"
  obtains "b < 128"
  | "\<not> b < 128" "utf8_char_width b = 2" "is_cont c1"
  | "\<not> b < 128" "utf8_char_width b = 3" "second_ok3 b c1" "is_cont c2"
  | "\<not> b < 128" "utf8_char_width b = 4" "second_ok4 b c1" "is_cont c2" "is_cont c3"
  using assms unfolding utf8_class_def by (simp split: if_split_asm)

lemma utf8_class_local:
  assumes "snd (utf8_class b c1 c2 c3)"
    and "1 < fst (utf8_class b c1 c2 c3) \<Longrightarrow> d1 = c1"
    and "2 < fst (utf8_class b c1 c2 c3) \<Longrightarrow> d2 = c2"
    and "3 < fst (utf8_class b c1 c2 c3) \<Longrightarrow> d3 = c3"
  shows "utf8_class b d1 d2 d3 = utf8_class b c1 c2 c3"
  using assms(1) by (cases rule: utf8_class_okE) (use assms(2-4) in \<open>simp_all add: utf8_class_def\<close>)

lemma utf8_class_needs:
  assumes "snd (utf8_class b c1 c2 c3)"
  shows "(1 < fst (utf8_class b c1 c2 c3) \<longrightarrow> c1 \<noteq> 0) \<and>
    (2 < fst (utf8_class b c1 c2 c3) \<longrightarrow> c2 \<noteq> 0) \<and>
    (3 < fst (utf8_class b c1 c2 c3) \<longrightarrow> c3 \<noteq> 0) \<and>
    fst (utf8_class b c1 c2 c3) \<le> 4"
  using assms
  by (cases rule: utf8_class_okE) (auto simp: utf8_class_def)

lemma utf8_step_pos: "0 < fst (utf8_step bs)"
  by (simp add: utf8_step_def utf8_class_pos)

lemma utf8_step_ok_length:
  assumes "bs \<noteq> []" and ok: "snd (utf8_step bs)"
  shows "fst (utf8_step bs) \<le> length bs"
proof (rule ccontr)
  assume "\<not> fst (utf8_step bs) \<le> length bs"
  then have short: "length bs < fst (utf8_step bs)" by simp
  note needs = utf8_class_needs [OF ok [unfolded utf8_step_def], folded utf8_step_def]
  have "length bs \<noteq> 0" using assms(1) by simp
  then consider "length bs = 1" | "length bs = 2" | "length bs = 3"
    using short needs by linarith
  then show False
    using needs short byte_at_short [of bs 1] byte_at_short [of bs 2] byte_at_short [of bs 3]
    by cases auto
qed

lemma utf8_step_cong:
  assumes "snd (utf8_step bs)" and "\<And>i. i < fst (utf8_step bs) \<Longrightarrow> byte_at cs i = byte_at bs i"
  shows "utf8_step cs = utf8_step bs"
proof -
  have 0: "byte_at cs 0 = byte_at bs 0" using assms(2) utf8_step_pos by blast
  show ?thesis
    unfolding utf8_step_def 0
  proof (rule utf8_class_local)
    show "snd (utf8_class (byte_at bs 0) (byte_at bs 1) (byte_at bs 2) (byte_at bs 3))"
      using assms(1) unfolding utf8_step_def .
  qed (use assms(2) in \<open>unfold utf8_step_def, blast\<close>)+
qed

lemma utf8_step_append:
  assumes "bs \<noteq> []" and "snd (utf8_step bs)"
  shows "utf8_step (bs @ cs) = utf8_step bs"
  using assms utf8_step_ok_length [OF assms]
  by (intro utf8_step_cong) (auto intro!: byte_at_append_left)

lemma is_utf8_Nil [simp]: "is_utf8 []"
  by (simp add: is_utf8.simps)

lemma is_utf8_append: "is_utf8 bs \<Longrightarrow> is_utf8 cs \<Longrightarrow> is_utf8 (bs @ cs)"
proof (induction bs rule: is_utf8.induct)
  case (1 bs)
  show ?case
  proof (cases "bs = []")
    case True
    with 1 show ?thesis by simp
  next
    case False
    with "1.prems"(1) have ok: "snd (utf8_step bs)" and
      rest: "is_utf8 (drop (fst (utf8_step bs)) bs)"
      by (auto simp: is_utf8.simps [of bs] split: if_splits)
    from False ok have "is_utf8 (drop (fst (utf8_step bs)) bs @ cs)"
      using "1.IH" rest "1.prems"(2) by simp
    moreover from False ok have "fst (utf8_step bs) \<le> length bs"
      by (rule utf8_step_ok_length)
    ultimately show ?thesis
      using False ok by (subst is_utf8.simps) (simp add: utf8_step_append)
  qed
qed

lemma is_utf8_take_step:
  assumes "bs \<noteq> []" and "snd (utf8_step bs)"
  shows "is_utf8 (take (fst (utf8_step bs)) bs)"
proof -
  let ?n = "fst (utf8_step bs)"
  have len: "?n \<le> length bs" using assms by (rule utf8_step_ok_length)
  have at: "byte_at (take ?n bs) i = byte_at bs i" if "i < ?n" for i
    using that len byte_at_append_left [of i "take ?n bs" "drop ?n bs"] by simp
  have "utf8_step (take ?n bs) = utf8_step bs"
    using assms(2) at by (rule utf8_step_cong)
  with assms(2) len show ?thesis
    by (subst is_utf8.simps) simp
qed

lemma is_utf8_replacement: "is_utf8 replacement"
proof -
  have "utf8_step replacement = (3, True)"
    by (simp add: replacement_def utf8_step_def utf8_class_def utf8_char_width_def is_cont_def
        second_ok3_def)
  then show ?thesis
    by (subst is_utf8.simps) (simp add: replacement_def)
qed

section \<open>The lossy conversion\<close>

lemma from_utf8_lossy_id: "is_utf8 bs \<Longrightarrow> from_utf8_lossy bs = bs"
proof (induction bs rule: is_utf8.induct)
  case (1 bs)
  show ?case
  proof (cases "bs = []")
    case True
    then show ?thesis by (simp add: from_utf8_lossy.simps)
  next
    case False
    with "1.prems" have "snd (utf8_step bs)" and "is_utf8 (drop (fst (utf8_step bs)) bs)"
      by (auto simp: is_utf8.simps [of bs] split: if_splits)
    with False "1.IH" show ?thesis
      by (subst from_utf8_lossy.simps) simp
  qed
qed

lemma is_utf8_from_utf8_lossy: "is_utf8 (from_utf8_lossy bs)"
proof (induction bs rule: from_utf8_lossy.induct)
  case (1 bs)
  then show ?case
    by (subst from_utf8_lossy.simps)
      (auto intro!: is_utf8_append is_utf8_take_step is_utf8_replacement)
qed

lemma from_utf8_lossy_id_iff: "from_utf8_lossy bs = bs \<longleftrightarrow> is_utf8 bs"
  using from_utf8_lossy_id is_utf8_from_utf8_lossy by metis

section \<open>ASCII text\<close>

lemma is_utf8_ascii: "\<forall>b\<in>set bs. b < 128 \<Longrightarrow> is_utf8 bs"
proof (induction bs)
  case Nil
  show ?case by simp
next
  case (Cons b bs)
  then show ?case
    by (subst is_utf8.simps) (simp add: utf8_step_def utf8_class_def)
qed

lemma is_utf8_lit: "\<forall>c\<in>set s. (of_char c :: u8) < 128 \<Longrightarrow> is_utf8 (lit s)"
  by (rule is_utf8_ascii) (auto simp: lit_def)

lemma digit_ascii: "k < 10 \<Longrightarrow> (of_nat (48 + k) :: u8) < 128"
  by (simp add: word_less_nat_alt unat_of_nat del: of_nat_add)

lemma show_dec_ascii: "\<forall>b\<in>set (show_dec n). b < 128"
proof (induction n rule: show_dec.induct)
  case (1 n)
  show ?case
  proof (cases "n < 10")
    case True
    then show ?thesis using digit_ascii [of n] by (subst show_dec.simps) simp
  next
    case False
    then show ?thesis
      using 1 digit_ascii [of "n mod 10"] by (subst show_dec.simps) simp
  qed
qed

lemma is_utf8_show_dec: "is_utf8 (show_dec n)"
  by (rule is_utf8_ascii) (rule show_dec_ascii)

end
