(* ===== verification/Kv_Slots.thy ===== *)
theory Kv_Slots
  imports Utf8
begin

text \<open>
  The slots of the key-value table (\<open>rdows-kv/src/kv.rs\<close>): layout, hash, encoder, decoder and
  the hex listing. A slot that was encoded decodes to its key and value; decoding panics
  exactly when an occupied slot announces a key or value that reaches past its end.
\<close>

section \<open>Definitions\<close>

definition SLOT_COUNT :: usize where
  "SLOT_COUNT = 64"

definition SLOT_SIZE :: usize where
  "SLOT_SIZE = 1024"

definition MR_SIZE :: u64 where
  "MR_SIZE = of_nat (SLOT_COUNT * SLOT_SIZE)"

definition MAX_KEY_LEN :: usize where
  "MAX_KEY_LEN = 255"

definition MAX_VALUE_LEN :: usize where
  "MAX_VALUE_LEN = 764"

definition OFF_STATUS :: usize where
  "OFF_STATUS = 0"

definition OFF_KEY_LEN :: usize where
  "OFF_KEY_LEN = 1"

definition OFF_VAL_LEN :: usize where
  "OFF_VAL_LEN = 3"

definition OFF_KEY :: usize where
  "OFF_KEY = 5"

definition OFF_VALUE :: usize where
  "OFF_VALUE = 260"

definition hash_key :: "bytes \<Rightarrow> usize" where
  "hash_key key =
     (let hash = foldl (\<lambda>hash b. (hash XOR ucast b) * 16777619) (2166136261 :: u32) key
      in unat hash mod SLOT_COUNT)"

definition encode_slot :: "rstring \<Rightarrow> rstring \<Rightarrow> ('e, bytes) result" where
  "encode_slot key value =
     (let slot = replicate SLOT_SIZE 0;
          slot = slot[OFF_STATUS := 1];
          slot = put_slice slot OFF_KEY_LEN (to_be 2 (of_nat (length key) :: u16));
          slot = put_slice slot OFF_VAL_LEN (to_be 2 (of_nat (length value) :: u16))
      in
      if OFF_KEY + length key > SLOT_SIZE then Panic
      else
        let slot = put_slice slot OFF_KEY key in
        if OFF_VALUE + length value > SLOT_SIZE then Panic
        else Ok (put_slice slot OFF_VALUE value))"

definition slot_key_len :: "bytes \<Rightarrow> usize" where
  "slot_key_len data = unat (from_be [data ! OFF_KEY_LEN, data ! (OFF_KEY_LEN + 1)] :: u16)"

definition slot_val_len :: "bytes \<Rightarrow> usize" where
  "slot_val_len data = unat (from_be [data ! OFF_VAL_LEN, data ! (OFF_VAL_LEN + 1)] :: u16)"

text \<open>The argument is an array of \<open>SLOT_SIZE\<close> bytes.\<close>

definition decode_slot :: "bytes \<Rightarrow> ('e, (rstring \<times> rstring) option) result" where
  "decode_slot data =
     (if data ! OFF_STATUS = 0 then Ok None
      else
        let key_len = slot_key_len data;
            val_len = slot_val_len data
        in
        if OFF_KEY + key_len > SLOT_SIZE then Panic
        else
          let key = from_utf8_lossy (sub_slice data OFF_KEY (OFF_KEY + key_len)) in
          if OFF_VALUE + val_len > SLOT_SIZE then Panic
          else
            let value = from_utf8_lossy (sub_slice data OFF_VALUE (OFF_VALUE + val_len))
            in Ok (Some (key, value)))"

subsection \<open>Text\<close>

text \<open>The format \<open>{:<w}\<close>.\<close>

definition pad_right :: "nat \<Rightarrow> rstring \<Rightarrow> rstring" where
  "pad_right w s = s @ replicate (w - length s) 32"

fun chunks :: "nat \<Rightarrow> 'a list \<Rightarrow> 'a list list" where
  "chunks n xs = (if xs = [] \<or> n = 0 then [] else take n xs # chunks n (drop n xs))"

declare chunks.simps [simp del]

fun join_str :: "rstring \<Rightarrow> rstring list \<Rightarrow> rstring" where
  "join_str sep [] = []"
| "join_str sep [s] = s"
| "join_str sep (s # t # ts) = s @ sep @ join_str sep (t # ts)"

definition hex_dump_region :: "bytes \<Rightarrow> usize \<Rightarrow> usize \<Rightarrow> rstring list" where
  "hex_dump_region data base_offset max_lines =
     map (\<lambda>(i, chunk).
        let hex = map (\<lambda>b. show_hex_pad 2 (unat b)) chunk;
            ascii = map (\<lambda>b. if 0x20 \<le> b \<and> b \<le> 0x7E then b else 46) chunk
        in show_hex_pad 4 (base_offset + i * 16) @ lit ''  '' @ pad_right 48 (join_str (lit '' '') hex)
           @ lit ''  '' @ ascii)
       (take max_lines (enumerate 0 (chunks 16 data)))"

definition slot_hex_lines :: "bytes \<Rightarrow> rstring list" where
  "slot_hex_lines data =
     (let key_len = slot_key_len data;
          key_show = (key_len + 15) div 16 + 1;
          val_len = slot_val_len data;
          val_show = (val_len + 15) div 16 + 1;
          val_end = min (OFF_VALUE + val_show * 16) SLOT_SIZE
      in
      [lit ''--- header (status, key_len, val_len) ---'']
      @ hex_dump_region (sub_slice data 0 OFF_KEY) 0 1
      @ [lit ''--- key data ('' @ show_dec key_len @ lit '' bytes) ---'']
      @ hex_dump_region (sub_slice data OFF_KEY (OFF_KEY + min key_show 16 * 16)) OFF_KEY (min key_show 16)
      @ [lit ''--- value data ('' @ show_dec val_len @ lit '' bytes) ---'']
      @ hex_dump_region (sub_slice data OFF_VALUE val_end) OFF_VALUE (min val_show 48))"

section \<open>Lemmas\<close>

lemmas slot_layout = SLOT_COUNT_def SLOT_SIZE_def MAX_KEY_LEN_def MAX_VALUE_LEN_def OFF_STATUS_def
  OFF_KEY_LEN_def OFF_VAL_LEN_def OFF_KEY_def OFF_VALUE_def

lemma hash_key_less: "hash_key key < SLOT_COUNT"
  by (simp add: hash_key_def SLOT_COUNT_def Let_def)

lemma encode_slot_ok:
  assumes "length key \<le> MAX_KEY_LEN" and "length value \<le> MAX_VALUE_LEN"
  obtains slot where "encode_slot key value = Ok slot" and "length slot = SLOT_SIZE"
  using assms that by (simp add: encode_slot_def Let_def slot_layout)

lemma sub_slice_two: "i + 2 \<le> length xs \<Longrightarrow> [xs ! i, xs ! Suc i] = sub_slice xs i (i + 2)"
  by (rule nth_equalityI) (auto simp: nth_sub_slice less_Suc_eq numeral_2_eq_2)

lemma encode_slot_parts:
  assumes "length key \<le> MAX_KEY_LEN" and "length value \<le> MAX_VALUE_LEN" and "encode_slot key value = Ok slot"
  shows "length slot = SLOT_SIZE" and "slot ! OFF_STATUS = 1"
    and "sub_slice slot OFF_KEY_LEN (OFF_KEY_LEN + 2) = to_be 2 (of_nat (length key) :: u16)"
    and "sub_slice slot OFF_VAL_LEN (OFF_VAL_LEN + 2) = to_be 2 (of_nat (length value) :: u16)"
    and "sub_slice slot OFF_KEY (OFF_KEY + length key) = key"
    and "sub_slice slot OFF_VALUE (OFF_VALUE + length value) = value"
proof -
  let ?s1 = "(replicate SLOT_SIZE 0)[OFF_STATUS := 1] :: bytes"
  let ?kl = "to_be 2 (of_nat (length key) :: u16)" and ?vl = "to_be 2 (of_nat (length value) :: u16)"
  let ?s2 = "put_slice ?s1 OFF_KEY_LEN ?kl"
  let ?s3 = "put_slice ?s2 OFF_VAL_LEN ?vl"
  let ?s4 = "put_slice ?s3 OFF_KEY key"
  have slot: "slot = put_slice ?s4 OFF_VALUE value"
    using assms by (simp add: encode_slot_def Let_def slot_layout split: if_split_asm)
  have len: "length ?s1 = 1024" "length ?s2 = 1024" "length ?s3 = 1024" "length ?s4 = 1024" "length slot = 1024"
    using assms(1,2) by (simp_all add: slot slot_layout)
  note same = sub_slice_put_slice_same and disj = sub_slice_put_slice_disjoint
  show "length slot = SLOT_SIZE" using len by (simp add: slot_layout)
  show "slot ! OFF_STATUS = 1"
    using len assms(1,2) by (simp add: slot nth_put_slice slot_layout)
  show "sub_slice slot OFF_VALUE (OFF_VALUE + length value) = value"
    using len assms(2) by (simp add: slot same slot_layout)
  show "sub_slice slot OFF_KEY (OFF_KEY + length key) = key"
    using len assms(1,2) by (simp add: slot disj same slot_layout)
  show "sub_slice slot OFF_VAL_LEN (OFF_VAL_LEN + 2) = ?vl"
    using len assms(1,2) same [of OFF_VAL_LEN ?vl ?s2] by (simp add: slot disj slot_layout)
  show "sub_slice slot OFF_KEY_LEN (OFF_KEY_LEN + 2) = ?kl"
    using len assms(1,2) same [of OFF_KEY_LEN ?kl ?s1] by (simp add: slot disj slot_layout)
qed

lemma encode_slot_lengths:
  assumes "length key \<le> MAX_KEY_LEN" and "length value \<le> MAX_VALUE_LEN" and "encode_slot key value = Ok slot"
  shows "slot_key_len slot = length key" and "slot_val_len slot = length value"
proof -
  note parts = encode_slot_parts [OF assms]
  have small: "length key < 65536" "length value < 65536" using assms(1,2) by (simp_all add: slot_layout)
  have two: "[slot ! OFF_KEY_LEN, slot ! (OFF_KEY_LEN + 1)] = to_be 2 (of_nat (length key) :: u16)"
    "[slot ! OFF_VAL_LEN, slot ! (OFF_VAL_LEN + 1)] = to_be 2 (of_nat (length value) :: u16)"
    using parts(1,3,4) sub_slice_two [of OFF_KEY_LEN slot] sub_slice_two [of OFF_VAL_LEN slot]
    by (simp_all add: slot_layout)
  show "slot_key_len slot = length key" "slot_val_len slot = length value"
    unfolding slot_key_len_def slot_val_len_def two using small by (simp_all add: unat_of_nat_u16)
qed

text \<open>The round trip, and when decoding panics.\<close>

lemma decode_encode_slot:
  assumes "length key \<le> MAX_KEY_LEN" and "length value \<le> MAX_VALUE_LEN" and "encode_slot key value = Ok slot"
    and "is_utf8 key" and "is_utf8 value"
  shows "decode_slot slot = Ok (Some (key, value))"
  using encode_slot_parts [OF assms(1-3)] encode_slot_lengths [OF assms(1-3)] assms
  by (simp add: decode_slot_def Let_def from_utf8_lossy_id) (simp add: slot_layout)

lemma decode_zero_slot: "decode_slot (replicate SLOT_SIZE 0) = Ok None"
  by (simp add: decode_slot_def slot_layout)

lemma decode_slot_Panic_iff:
  "decode_slot data = Panic \<longleftrightarrow> data ! OFF_STATUS \<noteq> 0 \<and>
     (slot_key_len data > 1019 \<or> slot_val_len data > 764)"
  by (auto simp: decode_slot_def Let_def slot_layout)

lemma decode_slot_not_Err: "decode_slot data \<noteq> Err e" "decode_slot data \<noteq> Blocked"
  by (simp_all add: decode_slot_def Let_def)

section \<open>Properties\<close>

text \<open>
  (C26) Every key of at most 255 and value of at most 764 bytes fits a slot of 1024 bytes, and
  the slot decodes to exactly that key and value.
\<close>

theorem slot_roundtrip:
  assumes "length key \<le> MAX_KEY_LEN" and "length value \<le> MAX_VALUE_LEN"
    and "is_utf8 key" and "is_utf8 value"
  shows "\<exists>slot. encode_slot key value = (Ok slot :: ('e, bytes) result) \<and> length slot = SLOT_SIZE \<and>
    decode_slot slot = (Ok (Some (key, value)) :: ('e, (rstring \<times> rstring) option) result)"
proof -
  obtain slot where "encode_slot key value = (Ok slot :: ('e, bytes) result)" "length slot = SLOT_SIZE"
    using assms(1,2) by (rule encode_slot_ok)
  with assms show ?thesis by (blast intro: decode_encode_slot)
qed

theorem slot_roundtrip_witness:
  "\<exists>slot. encode_slot (lit ''k'') (lit ''v'') = (Ok slot :: (unit, bytes) result) \<and>
     decode_slot slot = (Ok (Some (lit ''k'', lit ''v'')) :: (unit, (rstring \<times> rstring) option) result)"
proof -
  have "is_utf8 (lit ''k'')" "is_utf8 (lit ''v'')" by code_simp+
  then show ?thesis
    using slot_roundtrip [where 'e = unit, of "lit ''k''" "lit ''v''"] by (auto simp: lit_def slot_layout)
qed

end
