(* ===== verification/Kv_Table.thy ===== *)
theory Kv_Table
  imports Kv_Slots
begin

text \<open>
  What the open-addressing scheme of the key-value table does, stated on the decoded table:
  where a probe for a key stops, and what storing, looking up and clearing there mean. A
  table in which every entry is where its own probe stops behaves as a map; storing keeps
  that, clearing does not.
\<close>

section \<open>Definitions\<close>

type_synonym table = "usize \<Rightarrow> (rstring \<times> rstring) option"

definition probe_path :: "rstring \<Rightarrow> usize list" where
  "probe_path key = map (\<lambda>i. (hash_key key + i) mod SLOT_COUNT) [0..<SLOT_COUNT]"

text \<open>The first slot on a path that is free or holds the key.\<close>

fun probe :: "table \<Rightarrow> rstring \<Rightarrow> usize list \<Rightarrow> usize option" where
  "probe T key [] = None"
| "probe T key (i # path) =
     (case T i of
        None \<Rightarrow> Some i
      | Some (k, _) \<Rightarrow> if k = key then Some i else probe T key path)"

definition find_key :: "table \<Rightarrow> rstring \<Rightarrow> rstring option" where
  "find_key T key = (case probe T key (probe_path key) of
     None \<Rightarrow> None | Some i \<Rightarrow> map_option snd (T i))"

text \<open>Every entry is where the probe for its key stops.\<close>

definition chained :: "table \<Rightarrow> bool" where
  "chained T \<longleftrightarrow> (\<forall>i < SLOT_COUNT. \<forall>k v. T i = Some (k, v) \<longrightarrow> probe T k (probe_path k) = Some i)"

text \<open>The contents of a table as a map.\<close>

definition entries :: "table \<Rightarrow> (rstring \<times> rstring) list" where
  "entries T = concat (map (\<lambda>i. case T i of None \<Rightarrow> [] | Some e \<Rightarrow> [e]) [0..<SLOT_COUNT])"

definition contents :: "table \<Rightarrow> rstring \<Rightarrow> rstring option" where
  "contents T = map_of (entries T)"

text \<open>A map of bounded size takes a key that it has, and a new one while it has fewer keys than slots.\<close>

definition has_room :: "(rstring \<rightharpoonup> rstring) \<Rightarrow> rstring \<Rightarrow> bool" where
  "has_room m key \<longleftrightarrow> key \<in> dom m \<or> card (dom m) < SLOT_COUNT"

section \<open>Lemmas\<close>

lemma set_probe_path: "set (probe_path key) = {..<SLOT_COUNT}"
proof -
  have "i \<in> set (probe_path key)" if "i < SLOT_COUNT" for i
  proof -
    let ?j = "(i + (SLOT_COUNT - hash_key key)) mod SLOT_COUNT"
    have "(hash_key key + ?j) mod SLOT_COUNT = i"
      using hash_key_less [of key] that by (simp add: mod_add_right_eq)
    moreover have "?j < SLOT_COUNT" by (simp add: SLOT_COUNT_def)
    ultimately show ?thesis unfolding probe_path_def by (force simp: image_iff)
  qed
  then show ?thesis by (auto simp: probe_path_def SLOT_COUNT_def)
qed

lemma probe_member: "probe T key path = Some i \<Longrightarrow> i \<in> set path"
  by (induction path) (auto split: option.splits if_split_asm)

lemma probe_stops: "probe T key path = Some i \<Longrightarrow> T i = None \<or> (\<exists>v. T i = Some (key, v))"
  by (induction path) (auto split: option.splits if_split_asm)

lemma probe_None: "probe T key path = None \<Longrightarrow> i \<in> set path \<Longrightarrow> \<exists>k v. T i = Some (k, v) \<and> k \<noteq> key"
  by (induction path) (auto split: option.splits if_split_asm)

lemma probe_less: "probe T key (probe_path key) = Some i \<Longrightarrow> i < SLOT_COUNT"
  using probe_member [of T key "probe_path key" i] by (simp add: set_probe_path)

text \<open>A probe sees only the table up to where it stops.\<close>

lemma probe_store_same:
  "probe T key path = Some i \<Longrightarrow> T' i = None \<or> (\<exists>v. T' i = Some (key, v)) \<Longrightarrow> (\<And>j. j \<noteq> i \<Longrightarrow> T' j = T j)
     \<Longrightarrow> probe T' key path = Some i"
proof (induction path)
  case (Cons a path)
  then show ?case by (cases "a = i") (auto split: option.splits if_split_asm)
qed simp

text \<open>Storing another key in a free slot, or over its own entry, leaves a probe that found its key alone.\<close>

lemma probe_store_other:
  assumes "probe T k path = Some j" and "T j = Some (k, w)" and "T i = None \<or> (\<exists>u. T i = Some (key, u))"
    and "key \<noteq> k"
  shows "probe (T(i \<mapsto> (key, v))) k path = Some j"
  using assms(1)
proof (induction path)
  case (Cons a path)
  show ?case
  proof (cases "a = i")
    case True
    with Cons.prems assms(2-4) have "probe T k path = Some j" by (auto split: option.splits if_split_asm)
    with Cons.IH True assms(4) show ?thesis by simp
  next
    case False
    with Cons show ?thesis by (auto split: option.splits)
  qed
qed simp

lemma chainedD: "chained T \<Longrightarrow> i < SLOT_COUNT \<Longrightarrow> T i = Some (k, v) \<Longrightarrow> probe T k (probe_path k) = Some i"
  by (simp add: chained_def)

lemma chained_empty: "chained (\<lambda>_. None)"
  by (simp add: chained_def)

lemma chained_unique:
  "chained T \<Longrightarrow> i < SLOT_COUNT \<Longrightarrow> j < SLOT_COUNT \<Longrightarrow> T i = Some (k, v) \<Longrightarrow> T j = Some (k, w) \<Longrightarrow> i = j"
  by (metis chainedD option.inject)

lemma set_entries: "e \<in> set (entries T) \<longleftrightarrow> (\<exists>i < SLOT_COUNT. T i = Some e)"
proof -
  have "e \<in> set (case T i of None \<Rightarrow> [] | Some e \<Rightarrow> [e]) \<longleftrightarrow> T i = Some e" for i
    by (cases "T i") auto
  then show ?thesis by (auto simp: entries_def)
qed

lemma contents_None_iff: "contents T k = None \<longleftrightarrow> (\<forall>i < SLOT_COUNT. \<forall>v. T i \<noteq> Some (k, v))"
  unfolding contents_def map_of_eq_None_iff image_iff Bex_def set_entries by force

lemma contents_SomeD: "contents T k = Some v \<Longrightarrow> \<exists>i < SLOT_COUNT. T i = Some (k, v)"
  by (auto simp: contents_def set_entries dest!: map_of_SomeD)

lemma contents_eq:
  assumes "chained T" and "i < SLOT_COUNT" and "T i = Some (k, v)"
  shows "contents T k = Some v"
proof -
  obtain w where w: "contents T k = Some w"
    using assms(2,3) contents_None_iff [of T k] by fastforce
  then obtain j where "j < SLOT_COUNT" "T j = Some (k, w)" using contents_SomeD by blast
  with chained_unique [OF assms(1,2)] assms(3) w show ?thesis by fastforce
qed

text \<open>In a chained table the probe finds exactly what is stored.\<close>

lemma find_key_contents:
  assumes "chained T"
  shows "find_key T key = contents T key"
proof (cases "probe T key (probe_path key)")
  case None
  then have "\<forall>i < SLOT_COUNT. \<forall>v. T i \<noteq> Some (key, v)"
    using probe_None [OF None] by (fastforce simp: set_probe_path)
  with None show ?thesis by (simp add: find_key_def contents_None_iff [THEN iffD2])
next
  case (Some i)
  note i = probe_less [OF Some]
  show ?thesis
  proof (cases "T i")
    case None
    then have "\<forall>j < SLOT_COUNT. \<forall>v. T j \<noteq> Some (key, v)"
      using chainedD [OF assms] Some by fastforce
    with Some None show ?thesis by (simp add: find_key_def contents_None_iff [THEN iffD2])
  next
    case (Some kv)
    then obtain v where "T i = Some (key, v)"
      using probe_stops [OF \<open>probe T key (probe_path key) = Some i\<close>] by auto
    with contents_eq [OF assms i this] \<open>probe T key (probe_path key) = Some i\<close> show ?thesis
      by (simp add: find_key_def)
  qed
qed

text \<open>Storing where the probe stops is a map update and keeps the table chained.\<close>

lemma chained_store:
  assumes ch: "chained T" and p: "probe T key (probe_path key) = Some i"
  shows "chained (T(i \<mapsto> (key, v)))"
  unfolding chained_def
proof (intro allI impI)
  fix j k w
  assume j: "j < SLOT_COUNT" and e: "(T(i \<mapsto> (key, v))) j = Some (k, w)"
  show "probe (T(i \<mapsto> (key, v))) k (probe_path k) = Some j"
  proof (cases "j = i")
    case True
    with e have "k = key" by simp
    with True probe_store_same [OF p, of "T(i \<mapsto> (key, v))"] show ?thesis by simp
  next
    case False
    with e have T: "T j = Some (k, w)" by simp
    then have pk: "probe T k (probe_path k) = Some j" by (rule chainedD [OF ch j])
    have "k \<noteq> key" using pk p False by auto
    then show ?thesis using probe_store_other [OF pk T probe_stops [OF p]] by simp
  qed
qed

lemma contents_store:
  assumes ch: "chained T" and p: "probe T key (probe_path key) = Some i"
  shows "contents (T(i \<mapsto> (key, v))) = (contents T)(key \<mapsto> v)"
proof (rule ext)
  fix k
  let ?T = "T(i \<mapsto> (key, v))"
  note ch' = chained_store [OF ch p, of v] and i = probe_less [OF p]
  show "contents ?T k = ((contents T)(key \<mapsto> v)) k"
  proof (cases "k = key")
    case True
    then show ?thesis using contents_eq [OF ch' i] by simp
  next
    case False
    have other: "?T j = Some (k, w) \<longleftrightarrow> T j = Some (k, w)" for j w
      using False probe_stops [OF p] by auto
    show ?thesis
    proof (cases "contents T k")
      case None
      then have "contents ?T k = None" unfolding contents_None_iff other .
      with None False show ?thesis by simp
    next
      case (Some w)
      then obtain j where "j < SLOT_COUNT" "?T j = Some (k, w)" using contents_SomeD other by blast
      with contents_eq [OF ch'] Some False show ?thesis by simp
    qed
  qed
qed

text \<open>What a probe finds right after a store or a clear, in any table.\<close>

lemma find_key_store: "probe T key (probe_path key) = Some i \<Longrightarrow> find_key (T(i \<mapsto> (key, v))) key = Some v"
  by (simp add: find_key_def probe_store_same [of T key _ i "T(i \<mapsto> (key, v))"])

lemma find_key_clear: "probe T key (probe_path key) = Some i \<Longrightarrow> find_key (T(i := None)) key = None"
  by (simp add: find_key_def probe_store_same [of T key _ i "T(i := None)"])

lemma probe_full: "probe T key (probe_path key) = None \<Longrightarrow> i < SLOT_COUNT \<Longrightarrow> T i \<noteq> None"
  using probe_None [of T key "probe_path key" i] by (auto simp: set_probe_path)

text \<open>A chained table has as many entries as its map has keys, so a probe fails exactly when the map is full.\<close>

lemma card_contents:
  assumes "chained T"
  shows "card (dom (contents T)) = card {i. i < SLOT_COUNT \<and> T i \<noteq> None}"
proof (rule sym, rule bij_betw_same_card [of "\<lambda>i. fst (the (T i))"])
  have "inj_on (\<lambda>i. fst (the (T i))) {i. i < SLOT_COUNT \<and> T i \<noteq> None}"
  proof (rule inj_onI, clarsimp)
    fix i j k v w
    assume "i < SLOT_COUNT" "j < SLOT_COUNT" "T i = Some (k, v)" "T j = Some (k, w)"
    then show "i = j" by (rule chained_unique [OF assms])
  qed
  moreover have "(\<lambda>i. fst (the (T i))) ` {i. i < SLOT_COUNT \<and> T i \<noteq> None} = dom (contents T)"
  proof (intro set_eqI iffI)
    fix k
    assume "k \<in> dom (contents T)"
    then obtain v where "contents T k = Some v" by blast
    then obtain i where "i < SLOT_COUNT" "T i = Some (k, v)" using contents_SomeD by blast
    then show "k \<in> (\<lambda>i. fst (the (T i))) ` {i. i < SLOT_COUNT \<and> T i \<noteq> None}"
      by (intro image_eqI [of _ _ i]) simp_all
  next
    fix k
    assume "k \<in> (\<lambda>i. fst (the (T i))) ` {i. i < SLOT_COUNT \<and> T i \<noteq> None}"
    then obtain i v where "i < SLOT_COUNT" "T i = Some (k, v)" by auto
    from contents_eq [OF assms this] show "k \<in> dom (contents T)" by blast
  qed
  ultimately show "bij_betw (\<lambda>i. fst (the (T i))) {i. i < SLOT_COUNT \<and> T i \<noteq> None} (dom (contents T))"
    by (simp only: bij_betw_def)
qed

lemma probe_has_room:
  assumes "chained T"
  shows "probe T key (probe_path key) = None \<longleftrightarrow> \<not> has_room (contents T) key"
proof (cases "probe T key (probe_path key)")
  case None
  have "{i. i < SLOT_COUNT \<and> T i \<noteq> None} = {..<SLOT_COUNT}"
    using probe_full [OF None] unfolding lessThan_def by blast
  moreover have "contents T key = None"
    unfolding contents_None_iff
  proof (intro allI impI)
    fix i v
    assume "i < SLOT_COUNT"
    then show "T i \<noteq> Some (key, v)" using probe_None [OF None, of i] by (auto simp: set_probe_path)
  qed
  ultimately show ?thesis using None card_contents [OF assms] by (simp add: has_room_def domIff)
next
  case (Some i)
  have "has_room (contents T) key"
  proof (cases "T i")
    case None
    then have "{j. j < SLOT_COUNT \<and> T j \<noteq> None} \<subset> {..<SLOT_COUNT}"
      using probe_less [OF Some] unfolding lessThan_def by blast
    then have "card {j. j < SLOT_COUNT \<and> T j \<noteq> None} < SLOT_COUNT"
      using psubset_card_mono [of "{..<SLOT_COUNT}"] by simp
    then show ?thesis by (simp add: has_room_def card_contents [OF assms])
  next
    case (Some e)
    then show ?thesis
      using probe_stops [OF \<open>probe T key (probe_path key) = Some i\<close>]
        contents_eq [OF assms probe_less [OF \<open>probe T key (probe_path key) = Some i\<close>], of key]
      unfolding has_room_def by force
  qed
  with Some show ?thesis by simp
qed

lemma probe_contents:
  assumes "chained T" and "probe T key (probe_path key) = Some i"
  shows "T i \<noteq> None \<longleftrightarrow> key \<in> dom (contents T)"
  using find_key_contents [OF assms(1), of key, symmetric] assms(2) by (simp add: find_key_def domIff)

end
