(* ===== verification/Websocket.thy ===== *)
theory Websocket
  imports Prelude
begin

text \<open>
  What an endpoint sees of its WebSocket: the items its receiving half yields, as far as the
  code tells them apart, and the negotiation of the \<open>rdows.v1\<close> subprotocol during the upgrade
  (\<open>check_subprotocol\<close> of \<open>rdows-server/src/lib.rs\<close> and the check of the echoed value in
  \<open>rdows-client/src/connection.rs\<close>), with the string functions both use.
\<close>

section \<open>Definitions\<close>

text \<open>A binary message, a close frame, any other message (text, ping, pong), a transport error.\<close>

datatype ws_event =
    Binary bytes
  | Close
  | OtherFrame
  | WsError rstring

definition SUBPROTOCOL :: rstring where
  "SUBPROTOCOL = lit ''rdows.v1''"

text \<open>\<open>str::split\<close> on a one-byte separator: always at least one piece.\<close>

fun split_on :: "u8 \<Rightarrow> rstring \<Rightarrow> rstring list" where
  "split_on c [] = [[]]"
| "split_on c (b # bs) =
     (if b = c then [] # split_on c bs
      else (case split_on c bs of p # ps \<Rightarrow> (b # p) # ps | [] \<Rightarrow> [[b]]))"

text \<open>\<open>str::trim\<close> on ASCII text.\<close>

definition is_space :: "u8 \<Rightarrow> bool" where
  "is_space b \<longleftrightarrow> b = 32 \<or> (9 \<le> b \<and> b \<le> 13)"

definition trim_str :: "rstring \<Rightarrow> rstring" where
  "trim_str s = rev (dropWhile is_space (rev (dropWhile is_space s)))"

definition names_rdows :: "rstring \<Rightarrow> bool" where
  "names_rdows s \<longleftrightarrow> (\<exists>p \<in> set (split_on 44 s). trim_str p = SUBPROTOCOL)"

text \<open>
  The server's check of the request. \<open>values\<close> are the values of the request's
  \<open>Sec-WebSocket-Protocol\<close> headers; \<open>to_str\<close> is the HTTP library's conversion of a header
  value to text, which fails unless the value is printable ASCII. The answer is the protocol
  named in the response, or the status and body of the refusal.
\<close>

definition check_subprotocol ::
  "(bytes \<Rightarrow> rstring option) \<Rightarrow> bytes list \<Rightarrow> (nat \<times> rstring, rstring) result" where
  "check_subprotocol to_str values =
     (let has_rdows = (\<exists>v \<in> set values. case to_str v of Some s \<Rightarrow> names_rdows s | None \<Rightarrow> False) in
      if \<not> has_rdows then Err (400, lit ''missing rdows.v1 subprotocol'')
      else Ok SUBPROTOCOL)"

text \<open>The client's check of the response: the value of the header, when present and text.\<close>

definition response_ok :: "rstring option \<Rightarrow> bool" where
  "response_ok value = (case value of Some s \<Rightarrow> names_rdows s | None \<Rightarrow> False)"

section \<open>Lemmas\<close>

lemma split_on_not_Nil [simp]: "split_on c s \<noteq> []"
  by (cases "(c, s)" rule: split_on.cases) (auto split: list.split)

lemma split_on_no_sep: "c \<notin> set p \<Longrightarrow> split_on c p = [p]"
  by (induction p) auto

lemma split_on_append: "c \<notin> set p \<Longrightarrow> split_on c (p @ c # s) = p # split_on c s"
  by (induction p) auto

text \<open>The list of protocols a peer offers, written with commas between them.\<close>

fun join_with :: "u8 \<Rightarrow> rstring list \<Rightarrow> rstring" where
  "join_with c [] = []"
| "join_with c [p] = p"
| "join_with c (p # ps) = p @ c # join_with c ps"

lemma split_join: "ps \<noteq> [] \<Longrightarrow> \<forall>p \<in> set ps. c \<notin> set p \<Longrightarrow> split_on c (join_with c ps) = ps"
  by (induction c ps rule: join_with.induct) (auto simp: split_on_no_sep split_on_append)

lemma join_split: "join_with c (split_on c s) = s"
proof (induction s)
  case (Cons b s)
  obtain p ps where "split_on c s = p # ps" by (cases "split_on c s") auto
  with Cons show ?case by (cases ps) auto
qed simp

lemma dropWhile_space_append:
  "(\<And>b. b \<in> set xs \<Longrightarrow> is_space b) \<Longrightarrow> dropWhile is_space (xs @ ys) = dropWhile is_space ys"
  by (induction xs) auto

lemma trim_padded:
  assumes "\<forall>b \<in> set l. is_space b" and "\<forall>b \<in> set r. is_space b"
    and "m \<noteq> []" and "\<not> is_space (hd m)" and "\<not> is_space (last m)"
  shows "trim_str (l @ m @ r) = m"
proof -
  have keep: "dropWhile is_space (m @ r) = m @ r" using assms(3,4) by (cases m) auto
  have "dropWhile is_space (rev r @ rev m) = dropWhile is_space (rev m)"
    using assms(2) by (intro dropWhile_space_append) auto
  moreover have "dropWhile is_space (rev m) = rev m"
    using assms(3,5) by (cases m rule: rev_cases) auto
  ultimately show ?thesis
    using assms(1) keep by (simp add: trim_str_def dropWhile_space_append)
qed

lemma names_rdows_SUBPROTOCOL: "names_rdows SUBPROTOCOL"
  by code_simp

section \<open>Properties\<close>

text \<open>
  (C34) Subprotocol negotiation: a request whose header is a comma-separated list of protocol
  names, padded with any white space, is accepted exactly when \<open>rdows.v1\<close> is among the names,
  and the value the server answers with passes the client's check.
\<close>

theorem subprotocol_negotiation:
  assumes "ps \<noteq> []" and "\<forall>p \<in> set ps. 44 \<notin> set p" and "to_str v = Some (join_with 44 ps)"
  shows "check_subprotocol to_str [v] =
      (if SUBPROTOCOL \<in> trim_str ` set ps then Ok SUBPROTOCOL
       else Err (400, lit ''missing rdows.v1 subprotocol'')) \<and>
    response_ok (Some SUBPROTOCOL)"
proof -
  have "names_rdows (join_with 44 ps) \<longleftrightarrow> SUBPROTOCOL \<in> trim_str ` set ps"
    using split_join [OF assms(1,2)] unfolding names_rdows_def image_iff by metis
  then show ?thesis
    using assms(3) names_rdows_SUBPROTOCOL by (simp add: check_subprotocol_def response_ok_def)
qed

theorem subprotocol_negotiation_witness:
  "check_subprotocol Some [lit ''chat, rdows.v1''] = Ok SUBPROTOCOL"
proof -
  have join: "lit ''chat, rdows.v1'' = join_with 44 [lit ''chat'', lit '' rdows.v1'']" by code_simp
  have sep: "\<forall>p \<in> set [lit ''chat'', lit '' rdows.v1'']. 44 \<notin> set p" by code_simp
  have trim: "SUBPROTOCOL \<in> trim_str ` set [lit ''chat'', lit '' rdows.v1'']" by code_simp
  show ?thesis
    using subprotocol_negotiation [OF _ sep, of Some "lit ''chat, rdows.v1''"] join trim by simp
qed

end
