(* ===== verification/Opcodes.thy ===== *)
theory Opcodes
  imports Prelude
begin

text \<open>
  The opcodes of \<open>rdows-core/src/opcode.rs\<close>: the enumeration, its wire values in both
  directions and the class of protocol-level messages. The conversions are inverse to each
  other on their domains, so a byte decodes to an opcode exactly when some opcode is encoded
  as that byte.
\<close>

section \<open>Definitions\<close>

datatype opcode =
    Connect | ConnectAck | Disconnect
  | MrReg | MrRegAck | MrDereg | MrDeregAck
  | Send | SendData | RecvComp
  | Write | WriteData | WriteComp
  | ReadReq | ReadResp
  | AtomicReq | AtomicResp
  | Ack | CreditUpdate | Error

text \<open>The derived \<open>Debug\<close> text, the name of the variant.\<close>

primrec opcode_debug :: "opcode \<Rightarrow> rstring" where
  "opcode_debug Connect = lit ''Connect''"
| "opcode_debug ConnectAck = lit ''ConnectAck''"
| "opcode_debug Disconnect = lit ''Disconnect''"
| "opcode_debug MrReg = lit ''MrReg''"
| "opcode_debug MrRegAck = lit ''MrRegAck''"
| "opcode_debug MrDereg = lit ''MrDereg''"
| "opcode_debug MrDeregAck = lit ''MrDeregAck''"
| "opcode_debug Send = lit ''Send''"
| "opcode_debug SendData = lit ''SendData''"
| "opcode_debug RecvComp = lit ''RecvComp''"
| "opcode_debug Write = lit ''Write''"
| "opcode_debug WriteData = lit ''WriteData''"
| "opcode_debug WriteComp = lit ''WriteComp''"
| "opcode_debug ReadReq = lit ''ReadReq''"
| "opcode_debug ReadResp = lit ''ReadResp''"
| "opcode_debug AtomicReq = lit ''AtomicReq''"
| "opcode_debug AtomicResp = lit ''AtomicResp''"
| "opcode_debug Ack = lit ''Ack''"
| "opcode_debug CreditUpdate = lit ''CreditUpdate''"
| "opcode_debug Error = lit ''Error''"

fun is_protocol_message :: "opcode \<Rightarrow> bool" where
  "is_protocol_message Connect = True"
| "is_protocol_message ConnectAck = True"
| "is_protocol_message Ack = True"
| "is_protocol_message Error = True"
| "is_protocol_message CreditUpdate = True"
| "is_protocol_message _ = False"

primrec opcode_to_u8 :: "opcode \<Rightarrow> u8" where
  "opcode_to_u8 Connect = 0x01"
| "opcode_to_u8 ConnectAck = 0x02"
| "opcode_to_u8 Disconnect = 0x03"
| "opcode_to_u8 MrReg = 0x10"
| "opcode_to_u8 MrRegAck = 0x11"
| "opcode_to_u8 MrDereg = 0x12"
| "opcode_to_u8 MrDeregAck = 0x13"
| "opcode_to_u8 Send = 0x20"
| "opcode_to_u8 SendData = 0x21"
| "opcode_to_u8 RecvComp = 0x22"
| "opcode_to_u8 Write = 0x30"
| "opcode_to_u8 WriteData = 0x31"
| "opcode_to_u8 WriteComp = 0x32"
| "opcode_to_u8 ReadReq = 0x40"
| "opcode_to_u8 ReadResp = 0x41"
| "opcode_to_u8 AtomicReq = 0x50"
| "opcode_to_u8 AtomicResp = 0x51"
| "opcode_to_u8 Ack = 0x60"
| "opcode_to_u8 CreditUpdate = 0x61"
| "opcode_to_u8 Error = 0xF0"

text \<open>The error value is the \<open>InvalidOpcode\<close> struct, a wrapper of the offending byte.\<close>

datatype invalid_opcode = InvalidOpcodeByte u8

primrec invalid_opcode_display :: "invalid_opcode \<Rightarrow> rstring" where
  "invalid_opcode_display (InvalidOpcodeByte b) = lit ''invalid RDoWS opcode: 0x'' @ show_hex_pad 2 (unat b)"

definition opcode_try_from :: "u8 \<Rightarrow> (invalid_opcode, opcode) result" where
  "opcode_try_from value =
     (if value = 0x01 then Ok Connect
      else if value = 0x02 then Ok ConnectAck
      else if value = 0x03 then Ok Disconnect
      else if value = 0x10 then Ok MrReg
      else if value = 0x11 then Ok MrRegAck
      else if value = 0x12 then Ok MrDereg
      else if value = 0x13 then Ok MrDeregAck
      else if value = 0x20 then Ok Send
      else if value = 0x21 then Ok SendData
      else if value = 0x22 then Ok RecvComp
      else if value = 0x30 then Ok Write
      else if value = 0x31 then Ok WriteData
      else if value = 0x32 then Ok WriteComp
      else if value = 0x40 then Ok ReadReq
      else if value = 0x41 then Ok ReadResp
      else if value = 0x50 then Ok AtomicReq
      else if value = 0x51 then Ok AtomicResp
      else if value = 0x60 then Ok Ack
      else if value = 0x61 then Ok CreditUpdate
      else if value = 0xF0 then Ok Error
      else Err (InvalidOpcodeByte value))"

section \<open>Lemmas\<close>

lemma opcode_try_from_to_u8 [simp, wire]: "opcode_try_from (opcode_to_u8 op) = Ok op"
  by (cases op) (simp_all add: opcode_try_from_def)

lemma opcode_try_from_OkD: "opcode_try_from v = Ok op \<Longrightarrow> opcode_to_u8 op = v"
  by (simp add: opcode_try_from_def split: if_split_asm)

lemma opcode_to_u8_inject: "opcode_to_u8 a = opcode_to_u8 b \<longleftrightarrow> a = b"
  by (metis opcode_try_from_to_u8 result.inject(1))

lemma opcode_try_from_cases:
  "(\<exists>op. v = opcode_to_u8 op \<and> opcode_try_from v = Ok op) \<or>
   (v \<notin> range opcode_to_u8 \<and> opcode_try_from v = Err (InvalidOpcodeByte v))"
proof (cases "v \<in> range opcode_to_u8")
  case True
  then show ?thesis by auto
next
  case False
  then have "\<And>op. v \<noteq> opcode_to_u8 op" by auto
  from this [of Connect] this [of ConnectAck] this [of Disconnect] this [of MrReg]
    this [of MrRegAck] this [of MrDereg] this [of MrDeregAck] this [of Send] this [of SendData]
    this [of RecvComp] this [of Write] this [of WriteData] this [of WriteComp] this [of ReadReq]
    this [of ReadResp] this [of AtomicReq] this [of AtomicResp] this [of Ack]
    this [of CreditUpdate] this [of Error]
  have "opcode_try_from v = Err (InvalidOpcodeByte v)"
    by (simp add: opcode_try_from_def)
  with False show ?thesis by simp
qed

lemma opcode_try_from_not_stuck [simp]:
  "opcode_try_from v \<noteq> Panic" "opcode_try_from v \<noteq> Blocked"
  using opcode_try_from_cases [of v] by auto

end
