(* ===== verification/Errors.thy ===== *)
theory Errors
  imports Opcodes Utf8
begin

text \<open>
  The error codes and error values of \<open>rdows-core/src/error.rs\<close>: the wire codes in both
  directions, their display names, and the library error type \<open>RdowsError\<close>, whose variants
  are the early returns of every other component.
\<close>

section \<open>Definitions\<close>

datatype error_code =
    Success
  | ErrProtoVersion
  | ErrUnknownOpcode
  | ErrInvalidPd
  | ErrInvalidLkey
  | ErrInvalidMkey
  | ErrAccessDenied
  | ErrBounds
  | ErrAlignment
  | ErrPayloadSize
  | ErrRnr
  | ErrCqOverflow
  | ErrSeqGap
  | ErrTimeout
  | ErrInternal

primrec error_code_to_u16 :: "error_code \<Rightarrow> u16" where
  "error_code_to_u16 Success = 0x0000"
| "error_code_to_u16 ErrProtoVersion = 0x0001"
| "error_code_to_u16 ErrUnknownOpcode = 0x0002"
| "error_code_to_u16 ErrInvalidPd = 0x0003"
| "error_code_to_u16 ErrInvalidLkey = 0x0004"
| "error_code_to_u16 ErrInvalidMkey = 0x0005"
| "error_code_to_u16 ErrAccessDenied = 0x0006"
| "error_code_to_u16 ErrBounds = 0x0007"
| "error_code_to_u16 ErrAlignment = 0x0008"
| "error_code_to_u16 ErrPayloadSize = 0x0009"
| "error_code_to_u16 ErrRnr = 0x0010"
| "error_code_to_u16 ErrCqOverflow = 0x0020"
| "error_code_to_u16 ErrSeqGap = 0x0030"
| "error_code_to_u16 ErrTimeout = 0x0040"
| "error_code_to_u16 ErrInternal = 0xFFFF"

datatype invalid_error_code = InvalidErrorCode u16

primrec invalid_error_code_display :: "invalid_error_code \<Rightarrow> rstring" where
  "invalid_error_code_display (InvalidErrorCode v) = lit ''invalid RDoWS error code: 0x'' @ show_hex_pad 4 (unat v)"

definition error_code_try_from :: "u16 \<Rightarrow> (invalid_error_code, error_code) result" where
  "error_code_try_from value =
     (if value = 0x0000 then Ok Success
      else if value = 0x0001 then Ok ErrProtoVersion
      else if value = 0x0002 then Ok ErrUnknownOpcode
      else if value = 0x0003 then Ok ErrInvalidPd
      else if value = 0x0004 then Ok ErrInvalidLkey
      else if value = 0x0005 then Ok ErrInvalidMkey
      else if value = 0x0006 then Ok ErrAccessDenied
      else if value = 0x0007 then Ok ErrBounds
      else if value = 0x0008 then Ok ErrAlignment
      else if value = 0x0009 then Ok ErrPayloadSize
      else if value = 0x0010 then Ok ErrRnr
      else if value = 0x0020 then Ok ErrCqOverflow
      else if value = 0x0030 then Ok ErrSeqGap
      else if value = 0x0040 then Ok ErrTimeout
      else if value = 0xFFFF then Ok ErrInternal
      else Err (InvalidErrorCode value))"

primrec error_code_display :: "error_code \<Rightarrow> rstring" where
  "error_code_display Success = lit ''SUCCESS''"
| "error_code_display ErrProtoVersion = lit ''ERR_PROTO_VERSION''"
| "error_code_display ErrUnknownOpcode = lit ''ERR_UNKNOWN_OPCODE''"
| "error_code_display ErrInvalidPd = lit ''ERR_INVALID_PD''"
| "error_code_display ErrInvalidLkey = lit ''ERR_INVALID_LKEY''"
| "error_code_display ErrInvalidMkey = lit ''ERR_INVALID_MKEY''"
| "error_code_display ErrAccessDenied = lit ''ERR_ACCESS_DENIED''"
| "error_code_display ErrBounds = lit ''ERR_BOUNDS''"
| "error_code_display ErrAlignment = lit ''ERR_ALIGNMENT''"
| "error_code_display ErrPayloadSize = lit ''ERR_PAYLOAD_SIZE''"
| "error_code_display ErrRnr = lit ''ERR_RNR''"
| "error_code_display ErrCqOverflow = lit ''ERR_CQ_OVERFLOW''"
| "error_code_display ErrSeqGap = lit ''ERR_SEQ_GAP''"
| "error_code_display ErrTimeout = lit ''ERR_TIMEOUT''"
| "error_code_display ErrInternal = lit ''ERR_INTERNAL''"

text \<open>
  \<open>Io\<close> wraps an operating-system error, of which only the text is kept; nothing in the modelled
  code constructs one.
\<close>

datatype rdows_error =
    InvalidVersion u8
  | InvalidOpcode u8
  | PayloadTooShort usize usize
  | HeaderTooShort usize
  | Protocol error_code
  | ConnectionRejected rstring
  | SessionNotReady
  | SessionClosed
  | SendCreditsExhausted
  | UnexpectedMessage rstring opcode
  | WebSocket rstring
  | Tls rstring
  | Io rstring

primrec rdows_error_display :: "rdows_error \<Rightarrow> rstring" where
  "rdows_error_display (InvalidVersion v) = lit ''invalid protocol version: 0x'' @ show_hex_pad 2 (unat v)"
| "rdows_error_display (InvalidOpcode b) = lit ''invalid opcode: 0x'' @ show_hex_pad 2 (unat b)"
| "rdows_error_display (PayloadTooShort least got) =
     lit ''payload too short: expected at least '' @ show_dec least @ lit '' bytes, got '' @ show_dec got"
| "rdows_error_display (HeaderTooShort n) = lit ''header too short: need 24 bytes, got '' @ show_dec n"
| "rdows_error_display (Protocol code) = lit ''protocol error: '' @ error_code_display code"
| "rdows_error_display (ConnectionRejected s) = lit ''connection rejected: '' @ s"
| "rdows_error_display SessionNotReady = lit ''session not ready''"
| "rdows_error_display SessionClosed = lit ''session closed''"
| "rdows_error_display SendCreditsExhausted = lit ''send credits exhausted''"
| "rdows_error_display (UnexpectedMessage want got) =
     lit ''unexpected message: expected '' @ want @ lit '', got '' @ opcode_debug got"
| "rdows_error_display (WebSocket s) = lit ''websocket error: '' @ s"
| "rdows_error_display (Tls s) = lit ''tls error: '' @ s"
| "rdows_error_display (Io s) = lit ''io error: '' @ s"

section \<open>Lemmas\<close>

lemma error_code_try_from_to_u16 [simp, wire]: "error_code_try_from (error_code_to_u16 c) = Ok c"
  by (cases c) (simp_all add: error_code_try_from_def)

lemma error_code_try_from_OkD: "error_code_try_from v = Ok c \<Longrightarrow> error_code_to_u16 c = v"
  by (simp add: error_code_try_from_def split: if_split_asm)

lemma error_code_to_u16_inject: "error_code_to_u16 a = error_code_to_u16 b \<longleftrightarrow> a = b"
  by (metis error_code_try_from_to_u16 result.inject(1))

lemma error_code_to_u16_0_iff [simp]: "error_code_to_u16 c = 0 \<longleftrightarrow> c = Success"
  by (cases c) simp_all

end
