(* ===== verification/Codec.thy ===== *)
theory Codec
  imports Errors
begin

text \<open>
  The contract between a wire format and its users. An encoder and a decoder form a codec
  when decoding what was encoded gives the value back and leaves the bytes that follow
  untouched; a framed codec is one whose decoder is also told the payload length from the
  frame header, and every plain codec is a framed one that ignores it. A fixed codec has a
  constant width, rejects shorter input with an error value and cannot panic on longer input.
  The message layer only uses these laws, and each wire struct is shown to satisfy them where
  it is defined.
\<close>

section \<open>Definitions\<close>

text \<open>The source's \<open>for _ in 0..count { list.push(T::decode(buf)?) }\<close>.\<close>

primrec decode_n :: "(bytes \<Rightarrow> ('e, 'a \<times> bytes) result) \<Rightarrow> nat \<Rightarrow> bytes \<Rightarrow> ('e, 'a list \<times> bytes) result"
where
  "decode_n dec 0 buf = Ok ([], buf)"
| "decode_n dec (Suc n) buf =
     rbind (dec buf) (\<lambda>(x, buf). rbind (decode_n dec n buf) (\<lambda>(xs, buf). Ok (x # xs, buf)))"

section \<open>The contracts\<close>

locale framed_codec =
  fixes enc :: "'a \<Rightarrow> bytes"
    and fdec :: "bytes \<Rightarrow> u32 \<Rightarrow> (rdows_error, 'a \<times> bytes) result"
    and valid :: "'a \<Rightarrow> bool"
  assumes fdec_enc: "valid x \<Longrightarrow> fdec (enc x @ rest) (of_nat (length (enc x))) = Ok (x, rest)"
begin

lemma fdec_enc_whole: "valid x \<Longrightarrow> fdec (enc x) (of_nat (length (enc x))) = Ok (x, [])"
  using fdec_enc [of x "[]"] by simp

lemma enc_inject: "valid x \<Longrightarrow> valid y \<Longrightarrow> enc x = enc y \<Longrightarrow> x = y"
  by (metis fdec_enc_whole Pair_inject result.inject(1))

end

locale codec =
  fixes enc :: "'a \<Rightarrow> bytes"
    and dec :: "bytes \<Rightarrow> (rdows_error, 'a \<times> bytes) result"
    and valid :: "'a \<Rightarrow> bool"
  assumes dec_enc: "valid x \<Longrightarrow> dec (enc x @ rest) = Ok (x, rest)"
begin

sublocale framed_codec enc "\<lambda>buf _. dec buf" valid
  by unfold_locales (rule dec_enc)

text \<open>A codec is prefix-free: two encodings can be told apart inside a longer stream.\<close>

lemma enc_prefix_free:
  assumes "valid x" and "valid y" and "enc x @ r = enc y @ s"
  shows "x = y \<and> r = s"
  by (metis assms dec_enc Pair_inject result.inject(1))

lemma decode_n_enc:
  "\<forall>x\<in>set xs. valid x \<Longrightarrow> decode_n dec (length xs) (concat (map enc xs) @ rest) = Ok (xs, rest)"
  by (induction xs) (simp_all add: dec_enc)

end

locale fixed_codec = codec enc dec valid
  for enc :: "'a \<Rightarrow> bytes"
    and dec :: "bytes \<Rightarrow> (rdows_error, 'a \<times> bytes) result"
    and valid :: "'a \<Rightarrow> bool" +
  fixes width :: nat
    and short :: "nat \<Rightarrow> rdows_error"
  assumes enc_width: "length (enc x) = width"
    and dec_short: "length buf < width \<Longrightarrow> dec buf = Err (short (length buf))"
    and dec_not_stuck: "dec buf \<noteq> Panic \<and> dec buf \<noteq> Blocked"
    and dec_rest: "dec buf = Ok (x, rest) \<Longrightarrow> rest = drop width buf"
begin

lemma dec_Ok_length: "dec buf = Ok (x, rest) \<Longrightarrow> length buf = width + length rest"
  using dec_rest [of buf x rest] dec_short [of buf] by (cases "length buf < width") auto

lemma length_concat_enc: "length (concat (map enc xs)) = width * length xs"
  by (induction xs) (simp_all add: enc_width)

lemma decode_n_not_stuck: "decode_n dec n buf \<noteq> Panic \<and> decode_n dec n buf \<noteq> Blocked"
proof (induction n arbitrary: buf)
  case 0
  then show ?case by simp
next
  case (Suc n)
  show ?case
  proof (cases "dec buf")
    case (Ok r)
    obtain x rest where r: "r = (x, rest)" by (cases r)
    show ?thesis
      using Suc.IH [of rest] by (cases "decode_n dec n rest") (auto simp: Ok r)
  qed (use dec_not_stuck [of buf] in auto)
qed

lemma decode_n_Ok:
  "decode_n dec n buf = Ok (xs, rest) \<Longrightarrow>
   length xs = n \<and> rest = drop (width * n) buf \<and> width * n \<le> length buf"
proof (induction n arbitrary: buf xs rest)
  case 0
  then show ?case by simp
next
  case (Suc n)
  then obtain x buf' xs' where dec: "dec buf = Ok (x, buf')"
    and tail: "decode_n dec n buf' = Ok (xs', rest)" and xs: "xs = x # xs'"
    by (auto simp: rbind_Ok_iff)
  have buf': "buf' = drop width buf" using dec by (rule dec_rest)
  have "width \<le> length buf" using dec_Ok_length [OF dec] by simp
  with Suc.IH [OF tail] show ?case
    by (auto simp: xs buf' add.commute)
qed

end

end
