(* ===== verification/Frame.thy ===== *)
theory Frame
  imports Codec
begin

text \<open>
  The fixed 24-byte frame header of \<open>rdows-core/src/frame.rs\<close> with its flag tests, and the
  protocol constants of \<open>rdows-core/src/lib.rs\<close>. The header is a fixed codec of width 24 on
  the headers that carry the current protocol version.
\<close>

section \<open>Definitions\<close>

definition RDOWS_VERSION :: u8 where
  "RDOWS_VERSION = 0x01"

definition HEADER_SIZE :: usize where
  "HEADER_SIZE = 24"

definition DEFAULT_MAX_MSG_SIZE :: u32 where
  "DEFAULT_MAX_MSG_SIZE = 16 * 1024 * 1024"

definition DEFAULT_ICC :: u32 where
  "DEFAULT_ICC = 65535"

definition FLAG_F :: u16 where "FLAG_F = 0x8000"
definition FLAG_L :: u16 where "FLAG_L = 0x4000"
definition FLAG_S :: u16 where "FLAG_S = 0x2000"

record rdows_header =
  h_version :: u8
  h_opcode :: opcode
  h_flags :: u16
  h_session_id :: u32
  h_sequence :: u32
  h_wrid :: u64
  h_payload_length :: u32

definition header_new :: "opcode \<Rightarrow> u32 \<Rightarrow> u32 \<Rightarrow> u64 \<Rightarrow> rdows_header" where
  "header_new opcode session_id sequence wrid =
     \<lparr>h_version = RDOWS_VERSION, h_opcode = opcode, h_flags = 0, h_session_id = session_id,
      h_sequence = sequence, h_wrid = wrid, h_payload_length = 0\<rparr>"

definition header_encode :: "rdows_header \<Rightarrow> bytes" where
  "header_encode h =
     put_u8 (h_version h) @ put_u8 (opcode_to_u8 (h_opcode h)) @ put_u16 (h_flags h)
     @ put_u32 (h_session_id h) @ put_u32 (h_sequence h) @ put_u64 (h_wrid h)
     @ put_u32 (h_payload_length h)"

definition header_decode :: "bytes \<Rightarrow> (rdows_error, rdows_header \<times> bytes) result" where
  "header_decode buf =
     (if length buf < HEADER_SIZE then Err (HeaderTooShort (length buf))
      else
        rbind (get_u8 buf) (\<lambda>(version, buf).
        if version \<noteq> RDOWS_VERSION then Err (InvalidVersion version)
        else
          rbind (get_u8 buf) (\<lambda>(opcode_byte, buf).
          rbind (map_err (\<lambda>_. InvalidOpcode opcode_byte) (opcode_try_from opcode_byte)) (\<lambda>opcode.
          rbind (get_u16 buf) (\<lambda>(flags, buf).
          rbind (get_u32 buf) (\<lambda>(session_id, buf).
          rbind (get_u32 buf) (\<lambda>(sequence, buf).
          rbind (get_u64 buf) (\<lambda>(wrid, buf).
          rbind (get_u32 buf) (\<lambda>(payload_length, buf).
          Ok (\<lparr>h_version = version, h_opcode = opcode, h_flags = flags,
               h_session_id = session_id, h_sequence = sequence, h_wrid = wrid,
               h_payload_length = payload_length\<rparr>, buf))))))))))"

definition is_fragment :: "rdows_header \<Rightarrow> bool" where
  "is_fragment h \<longleftrightarrow> h_flags h AND FLAG_F \<noteq> 0"

definition is_last_fragment :: "rdows_header \<Rightarrow> bool" where
  "is_last_fragment h \<longleftrightarrow> h_flags h AND FLAG_L \<noteq> 0"

definition is_solicited :: "rdows_header \<Rightarrow> bool" where
  "is_solicited h \<longleftrightarrow> h_flags h AND FLAG_S \<noteq> 0"

section \<open>Lemmas\<close>

abbreviation header_wf :: "rdows_header \<Rightarrow> bool" where
  "header_wf h \<equiv> h_version h = RDOWS_VERSION"

lemma length_header_encode [simp]: "length (header_encode h) = HEADER_SIZE"
  by (simp add: header_encode_def HEADER_SIZE_def)

lemma header_new_wf [simp]: "header_wf (header_new op sid sq wrid)"
  by (simp add: header_new_def)

lemma header_new_fields [simp]:
  "h_opcode (header_new op sid sq wrid) = op"
  "h_session_id (header_new op sid sq wrid) = sid"
  "h_sequence (header_new op sid sq wrid) = sq"
  "h_wrid (header_new op sid sq wrid) = wrid"
  by (simp_all add: header_new_def)

lemma header_decode_encode: "header_wf h \<Longrightarrow> header_decode (header_encode h @ rest) = Ok (h, rest)"
  by (simp add: header_decode_def header_encode_def HEADER_SIZE_def)

lemma header_decode_short:
  "length buf < HEADER_SIZE \<Longrightarrow> header_decode buf = Err (HeaderTooShort (length buf))"
  by (simp add: header_decode_def)

lemma header_decode_long:
  assumes "HEADER_SIZE \<le> length buf"
  shows "header_decode buf =
    (if buf ! 0 \<noteq> RDOWS_VERSION then Err (InvalidVersion (buf ! 0))
     else case opcode_try_from (buf ! 1) of
       Ok op \<Rightarrow> Ok (\<lparr>h_version = RDOWS_VERSION, h_opcode = op,
         h_flags = from_be (take 2 (drop 2 buf)), h_session_id = from_be (take 4 (drop 4 buf)),
         h_sequence = from_be (take 4 (drop 8 buf)), h_wrid = from_be (take 8 (drop 12 buf)),
         h_payload_length = from_be (take 4 (drop 20 buf))\<rparr>, drop 24 buf)
     | _ \<Rightarrow> Err (InvalidOpcode (buf ! 1)))"
proof -
  have len: "24 \<le> length buf" using assms by (simp add: HEADER_SIZE_def)
  then have [simp]: "buf \<noteq> []" by auto
  show ?thesis
    using len by (cases "opcode_try_from (buf ! 1)")
      (simp_all add: header_decode_def HEADER_SIZE_def get_be_long get_u8_def numeral_2_eq_2 [symmetric])
qed

interpretation hdr: fixed_codec header_encode header_decode header_wf HEADER_SIZE HeaderTooShort
proof unfold_locales
  show "header_wf h \<Longrightarrow> header_decode (header_encode h @ rest) = Ok (h, rest)" for h rest
    by (rule header_decode_encode)
  show "length (header_encode h) = HEADER_SIZE" for h by simp
  show "length buf < HEADER_SIZE \<Longrightarrow> header_decode buf = Err (HeaderTooShort (length buf))" for buf
    by (rule header_decode_short)
  show "header_decode buf \<noteq> Panic \<and> header_decode buf \<noteq> Blocked" for buf
    by (cases "length buf < HEADER_SIZE")
      (simp_all add: header_decode_short header_decode_long split: result.split)
  show "header_decode buf = Ok (h, rest) \<Longrightarrow> rest = drop HEADER_SIZE buf" for buf h rest
    by (cases "length buf < HEADER_SIZE")
      (auto simp: header_decode_short header_decode_long HEADER_SIZE_def
        split: result.splits if_split_asm)
qed

lemma header_decode_version: "header_decode buf = Ok (h, rest) \<Longrightarrow> header_wf h"
  by (cases "length buf < HEADER_SIZE")
    (auto simp: header_decode_short header_decode_long split: result.splits if_split_asm)

lemma header_encode_decode:
  assumes "header_decode buf = Ok (h, rest)"
  shows "header_encode h @ rest = buf"
proof -
  have len: "HEADER_SIZE \<le> length buf"
    using assms hdr.dec_Ok_length [OF assms] by simp
  then obtain op where op: "opcode_try_from (buf ! 1) = Ok op" and h: "h = \<lparr>h_version = buf ! 0,
      h_opcode = op, h_flags = from_be (take 2 (drop 2 buf)),
      h_session_id = from_be (take 4 (drop 4 buf)), h_sequence = from_be (take 4 (drop 8 buf)),
      h_wrid = from_be (take 8 (drop 12 buf)), h_payload_length = from_be (take 4 (drop 20 buf))\<rparr>"
    and rest: "rest = drop 24 buf"
    using assms by (auto simp: header_decode_long split: result.splits if_split_asm)
  have "opcode_to_u8 op = buf ! 1" using op by (rule opcode_try_from_OkD)
  moreover have chunk: "drop n buf = take k (drop n buf) @ drop (n + k) buf" for n k
    by (metis append_take_drop_id drop_drop add.commute)
  have "take 2 (drop 2 buf) @ take 4 (drop 4 buf) @ take 4 (drop 8 buf) @ take 8 (drop 12 buf)
      @ take 4 (drop 20 buf) @ drop 24 buf = drop 2 buf"
    using chunk [of 2 2] chunk [of 4 4] chunk [of 8 4] chunk [of 12 8] chunk [of 20 4] by simp
  moreover have "buf ! 0 # buf ! 1 # drop 2 buf = buf"
    using len by (cases buf rule: remdups_adj.cases) (auto simp: HEADER_SIZE_def)
  ultimately show ?thesis
    using len by (simp add: h rest header_encode_def HEADER_SIZE_def to_be_from_be)
qed

end
