(* ===== verification/Mem_Types.thy ===== *)
theory Mem_Types
  imports Prelude
begin

text \<open>
  The memory vocabulary of \<open>rdows-core/src/memory.rs\<close>: the access-flag bitmask with its
  operations, and the protection-domain, local-key and remote-key wrappers, each a 32-bit
  number.
\<close>

section \<open>Definitions\<close>

datatype access_flags = AccessFlags (af_bits: u32)
datatype protection_domain = ProtectionDomain (pd_val: u32)
datatype lkey = LKey (lkey_val: u32)
datatype rkey = RKey (rkey_val: u32)

definition LOCAL_WRITE :: access_flags where "LOCAL_WRITE = AccessFlags 0x01"
definition REMOTE_WRITE :: access_flags where "REMOTE_WRITE = AccessFlags 0x02"
definition REMOTE_READ :: access_flags where "REMOTE_READ = AccessFlags 0x04"
definition REMOTE_ATOMIC :: access_flags where "REMOTE_ATOMIC = AccessFlags 0x08"

definition af_contains :: "access_flags \<Rightarrow> access_flags \<Rightarrow> bool" where
  "af_contains self flag \<longleftrightarrow> af_bits self AND af_bits flag = af_bits flag"

definition af_is_empty :: "access_flags \<Rightarrow> bool" where
  "af_is_empty self \<longleftrightarrow> af_bits self = 0"

definition af_bitor :: "access_flags \<Rightarrow> access_flags \<Rightarrow> access_flags" where
  "af_bitor self rhs = AccessFlags (af_bits self OR af_bits rhs)"

definition af_bitor_assign :: "access_flags \<Rightarrow> access_flags \<Rightarrow> access_flags" where
  "af_bitor_assign self rhs = AccessFlags (af_bits self OR af_bits rhs)"

section \<open>Lemmas\<close>

lemma af_contains_iff_bits: "af_contains a f \<longleftrightarrow> (\<forall>n. bit (af_bits f) n \<longrightarrow> bit (af_bits a) n)"
proof
  assume "af_contains a f"
  then have "bit (af_bits f) n \<longleftrightarrow> bit (af_bits a AND af_bits f) n" for n
    by (simp add: af_contains_def)
  then show "\<forall>n. bit (af_bits f) n \<longrightarrow> bit (af_bits a) n"
    by (auto simp only: bit_and_iff)
next
  assume "\<forall>n. bit (af_bits f) n \<longrightarrow> bit (af_bits a) n"
  then show "af_contains a f"
    unfolding af_contains_def by (intro bit_word_eqI) (auto simp: bit_and_iff)
qed

lemma af_contains_bitor: "af_contains a (af_bitor f g) \<longleftrightarrow> af_contains a f \<and> af_contains a g"
  by (auto simp: af_contains_iff_bits af_bitor_def bit_or_iff)

lemma af_bitor_contains: "af_contains (af_bitor a b) a" "af_contains (af_bitor a b) b"
  by (auto simp: af_contains_iff_bits af_bitor_def bit_or_iff)

end
