(* ===== verification/Queues.thy ===== *)
theory Queues
  imports Codec Mem_Types
begin

text \<open>
  The queue entries of \<open>rdows-core/src/queue.rs\<close>: scatter/gather entries (16 bytes on the
  wire) and completion queue entries (24 bytes), both fixed codecs.
\<close>

section \<open>Definitions\<close>

record scatter_gather_entry =
  sg_lkey :: lkey
  sg_offset :: u64
  sg_length :: u32

definition SG_ENTRY_SIZE :: usize where
  "SG_ENTRY_SIZE = 16"

definition sg_encode :: "scatter_gather_entry \<Rightarrow> bytes" where
  "sg_encode e = put_u32 (lkey_val (sg_lkey e)) @ put_u64 (sg_offset e) @ put_u32 (sg_length e)"

definition sg_decode :: "bytes \<Rightarrow> (rdows_error, scatter_gather_entry \<times> bytes) result" where
  "sg_decode buf =
     (if length buf < SG_ENTRY_SIZE then Err (PayloadTooShort SG_ENTRY_SIZE (length buf))
      else
        rbind (get_u32 buf) (\<lambda>(lkey, buf).
        rbind (get_u64 buf) (\<lambda>(off, buf).
        rbind (get_u32 buf) (\<lambda>(len, buf).
        Ok (\<lparr>sg_lkey = LKey lkey, sg_offset = off, sg_length = len\<rparr>, buf)))))"

datatype work_request_id = WorkRequestId (wrid_val: u64)

record completion_queue_entry =
  cqe_wrid :: work_request_id
  cqe_status :: u16
  cqe_opcode :: opcode
  cqe_vendor_error :: u8
  cqe_byte_count :: u32
  cqe_qp_number :: u32

definition CQE_SIZE :: usize where
  "CQE_SIZE = 24"

definition cqe_encode :: "completion_queue_entry \<Rightarrow> bytes" where
  "cqe_encode e =
     put_u64 (wrid_val (cqe_wrid e)) @ put_u16 (cqe_status e)
     @ put_u8 (opcode_to_u8 (cqe_opcode e)) @ put_u8 (cqe_vendor_error e)
     @ put_u32 (cqe_byte_count e) @ put_u32 (cqe_qp_number e) @ put_u32 0"

definition cqe_decode :: "bytes \<Rightarrow> (rdows_error, completion_queue_entry \<times> bytes) result" where
  "cqe_decode buf =
     (if length buf < CQE_SIZE then Err (PayloadTooShort CQE_SIZE (length buf))
      else
        rbind (get_u64 buf) (\<lambda>(wrid, buf).
        rbind (get_u16 buf) (\<lambda>(status, buf).
        rbind (get_u8 buf) (\<lambda>(opcode_byte, buf).
        rbind (map_err (\<lambda>_. InvalidOpcode opcode_byte) (opcode_try_from opcode_byte)) (\<lambda>opcode.
        rbind (get_u8 buf) (\<lambda>(vendor_error, buf).
        rbind (get_u32 buf) (\<lambda>(byte_count, buf).
        rbind (get_u32 buf) (\<lambda>(qp_number, buf).
        rbind (get_u32 buf) (\<lambda>(reserved, buf).
        Ok (\<lparr>cqe_wrid = WorkRequestId wrid, cqe_status = status, cqe_opcode = opcode,
             cqe_vendor_error = vendor_error, cqe_byte_count = byte_count,
             cqe_qp_number = qp_number\<rparr>, buf))))))))))"

section \<open>Lemmas\<close>

interpretation sg: fixed_codec sg_encode sg_decode "\<lambda>_. True" SG_ENTRY_SIZE "PayloadTooShort SG_ENTRY_SIZE"
proof unfold_locales
  show "sg_decode (sg_encode e @ rest) = Ok (e, rest)" for e rest
    by (simp add: sg_encode_def sg_decode_def SG_ENTRY_SIZE_def)
  show "length (sg_encode e) = SG_ENTRY_SIZE" for e
    by (simp add: sg_encode_def SG_ENTRY_SIZE_def)
  show "length buf < SG_ENTRY_SIZE \<Longrightarrow> sg_decode buf = Err (PayloadTooShort SG_ENTRY_SIZE (length buf))" for buf
    by (simp add: sg_decode_def)
  show "sg_decode buf \<noteq> Panic \<and> sg_decode buf \<noteq> Blocked" for buf
    by (simp add: sg_decode_def SG_ENTRY_SIZE_def get_be_long)
  show "sg_decode buf = Ok (e, rest) \<Longrightarrow> rest = drop SG_ENTRY_SIZE buf" for buf e rest
    by (simp add: sg_decode_def SG_ENTRY_SIZE_def get_be_long split: if_split_asm)
qed

interpretation cqe: fixed_codec cqe_encode cqe_decode "\<lambda>_. True" CQE_SIZE "PayloadTooShort CQE_SIZE"
proof unfold_locales
  show "cqe_decode (cqe_encode e @ rest) = Ok (e, rest)" for e rest
    by (simp add: cqe_encode_def cqe_decode_def CQE_SIZE_def)
  show "length (cqe_encode e) = CQE_SIZE" for e
    by (simp add: cqe_encode_def CQE_SIZE_def)
  show "length buf < CQE_SIZE \<Longrightarrow> cqe_decode buf = Err (PayloadTooShort CQE_SIZE (length buf))" for buf
    by (simp add: cqe_decode_def)
  show "cqe_decode buf \<noteq> Panic \<and> cqe_decode buf \<noteq> Blocked" for buf
    using opcode_try_from_cases [of "buf ! 10"]
    by (auto simp: cqe_decode_def CQE_SIZE_def get_be_long get_u8_long)
  show "cqe_decode buf = Ok (e, rest) \<Longrightarrow> rest = drop CQE_SIZE buf" for buf e rest
    using opcode_try_from_cases [of "buf ! 10"]
    by (auto simp: cqe_decode_def CQE_SIZE_def get_be_long get_u8_long split: if_split_asm)
qed

end
