(* ===== verification/Payloads.thy ===== *)
theory Payloads
  imports Frame Queues
begin

text \<open>
  The opcode-specific payloads of \<open>rdows-core/src/message.rs\<close>, one record with its encoder
  and decoder per struct, in the order of the source. Every decoder is a codec on the values
  that fit its length fields. The two decoders that subtract a fixed size from the header's
  payload length (WRITE and READ_RESP) panic when that length is smaller; the lemmas say
  exactly when.
\<close>

section \<open>Definitions\<close>

subsection \<open>CONNECT and CONNECT_ACK\<close>

record connect_payload =
  cp_pd :: protection_domain
  cp_capability_flags :: u32
  cp_max_msg_size :: u32
  cp_icc :: u32

definition CONNECT_PAYLOAD_SIZE :: usize where
  "CONNECT_PAYLOAD_SIZE = 16"

definition connect_payload_encode :: "connect_payload \<Rightarrow> bytes" where
  "connect_payload_encode p =
     put_u32 (pd_val (cp_pd p)) @ put_u32 (cp_capability_flags p)
     @ put_u32 (cp_max_msg_size p) @ put_u32 (cp_icc p)"

definition connect_payload_decode :: "bytes \<Rightarrow> (rdows_error, connect_payload \<times> bytes) result" where
  "connect_payload_decode buf =
     (if length buf < CONNECT_PAYLOAD_SIZE
      then Err (PayloadTooShort CONNECT_PAYLOAD_SIZE (length buf))
      else
        rbind (get_u32 buf) (\<lambda>(pd, buf).
        rbind (get_u32 buf) (\<lambda>(capability_flags, buf).
        rbind (get_u32 buf) (\<lambda>(max_msg_size, buf).
        rbind (get_u32 buf) (\<lambda>(icc, buf).
        Ok (\<lparr>cp_pd = ProtectionDomain pd, cp_capability_flags = capability_flags,
             cp_max_msg_size = max_msg_size, cp_icc = icc\<rparr>, buf))))))"

subsection \<open>MR_REG\<close>

record mr_reg_payload =
  mr_pd :: protection_domain
  mr_access_flags :: access_flags
  mr_region_len :: u64
  mr_suggested_lkey :: "lkey option"

definition mr_reg_payload_encode :: "mr_reg_payload \<Rightarrow> bytes" where
  "mr_reg_payload_encode p =
     put_u32 (pd_val (mr_pd p)) @ put_u32 (af_bits (mr_access_flags p))
     @ put_u32 (ucast (drop_bit 32 (mr_region_len p))) @ put_u32 (ucast (mr_region_len p))
     @ (case mr_suggested_lkey p of Some lkey \<Rightarrow> put_u32 (lkey_val lkey) | None \<Rightarrow> [])"

definition mr_reg_payload_decode :: "bytes \<Rightarrow> u32 \<Rightarrow> (rdows_error, mr_reg_payload \<times> bytes) result" where
  "mr_reg_payload_decode buf payload_length =
     (if length buf < 16 then Err (PayloadTooShort 16 (length buf))
      else
        rbind (get_u32 buf) (\<lambda>(pd, buf).
        rbind (get_u32 buf) (\<lambda>(access_flags, buf).
        rbind (get_u32 buf) (\<lambda>(high, buf).
        rbind (get_u32 buf) (\<lambda>(low, buf).
        let region_len = push_bit 32 (ucast high) OR ucast low in
        rbind (if payload_length \<ge> 20 \<and> length buf \<ge> 4
               then rbind (get_u32 buf) (\<lambda>(lkey, buf). Ok (Some (LKey lkey), buf))
               else Ok (None, buf)) (\<lambda>(suggested_lkey, buf).
        Ok (\<lparr>mr_pd = ProtectionDomain pd, mr_access_flags = AccessFlags access_flags,
             mr_region_len = region_len, mr_suggested_lkey = suggested_lkey\<rparr>, buf)))))))"

definition mr_reg_payload_encoded_len :: "mr_reg_payload \<Rightarrow> usize" where
  "mr_reg_payload_encoded_len p = (if mr_suggested_lkey p \<noteq> None then 20 else 16)"

subsection \<open>MR_REG_ACK\<close>

record mr_reg_ack_payload =
  mra_pd :: protection_domain
  mra_lkey :: lkey
  mra_rkey :: rkey
  mra_status :: u16

definition MR_REG_ACK_SIZE :: usize where
  "MR_REG_ACK_SIZE = 16"

definition mr_reg_ack_payload_encode :: "mr_reg_ack_payload \<Rightarrow> bytes" where
  "mr_reg_ack_payload_encode p =
     put_u32 (pd_val (mra_pd p)) @ put_u32 (lkey_val (mra_lkey p))
     @ put_u32 (rkey_val (mra_rkey p)) @ put_u16 (mra_status p) @ put_u16 0"

definition mr_reg_ack_payload_decode :: "bytes \<Rightarrow> (rdows_error, mr_reg_ack_payload \<times> bytes) result" where
  "mr_reg_ack_payload_decode buf =
     (if length buf < MR_REG_ACK_SIZE then Err (PayloadTooShort MR_REG_ACK_SIZE (length buf))
      else
        rbind (get_u32 buf) (\<lambda>(pd, buf).
        rbind (get_u32 buf) (\<lambda>(lkey, buf).
        rbind (get_u32 buf) (\<lambda>(rkey, buf).
        rbind (get_u16 buf) (\<lambda>(status, buf).
        rbind (get_u16 buf) (\<lambda>(reserved, buf).
        Ok (\<lparr>mra_pd = ProtectionDomain pd, mra_lkey = LKey lkey, mra_rkey = RKey rkey,
             mra_status = status\<rparr>, buf)))))))"

subsection \<open>MR_DEREG\<close>

record mr_dereg_payload =
  md_pd :: protection_domain
  md_lkey :: lkey

definition MR_DEREG_SIZE :: usize where
  "MR_DEREG_SIZE = 8"

definition mr_dereg_payload_encode :: "mr_dereg_payload \<Rightarrow> bytes" where
  "mr_dereg_payload_encode p = put_u32 (pd_val (md_pd p)) @ put_u32 (lkey_val (md_lkey p))"

definition mr_dereg_payload_decode :: "bytes \<Rightarrow> (rdows_error, mr_dereg_payload \<times> bytes) result" where
  "mr_dereg_payload_decode buf =
     (if length buf < MR_DEREG_SIZE then Err (PayloadTooShort MR_DEREG_SIZE (length buf))
      else
        rbind (get_u32 buf) (\<lambda>(pd, buf).
        rbind (get_u32 buf) (\<lambda>(lkey, buf).
        Ok (\<lparr>md_pd = ProtectionDomain pd, md_lkey = LKey lkey\<rparr>, buf))))"

subsection \<open>MR_DEREG_ACK\<close>

record mr_dereg_ack_payload =
  mda_status :: u16

definition MR_DEREG_ACK_SIZE :: usize where
  "MR_DEREG_ACK_SIZE = 8"

definition mr_dereg_ack_payload_encode :: "mr_dereg_ack_payload \<Rightarrow> bytes" where
  "mr_dereg_ack_payload_encode p = put_u16 (mda_status p) @ put_bytes 0 6"

definition mr_dereg_ack_payload_decode :: "bytes \<Rightarrow> (rdows_error, mr_dereg_ack_payload \<times> bytes) result" where
  "mr_dereg_ack_payload_decode buf =
     (if length buf < MR_DEREG_ACK_SIZE then Err (PayloadTooShort MR_DEREG_ACK_SIZE (length buf))
      else
        rbind (get_u16 buf) (\<lambda>(status, buf).
        rbind (advance 6 buf) (\<lambda>buf.
        Ok (\<lparr>mda_status = status\<rparr>, buf))))"

subsection \<open>SEND\<close>

record send_payload =
  sp_sg_list :: "scatter_gather_entry list"

definition send_payload_encode :: "send_payload \<Rightarrow> bytes" where
  "send_payload_encode p =
     put_u16 (of_nat (length (sp_sg_list p))) @ put_u16 0 @ concat (map sg_encode (sp_sg_list p))"

definition send_payload_decode :: "bytes \<Rightarrow> (rdows_error, send_payload \<times> bytes) result" where
  "send_payload_decode buf =
     (if length buf < 4 then Err (PayloadTooShort 4 (length buf))
      else
        rbind (get_u16 buf) (\<lambda>(count, buf).
        rbind (get_u16 buf) (\<lambda>(reserved, buf).
        let needed = unat count * SG_ENTRY_SIZE in
        if length buf < needed then Err (PayloadTooShort (4 + needed) (4 + length buf))
        else
          rbind (decode_n sg_decode (unat count) buf) (\<lambda>(sg_list, buf).
          Ok (\<lparr>sp_sg_list = sg_list\<rparr>, buf)))))"

definition send_payload_encoded_len :: "send_payload \<Rightarrow> usize" where
  "send_payload_encoded_len p = 4 + length (sp_sg_list p) * SG_ENTRY_SIZE"

subsection \<open>WRITE\<close>

record write_payload =
  wp_rkey :: rkey
  wp_remote_va :: u64
  wp_length :: u64
  wp_sg_list :: "scatter_gather_entry list"

definition WRITE_HEADER_SIZE :: usize where
  "WRITE_HEADER_SIZE = 24"

definition write_payload_encode :: "write_payload \<Rightarrow> bytes" where
  "write_payload_encode p =
     put_u32 (rkey_val (wp_rkey p)) @ put_u32 0 @ put_u64 (wp_remote_va p)
     @ put_u64 (wp_length p) @ concat (map sg_encode (wp_sg_list p))"

definition write_payload_decode :: "bytes \<Rightarrow> u32 \<Rightarrow> (rdows_error, write_payload \<times> bytes) result" where
  "write_payload_decode buf payload_length =
     (if length buf < WRITE_HEADER_SIZE then Err (PayloadTooShort WRITE_HEADER_SIZE (length buf))
      else
        rbind (get_u32 buf) (\<lambda>(rkey, buf).
        rbind (get_u32 buf) (\<lambda>(reserved, buf).
        rbind (get_u64 buf) (\<lambda>(remote_va, buf).
        rbind (get_u64 buf) (\<lambda>(len, buf).
        rbind (usize_sub (unat payload_length) WRITE_HEADER_SIZE) (\<lambda>sg_bytes.
        let count = sg_bytes div SG_ENTRY_SIZE in
        rbind (decode_n sg_decode count buf) (\<lambda>(sg_list, buf).
        Ok (\<lparr>wp_rkey = RKey rkey, wp_remote_va = remote_va, wp_length = len,
             wp_sg_list = sg_list\<rparr>, buf))))))))"

definition write_payload_encoded_len :: "write_payload \<Rightarrow> usize" where
  "write_payload_encoded_len p = WRITE_HEADER_SIZE + length (wp_sg_list p) * SG_ENTRY_SIZE"

subsection \<open>READ_REQ\<close>

record read_req_payload =
  rq_rkey :: rkey
  rq_remote_va :: u64
  rq_read_len :: u64
  rq_local_lkey :: lkey
  rq_local_va :: u64

definition READ_REQ_SIZE :: usize where
  "READ_REQ_SIZE = 40"

definition read_req_payload_encode :: "read_req_payload \<Rightarrow> bytes" where
  "read_req_payload_encode p =
     put_u32 (rkey_val (rq_rkey p)) @ put_u32 0 @ put_u64 (rq_remote_va p)
     @ put_u64 (rq_read_len p) @ put_u32 (lkey_val (rq_local_lkey p)) @ put_u32 0
     @ put_u64 (rq_local_va p)"

definition read_req_payload_decode :: "bytes \<Rightarrow> (rdows_error, read_req_payload \<times> bytes) result" where
  "read_req_payload_decode buf =
     (if length buf < READ_REQ_SIZE then Err (PayloadTooShort READ_REQ_SIZE (length buf))
      else
        rbind (get_u32 buf) (\<lambda>(rkey, buf).
        rbind (get_u32 buf) (\<lambda>(reserved, buf).
        rbind (get_u64 buf) (\<lambda>(remote_va, buf).
        rbind (get_u64 buf) (\<lambda>(read_len, buf).
        rbind (get_u32 buf) (\<lambda>(local_lkey, buf).
        rbind (get_u32 buf) (\<lambda>(reserved2, buf).
        rbind (get_u64 buf) (\<lambda>(local_va, buf).
        Ok (\<lparr>rq_rkey = RKey rkey, rq_remote_va = remote_va, rq_read_len = read_len,
             rq_local_lkey = LKey local_lkey, rq_local_va = local_va\<rparr>, buf)))))))))"

subsection \<open>READ_RESP\<close>

record read_resp_payload =
  rr_fragment_offset :: u64
  rr_data :: bytes

definition read_resp_payload_encode :: "read_resp_payload \<Rightarrow> bytes" where
  "read_resp_payload_encode p = put_u64 (rr_fragment_offset p) @ rr_data p"

definition read_resp_payload_decode :: "bytes \<Rightarrow> u32 \<Rightarrow> (rdows_error, read_resp_payload \<times> bytes) result" where
  "read_resp_payload_decode buf payload_length =
     (if length buf < 8 then Err (PayloadTooShort 8 (length buf))
      else
        rbind (get_u64 buf) (\<lambda>(fragment_offset, buf).
        rbind (usize_sub (unat payload_length) 8) (\<lambda>data_len.
        if length buf < data_len
        then Err (PayloadTooShort (unat payload_length) (8 + length buf))
        else
          rbind (copy_to_bytes data_len buf) (\<lambda>(data, buf).
          Ok (\<lparr>rr_fragment_offset = fragment_offset, rr_data = data\<rparr>, buf)))))"

definition read_resp_payload_encoded_len :: "read_resp_payload \<Rightarrow> usize" where
  "read_resp_payload_encoded_len p = 8 + length (rr_data p)"

subsection \<open>ERROR\<close>

record error_payload =
  ep_error_code :: error_code
  ep_failing_seq :: u32
  ep_description :: rstring

definition ERROR_FIXED_SIZE :: usize where
  "ERROR_FIXED_SIZE = 10"

definition error_payload_encode :: "error_payload \<Rightarrow> bytes" where
  "error_payload_encode p =
     put_u16 (error_code_to_u16 (ep_error_code p)) @ put_u16 0 @ put_u32 (ep_failing_seq p)
     @ put_u16 (of_nat (length (ep_description p))) @ ep_description p"

definition error_payload_decode :: "bytes \<Rightarrow> (rdows_error, error_payload \<times> bytes) result" where
  "error_payload_decode buf =
     (if length buf < ERROR_FIXED_SIZE then Err (PayloadTooShort ERROR_FIXED_SIZE (length buf))
      else
        rbind (get_u16 buf) (\<lambda>(code_val, buf).
        let error_code = unwrap_or ErrInternal (error_code_try_from code_val) in
        rbind (get_u16 buf) (\<lambda>(reserved, buf).
        rbind (get_u32 buf) (\<lambda>(failing_seq, buf).
        rbind (get_u16 buf) (\<lambda>(desc_len, buf).
        rbind (if unat desc_len > 0 \<and> length buf \<ge> unat desc_len
               then rbind (copy_to_bytes (unat desc_len) buf) (\<lambda>(desc_bytes, buf).
                 Ok (from_utf8_lossy desc_bytes, buf))
               else Ok ([], buf)) (\<lambda>(description, buf).
        Ok (\<lparr>ep_error_code = error_code, ep_failing_seq = failing_seq,
             ep_description = description\<rparr>, buf)))))))"

definition error_payload_encoded_len :: "error_payload \<Rightarrow> usize" where
  "error_payload_encoded_len p = ERROR_FIXED_SIZE + length (ep_description p)"

subsection \<open>CREDIT_UPDATE\<close>

record credit_update_payload =
  cu_credit_increment :: u32

definition CREDIT_UPDATE_SIZE :: usize where
  "CREDIT_UPDATE_SIZE = 8"

definition credit_update_payload_encode :: "credit_update_payload \<Rightarrow> bytes" where
  "credit_update_payload_encode p = put_u32 (cu_credit_increment p) @ put_u32 0"

definition credit_update_payload_decode :: "bytes \<Rightarrow> (rdows_error, credit_update_payload \<times> bytes) result" where
  "credit_update_payload_decode buf =
     (if length buf < CREDIT_UPDATE_SIZE then Err (PayloadTooShort CREDIT_UPDATE_SIZE (length buf))
      else
        rbind (get_u32 buf) (\<lambda>(credit_increment, buf).
        rbind (get_u32 buf) (\<lambda>(reserved, buf).
        Ok (\<lparr>cu_credit_increment = credit_increment\<rparr>, buf))))"

subsection \<open>ATOMIC_REQ\<close>

record atomic_req_payload =
  aq_rkey :: rkey
  aq_atomic_type :: u8
  aq_remote_va :: u64
  aq_operand1 :: u64
  aq_operand2 :: u64

definition ATOMIC_TYPE_CAS :: u8 where "ATOMIC_TYPE_CAS = 0x01"
definition ATOMIC_TYPE_FAA :: u8 where "ATOMIC_TYPE_FAA = 0x02"

definition ATOMIC_REQ_SIZE :: usize where
  "ATOMIC_REQ_SIZE = 32"

definition atomic_req_payload_encode :: "atomic_req_payload \<Rightarrow> bytes" where
  "atomic_req_payload_encode p =
     put_u32 (rkey_val (aq_rkey p)) @ put_u8 (aq_atomic_type p) @ put_bytes 0 3
     @ put_u64 (aq_remote_va p) @ put_u64 (aq_operand1 p) @ put_u64 (aq_operand2 p)"

definition atomic_req_payload_decode :: "bytes \<Rightarrow> (rdows_error, atomic_req_payload \<times> bytes) result" where
  "atomic_req_payload_decode buf =
     (if length buf < ATOMIC_REQ_SIZE then Err (PayloadTooShort ATOMIC_REQ_SIZE (length buf))
      else
        rbind (get_u32 buf) (\<lambda>(rkey, buf).
        rbind (get_u8 buf) (\<lambda>(atomic_type, buf).
        rbind (advance 3 buf) (\<lambda>buf.
        rbind (get_u64 buf) (\<lambda>(remote_va, buf).
        rbind (get_u64 buf) (\<lambda>(operand1, buf).
        rbind (get_u64 buf) (\<lambda>(operand2, buf).
        Ok (\<lparr>aq_rkey = RKey rkey, aq_atomic_type = atomic_type, aq_remote_va = remote_va,
             aq_operand1 = operand1, aq_operand2 = operand2\<rparr>, buf))))))))"

subsection \<open>ATOMIC_RESP\<close>

record atomic_resp_payload =
  ar_original_value :: u64
  ar_status :: u16

definition ATOMIC_RESP_SIZE :: usize where
  "ATOMIC_RESP_SIZE = 16"

definition atomic_resp_payload_encode :: "atomic_resp_payload \<Rightarrow> bytes" where
  "atomic_resp_payload_encode p =
     put_u64 (ar_original_value p) @ put_u16 (ar_status p) @ put_bytes 0 6"

definition atomic_resp_payload_decode :: "bytes \<Rightarrow> (rdows_error, atomic_resp_payload \<times> bytes) result" where
  "atomic_resp_payload_decode buf =
     (if length buf < ATOMIC_RESP_SIZE then Err (PayloadTooShort ATOMIC_RESP_SIZE (length buf))
      else
        rbind (get_u64 buf) (\<lambda>(original_value, buf).
        rbind (get_u16 buf) (\<lambda>(status, buf).
        rbind (advance 6 buf) (\<lambda>buf.
        Ok (\<lparr>ar_original_value = original_value, ar_status = status\<rparr>, buf)))))"

subsection \<open>SEND_DATA and WRITE_DATA\<close>

record data_payload =
  dp_data :: bytes

definition data_payload_encode :: "data_payload \<Rightarrow> bytes" where
  "data_payload_encode p = dp_data p"

definition data_payload_decode :: "bytes \<Rightarrow> u32 \<Rightarrow> (rdows_error, data_payload \<times> bytes) result" where
  "data_payload_decode buf payload_length =
     (let len = unat payload_length in
      if length buf < len then Err (PayloadTooShort len (length buf))
      else rbind (copy_to_bytes len buf) (\<lambda>(data, buf). Ok (\<lparr>dp_data = data\<rparr>, buf)))"

section \<open>Fixed-width payloads\<close>

lemmas get_long = get_be_long get_u8_long advance_long

interpretation connect: fixed_codec connect_payload_encode connect_payload_decode
  "\<lambda>_. True" CONNECT_PAYLOAD_SIZE "PayloadTooShort CONNECT_PAYLOAD_SIZE"
  by unfold_locales
    (simp_all add: connect_payload_encode_def connect_payload_decode_def CONNECT_PAYLOAD_SIZE_def get_long put_bytes_def
      split: if_split_asm)

interpretation mr_reg_ack: fixed_codec mr_reg_ack_payload_encode mr_reg_ack_payload_decode
  "\<lambda>_. True" MR_REG_ACK_SIZE "PayloadTooShort MR_REG_ACK_SIZE"
  by unfold_locales
    (simp_all add: mr_reg_ack_payload_encode_def mr_reg_ack_payload_decode_def MR_REG_ACK_SIZE_def get_long put_bytes_def
      split: if_split_asm)

interpretation mr_dereg: fixed_codec mr_dereg_payload_encode mr_dereg_payload_decode
  "\<lambda>_. True" MR_DEREG_SIZE "PayloadTooShort MR_DEREG_SIZE"
  by unfold_locales
    (simp_all add: mr_dereg_payload_encode_def mr_dereg_payload_decode_def MR_DEREG_SIZE_def get_long put_bytes_def
      split: if_split_asm)

interpretation mr_dereg_ack: fixed_codec mr_dereg_ack_payload_encode mr_dereg_ack_payload_decode
  "\<lambda>_. True" MR_DEREG_ACK_SIZE "PayloadTooShort MR_DEREG_ACK_SIZE"
  by unfold_locales
    (simp_all add: mr_dereg_ack_payload_encode_def mr_dereg_ack_payload_decode_def MR_DEREG_ACK_SIZE_def get_long put_bytes_def
      split: if_split_asm)

interpretation read_req: fixed_codec read_req_payload_encode read_req_payload_decode
  "\<lambda>_. True" READ_REQ_SIZE "PayloadTooShort READ_REQ_SIZE"
  by unfold_locales
    (simp_all add: read_req_payload_encode_def read_req_payload_decode_def READ_REQ_SIZE_def get_long put_bytes_def
      split: if_split_asm)

interpretation credit_update: fixed_codec credit_update_payload_encode credit_update_payload_decode
  "\<lambda>_. True" CREDIT_UPDATE_SIZE "PayloadTooShort CREDIT_UPDATE_SIZE"
  by unfold_locales
    (simp_all add: credit_update_payload_encode_def credit_update_payload_decode_def CREDIT_UPDATE_SIZE_def get_long put_bytes_def
      split: if_split_asm)

interpretation atomic_req: fixed_codec atomic_req_payload_encode atomic_req_payload_decode
  "\<lambda>_. True" ATOMIC_REQ_SIZE "PayloadTooShort ATOMIC_REQ_SIZE"
  by unfold_locales
    (simp_all add: atomic_req_payload_encode_def atomic_req_payload_decode_def ATOMIC_REQ_SIZE_def get_long put_bytes_def
      split: if_split_asm)

interpretation atomic_resp: fixed_codec atomic_resp_payload_encode atomic_resp_payload_decode
  "\<lambda>_. True" ATOMIC_RESP_SIZE "PayloadTooShort ATOMIC_RESP_SIZE"
  by unfold_locales
    (simp_all add: atomic_resp_payload_encode_def atomic_resp_payload_decode_def ATOMIC_RESP_SIZE_def get_long put_bytes_def
      split: if_split_asm)

section \<open>Variable-width payloads\<close>

abbreviation send_payload_wf :: "send_payload \<Rightarrow> bool" where
  "send_payload_wf p \<equiv> length (sp_sg_list p) < 65536"

abbreviation write_payload_wf :: "write_payload \<Rightarrow> bool" where
  "write_payload_wf p \<equiv> write_payload_encoded_len p < 4294967296"

abbreviation read_resp_payload_wf :: "read_resp_payload \<Rightarrow> bool" where
  "read_resp_payload_wf p \<equiv> read_resp_payload_encoded_len p < 4294967296"

abbreviation data_payload_wf :: "data_payload \<Rightarrow> bool" where
  "data_payload_wf p \<equiv> length (dp_data p) < 4294967296"

abbreviation error_payload_wf :: "error_payload \<Rightarrow> bool" where
  "error_payload_wf p \<equiv> is_utf8 (ep_description p) \<and> length (ep_description p) < 65536"

lemma u64_halves: "push_bit 32 (ucast (ucast (drop_bit 32 w) :: u32)) OR ucast (ucast w :: u32) = (w :: u64)"
  by (rule bit_word_eqI) (auto simp: bit_simps)

lemma length_mr_reg_payload_encode [wire]:
  "length (mr_reg_payload_encode p) = mr_reg_payload_encoded_len p"
  by (simp add: mr_reg_payload_encode_def mr_reg_payload_encoded_len_def split: option.split)

lemma length_send_payload_encode [wire]:
  "length (send_payload_encode p) = send_payload_encoded_len p"
  by (simp add: send_payload_encode_def send_payload_encoded_len_def sg.length_concat_enc)

lemma length_write_payload_encode [wire]:
  "length (write_payload_encode p) = write_payload_encoded_len p"
  by (simp add: write_payload_encode_def write_payload_encoded_len_def WRITE_HEADER_SIZE_def
      sg.length_concat_enc)

lemma length_read_resp_payload_encode [wire]:
  "length (read_resp_payload_encode p) = read_resp_payload_encoded_len p"
  by (simp add: read_resp_payload_encode_def read_resp_payload_encoded_len_def)

lemma length_error_payload_encode [wire]:
  "length (error_payload_encode p) = error_payload_encoded_len p"
  by (simp add: error_payload_encode_def error_payload_encoded_len_def ERROR_FIXED_SIZE_def)

interpretation mr_reg: framed_codec mr_reg_payload_encode mr_reg_payload_decode "\<lambda>_. True"
proof unfold_locales
  fix p rest
  show "mr_reg_payload_decode (mr_reg_payload_encode p @ rest)
      (of_nat (length (mr_reg_payload_encode p))) = Ok (p, rest)"
    by (simp only: length_mr_reg_payload_encode)
      (simp add: mr_reg_payload_encode_def mr_reg_payload_decode_def
        mr_reg_payload_encoded_len_def u64_halves split: option.split)
qed

interpretation send: codec send_payload_encode send_payload_decode send_payload_wf
proof unfold_locales
  fix p rest assume "send_payload_wf p"
  then show "send_payload_decode (send_payload_encode p @ rest) = Ok (p, rest)"
    by (simp add: send_payload_encode_def send_payload_decode_def unat_of_nat_u16
        sg.length_concat_enc sg.decode_n_enc)
qed

interpretation write_req: framed_codec write_payload_encode write_payload_decode write_payload_wf
proof unfold_locales
  fix p rest assume wf: "write_payload_wf p"
  then have "unat (of_nat (write_payload_encoded_len p) :: u32) = write_payload_encoded_len p"
    by (rule unat_of_nat_u32)
  then show "write_payload_decode (write_payload_encode p @ rest)
      (of_nat (length (write_payload_encode p))) = Ok (p, rest)"
    by (simp only: length_write_payload_encode)
      (simp add: write_payload_encode_def write_payload_decode_def usize_sub_def
        write_payload_encoded_len_def WRITE_HEADER_SIZE_def SG_ENTRY_SIZE_def sg.decode_n_enc)
qed

interpretation read_resp: framed_codec read_resp_payload_encode read_resp_payload_decode
  read_resp_payload_wf
proof unfold_locales
  fix p rest assume "read_resp_payload_wf p"
  then have "unat (of_nat (read_resp_payload_encoded_len p) :: u32) = read_resp_payload_encoded_len p"
    by (rule unat_of_nat_u32)
  then show "read_resp_payload_decode (read_resp_payload_encode p @ rest)
      (of_nat (length (read_resp_payload_encode p))) = Ok (p, rest)"
    by (simp only: length_read_resp_payload_encode)
      (simp add: read_resp_payload_encode_def read_resp_payload_decode_def usize_sub_def
        read_resp_payload_encoded_len_def)
qed

interpretation error: codec error_payload_encode error_payload_decode error_payload_wf
proof unfold_locales
  fix p rest assume "error_payload_wf p"
  then show "error_payload_decode (error_payload_encode p @ rest) = Ok (p, rest)"
    by (simp add: error_payload_encode_def error_payload_decode_def ERROR_FIXED_SIZE_def
        unat_of_nat_u16 from_utf8_lossy_id)
qed

interpretation data: framed_codec data_payload_encode data_payload_decode data_payload_wf
  by unfold_locales (simp add: data_payload_encode_def data_payload_decode_def unat_of_nat_u32)

section \<open>When a payload decoder panics\<close>

lemma mr_reg_payload_decode_not_stuck:
  "mr_reg_payload_decode buf pl \<noteq> Panic" "mr_reg_payload_decode buf pl \<noteq> Blocked"
  by (simp_all add: mr_reg_payload_decode_def get_long Let_def)

lemma send_payload_decode_not_stuck:
  "send_payload_decode buf \<noteq> Panic" "send_payload_decode buf \<noteq> Blocked"
  using sg.decode_n_not_stuck
  by (auto simp: send_payload_decode_def get_long Let_def rbind_iffs)

lemma write_payload_decode_panic_iff:
  "write_payload_decode buf pl = Panic \<longleftrightarrow>
   WRITE_HEADER_SIZE \<le> length buf \<and> unat pl < WRITE_HEADER_SIZE"
  using sg.decode_n_not_stuck
  by (auto simp: write_payload_decode_def get_long Let_def rbind_Panic_iff usize_sub_def
      WRITE_HEADER_SIZE_def split: if_splits)

lemma read_resp_payload_decode_panic_iff:
  "read_resp_payload_decode buf pl = Panic \<longleftrightarrow> 8 \<le> length buf \<and> unat pl < 8"
  by (auto simp: read_resp_payload_decode_def get_long rbind_Panic_iff usize_sub_def
      copy_to_bytes_def)

lemma error_payload_decode_not_stuck:
  "error_payload_decode buf \<noteq> Panic" "error_payload_decode buf \<noteq> Blocked"
  by (simp_all add: error_payload_decode_def ERROR_FIXED_SIZE_def get_long Let_def copy_to_bytes_def)

lemma data_payload_decode_not_stuck:
  "data_payload_decode buf pl \<noteq> Panic" "data_payload_decode buf pl \<noteq> Blocked"
  by (simp_all add: data_payload_decode_def Let_def copy_to_bytes_def)

text \<open>A decoded description is a valid string whatever bytes arrived.\<close>

lemma error_payload_decode_utf8:
  "error_payload_decode buf = Ok (p, rest) \<Longrightarrow> is_utf8 (ep_description p)"
  by (auto simp: error_payload_decode_def rbind_Ok_iff Let_def is_utf8_from_utf8_lossy
      split: if_split_asm)

lemma write_payload_decode_not_blocked: "write_payload_decode buf pl \<noteq> Blocked"
  using sg.decode_n_not_stuck
  by (auto simp: write_payload_decode_def get_long Let_def rbind_Blocked_iff usize_sub_def
      WRITE_HEADER_SIZE_def)

lemma read_resp_payload_decode_not_blocked: "read_resp_payload_decode buf pl \<noteq> Blocked"
  by (auto simp: read_resp_payload_decode_def get_long rbind_Blocked_iff usize_sub_def
      copy_to_bytes_def)

text \<open>What the decoders return always fits the length fields it would be encoded with.\<close>

lemma send_payload_decode_wf: "send_payload_decode buf = Ok (p, rest) \<Longrightarrow> send_payload_wf p"
  using unat_less_u16
  by (auto simp: send_payload_decode_def rbind_Ok_iff Let_def dest!: sg.decode_n_Ok
      split: if_split_asm)

lemma write_payload_decode_wf: "write_payload_decode buf pl = Ok (p, rest) \<Longrightarrow> write_payload_wf p"
  using unat_less_u32 [of pl]
  by (auto simp: write_payload_decode_def rbind_Ok_iff Let_def usize_sub_def
      write_payload_encoded_len_def WRITE_HEADER_SIZE_def SG_ENTRY_SIZE_def dest!: sg.decode_n_Ok split: if_split_asm)

lemma read_resp_payload_decode_wf:
  "read_resp_payload_decode buf pl = Ok (p, rest) \<Longrightarrow> read_resp_payload_wf p"
  using unat_less_u32 [of pl]
  by (auto simp: read_resp_payload_decode_def rbind_Ok_iff usize_sub_def copy_to_bytes_def
      read_resp_payload_encoded_len_def split: if_split_asm)

lemma data_payload_decode_wf: "data_payload_decode buf pl = Ok (p, rest) \<Longrightarrow> data_payload_wf p"
  using unat_less_u32 [of pl]
  by (auto simp: data_payload_decode_def rbind_Ok_iff copy_to_bytes_def Let_def
      split: if_split_asm)

end
