(* ===== verification/Messages.thy ===== *)
theory Messages
  imports Payloads
begin

text \<open>
  The unified message type of \<open>rdows-core/src/message.rs\<close> with \<open>header\<close>, \<open>encode\<close> and
  \<open>decode\<close>. The round trip holds for every message whose header carries the protocol
  version and the opcode of its variant and whose payload fits the length fields; it also
  holds when further bytes follow the frame. Decoding can panic in exactly two situations,
  both of which a peer can bring about. Constructors keep the names of the source, so an
  opcode is written \<open>opcode.Write\<close> where the message constructor \<open>Write\<close> is in scope.
\<close>

section \<open>Definitions\<close>

datatype rdows_message =
    Connect rdows_header connect_payload
  | ConnectAck rdows_header connect_payload
  | Disconnect rdows_header
  | MrReg rdows_header mr_reg_payload
  | MrRegAck rdows_header mr_reg_ack_payload
  | MrDereg rdows_header mr_dereg_payload
  | MrDeregAck rdows_header mr_dereg_ack_payload
  | Send rdows_header send_payload
  | SendData rdows_header data_payload
  | RecvComp rdows_header
  | Write rdows_header write_payload
  | WriteData rdows_header data_payload
  | WriteComp rdows_header
  | ReadReq rdows_header read_req_payload
  | ReadResp rdows_header read_resp_payload
  | AtomicReq rdows_header atomic_req_payload
  | AtomicResp rdows_header atomic_resp_payload
  | Ack rdows_header
  | CreditUpdate rdows_header credit_update_payload
  | Error rdows_header error_payload

primrec message_header :: "rdows_message \<Rightarrow> rdows_header" where
  "message_header (Connect h p) = h"
| "message_header (ConnectAck h p) = h"
| "message_header (Disconnect h) = h"
| "message_header (MrReg h p) = h"
| "message_header (MrRegAck h p) = h"
| "message_header (MrDereg h p) = h"
| "message_header (MrDeregAck h p) = h"
| "message_header (Send h p) = h"
| "message_header (SendData h p) = h"
| "message_header (RecvComp h) = h"
| "message_header (Write h p) = h"
| "message_header (WriteData h p) = h"
| "message_header (WriteComp h) = h"
| "message_header (ReadReq h p) = h"
| "message_header (ReadResp h p) = h"
| "message_header (AtomicReq h p) = h"
| "message_header (AtomicResp h p) = h"
| "message_header (Ack h) = h"
| "message_header (CreditUpdate h p) = h"
| "message_header (Error h p) = h"

text \<open>The match of \<open>encode\<close> that fills the payload buffer.\<close>

primrec message_payload_encode :: "rdows_message \<Rightarrow> bytes" where
  "message_payload_encode (Connect h p) = connect_payload_encode p"
| "message_payload_encode (ConnectAck h p) = connect_payload_encode p"
| "message_payload_encode (Disconnect h) = []"
| "message_payload_encode (RecvComp h) = []"
| "message_payload_encode (WriteComp h) = []"
| "message_payload_encode (Ack h) = []"
| "message_payload_encode (MrReg h p) = mr_reg_payload_encode p"
| "message_payload_encode (MrRegAck h p) = mr_reg_ack_payload_encode p"
| "message_payload_encode (MrDereg h p) = mr_dereg_payload_encode p"
| "message_payload_encode (MrDeregAck h p) = mr_dereg_ack_payload_encode p"
| "message_payload_encode (Send h p) = send_payload_encode p"
| "message_payload_encode (SendData h p) = data_payload_encode p"
| "message_payload_encode (WriteData h p) = data_payload_encode p"
| "message_payload_encode (Write h p) = write_payload_encode p"
| "message_payload_encode (ReadReq h p) = read_req_payload_encode p"
| "message_payload_encode (ReadResp h p) = read_resp_payload_encode p"
| "message_payload_encode (AtomicReq h p) = atomic_req_payload_encode p"
| "message_payload_encode (AtomicResp h p) = atomic_resp_payload_encode p"
| "message_payload_encode (CreditUpdate h p) = credit_update_payload_encode p"
| "message_payload_encode (Error h p) = error_payload_encode p"

definition message_encode :: "rdows_message \<Rightarrow> bytes" where
  "message_encode m =
     (let payload_buf = message_payload_encode m;
          header = (message_header m)\<lparr>h_payload_length := of_nat (length payload_buf)\<rparr>
      in header_encode header @ payload_buf)"

definition message_decode :: "bytes \<Rightarrow> (rdows_error, rdows_message) result" where
  "message_decode data =
     rbind (header_decode data) (\<lambda>(header, buf).
     let pl = h_payload_length header in
     (case h_opcode header of
        opcode.Connect \<Rightarrow>
          rbind (connect_payload_decode buf) (\<lambda>(p, buf). Ok (Connect header p))
      | opcode.ConnectAck \<Rightarrow>
          rbind (connect_payload_decode buf) (\<lambda>(p, buf). Ok (ConnectAck header p))
      | opcode.Disconnect \<Rightarrow> Ok (Disconnect header)
      | opcode.MrReg \<Rightarrow>
          rbind (mr_reg_payload_decode buf pl) (\<lambda>(p, buf). Ok (MrReg header p))
      | opcode.MrRegAck \<Rightarrow>
          rbind (mr_reg_ack_payload_decode buf) (\<lambda>(p, buf). Ok (MrRegAck header p))
      | opcode.MrDereg \<Rightarrow>
          rbind (mr_dereg_payload_decode buf) (\<lambda>(p, buf). Ok (MrDereg header p))
      | opcode.MrDeregAck \<Rightarrow>
          rbind (mr_dereg_ack_payload_decode buf) (\<lambda>(p, buf). Ok (MrDeregAck header p))
      | opcode.Send \<Rightarrow>
          rbind (send_payload_decode buf) (\<lambda>(p, buf). Ok (Send header p))
      | opcode.SendData \<Rightarrow>
          rbind (data_payload_decode buf pl) (\<lambda>(p, buf). Ok (SendData header p))
      | opcode.RecvComp \<Rightarrow> Ok (RecvComp header)
      | opcode.Write \<Rightarrow>
          rbind (write_payload_decode buf pl) (\<lambda>(p, buf). Ok (Write header p))
      | opcode.WriteData \<Rightarrow>
          rbind (data_payload_decode buf pl) (\<lambda>(p, buf). Ok (WriteData header p))
      | opcode.WriteComp \<Rightarrow> Ok (WriteComp header)
      | opcode.ReadReq \<Rightarrow>
          rbind (read_req_payload_decode buf) (\<lambda>(p, buf). Ok (ReadReq header p))
      | opcode.ReadResp \<Rightarrow>
          rbind (read_resp_payload_decode buf pl) (\<lambda>(p, buf). Ok (ReadResp header p))
      | opcode.AtomicReq \<Rightarrow>
          rbind (atomic_req_payload_decode buf) (\<lambda>(p, buf). Ok (AtomicReq header p))
      | opcode.AtomicResp \<Rightarrow>
          rbind (atomic_resp_payload_decode buf) (\<lambda>(p, buf). Ok (AtomicResp header p))
      | opcode.Ack \<Rightarrow> Ok (Ack header)
      | opcode.CreditUpdate \<Rightarrow>
          rbind (credit_update_payload_decode buf) (\<lambda>(p, buf). Ok (CreditUpdate header p))
      | opcode.Error \<Rightarrow>
          rbind (error_payload_decode buf) (\<lambda>(p, buf). Ok (Error header p))))"

section \<open>Specification vocabulary\<close>

text \<open>The opcode a variant stands for, and the same message under another header.\<close>

primrec message_opcode :: "rdows_message \<Rightarrow> opcode" where
  "message_opcode (Connect h p) = opcode.Connect"
| "message_opcode (ConnectAck h p) = opcode.ConnectAck"
| "message_opcode (Disconnect h) = opcode.Disconnect"
| "message_opcode (MrReg h p) = opcode.MrReg"
| "message_opcode (MrRegAck h p) = opcode.MrRegAck"
| "message_opcode (MrDereg h p) = opcode.MrDereg"
| "message_opcode (MrDeregAck h p) = opcode.MrDeregAck"
| "message_opcode (Send h p) = opcode.Send"
| "message_opcode (SendData h p) = opcode.SendData"
| "message_opcode (RecvComp h) = opcode.RecvComp"
| "message_opcode (Write h p) = opcode.Write"
| "message_opcode (WriteData h p) = opcode.WriteData"
| "message_opcode (WriteComp h) = opcode.WriteComp"
| "message_opcode (ReadReq h p) = opcode.ReadReq"
| "message_opcode (ReadResp h p) = opcode.ReadResp"
| "message_opcode (AtomicReq h p) = opcode.AtomicReq"
| "message_opcode (AtomicResp h p) = opcode.AtomicResp"
| "message_opcode (Ack h) = opcode.Ack"
| "message_opcode (CreditUpdate h p) = opcode.CreditUpdate"
| "message_opcode (Error h p) = opcode.Error"

primrec with_header :: "rdows_message \<Rightarrow> rdows_header \<Rightarrow> rdows_message" where
  "with_header (Connect h p) g = Connect g p"
| "with_header (ConnectAck h p) g = ConnectAck g p"
| "with_header (Disconnect h) g = Disconnect g"
| "with_header (MrReg h p) g = MrReg g p"
| "with_header (MrRegAck h p) g = MrRegAck g p"
| "with_header (MrDereg h p) g = MrDereg g p"
| "with_header (MrDeregAck h p) g = MrDeregAck g p"
| "with_header (Send h p) g = Send g p"
| "with_header (SendData h p) g = SendData g p"
| "with_header (RecvComp h) g = RecvComp g"
| "with_header (Write h p) g = Write g p"
| "with_header (WriteData h p) g = WriteData g p"
| "with_header (WriteComp h) g = WriteComp g"
| "with_header (ReadReq h p) g = ReadReq g p"
| "with_header (ReadResp h p) g = ReadResp g p"
| "with_header (AtomicReq h p) g = AtomicReq g p"
| "with_header (AtomicResp h p) g = AtomicResp g p"
| "with_header (Ack h) g = Ack g"
| "with_header (CreditUpdate h p) g = CreditUpdate g p"
| "with_header (Error h p) g = Error g p"

text \<open>What \<open>encode\<close> puts on the wire: the message with its payload length filled in.\<close>

definition on_wire :: "rdows_message \<Rightarrow> rdows_message" where
  "on_wire m = with_header m
     ((message_header m)\<lparr>h_payload_length := of_nat (length (message_payload_encode m))\<rparr>)"

primrec payload_wf :: "rdows_message \<Rightarrow> bool" where
  "payload_wf (Connect h p) = True"
| "payload_wf (ConnectAck h p) = True"
| "payload_wf (Disconnect h) = True"
| "payload_wf (MrReg h p) = True"
| "payload_wf (MrRegAck h p) = True"
| "payload_wf (MrDereg h p) = True"
| "payload_wf (MrDeregAck h p) = True"
| "payload_wf (Send h p) = send_payload_wf p"
| "payload_wf (SendData h p) = data_payload_wf p"
| "payload_wf (RecvComp h) = True"
| "payload_wf (Write h p) = write_payload_wf p"
| "payload_wf (WriteData h p) = data_payload_wf p"
| "payload_wf (WriteComp h) = True"
| "payload_wf (ReadReq h p) = True"
| "payload_wf (ReadResp h p) = read_resp_payload_wf p"
| "payload_wf (AtomicReq h p) = True"
| "payload_wf (AtomicResp h p) = True"
| "payload_wf (Ack h) = True"
| "payload_wf (CreditUpdate h p) = True"
| "payload_wf (Error h p) = error_payload_wf p"

definition message_wf :: "rdows_message \<Rightarrow> bool" where
  "message_wf m \<longleftrightarrow>
     header_wf (message_header m) \<and> h_opcode (message_header m) = message_opcode m \<and> payload_wf m"

section \<open>Lemmas\<close>

lemma message_header_with_header [simp]: "message_header (with_header m g) = g"
  by (cases m) simp_all

lemma message_opcode_with_header [simp]: "message_opcode (with_header m g) = message_opcode m"
  by (cases m) simp_all

lemma payload_encode_with_header [simp]:
  "message_payload_encode (with_header m g) = message_payload_encode m"
  by (cases m) simp_all

lemma payload_wf_with_header [simp]: "payload_wf (with_header m g) = payload_wf m"
  by (cases m) simp_all

lemma with_header_twice [simp]: "with_header (with_header m g) h = with_header m h"
  by (cases m) simp_all

lemma with_header_same [simp]: "with_header m (message_header m) = m"
  by (cases m) simp_all

lemma on_wire_fields [simp]:
  "message_opcode (on_wire m) = message_opcode m"
  "message_payload_encode (on_wire m) = message_payload_encode m"
  "h_version (message_header (on_wire m)) = h_version (message_header m)"
  "h_opcode (message_header (on_wire m)) = h_opcode (message_header m)"
  "h_session_id (message_header (on_wire m)) = h_session_id (message_header m)"
  "h_sequence (message_header (on_wire m)) = h_sequence (message_header m)"
  "h_wrid (message_header (on_wire m)) = h_wrid (message_header m)"
  "h_payload_length (message_header (on_wire m)) = of_nat (length (message_payload_encode m))"
  "on_wire (on_wire m) = on_wire m"
  by (simp_all add: on_wire_def)

lemma message_wf_on_wire [simp]: "message_wf (on_wire m) = message_wf m"
  unfolding message_wf_def by (simp add: on_wire_def)

lemma message_encode_on_wire [simp]: "message_encode (on_wire m) = message_encode m"
  by (simp add: message_encode_def on_wire_def Let_def)

lemma message_decode_encode_append:
  assumes "message_wf m"
  shows "message_decode (message_encode m @ rest) = Ok (on_wire m)"
proof -
  define h where "h = (message_header m)\<lparr>h_payload_length := of_nat (length (message_payload_encode m))\<rparr>"
  have h: "header_wf h" "h_opcode h = message_opcode m"
    "h_payload_length h = of_nat (length (message_payload_encode m))"
    using assms by (simp_all add: message_wf_def h_def)
  have "message_encode m @ rest = header_encode h @ message_payload_encode m @ rest"
    by (simp add: message_encode_def h_def Let_def)
  moreover have "on_wire m = with_header m h"
    by (simp add: on_wire_def h_def)
  moreover have "payload_wf m" using assms by (simp add: message_wf_def)
  ultimately show ?thesis
    using h by (cases m)
      (simp_all add: message_decode_def header_decode_encode connect.dec_enc mr_reg.fdec_enc
        mr_reg_ack.dec_enc mr_dereg.dec_enc mr_dereg_ack.dec_enc send.dec_enc data.fdec_enc
        write_req.fdec_enc read_req.dec_enc read_resp.fdec_enc atomic_req.dec_enc atomic_resp.dec_enc
        credit_update.dec_enc error.dec_enc)
qed

lemma message_decode_encode: "message_wf m \<Longrightarrow> message_decode (message_encode m) = Ok (on_wire m)"
  using message_decode_encode_append [of m "[]"] by simp

lemmas payload_decode_not_stuck =
  connect.dec_not_stuck mr_reg_payload_decode_not_stuck mr_reg_ack.dec_not_stuck
  mr_dereg.dec_not_stuck mr_dereg_ack.dec_not_stuck send_payload_decode_not_stuck
  data_payload_decode_not_stuck read_req.dec_not_stuck atomic_req.dec_not_stuck
  atomic_resp.dec_not_stuck credit_update.dec_not_stuck error_payload_decode_not_stuck

lemmas payload_decode_wf =
  send_payload_decode_wf write_payload_decode_wf read_resp_payload_decode_wf data_payload_decode_wf

lemma message_decode_not_Blocked: "message_decode buf \<noteq> Blocked"
proof (cases "header_decode buf")
  case (Ok r)
  obtain h rest where r: "r = (h, rest)" by (cases r)
  show ?thesis
    by (cases "h_opcode h")
      (auto simp: Ok r message_decode_def rbind_Blocked_iff Let_def payload_decode_not_stuck
        write_payload_decode_not_blocked read_resp_payload_decode_not_blocked)
qed (auto simp: message_decode_def hdr.dec_not_stuck)

lemma message_decode_Panic_iff:
  "message_decode buf = Panic \<longleftrightarrow>
   (\<exists>h rest. header_decode buf = Ok (h, rest) \<and>
     (h_opcode h = opcode.Write \<and> WRITE_HEADER_SIZE \<le> length rest \<and>
        unat (h_payload_length h) < WRITE_HEADER_SIZE \<or>
      h_opcode h = opcode.ReadResp \<and> 8 \<le> length rest \<and> unat (h_payload_length h) < 8))"
proof (cases "header_decode buf")
  case (Ok r)
  obtain h rest where r: "r = (h, rest)" by (cases r)
  show ?thesis
    by (cases "h_opcode h")
      (auto simp: Ok r message_decode_def rbind_Panic_iff Let_def payload_decode_not_stuck
        write_payload_decode_panic_iff read_resp_payload_decode_panic_iff)
qed (auto simp: message_decode_def hdr.dec_not_stuck)

lemma message_decode_Ok:
  assumes "message_decode buf = Ok m"
  shows "header_wf (message_header m)"
    and "h_opcode (message_header m) = message_opcode m"
    and "header_decode buf = Ok (message_header m, drop HEADER_SIZE buf)"
    and "(\<And>h p. m \<noteq> Error h p) \<Longrightarrow> payload_wf m"
    and "m = Error h p \<Longrightarrow> is_utf8 (ep_description p)"
proof -
  obtain g rest where g: "header_decode buf = Ok (g, rest)"
    using assms by (auto simp: message_decode_def rbind_Ok_iff)
  have rest: "rest = drop HEADER_SIZE buf" using g by (rule hdr.dec_rest)
  have "message_header m = g \<and> h_opcode g = message_opcode m \<and>
      ((\<forall>h p. m \<noteq> Error h p) \<longrightarrow> payload_wf m) \<and>
      (\<forall>h p. m = Error h p \<longrightarrow> is_utf8 (ep_description p))"
    using assms g by (cases "h_opcode g")
      (auto simp: message_decode_def rbind_Ok_iff Let_def
        dest: payload_decode_wf error_payload_decode_utf8)
  then show "header_wf (message_header m)" "h_opcode (message_header m) = message_opcode m"
    "header_decode buf = Ok (message_header m, drop HEADER_SIZE buf)"
    "(\<And>h p. m \<noteq> Error h p) \<Longrightarrow> payload_wf m"
    "m = Error h p \<Longrightarrow> is_utf8 (ep_description p)"
    using g rest header_decode_version [OF g] by auto
qed

lemma message_decode_wf:
  assumes "message_decode buf = Ok m"
    and "\<And>h p. m = Error h p \<Longrightarrow> length (ep_description p) < 65536"
  shows "message_wf m"
  using assms message_decode_Ok [OF assms(1)]
  by (cases m) (auto simp: message_wf_def)

lemma length_message_encode [wire]:
  "length (message_encode m) = HEADER_SIZE + length (message_payload_encode m)"
  by (simp add: message_encode_def Let_def)

lemma message_encode_inject:
  assumes "message_wf m" and "message_wf n" and "message_encode m = message_encode n"
  shows "on_wire m = on_wire n"
  by (metis assms message_decode_encode result.inject(1))

section \<open>Properties\<close>

text \<open>
  (C1) Round trip: decoding the encoding of a well-formed message gives the message back
  with its payload length filled in, also when other bytes follow it in the buffer.
\<close>

theorem message_roundtrip:
  assumes "message_wf m"
  shows "message_decode (message_encode m @ rest) = Ok (on_wire m)"
  using assms by (rule message_decode_encode_append)

definition sample_write :: rdows_message where
  "sample_write = Write (header_new opcode.Write 7 3 42)
     \<lparr>wp_rkey = RKey 0xA5A5A5A5, wp_remote_va = 16, wp_length = 3,
      wp_sg_list = [\<lparr>sg_lkey = LKey 2, sg_offset = 1, sg_length = 3\<rparr>]\<rparr>"

lemma sample_write_wf: "message_wf sample_write"
  by (simp add: message_wf_def sample_write_def write_payload_encoded_len_def
      WRITE_HEADER_SIZE_def SG_ENTRY_SIZE_def)

theorem message_roundtrip_witness:
  "message_wf sample_write \<and>
   message_decode (message_encode sample_write @ [1, 2, 3]) = Ok (on_wire sample_write)"
  using message_roundtrip [OF sample_write_wf] sample_write_wf by simp

text \<open>
  (C19) Decoding an arbitrary frame returns a message or an error value except in exactly two
  cases: a WRITE frame whose header announces fewer than 24 payload bytes although 24 follow,
  and a READ_RESP frame announcing fewer than 8 although 8 follow. In these the subtraction
  of the fixed part from the payload length underflows.
\<close>

theorem message_decode_panics:
  "message_decode buf \<noteq> Blocked \<and>
   (message_decode buf = Panic \<longleftrightarrow>
    (\<exists>h rest. header_decode buf = Ok (h, rest) \<and>
      (h_opcode h = opcode.Write \<and> 24 \<le> length rest \<and> unat (h_payload_length h) < 24 \<or>
       h_opcode h = opcode.ReadResp \<and> 8 \<le> length rest \<and> unat (h_payload_length h) < 8)))"
  using message_decode_not_Blocked message_decode_Panic_iff [of buf]
  by (simp add: WRITE_HEADER_SIZE_def)

text \<open>
  Whatever bytes arrive, a decoded message carries the protocol version and the opcode
  of its variant, and it is stable: encoding it and decoding again gives the same message.
  (An ERROR description whose replacement characters grow it past the 16-bit length field is
  the only exception.)
\<close>

theorem message_decode_stable:
  assumes "message_decode buf = Ok m"
    and "\<And>h p. m = Error h p \<Longrightarrow> length (ep_description p) < 65536"
  shows "h_version (message_header m) = RDOWS_VERSION \<and>
    h_opcode (message_header m) = message_opcode m \<and>
    message_decode (message_encode m) = Ok (on_wire m)"
  using message_decode_wf [OF assms] message_decode_encode by (auto simp: message_wf_def)

theorem message_decode_stable_witness:
  "message_decode (message_encode sample_write) = Ok (on_wire sample_write) \<and>
   message_decode (message_encode (on_wire sample_write)) = Ok (on_wire (on_wire sample_write))"
proof -
  have "message_decode (message_encode sample_write) = Ok (on_wire sample_write)"
    by (rule message_decode_encode [OF sample_write_wf])
  with message_decode_stable [OF this] show ?thesis
    by (simp add: on_wire_def sample_write_def)
qed

text \<open>
  The header is the exact inverse on the wire: a frame whose header decodes is the
  encoding of that header followed by the undecoded rest, so no header bit is lost.
\<close>

theorem header_decode_exact:
  assumes "header_decode buf = Ok (h, rest)"
  shows "header_encode h @ rest = buf"
  using assms by (rule header_encode_decode)

theorem header_decode_exact_witness:
  "header_encode \<lparr>h_version = 1, h_opcode = opcode.Disconnect, h_flags = 0x4000,
     h_session_id = 7, h_sequence = 258, h_wrid = 5, h_payload_length = 1\<rparr> @ [9] =
   [1, 0x03, 0x40, 0, 0, 0, 0, 7, 0, 0, 1, 2, 0, 0, 0, 0, 0, 0, 0, 5, 0, 0, 0, 1, 9]"
proof (rule header_decode_exact)
  show "header_decode
      [1, 0x03, 0x40, 0, 0, 0, 0, 7, 0, 0, 1, 2, 0, 0, 0, 0, 0, 0, 0, 5, 0, 0, 0, 1, 9] =
    Ok (\<lparr>h_version = 1, h_opcode = opcode.Disconnect, h_flags = 0x4000,
      h_session_id = 7, h_sequence = 258, h_wrid = 5, h_payload_length = 1\<rparr>, [9])"
    by code_simp
qed

end
