(* ===== verification/Completion.thy ===== *)
theory Completion
  imports Queues
begin

text \<open>
  The bounded completion queue of \<open>rdows-client/src/completion.rs\<close>. It refines a plain queue:
  entries come out in the order they went in, each once, and a push is refused exactly when
  the queue is full. The contract is stated as a locale and provided by the model.
\<close>

section \<open>Definitions\<close>

record completion_queue =
  cq_entries :: "completion_queue_entry list"
  cq_capacity :: usize

text \<open>
  \<open>VecDeque::with_capacity\<close> panics when the buffer would be larger than \<open>isize::MAX\<close> bytes. An entry
  takes 24 bytes in memory: 20 bytes of fields, aligned to 8.
\<close>

definition CQE_MEM_SIZE :: usize where
  "CQE_MEM_SIZE = 24"

definition completion_queue_new :: "usize \<Rightarrow> ('e, completion_queue) result" where
  "completion_queue_new capacity =
     (if capacity * CQE_MEM_SIZE \<le> isize_max then Ok \<lparr>cq_entries = [], cq_capacity = capacity\<rparr> else Panic)"

definition cq_push :: "completion_queue_entry \<Rightarrow> completion_queue \<Rightarrow> bool \<times> completion_queue" where
  "cq_push cqe cq =
     (if length (cq_entries cq) \<ge> cq_capacity cq then (False, cq)
      else (True, cq\<lparr>cq_entries := cq_entries cq @ [cqe]\<rparr>))"

definition cq_poll :: "usize \<Rightarrow> completion_queue \<Rightarrow> completion_queue_entry list \<times> completion_queue" where
  "cq_poll limit cq =
     (let n = min limit (length (cq_entries cq)) in
      (take n (cq_entries cq), cq\<lparr>cq_entries := drop n (cq_entries cq)\<rparr>))"

definition cq_len :: "completion_queue \<Rightarrow> usize" where
  "cq_len cq = length (cq_entries cq)"

definition cq_is_empty :: "completion_queue \<Rightarrow> bool" where
  "cq_is_empty cq \<longleftrightarrow> cq_entries cq = []"

definition cq_is_full :: "completion_queue \<Rightarrow> bool" where
  "cq_is_full cq \<longleftrightarrow> length (cq_entries cq) \<ge> cq_capacity cq"

text \<open>Any interleaving of pushes and polls, and what was accepted and handed out by it.\<close>

fun queue_run :: "('a \<Rightarrow> 'q \<Rightarrow> bool \<times> 'q) \<Rightarrow> (nat \<Rightarrow> 'q \<Rightarrow> 'a list \<times> 'q) \<Rightarrow> ('a + nat) list \<Rightarrow> 'q
    \<Rightarrow> 'a list \<times> 'a list \<times> 'q" where
  "queue_run push poll [] q = ([], [], q)"
| "queue_run push poll (Inl x # ops) q =
     (case push x q of (accepted, q') \<Rightarrow>
      case queue_run push poll ops q' of (ins, outs, q'') \<Rightarrow>
        (if accepted then x # ins else ins, outs, q''))"
| "queue_run push poll (Inr n # ops) q =
     (case poll n q of (xs, q') \<Rightarrow>
      case queue_run push poll ops q' of (ins, outs, q'') \<Rightarrow> (ins, xs @ outs, q''))"

section \<open>The contract of a bounded queue\<close>

locale bounded_queue =
  fixes content :: "'q \<Rightarrow> 'a list"
    and capacity :: "'q \<Rightarrow> nat"
    and push_op :: "'a \<Rightarrow> 'q \<Rightarrow> bool \<times> 'q"
    and poll_op :: "nat \<Rightarrow> 'q \<Rightarrow> 'a list \<times> 'q"
  assumes push_accepted: "length (content q) < capacity q \<Longrightarrow>
      fst (push_op x q) \<and> content (snd (push_op x q)) = content q @ [x] \<and>
      capacity (snd (push_op x q)) = capacity q"
    and push_refused: "capacity q \<le> length (content q) \<Longrightarrow> push_op x q = (False, q)"
    and poll_takes: "fst (poll_op n q) = take n (content q) \<and>
      content (snd (poll_op n q)) = drop n (content q) \<and> capacity (snd (poll_op n q)) = capacity q"
begin

lemma run_correct:
  assumes "queue_run push_op poll_op ops q = (ins, outs, q')"
  shows "content q @ ins = outs @ content q' \<and> capacity q' = capacity q \<and>
    (length (content q) \<le> capacity q \<longrightarrow> length (content q') \<le> capacity q')"
  using assms
proof (induction ops arbitrary: q ins outs)
  case Nil
  then show ?case by simp
next
  case (Cons op ops)
  show ?case
  proof (cases op)
    case (Inl x)
    obtain acc q1 where p: "push_op x q = (acc, q1)" by (cases "push_op x q")
    obtain ins1 where r: "queue_run push_op poll_op ops q1 = (ins1, outs, q')"
        "ins = (if acc then x # ins1 else ins1)"
      using Cons.prems p Inl by (auto split: prod.splits)
    show ?thesis
    proof (cases "length (content q) < capacity q")
      case True
      then have "acc" "content q1 = content q @ [x]" "capacity q1 = capacity q"
        using push_accepted [OF True, of x] p by simp_all
      with Cons.IH [OF r(1)] r(2) True show ?thesis by simp
    next
      case False
      then have "\<not> acc" "q1 = q" using push_refused [of q x] p by simp_all
      with Cons.IH [OF r(1)] r(2) show ?thesis by auto
    qed
  next
    case (Inr n)
    obtain xs q1 where p: "poll_op n q = (xs, q1)" by (cases "poll_op n q")
    obtain outs1 where r: "queue_run push_op poll_op ops q1 = (ins, outs1, q')" "outs = xs @ outs1"
      using Cons.prems p Inr by (auto split: prod.splits)
    have q1: "content q = xs @ content q1" "capacity q1 = capacity q"
      using poll_takes [of n q] p by simp_all
    with Cons.IH [OF r(1)] r(2) show ?thesis by auto
  qed
qed

end

interpretation cq: bounded_queue cq_entries cq_capacity cq_push cq_poll
  by unfold_locales (auto simp: cq_push_def cq_poll_def Let_def min_def)

section \<open>Properties\<close>

text \<open>
  The completion queue is a bounded first-in first-out queue: whatever sequence of
  pushes and polls is applied to a new queue, the completions handed out followed by those
  still queued are exactly the accepted ones in order, and the capacity is never exceeded.
\<close>

theorem completion_queue_fifo:
  assumes "completion_queue_new capacity = (Ok q0 :: ('e, completion_queue) result)"
    and "queue_run cq_push cq_poll ops q0 = (ins, outs, q)"
  shows "ins = outs @ cq_entries q \<and> cq_len q \<le> capacity"
  using cq.run_correct [OF assms(2)] assms(1)
  by (auto simp: completion_queue_new_def cq_len_def split: if_split_asm)

definition sample_cqe :: "u64 \<Rightarrow> completion_queue_entry" where
  "sample_cqe n = \<lparr>cqe_wrid = WorkRequestId n, cqe_status = 0, cqe_opcode = Send, cqe_vendor_error = 0,
     cqe_byte_count = 1, cqe_qp_number = 7\<rparr>"

theorem completion_queue_fifo_witness:
  "[sample_cqe 1, sample_cqe 2] = [sample_cqe 1] @ [sample_cqe 2] \<and>
   cq_len \<lparr>cq_entries = [sample_cqe 2], cq_capacity = 2\<rparr> \<le> 2"
proof -
  have new: "completion_queue_new 2 = (Ok \<lparr>cq_entries = [], cq_capacity = 2\<rparr> :: (unit, completion_queue) result)"
    by (simp add: completion_queue_new_def CQE_MEM_SIZE_def)
  have "queue_run cq_push cq_poll [Inl (sample_cqe 1), Inl (sample_cqe 2), Inl (sample_cqe 3), Inr 1]
      \<lparr>cq_entries = [], cq_capacity = 2\<rparr> =
    ([sample_cqe 1, sample_cqe 2], [sample_cqe 1], \<lparr>cq_entries = [sample_cqe 2], cq_capacity = 2\<rparr>)"
    by (simp add: cq_push_def cq_poll_def)
  from completion_queue_fifo [OF new this] show ?thesis by simp
qed

end
