(* ===== verification/Client.thy ===== *)
theory Client
  imports Websocket Messages Completion "HOL-Library.Finite_Map"
begin

text \<open>
  The client connection of \<open>rdows-client/src/lib.rs\<close> and \<open>connection.rs\<close>: connection set-up,
  sending, receiving with sequence checks and credit updates. Everything beyond the two
  halves of the WebSocket (the network and the server) is a parameter: \<open>net data peer\<close> says
  what sending \<open>data\<close> comes to, which items reach the receiving half because of it, and the
  peer's next state. Items wait in the second component of \<open>cn_socket\<close> until they are read;
  reading when none is left is an await that does not complete. Likewise \<open>dial\<close> stands for
  request building, TCP, TLS and the WebSocket upgrade, which are in \<open>Dialling\<close>; it yields the
  subprotocol header of the response as text.
\<close>

section \<open>Definitions\<close>

subsection \<open>The transport\<close>

datatype inbox_item =
    Item ws_event
  | EndOfStream

type_synonym 'p network = "bytes \<Rightarrow> 'p \<Rightarrow> ((rstring, unit) result \<times> inbox_item list) \<times> 'p"
type_synonym 'p dialler = "rstring \<Rightarrow> (rdows_error, rstring option \<times> 'p) result"

text \<open>The two halves of the socket: the peer behind the sink and the items of the stream.\<close>

type_synonym 'p socket = "'p \<times> inbox_item list"

definition socket_send :: "'p network \<Rightarrow> rdows_message \<Rightarrow> 'p socket \<Rightarrow> (rdows_error, unit) result \<times> 'p socket" where
  "socket_send net msg = (\<lambda>(peer, inbox).
     let data = message_encode msg;
         ((r, arrived), peer) = net data peer
     in (map_err WebSocket r, (peer, inbox @ arrived)))"

fun socket_recv :: "'p socket \<Rightarrow> (rdows_error, rdows_message) result \<times> 'p socket" where
  "socket_recv (peer, []) = (Blocked, (peer, []))"
| "socket_recv (peer, Item (Binary data) # rest) = (message_decode data, (peer, rest))"
| "socket_recv (peer, Item Close # rest) = (Err SessionClosed, (peer, rest))"
| "socket_recv (peer, Item OtherFrame # rest) = socket_recv (peer, rest)"
| "socket_recv (peer, Item (WsError e) # rest) = (Err (WebSocket e), (peer, rest))"
| "socket_recv (peer, EndOfStream # rest) = (Err SessionClosed, (peer, EndOfStream # rest))"

subsection \<open>Connection set-up\<close>

record connection_params =
  pa_session_id :: u32
  pa_pd :: protection_domain
  pa_max_msg_size :: u32
  pa_initial_remote_seq :: u32
  pa_icc :: u32

definition starts_with :: "rstring \<Rightarrow> rstring \<Rightarrow> bool" where
  "starts_with s prefix \<longleftrightarrow> take (length prefix) s = prefix"

definition connect ::
  "'p network \<Rightarrow> 'p dialler \<Rightarrow> (nat \<Rightarrow> bytes) \<Rightarrow> rstring
    \<Rightarrow> (rdows_error, 'p socket \<times> connection_params) result" where
  "connect net dial os_rng url =
     (if starts_with url (lit ''ws://'')
      then Err (ConnectionRejected (lit ''TLS required: use wss:// not ws://''))
      else
        rbind (dial url) (\<lambda>(value, peer).
        if \<not> response_ok value
        then Err (ConnectionRejected (lit ''server did not echo rdows.v1 subprotocol''))
        else
          let session_id = from_be (os_rng 0);
              connect_header = header_new opcode.Connect session_id 0 0;
              connect_payload = \<lparr>cp_pd = ProtectionDomain 1, cp_capability_flags = 0,
                                 cp_max_msg_size = DEFAULT_MAX_MSG_SIZE, cp_icc = DEFAULT_ICC\<rparr>;
              connect_msg = Connect connect_header connect_payload;
              (sent, socket) = socket_send net connect_msg (peer, [])
          in
          rbind sent (\<lambda>_.
          let (ack, socket) = socket_recv socket in
          rbind ack (\<lambda>ack.
          (case ack of
             ConnectAck ack_header payload \<Rightarrow>
               Ok (socket,
                   \<lparr>pa_session_id = session_id, pa_pd = cp_pd payload,
                    pa_max_msg_size = min (cp_max_msg_size payload) DEFAULT_MAX_MSG_SIZE,
                    pa_initial_remote_seq = h_sequence ack_header + 1,
                    pa_icc = cp_icc payload\<rparr>)
           | Error header err \<Rightarrow> Err (Protocol (ep_error_code err))
           | other \<Rightarrow> Err (UnexpectedMessage (lit ''CONNECT_ACK'')
                              (h_opcode (message_header other))))))))"

subsection \<open>The connection\<close>

definition DEFAULT_CQ_CAPACITY :: usize where
  "DEFAULT_CQ_CAPACITY = 65536"

record connect_config =
  cc_cq_capacity :: usize

definition connect_config_default :: connect_config where
  "connect_config_default = \<lparr>cc_cq_capacity = DEFAULT_CQ_CAPACITY\<rparr>"

record memory_region_handle =
  mh_lkey :: lkey
  mh_rkey :: rkey
  mh_len :: u64
  mh_local_buf :: bytes

record 'p rdows_connection =
  cn_socket :: "'p socket"
  cn_session_id :: u32
  cn_pd :: protection_domain
  cn_max_msg_size :: u32
  cn_next_seq :: u32
  cn_expected_remote_seq :: "u32 option"
  cn_send_credits :: u32
  cn_cq :: completion_queue
  cn_local_mrs :: "(u32, memory_region_handle) fmap"

definition connect_with_config ::
  "'p network \<Rightarrow> 'p dialler \<Rightarrow> (nat \<Rightarrow> bytes) \<Rightarrow> rstring \<Rightarrow> connect_config
    \<Rightarrow> (rdows_error, 'p rdows_connection) result" where
  "connect_with_config net dial os_rng url config =
     rbind (connect net dial os_rng url) (\<lambda>(socket, params).
     rbind (completion_queue_new (cc_cq_capacity config)) (\<lambda>cq.
     Ok \<lparr>cn_socket = socket, cn_session_id = pa_session_id params, cn_pd = pa_pd params,
         cn_max_msg_size = pa_max_msg_size params, cn_next_seq = 1,
         cn_expected_remote_seq = Some (pa_initial_remote_seq params),
         cn_send_credits = pa_icc params, cn_cq = cq, cn_local_mrs = fmempty\<rparr>))"

definition connection_connect ::
  "'p network \<Rightarrow> 'p dialler \<Rightarrow> (nat \<Rightarrow> bytes) \<Rightarrow> rstring \<Rightarrow> (rdows_error, 'p rdows_connection) result" where
  "connection_connect net dial os_rng url =
     connect_with_config net dial os_rng url connect_config_default"

definition cn_next_header :: "opcode \<Rightarrow> u64 \<Rightarrow> 'p rdows_connection \<Rightarrow> rdows_header \<times> 'p rdows_connection" where
  "cn_next_header opcode wrid c =
     (let seq = cn_next_seq c in
      (header_new opcode (cn_session_id c) seq wrid, c\<lparr>cn_next_seq := seq + 1\<rparr>))"

definition cn_send :: "'p network \<Rightarrow> rdows_message \<Rightarrow> 'p rdows_connection
    \<Rightarrow> (rdows_error, unit) result \<times> 'p rdows_connection" where
  "cn_send net msg c =
     (let (r, socket) = socket_send net msg (cn_socket c) in (r, c\<lparr>cn_socket := socket\<rparr>))"

definition cn_recv :: "'p rdows_connection \<Rightarrow> (rdows_error, rdows_message) result \<times> 'p rdows_connection" where
  "cn_recv c = (let (r, socket) = socket_recv (cn_socket c) in (r, c\<lparr>cn_socket := socket\<rparr>))"

definition disconnect :: "'p network \<Rightarrow> 'p rdows_connection \<Rightarrow> (rdows_error, unit) result \<times> 'p rdows_connection" where
  "disconnect net c =
     (let (header, c) = cn_next_header opcode.Disconnect 0 c
      in cn_send net (Disconnect header) c)"

definition cn_poll_cq :: "usize \<Rightarrow> 'p rdows_connection \<Rightarrow> completion_queue_entry list \<times> 'p rdows_connection" where
  "cn_poll_cq limit c = (let (es, cq) = cq_poll limit (cn_cq c) in (es, c\<lparr>cn_cq := cq\<rparr>))"

definition set_send_credits :: "u32 \<Rightarrow> 'p rdows_connection \<Rightarrow> 'p rdows_connection" where
  "set_send_credits credits c = c\<lparr>cn_send_credits := credits\<rparr>"

definition validate_remote_seq :: "rdows_message \<Rightarrow> 'p rdows_connection
    \<Rightarrow> (rdows_error, unit) result \<times> 'p rdows_connection" where
  "validate_remote_seq msg c =
     (let seq = h_sequence (message_header msg) in
      (case cn_expected_remote_seq c of
         Some expected \<Rightarrow>
           if seq \<noteq> expected then (Err (Protocol ErrSeqGap), c)
           else (Ok (), c\<lparr>cn_expected_remote_seq := Some (seq + 1)\<rparr>)
       | None \<Rightarrow> (Ok (), c\<lparr>cn_expected_remote_seq := Some (seq + 1)\<rparr>)))"

lemma socket_recv_shorter:
  "socket_recv sock = (Ok m, sock') \<Longrightarrow> length (snd sock') < length (snd sock)"
  by (induction sock rule: socket_recv.induct) auto

text \<open>The receive loop of the client: each round consumes at least one item.\<close>

function recv_app_message :: "'p rdows_connection \<Rightarrow> (rdows_error, rdows_message) result \<times> 'p rdows_connection" where
  "recv_app_message c =
     sbind (cn_recv c) (\<lambda>resp c.
     sbind (validate_remote_seq resp c) (\<lambda>_ c.
     (case resp of
        CreditUpdate header payload \<Rightarrow>
          sbind (u32_add (cn_send_credits c) (cu_credit_increment payload), c) (\<lambda>credits c.
          recv_app_message (c\<lparr>cn_send_credits := credits\<rparr>))
      | other \<Rightarrow> (Ok other, c))))"
  by pat_completeness auto

termination recv_app_message
proof (relation "measure (\<lambda>c. length (snd (cn_socket c)))")
  fix c :: "'p rdows_connection" and m c1 u c2 h p n c3
  assume "cn_recv c = (Ok m, c1)" "validate_remote_seq m c1 = (Ok u, c2)"
    "(u32_add (cn_send_credits c2) (cu_credit_increment p), c2) = (Ok n :: (rdows_error, u32) result, c3)"
  then show "(c3\<lparr>cn_send_credits := n\<rparr>, c) \<in> measure (\<lambda>c. length (snd (cn_socket c)))"
    by (cases "socket_recv (cn_socket c)")
      (auto simp: cn_recv_def validate_remote_seq_def Let_def dest: socket_recv_shorter
        split: option.splits if_split_asm)
qed auto

declare recv_app_message.simps [simp del]

definition send_and_recv :: "'p network \<Rightarrow> rdows_message \<Rightarrow> 'p rdows_connection
    \<Rightarrow> (rdows_error, rdows_message) result \<times> 'p rdows_connection" where
  "send_and_recv net msg c = sbind (cn_send net msg c) (\<lambda>_ c. recv_app_message c)"

end
