(* ===== verification/Byte_Regions.thy ===== *)
theory Byte_Regions
  imports Prelude
begin

text \<open>
  The contract of a set of byte regions addressed by key, offset and length. The server's
  memory store (keys are R_Keys, access is gated by the region's flags) and the client's
  local regions (keys are L_Keys) both provide it; what follows from the contract is proved
  once here.
\<close>

section \<open>Sequences of writes\<close>

text \<open>The writes that were accepted, and the state after all of them.\<close>

fun store_all :: "('k \<Rightarrow> 'o \<Rightarrow> bytes \<Rightarrow> 's \<Rightarrow> ('e, unit) result \<times> 's) \<Rightarrow> ('k \<times> 'o \<times> bytes) list \<Rightarrow> 's
    \<Rightarrow> ('k \<times> 'o \<times> bytes) list \<times> 's" where
  "store_all st [] s = ([], s)"
| "store_all st ((k, off, data) # ws) s =
     (case st k off data s of (r, s') \<Rightarrow>
      case store_all st ws s' of (acc, s'') \<Rightarrow> (if r = Ok () then (k, off, data) # acc else acc, s''))"

text \<open>The byte that the last write covering address \<open>a\<close> of region \<open>k\<close> put there.\<close>

fun last_written :: "('o \<Rightarrow> nat) \<Rightarrow> ('k \<times> 'o \<times> bytes) list \<Rightarrow> 'k \<Rightarrow> nat \<Rightarrow> u8 option" where
  "last_written pos [] k a = None"
| "last_written pos ((k', off, data) # ws) k a =
     (case last_written pos ws k a of
        Some b \<Rightarrow> Some b
      | None \<Rightarrow> if k' = k \<and> pos off \<le> a \<and> a < pos off + length data then Some (data ! (a - pos off)) else None)"

text \<open>The bytes \<open>bs\<close> read at \<open>start\<close> before the writes, with what the writes have changed.\<close>

definition overlay :: "('o \<Rightarrow> nat) \<Rightarrow> ('k \<times> 'o \<times> bytes) list \<Rightarrow> 'k \<Rightarrow> nat \<Rightarrow> bytes \<Rightarrow> bytes" where
  "overlay pos ws k start bs =
     map (\<lambda>i. case last_written pos ws k (start + i) of Some b \<Rightarrow> b | None \<Rightarrow> bs ! i) [0..<length bs]"

lemma overlay_Nil [simp]: "overlay pos [] k start bs = bs"
  by (simp add: overlay_def map_nth)

lemma overlay_Cons:
  "overlay pos ((k', off, data) # ws) k start bs =
     overlay pos ws k start (overlay pos [(k', off, data)] k start bs)"
  by (auto simp: overlay_def split: option.split)

text \<open>One write is a \<open>put_slice\<close>, also where the ranges overlap only in part.\<close>

lemma overlay_one:
  assumes "pos off + length data \<le> length bs" and "start + n \<le> length bs"
  shows "overlay pos [(k, off, data)] k start (sub_slice bs start (start + n)) =
    sub_slice (put_slice bs (pos off) data) start (start + n)"
proof (rule nth_equalityI)
  show "length (overlay pos [(k, off, data)] k start (sub_slice bs start (start + n))) =
      length (sub_slice (put_slice bs (pos off) data) start (start + n))"
    using assms by (simp add: overlay_def)
  fix i
  assume "i < length (overlay pos [(k, off, data)] k start (sub_slice bs start (start + n)))"
  then have "i < n" using assms(2) by (simp add: overlay_def)
  then show "overlay pos [(k, off, data)] k start (sub_slice bs start (start + n)) ! i =
      sub_slice (put_slice bs (pos off) data) start (start + n) ! i"
    using assms by (auto simp: overlay_def nth_sub_slice nth_put_slice)
qed

lemma overlay_other: "k' \<noteq> k \<Longrightarrow> overlay pos [(k', off, data)] k start bs = bs"
  by (simp add: overlay_def map_nth)

section \<open>The contract\<close>

text \<open>
  \<open>pos\<close> reads an offset or a length of the provider's integer type. The provider keeps an
  invariant; a write that is not accepted changes nothing.
\<close>

locale byte_store =
  fixes inv :: "'s \<Rightarrow> bool"
    and region :: "'s \<Rightarrow> 'k \<Rightarrow> bytes option"
    and can_write :: "'s \<Rightarrow> 'k \<Rightarrow> bool"
    and can_read :: "'s \<Rightarrow> 'k \<Rightarrow> bool"
    and pos :: "'o \<Rightarrow> nat"
    and store_at :: "'k \<Rightarrow> 'o \<Rightarrow> bytes \<Rightarrow> 's \<Rightarrow> ('e, unit) result \<times> 's"
    and load_at :: "'k \<Rightarrow> 'o \<Rightarrow> 'o \<Rightarrow> 's \<Rightarrow> ('e, bytes) result"
  assumes store_Ok_iff: "inv s \<Longrightarrow> fst (store_at k off data s) = Ok () \<longleftrightarrow>
      (\<exists>bs. region s k = Some bs \<and> can_write s k \<and> pos off + length data \<le> length bs)"
    and store_effect: "inv s \<Longrightarrow> store_at k off data s = (Ok (), s') \<Longrightarrow> region s k = Some bs \<Longrightarrow>
      inv s' \<and> region s' = (region s)(k \<mapsto> put_slice bs (pos off) data) \<and>
      can_write s' = can_write s \<and> can_read s' = can_read s"
    and store_refused: "store_at k off data s = (r, s') \<Longrightarrow> r \<noteq> Ok () \<Longrightarrow> s' = s"
    and load_Ok_iff: "inv s \<Longrightarrow> load_at k off len s = Ok data \<longleftrightarrow>
      (\<exists>bs. region s k = Some bs \<and> can_read s k \<and> pos off + pos len \<le> length bs \<and>
        data = sub_slice bs (pos off) (pos off + pos len))"
    and load_refused: "inv s \<Longrightarrow> inv s' \<Longrightarrow> map_option length (region s' k) = map_option length (region s k) \<Longrightarrow>
      can_read s' k = can_read s k \<Longrightarrow> \<nexists>data. load_at k off len s = Ok data \<Longrightarrow>
      load_at k off len s' = load_at k off len s"
begin

lemma store_OkE:
  assumes "inv s" and "store_at k off data s = (Ok (), s')"
  obtains bs where "region s k = Some bs" and "can_write s k" and "pos off + length data \<le> length bs"
    and "inv s'" and "region s' = (region s)(k \<mapsto> put_slice bs (pos off) data)"
    and "can_write s' = can_write s" and "can_read s' = can_read s"
proof -
  obtain bs where bs: "region s k = Some bs" "can_write s k" "pos off + length data \<le> length bs"
    using store_Ok_iff [OF assms(1), of k off data] assms(2) by auto
  with store_effect [OF assms bs(1)] that show thesis by blast
qed

lemma store_keeps_inv: "inv s \<Longrightarrow> store_at k off data s = (r, s') \<Longrightarrow> inv s'"
  by (cases "r = Ok ()") (blast elim: store_OkE, blast dest: store_refused)

text \<open>Reading back what was just written.\<close>

lemma load_after_store:
  assumes "inv s" and "store_at k off data s = (Ok (), s')" and "can_read s k"
    and "pos len = length data"
  shows "load_at k off len s' = Ok data"
  using assms(1,2)
proof (rule store_OkE)
  fix bs
  assume bs: "pos off + length data \<le> length bs" "inv s'"
    "region s' = (region s)(k \<mapsto> put_slice bs (pos off) data)" "can_read s' = can_read s"
  then show ?thesis
    using assms(3,4) by (subst load_Ok_iff) (auto simp: sub_slice_put_slice_same)
qed

text \<open>A write does not change what any read outside of it returns.\<close>

lemma load_after_store_other_key:
  assumes "inv s" and "store_at k off data s = (Ok (), s')" and "k' \<noteq> k"
  shows "load_at k' off' len s' = Ok bs \<longleftrightarrow> load_at k' off' len s = Ok bs"
  using assms(1,2) by (rule store_OkE) (use assms in \<open>simp add: load_Ok_iff\<close>)

lemma load_after_store_disjoint:
  assumes "inv s" and "store_at k off data s = (Ok (), s')"
    and "pos off' + pos len \<le> pos off \<or> pos off + length data \<le> pos off'"
  shows "load_at k off' len s' = Ok bs \<longleftrightarrow> load_at k off' len s = Ok bs"
  using assms(1,2)
proof (rule store_OkE)
  fix old
  assume old: "region s k = Some old" "pos off + length data \<le> length old" "inv s'"
    "region s' = (region s)(k \<mapsto> put_slice old (pos off) data)" "can_read s' = can_read s"
  have "pos off' + pos len \<le> length old \<Longrightarrow>
    sub_slice (put_slice old (pos off) data) (pos off') (pos off' + pos len)
      = sub_slice old (pos off') (pos off' + pos len)"
    using old(2) assms(3) by (intro sub_slice_put_slice_disjoint) auto
  then show ?thesis
    using old assms(1) by (auto simp: load_Ok_iff)
qed

text \<open>Acceptance of later accesses does not depend on earlier writes.\<close>

lemma store_keeps_acceptance:
  assumes "inv s" and "store_at k off data s = (Ok (), s')"
  shows "fst (store_at k' off' data' s') = Ok () \<longleftrightarrow> fst (store_at k' off' data' s) = Ok ()"
  using assms by (rule store_OkE) (use assms in \<open>auto simp: store_Ok_iff\<close>)

text \<open>What any read returns after a write: the bytes from before, with those of the write in its range.\<close>

lemma load_after_one:
  assumes "inv s" and "store_at k off data s = (Ok (), s')"
  shows "load_at k' off' len s' = (case load_at k' off' len s of
      Ok bs \<Rightarrow> Ok (overlay pos [(k, off, data)] k' (pos off') bs) | r \<Rightarrow> r)"
  using assms
proof (rule store_OkE)
  fix old
  assume old: "region s k = Some old" "pos off + length data \<le> length old" "inv s'"
    "region s' = (region s)(k \<mapsto> put_slice old (pos off) data)" "can_read s' = can_read s"
  show ?thesis
  proof (cases "\<exists>bs. load_at k' off' len s = Ok bs")
    case True
    then obtain bs where bs: "load_at k' off' len s = Ok bs" by blast
    then obtain r where r: "region s k' = Some r" "can_read s k'" "pos off' + pos len \<le> length r"
        "bs = sub_slice r (pos off') (pos off' + pos len)"
      using load_Ok_iff [OF assms(1)] by auto
    have "load_at k' off' len s' = Ok (overlay pos [(k, off, data)] k' (pos off') bs)"
      using r old overlay_one [of pos off data old "pos off'" "pos len" k]
      by (cases "k' = k") (simp_all add: load_Ok_iff overlay_other)
    with bs show ?thesis by simp
  next
    case False
    moreover have "map_option length (region s' k') = map_option length (region s k')"
      using old by (cases "k' = k") simp_all
    ultimately have "load_at k' off' len s' = load_at k' off' len s"
      using load_refused [OF assms(1) old(3)] old(5) by simp
    with False show ?thesis by (cases "load_at k' off' len s") simp_all
  qed
qed

text \<open>
  After any sequence of writes: which of them were accepted depends on the regions and their
  permissions alone, and each byte read is that of the last accepted write that covers it.
\<close>

lemma load_after_stores:
  assumes "inv s" and "store_all store_at ws s = (acc, s')"
  shows "inv s' \<and>
    acc = filter (\<lambda>(k, off, data). \<exists>bs. region s k = Some bs \<and> can_write s k \<and> pos off + length data \<le> length bs) ws \<and>
    load_at k off len s' = (case load_at k off len s of Ok bs \<Rightarrow> Ok (overlay pos acc k (pos off) bs) | r \<Rightarrow> r)"
  using assms
proof (induction ws arbitrary: s acc)
  case Nil
  then show ?case by (auto split: result.split)
next
  case (Cons w ws)
  obtain k1 off1 data1 where w: "w = (k1, off1, data1)" by (cases w)
  obtain r s1 where st: "store_at k1 off1 data1 s = (r, s1)" by (metis surj_pair)
  obtain acc1 where rest: "store_all store_at ws s1 = (acc1, s')" "acc = (if r = Ok () then w # acc1 else acc1)"
    using Cons.prems(2) w st by (auto split: prod.splits)
  have inv1: "inv s1" using store_keeps_inv [OF Cons.prems(1) st] .
  note IH = Cons.IH [OF inv1 rest(1)]
  show ?case
  proof (cases "r = Ok ()")
    case True
    with st have ok: "store_at k1 off1 data1 s = (Ok (), s1)" by simp
    have "(\<exists>bs. region s1 k = Some bs \<and> can_write s1 k \<and> pos off + length data \<le> length bs) \<longleftrightarrow>
        (\<exists>bs. region s k = Some bs \<and> can_write s k \<and> pos off + length data \<le> length bs)" for k off and data :: bytes
      using store_keeps_acceptance [OF Cons.prems(1) ok, of k off data] store_Ok_iff [OF Cons.prems(1), of k off data]
        store_Ok_iff [OF inv1, of k off data] by simp
    then have "acc1 = filter (\<lambda>(k, off, data). \<exists>bs. region s k = Some bs \<and> can_write s k \<and>
        pos off + length data \<le> length bs) ws" and "inv s'"
      and "load_at k off len s' = (case load_at k off len s1 of Ok bs \<Rightarrow> Ok (overlay pos acc1 k (pos off) bs) | r \<Rightarrow> r)"
      using IH by simp_all
    moreover have "\<exists>bs. region s k1 = Some bs \<and> can_write s k1 \<and> pos off1 + length data1 \<le> length bs"
      using store_Ok_iff [OF Cons.prems(1), of k1 off1 data1] ok by simp
    ultimately show ?thesis
      using rest(2) True w load_after_one [OF Cons.prems(1) ok, of k off len]
        overlay_Cons [of pos k1 off1 data1 acc1 k "pos off"]
      by (cases "load_at k off len s") simp_all
  next
    case False
    then have "s1 = s" using store_refused [OF st] by blast
    moreover have "\<not> (\<exists>bs. region s k1 = Some bs \<and> can_write s k1 \<and> pos off1 + length data1 \<le> length bs)"
      using store_Ok_iff [OF Cons.prems(1), of k1 off1 data1] st False by simp
    ultimately show ?thesis using IH rest(2) False w by auto
  qed
qed

lemma store_store_same:
  assumes "inv s" and "store_at k off data s = (Ok (), s1)" and "store_at k off data' s1 = (Ok (), s2)"
    and "length data' = length data"
  shows "\<exists>s3. store_at k off data' s = (Ok (), s3) \<and> region s2 = region s3"
  using assms(1,2)
proof (rule store_OkE)
  fix bs
  assume bs: "region s k = Some bs" "can_write s k" "pos off + length data \<le> length bs" "inv s1"
    "region s1 = (region s)(k \<mapsto> put_slice bs (pos off) data)"
  have "fst (store_at k off data' s) = Ok ()"
    using store_Ok_iff [OF assms(1)] bs assms(4) by simp
  then obtain s3 where s3: "store_at k off data' s = (Ok (), s3)"
    by (cases "store_at k off data' s") auto
  have "region s2 = (region s1)(k \<mapsto> put_slice (put_slice bs (pos off) data) (pos off) data')"
    using store_effect [OF bs(4) assms(3)] bs(5) by simp
  moreover have "put_slice (put_slice bs (pos off) data) (pos off) data' = put_slice bs (pos off) data'"
    using bs(3) assms(4) by (simp add: put_slice_def)
  moreover have "region s3 = (region s)(k \<mapsto> put_slice bs (pos off) data')"
    using store_effect [OF assms(1) s3 bs(1)] by simp
  ultimately show ?thesis using s3 bs(5) by auto
qed

end

end
