(* ===== verification/Verbs.thy ===== *)
theory Verbs
  imports Client Byte_Regions
begin

text \<open>
  The client's verbs (\<open>rdows-client/src/verbs.rs\<close>): registering and removing regions, SEND,
  one-sided writes, reads and atomics, and direct access to the local buffers. The local
  regions provide the byte-region contract.
\<close>

section \<open>Definitions\<close>

text \<open>\<open>self.cq.push(CompletionQueueEntry ...)\<close>, whose result every verb ignores.\<close>

definition cn_complete :: "u64 \<Rightarrow> u16 \<Rightarrow> opcode \<Rightarrow> u32 \<Rightarrow> 'p rdows_connection \<Rightarrow> 'p rdows_connection" where
  "cn_complete wrid status opcode byte_count c =
     c\<lparr>cn_cq := snd (cq_push \<lparr>cqe_wrid = WorkRequestId wrid, cqe_status = status, cqe_opcode = opcode,
       cqe_vendor_error = 0, cqe_byte_count = byte_count, cqe_qp_number = cn_session_id c\<rparr> (cn_cq c))\<rparr>"

abbreviation unexpected :: "string \<Rightarrow> rdows_message \<Rightarrow> rdows_error" where
  "unexpected name other \<equiv> UnexpectedMessage (lit name) (h_opcode (message_header other))"

subsection \<open>Memory regions\<close>

definition reg_mr :: "'p network \<Rightarrow> access_flags \<Rightarrow> u64 \<Rightarrow> 'p rdows_connection
    \<Rightarrow> (rdows_error, memory_region_handle) result \<times> 'p rdows_connection" where
  "reg_mr net access_flags region_len c =
     (let (header, c) = cn_next_header opcode.MrReg 0 c;
          payload = \<lparr>mr_pd = cn_pd c, mr_access_flags = access_flags, mr_region_len = region_len,
                     mr_suggested_lkey = None\<rparr>;
          msg = MrReg header payload
      in
      sbind (send_and_recv net msg c) (\<lambda>resp c.
      (case resp of
         MrRegAck ack_header ack \<Rightarrow>
           if mra_status ack \<noteq> 0
           then (Err (Protocol (unwrap_or ErrInternal (error_code_try_from (mra_status ack)))), c)
           else
             sbind (vec_zeroed (unat region_len), c) (\<lambda>local_buf c.
             let handle = \<lparr>mh_lkey = mra_lkey ack, mh_rkey = mra_rkey ack, mh_len = region_len,
                           mh_local_buf = local_buf\<rparr>;
                 c = c\<lparr>cn_local_mrs := fmupd (lkey_val (mra_lkey ack)) handle (cn_local_mrs c)\<rparr>
             in
             sbind (vec_zeroed (unat region_len), c) (\<lambda>local_buf c.
             (Ok \<lparr>mh_lkey = mra_lkey ack, mh_rkey = mra_rkey ack, mh_len = region_len,
                  mh_local_buf = local_buf\<rparr>, c)))
       | Error err_header err \<Rightarrow> (Err (Protocol (ep_error_code err)), c)
       | other \<Rightarrow> (Err (unexpected ''MR_REG_ACK'' other), c))))"

definition dereg_mr :: "'p network \<Rightarrow> lkey \<Rightarrow> 'p rdows_connection
    \<Rightarrow> (rdows_error, unit) result \<times> 'p rdows_connection" where
  "dereg_mr net lkey c =
     (let (header, c) = cn_next_header opcode.MrDereg 0 c;
          payload = \<lparr>md_pd = cn_pd c, md_lkey = lkey\<rparr>;
          msg = MrDereg header payload
      in
      sbind (send_and_recv net msg c) (\<lambda>resp c.
      (case resp of
         MrDeregAck ack_header ack \<Rightarrow>
           if mda_status ack \<noteq> 0
           then (Err (Protocol (unwrap_or ErrInternal (error_code_try_from (mda_status ack)))), c)
           else (Ok (), c\<lparr>cn_local_mrs := fmdrop (lkey_val lkey) (cn_local_mrs c)\<rparr>)
       | Error err_header err \<Rightarrow> (Err (Protocol (ep_error_code err)), c)
       | other \<Rightarrow> (Err (unexpected ''MR_DEREG_ACK'' other), c))))"

subsection \<open>Local buffers\<close>

primrec gather_sg_data :: "(u32, memory_region_handle) fmap \<Rightarrow> scatter_gather_entry list
    \<Rightarrow> (rdows_error, bytes) result" where
  "gather_sg_data mrs [] = Ok []"
| "gather_sg_data mrs (sg # sgs) =
     rbind (ok_or (Protocol ErrInvalidLkey) (fmlookup mrs (lkey_val (sg_lkey sg)))) (\<lambda>mr.
     let start = unat (sg_offset sg) in
     rbind (usize_add start (unat (sg_length sg))) (\<lambda>stop.
     if stop > length (mh_local_buf mr) then Err (Protocol ErrBounds)
     else
       rbind (gather_sg_data mrs sgs) (\<lambda>rest.
       Ok (sub_slice (mh_local_buf mr) start stop @ rest))))"

definition write_local_mr :: "lkey \<Rightarrow> usize \<Rightarrow> bytes \<Rightarrow> 'p rdows_connection
    \<Rightarrow> (rdows_error, unit) result \<times> 'p rdows_connection" where
  "write_local_mr lkey offset data c =
     sbind (ok_or (Protocol ErrInvalidLkey) (fmlookup (cn_local_mrs c) (lkey_val lkey)), c) (\<lambda>mr c.
     sbind (usize_add offset (length data), c) (\<lambda>stop c.
     if stop > length (mh_local_buf mr) then (Err (Protocol ErrBounds), c)
     else
       let mr = mr\<lparr>mh_local_buf := put_slice (mh_local_buf mr) offset data\<rparr> in
       (Ok (), c\<lparr>cn_local_mrs := fmupd (lkey_val lkey) mr (cn_local_mrs c)\<rparr>)))"

definition read_local_mr :: "lkey \<Rightarrow> usize \<Rightarrow> usize \<Rightarrow> 'p rdows_connection \<Rightarrow> (rdows_error, bytes) result" where
  "read_local_mr lkey offset len c =
     rbind (ok_or (Protocol ErrInvalidLkey) (fmlookup (cn_local_mrs c) (lkey_val lkey))) (\<lambda>mr.
     rbind (usize_add offset len) (\<lambda>stop.
     if stop > length (mh_local_buf mr) then Err (Protocol ErrBounds)
     else Ok (sub_slice (mh_local_buf mr) offset stop)))"

subsection \<open>Two-sided SEND\<close>

definition post_send :: "'p network \<Rightarrow> u64 \<Rightarrow> scatter_gather_entry list \<Rightarrow> 'p rdows_connection
    \<Rightarrow> (rdows_error, unit) result \<times> 'p rdows_connection" where
  "post_send net wrid sg_list c =
     (if cq_is_full (cn_cq c) then (Err (Protocol ErrCqOverflow), c)
      else if cn_send_credits c = 0 then (Err SendCreditsExhausted, c)
      else
        sbind (gather_sg_data (cn_local_mrs c) sg_list, c) (\<lambda>data c.
        let total_len = of_nat (length data);
            (header, c) = cn_next_header opcode.Send wrid c
        in
        sbind (cn_send net (Send header \<lparr>sp_sg_list = sg_list\<rparr>) c) (\<lambda>_ c.
        let (data_header, c) = cn_next_header opcode.SendData wrid c in
        sbind (cn_send net (SendData data_header \<lparr>dp_data = data\<rparr>) c) (\<lambda>_ c.
        sbind (recv_app_message c) (\<lambda>resp c.
        (case resp of
           RecvComp h \<Rightarrow>
             sbind (u32_sub (cn_send_credits c) 1, c) (\<lambda>credits c.
             (Ok (), cn_complete wrid 0 opcode.Send total_len (c\<lparr>cn_send_credits := credits\<rparr>)))
         | Error h err \<Rightarrow>
             (Err (Protocol (ep_error_code err)),
              cn_complete wrid (error_code_to_u16 (ep_error_code err)) opcode.Send 0 c)
         | other \<Rightarrow> (Err (unexpected ''RECV_COMP'' other), c)))))))"

subsection \<open>One-sided operations\<close>

definition rdma_write :: "'p network \<Rightarrow> u64 \<Rightarrow> rkey \<Rightarrow> u64 \<Rightarrow> scatter_gather_entry list
    \<Rightarrow> 'p rdows_connection \<Rightarrow> (rdows_error, unit) result \<times> 'p rdows_connection" where
  "rdma_write net wrid rkey remote_va sg_list c =
     (if cq_is_full (cn_cq c) then (Err (Protocol ErrCqOverflow), c)
      else
        sbind (gather_sg_data (cn_local_mrs c) sg_list, c) (\<lambda>data c.
        let total_len = (of_nat (length data) :: u64);
            (header, c) = cn_next_header opcode.Write wrid c
        in
        sbind (cn_send net (Write header \<lparr>wp_rkey = rkey, wp_remote_va = remote_va,
                 wp_length = total_len, wp_sg_list = sg_list\<rparr>) c) (\<lambda>_ c.
        let (data_header, c) = cn_next_header opcode.WriteData wrid c in
        sbind (cn_send net (WriteData data_header \<lparr>dp_data = data\<rparr>) c) (\<lambda>_ c.
        sbind (recv_app_message c) (\<lambda>resp c.
        (case resp of
           WriteComp h \<Rightarrow> (Ok (), cn_complete wrid 0 opcode.Write (ucast total_len) c)
         | Error h err \<Rightarrow>
             (Err (Protocol (ep_error_code err)),
              cn_complete wrid (error_code_to_u16 (ep_error_code err)) opcode.Write 0 c)
         | other \<Rightarrow> (Err (unexpected ''WRITE_COMP'' other), c)))))))"

definition rdma_read :: "'p network \<Rightarrow> u64 \<Rightarrow> rkey \<Rightarrow> u64 \<Rightarrow> u64 \<Rightarrow> lkey \<Rightarrow> u64
    \<Rightarrow> 'p rdows_connection \<Rightarrow> (rdows_error, unit) result \<times> 'p rdows_connection" where
  "rdma_read net wrid rkey remote_va read_len local_lkey local_va c =
     (if cq_is_full (cn_cq c) then (Err (Protocol ErrCqOverflow), c)
      else
        let (header, c) = cn_next_header opcode.ReadReq wrid c;
            payload = \<lparr>rq_rkey = rkey, rq_remote_va = remote_va, rq_read_len = read_len,
                       rq_local_lkey = local_lkey, rq_local_va = local_va\<rparr>
        in
        sbind (cn_send net (ReadReq header payload) c) (\<lambda>_ c.
        sbind (recv_app_message c) (\<lambda>resp c.
        (case resp of
           ReadResp h resp_payload \<Rightarrow>
             sbind (ok_or (Protocol ErrInvalidLkey) (fmlookup (cn_local_mrs c) (lkey_val local_lkey)), c)
               (\<lambda>mr c.
             let start = unat local_va in
             sbind (usize_add start (length (rr_data resp_payload)), c) (\<lambda>stop c.
             if stop > length (mh_local_buf mr) then (Err (Protocol ErrBounds), c)
             else
               let mr = mr\<lparr>mh_local_buf := put_slice (mh_local_buf mr) start (rr_data resp_payload)\<rparr>;
                   c = c\<lparr>cn_local_mrs := fmupd (lkey_val local_lkey) mr (cn_local_mrs c)\<rparr>
               in (Ok (), cn_complete wrid 0 opcode.ReadReq (of_nat (length (rr_data resp_payload))) c)))
         | Error h err \<Rightarrow>
             (Err (Protocol (ep_error_code err)),
              cn_complete wrid (error_code_to_u16 (ep_error_code err)) opcode.ReadReq 0 c)
         | other \<Rightarrow> (Err (unexpected ''READ_RESP'' other), c)))))"

definition post_atomic :: "'p network \<Rightarrow> u64 \<Rightarrow> rkey \<Rightarrow> u64 \<Rightarrow> u8 \<Rightarrow> u64 \<Rightarrow> u64
    \<Rightarrow> 'p rdows_connection \<Rightarrow> (rdows_error, u64) result \<times> 'p rdows_connection" where
  "post_atomic net wrid rkey remote_va atomic_type operand1 operand2 c =
     (if cq_is_full (cn_cq c) then (Err (Protocol ErrCqOverflow), c)
      else
        let (header, c) = cn_next_header opcode.AtomicReq wrid c;
            payload = \<lparr>aq_rkey = rkey, aq_atomic_type = atomic_type, aq_remote_va = remote_va,
                       aq_operand1 = operand1, aq_operand2 = operand2\<rparr>
        in
        sbind (cn_send net (AtomicReq header payload) c) (\<lambda>_ c.
        sbind (recv_app_message c) (\<lambda>resp c.
        (case resp of
           AtomicResp h resp_payload \<Rightarrow>
             (Ok (ar_original_value resp_payload), cn_complete wrid 0 opcode.AtomicReq 8 c)
         | Error h err \<Rightarrow>
             (Err (Protocol (ep_error_code err)),
              cn_complete wrid (error_code_to_u16 (ep_error_code err)) opcode.AtomicReq 0 c)
         | other \<Rightarrow> (Err (unexpected ''ATOMIC_RESP'' other), c)))))"

definition atomic_cas :: "'p network \<Rightarrow> u64 \<Rightarrow> rkey \<Rightarrow> u64 \<Rightarrow> u64 \<Rightarrow> u64
    \<Rightarrow> 'p rdows_connection \<Rightarrow> (rdows_error, u64) result \<times> 'p rdows_connection" where
  "atomic_cas net wrid rkey remote_va compare swap c =
     post_atomic net wrid rkey remote_va ATOMIC_TYPE_CAS compare swap c"

definition atomic_faa :: "'p network \<Rightarrow> u64 \<Rightarrow> rkey \<Rightarrow> u64 \<Rightarrow> u64
    \<Rightarrow> 'p rdows_connection \<Rightarrow> (rdows_error, u64) result \<times> 'p rdows_connection" where
  "atomic_faa net wrid rkey remote_va addend c =
     post_atomic net wrid rkey remote_va ATOMIC_TYPE_FAA addend 0 c"

section \<open>The local regions as byte regions\<close>

definition local_bytes :: "'p rdows_connection \<Rightarrow> lkey \<Rightarrow> bytes option" where
  "local_bytes c lk = map_option mh_local_buf (fmlookup (cn_local_mrs c) (lkey_val lk))"

definition local_inv :: "'p rdows_connection \<Rightarrow> bool" where
  "local_inv c \<longleftrightarrow> (\<forall>lk mr. fmlookup (cn_local_mrs c) lk = Some mr \<longrightarrow> length (mh_local_buf mr) \<le> isize_max)"

lemma local_bytes_update:
  "local_bytes (c\<lparr>cn_local_mrs := fmupd (lkey_val lk) mr (cn_local_mrs c)\<rparr>) =
     (local_bytes c)(lk \<mapsto> mh_local_buf mr)"
proof (rule ext)
  fix k
  have "lkey_val lk = lkey_val k \<longleftrightarrow> lk = k" by (metis lkey.expand)
  then show "local_bytes (c\<lparr>cn_local_mrs := fmupd (lkey_val lk) mr (cn_local_mrs c)\<rparr>) k =
      ((local_bytes c)(lk \<mapsto> mh_local_buf mr)) k"
    by (auto simp: local_bytes_def)
qed

lemma local_bytes_SomeE:
  assumes "local_bytes c lk = Some bs"
  obtains mr where "fmlookup (cn_local_mrs c) (lkey_val lk) = Some mr" and "mh_local_buf mr = bs"
  using assms by (auto simp: local_bytes_def)

interpretation loc: byte_store local_inv local_bytes "\<lambda>_ _. True" "\<lambda>_ _. True" "\<lambda>n. n"
  write_local_mr read_local_mr
proof unfold_locales
  fix c :: "'p rdows_connection" and lk off data
  assume "local_inv c"
  then have "\<And>mr. fmlookup (cn_local_mrs c) (lkey_val lk) = Some mr \<Longrightarrow> length (mh_local_buf mr) \<le> isize_max"
    by (simp add: local_inv_def)
  then show "fst (write_local_mr lk off data c) = Ok () \<longleftrightarrow>
      (\<exists>bs. local_bytes c lk = Some bs \<and> True \<and> off + length data \<le> length bs)"
    by (cases "fmlookup (cn_local_mrs c) (lkey_val lk)")
      (force simp: write_local_mr_def local_bytes_def usize_add_def Let_def)+
next
  fix c c' :: "'p rdows_connection" and lk off data bs
  assume inv: "local_inv c" and wr: "write_local_mr lk off data c = (Ok (), c')"
    and "local_bytes c lk = Some bs"
  then obtain mr where mr: "fmlookup (cn_local_mrs c) (lkey_val lk) = Some mr" "mh_local_buf mr = bs"
    by (blast elim: local_bytes_SomeE)
  with wr have "off + length data \<le> length bs"
    "c' = c\<lparr>cn_local_mrs := fmupd (lkey_val lk) (mr\<lparr>mh_local_buf := put_slice bs off data\<rparr>) (cn_local_mrs c)\<rparr>"
    by (auto simp: write_local_mr_def usize_add_def Let_def split: if_split_asm)
  with inv mr show "local_inv c' \<and> local_bytes c' = (local_bytes c)(lk \<mapsto> put_slice bs off data) \<and>
      (\<lambda>_. True) = (\<lambda>_. True) \<and> (\<lambda>_. True) = (\<lambda>_. True)"
    by (auto simp: local_inv_def local_bytes_update)
next
  fix c c' :: "'p rdows_connection" and lk off data r
  assume "write_local_mr lk off data c = (r, c')" and "r \<noteq> Ok ()"
  then show "c' = c"
    by (cases "fmlookup (cn_local_mrs c) (lkey_val lk)")
      (auto simp: write_local_mr_def usize_add_def Let_def split: if_split_asm)
next
  fix c :: "'p rdows_connection" and lk off len data
  assume "local_inv c"
  then have "\<And>mr. fmlookup (cn_local_mrs c) (lkey_val lk) = Some mr \<Longrightarrow> length (mh_local_buf mr) \<le> isize_max"
    by (simp add: local_inv_def)
  then show "read_local_mr lk off len c = Ok data \<longleftrightarrow>
      (\<exists>bs. local_bytes c lk = Some bs \<and> True \<and> off + len \<le> length bs \<and>
        data = sub_slice bs off (off + len))"
    by (cases "fmlookup (cn_local_mrs c) (lkey_val lk)")
      (force simp: read_local_mr_def local_bytes_def usize_add_def)+
next
  fix c c' :: "'p rdows_connection" and lk off len
  assume "map_option length (local_bytes c' lk) = map_option length (local_bytes c lk)"
    and "\<nexists>data. read_local_mr lk off len c = Ok data"
  then show "read_local_mr lk off len c' = read_local_mr lk off len c"
    by (cases "fmlookup (cn_local_mrs c) (lkey_val lk)"; cases "fmlookup (cn_local_mrs c') (lkey_val lk)")
      (auto simp: read_local_mr_def local_bytes_def usize_add_def)
qed

end
