(* ===== verification/Kv_Store.thy ===== *)
theory Kv_Store
  imports Kv_Table Verbs
begin

text \<open>
  The key-value store of \<open>rdows-kv/src/kv.rs\<close>: a hash table of 64 slots in a remote memory
  region, reached slot by slot with RDMA READ and RDMA WRITE through a local staging region.
  The loops of put, get and delete take the two slot accesses as arguments, so that what they
  do can be stated for any array of slots; the operations of the store supply the accesses
  that go over the network.
\<close>

section \<open>Definitions\<close>

datatype kv_error =
    Rdma rdows_error
  | TableFull
  | KeyTooLong
  | ValueTooLong

record put_result =
  pr_operation :: rstring
  pr_slot :: usize
  pr_offset :: rstring
  pr_bytes :: usize
  pr_key :: rstring
  pr_value :: rstring
  pr_probes :: usize
  pr_update :: bool

record get_result =
  gr_operation :: rstring
  gr_slot :: usize
  gr_offset :: rstring
  gr_bytes :: usize
  gr_key :: rstring
  gr_value :: rstring
  gr_probes :: usize
  gr_raw_hex :: "rstring list"

record delete_result =
  dr_operation :: rstring
  dr_slot :: usize
  dr_offset :: rstring
  dr_bytes :: usize
  dr_key :: rstring
  dr_probes :: usize
  dr_found :: bool

record slot_info =
  si_index :: usize
  si_offset :: rstring
  si_occupied :: bool
  si_key :: "rstring option"
  si_value :: "rstring option"

record 'p kv_store =
  kv_conn :: "'p rdows_connection"
  kv_remote_rkey :: rkey
  kv_local_lkey :: lkey
  kv_session_id :: u32
  kv_remote_rkey_value :: u32
  kv_next_wrid :: u64

definition kv_store_new :: "'p rdows_connection \<Rightarrow> u32 \<Rightarrow> rkey \<Rightarrow> lkey \<Rightarrow> 'p kv_store" where
  "kv_store_new conn session_id remote_rkey local_lkey =
     \<lparr>kv_conn = conn, kv_remote_rkey = remote_rkey, kv_local_lkey = local_lkey,
      kv_session_id = session_id, kv_remote_rkey_value = rkey_val remote_rkey, kv_next_wrid = 1\<rparr>"

definition next_wrid :: "'p kv_store \<Rightarrow> (kv_error, u64) result \<times> 'p kv_store" where
  "next_wrid kv =
     (let wrid = kv_next_wrid kv in
      sbind (u64_add (kv_next_wrid kv) 1, kv) (\<lambda>n kv. (Ok wrid, kv\<lparr>kv_next_wrid := n\<rparr>)))"

subsection \<open>Slot access over the network\<close>

type_synonym 's slot_reader = "usize \<Rightarrow> 's \<Rightarrow> (kv_error, bytes) result \<times> 's"
type_synonym 's slot_writer = "usize \<Rightarrow> bytes \<Rightarrow> 's \<Rightarrow> (kv_error, unit) result \<times> 's"

definition read_slot :: "'p network \<Rightarrow> 'p kv_store slot_reader" where
  "read_slot net slot_index kv =
     (let remote_va = of_nat (slot_index * SLOT_SIZE) in
      sbind (next_wrid kv) (\<lambda>wrid kv.
      let (r, conn) = rdma_read net wrid (kv_remote_rkey kv) remote_va (of_nat SLOT_SIZE)
                        (kv_local_lkey kv) 0 (kv_conn kv);
          kv = kv\<lparr>kv_conn := conn\<rparr>
      in
      sbind (map_err Rdma r, kv) (\<lambda>_ kv.
      let kv = kv\<lparr>kv_conn := snd (cn_poll_cq 1 (kv_conn kv))\<rparr> in
      sbind (map_err Rdma (read_local_mr (kv_local_lkey kv) 0 SLOT_SIZE (kv_conn kv)), kv) (\<lambda>data kv.
      if length data \<noteq> SLOT_SIZE then (Panic, kv) else (Ok data, kv)))))"

definition write_slot :: "'p network \<Rightarrow> 'p kv_store slot_writer" where
  "write_slot net slot_index slot_data kv =
     (let remote_va = of_nat (slot_index * SLOT_SIZE);
          (r, conn) = write_local_mr (kv_local_lkey kv) 0 slot_data (kv_conn kv);
          kv = kv\<lparr>kv_conn := conn\<rparr>
      in
      sbind (map_err Rdma r, kv) (\<lambda>_ kv.
      sbind (next_wrid kv) (\<lambda>wrid kv.
      let (r, conn) = rdma_write net wrid (kv_remote_rkey kv) remote_va
                        [\<lparr>sg_lkey = kv_local_lkey kv, sg_offset = 0, sg_length = of_nat SLOT_SIZE\<rparr>]
                        (kv_conn kv);
          kv = kv\<lparr>kv_conn := conn\<rparr>
      in
      sbind (map_err Rdma r, kv) (\<lambda>_ kv.
      (Ok (), kv\<lparr>kv_conn := snd (cn_poll_cq 1 (kv_conn kv))\<rparr>)))))"

subsection \<open>The table operations\<close>

definition slot_offset :: "usize \<Rightarrow> rstring" where
  "slot_offset idx = lit ''0x'' @ show_hex_pad 4 (idx * SLOT_SIZE)"

fun put_loop :: "'s slot_reader \<Rightarrow> 's slot_writer \<Rightarrow> rstring \<Rightarrow> rstring \<Rightarrow> usize \<Rightarrow> usize list \<Rightarrow> 's
    \<Rightarrow> (kv_error, put_result) result \<times> 's" where
  "put_loop rd wr key value start [] s = (Err TableFull, s)"
| "put_loop rd wr key value start (i # rest) s =
     (let idx = (start + i) mod SLOT_COUNT in
      sbind (rd idx s) (\<lambda>slot s.
      sbind (decode_slot slot, s) (\<lambda>entry s.
      (case entry of
         None \<Rightarrow>
           sbind (encode_slot key value, s) (\<lambda>new_slot s.
           sbind (wr idx new_slot s) (\<lambda>_ s.
           (Ok \<lparr>pr_operation = lit ''RDMA_WRITE'', pr_slot = idx, pr_offset = slot_offset idx,
                pr_bytes = SLOT_SIZE, pr_key = key, pr_value = value, pr_probes = i + 1,
                pr_update = False\<rparr>, s)))
       | Some (existing_key, _) \<Rightarrow>
           if existing_key = key then
             sbind (encode_slot key value, s) (\<lambda>new_slot s.
             sbind (wr idx new_slot s) (\<lambda>_ s.
             (Ok \<lparr>pr_operation = lit ''RDMA_WRITE'', pr_slot = idx, pr_offset = slot_offset idx,
                  pr_bytes = SLOT_SIZE, pr_key = key, pr_value = value, pr_probes = i + 1,
                  pr_update = True\<rparr>, s)))
           else put_loop rd wr key value start rest s))))"

definition put :: "'s slot_reader \<Rightarrow> 's slot_writer \<Rightarrow> rstring \<Rightarrow> rstring \<Rightarrow> 's
    \<Rightarrow> (kv_error, put_result) result \<times> 's" where
  "put rd wr key value s =
     (if length key > MAX_KEY_LEN then (Err KeyTooLong, s)
      else if length value > MAX_VALUE_LEN then (Err ValueTooLong, s)
      else put_loop rd wr key value (hash_key key) [0..<SLOT_COUNT] s)"

fun get_loop :: "'s slot_reader \<Rightarrow> rstring \<Rightarrow> usize \<Rightarrow> usize list \<Rightarrow> 's
    \<Rightarrow> (kv_error, get_result option) result \<times> 's" where
  "get_loop rd key start [] s = (Ok None, s)"
| "get_loop rd key start (i # rest) s =
     (let idx = (start + i) mod SLOT_COUNT in
      sbind (rd idx s) (\<lambda>slot s.
      sbind (decode_slot slot, s) (\<lambda>entry s.
      (case entry of
         None \<Rightarrow> (Ok None, s)
       | Some (existing_key, value) \<Rightarrow>
           if existing_key = key then
             (Ok (Some \<lparr>gr_operation = lit ''RDMA_READ'', gr_slot = idx, gr_offset = slot_offset idx,
                gr_bytes = SLOT_SIZE, gr_key = key, gr_value = value, gr_probes = i + 1,
                gr_raw_hex = slot_hex_lines slot\<rparr>), s)
           else get_loop rd key start rest s))))"

definition get :: "'s slot_reader \<Rightarrow> rstring \<Rightarrow> 's \<Rightarrow> (kv_error, get_result option) result \<times> 's" where
  "get rd key s = get_loop rd key (hash_key key) [0..<SLOT_COUNT] s"

fun delete_loop :: "'s slot_reader \<Rightarrow> 's slot_writer \<Rightarrow> rstring \<Rightarrow> usize \<Rightarrow> usize list \<Rightarrow> 's
    \<Rightarrow> (kv_error, delete_result) result \<times> 's" where
  "delete_loop rd wr key start [] s =
     (Ok \<lparr>dr_operation = lit ''RDMA_READ'', dr_slot = start, dr_offset = slot_offset start,
          dr_bytes = SLOT_SIZE, dr_key = key, dr_probes = SLOT_COUNT, dr_found = False\<rparr>, s)"
| "delete_loop rd wr key start (i # rest) s =
     (let idx = (start + i) mod SLOT_COUNT in
      sbind (rd idx s) (\<lambda>slot s.
      sbind (decode_slot slot, s) (\<lambda>entry s.
      (case entry of
         None \<Rightarrow>
           (Ok \<lparr>dr_operation = lit ''RDMA_WRITE'', dr_slot = idx, dr_offset = slot_offset idx,
                dr_bytes = SLOT_SIZE, dr_key = key, dr_probes = i + 1, dr_found = False\<rparr>, s)
       | Some (existing_key, _) \<Rightarrow>
           if existing_key = key then
             let zeroed = replicate SLOT_SIZE 0 in
             sbind (wr idx zeroed s) (\<lambda>_ s.
             (Ok \<lparr>dr_operation = lit ''RDMA_WRITE'', dr_slot = idx, dr_offset = slot_offset idx,
                  dr_bytes = SLOT_SIZE, dr_key = key, dr_probes = i + 1, dr_found = True\<rparr>, s))
           else delete_loop rd wr key start rest s))))"

definition delete :: "'s slot_reader \<Rightarrow> 's slot_writer \<Rightarrow> rstring \<Rightarrow> 's
    \<Rightarrow> (kv_error, delete_result) result \<times> 's" where
  "delete rd wr key s = delete_loop rd wr key (hash_key key) [0..<SLOT_COUNT] s"

fun dump_loop :: "'s slot_reader \<Rightarrow> usize list \<Rightarrow> slot_info list \<Rightarrow> 's
    \<Rightarrow> (kv_error, slot_info list) result \<times> 's" where
  "dump_loop rd [] slots s = (Ok slots, s)"
| "dump_loop rd (idx # rest) slots s =
     sbind (rd idx s) (\<lambda>slot s.
     sbind (decode_slot slot, s) (\<lambda>entry s.
     dump_loop rd rest (slots @ [\<lparr>si_index = idx, si_offset = slot_offset idx,
       si_occupied = (entry \<noteq> None), si_key = map_option fst entry,
       si_value = map_option snd entry\<rparr>]) s))"

definition dump_slots :: "'s slot_reader \<Rightarrow> 's \<Rightarrow> (kv_error, slot_info list) result \<times> 's" where
  "dump_slots rd s = dump_loop rd [0..<SLOT_COUNT] [] s"

section \<open>The contract of slot access\<close>

definition decodes :: "(usize \<Rightarrow> bytes) \<Rightarrow> table \<Rightarrow> bool" where
  "decodes slot T \<longleftrightarrow>
     (\<forall>i < SLOT_COUNT. decode_slot (slot i) = (Ok (T i) :: (kv_error, (rstring \<times> rstring) option) result))"

text \<open>
  \<open>ready n s\<close> says that \<open>n\<close> more accesses will succeed. A read returns the slot and changes
  none; a write changes exactly its slot.
\<close>

locale slot_array =
  fixes ready :: "nat \<Rightarrow> 's \<Rightarrow> bool"
    and slot :: "'s \<Rightarrow> usize \<Rightarrow> bytes"
    and rd :: "'s slot_reader"
    and wr :: "'s slot_writer"
  assumes rd_ok: "ready (Suc n) s \<Longrightarrow> i < SLOT_COUNT \<Longrightarrow>
      \<exists>s'. rd i s = (Ok (slot s i), s') \<and> ready n s' \<and> (\<forall>j < SLOT_COUNT. slot s' j = slot s j)"
    and wr_ok: "ready (Suc n) s \<Longrightarrow> i < SLOT_COUNT \<Longrightarrow> length data = SLOT_SIZE \<Longrightarrow>
      \<exists>s'. wr i data s = (Ok (), s') \<and> ready n s' \<and>
        (\<forall>j < SLOT_COUNT. slot s' j = (if j = i then data else slot s j))"
    and ready_less: "ready n s \<Longrightarrow> m \<le> n \<Longrightarrow> ready m s"
begin

abbreviation path :: "usize \<Rightarrow> usize list \<Rightarrow> usize list" where
  "path start is \<equiv> map (\<lambda>i. (start + i) mod SLOT_COUNT) is"

lemma idx_less: "(start + i) mod SLOT_COUNT < SLOT_COUNT"
  by (simp add: SLOT_COUNT_def)

text \<open>Reading and decoding one slot.\<close>

lemma rd_decode:
  assumes "ready (Suc n) s" and "i < SLOT_COUNT" and "decodes (slot s) T"
  obtains s' where "rd i s = (Ok (slot s i), s')" and "ready n s'" and "decodes (slot s') T"
    and "decode_slot (slot s i) = (Ok (T i) :: (kv_error, (rstring \<times> rstring) option) result)"
  using rd_ok [OF assms(1,2)] assms(2,3) that by (fastforce simp: decodes_def)

lemma wr_decode:
  assumes "ready (Suc n) s" and "i < SLOT_COUNT" and "decodes (slot s) T" and "length data = SLOT_SIZE"
    and "decode_slot data = (Ok e :: (kv_error, (rstring \<times> rstring) option) result)"
  obtains s' where "wr i data s = (Ok (), s')" and "ready n s'" and "decodes (slot s') (T(i := e))"
  using wr_ok [OF assms(1,2,4)] assms(2,3,5) that by (fastforce simp: decodes_def)

lemma get_loop_correct:
  assumes "ready (n + length is) s" and "decodes (slot s) T"
  shows "\<exists>r s'. get_loop rd key start is s = (Ok r, s') \<and> ready n s' \<and> decodes (slot s') T \<and>
    map_option gr_value r = (case probe T key (path start is) of None \<Rightarrow> None | Some i \<Rightarrow> map_option snd (T i))"
  using assms
proof (induction "is" arbitrary: s)
  case (Cons i rest)
  let ?i = "(start + i) mod SLOT_COUNT"
  have "ready (Suc (n + length rest)) s" using Cons.prems(1) by simp
  then obtain s1 where s1: "rd ?i s = (Ok (slot s ?i), s1)" "ready (n + length rest) s1"
      "decodes (slot s1) T" "decode_slot (slot s ?i) = (Ok (T ?i) :: (kv_error, (rstring \<times> rstring) option) result)"
    using rd_decode [OF _ idx_less Cons.prems(2)] by metis
  have "ready n s1" using ready_less [OF s1(2)] by simp
  then show ?case
    using s1 Cons.IH [OF s1(2,3)] by (cases "T ?i") (auto simp: Let_def)
qed simp

lemma put_loop_correct:
  assumes "ready (Suc (n + length is)) s" and "decodes (slot s) T"
    and "length key \<le> MAX_KEY_LEN" and "length value \<le> MAX_VALUE_LEN" and "is_utf8 key" and "is_utf8 value"
  shows "case probe T key (path start is) of
      None \<Rightarrow> \<exists>s'. put_loop rd wr key value start is s = (Err TableFull, s') \<and> ready n s' \<and> decodes (slot s') T
    | Some i \<Rightarrow> \<exists>r s'. put_loop rd wr key value start is s = (Ok r, s') \<and> ready n s' \<and>
        decodes (slot s') (T(i \<mapsto> (key, value))) \<and> pr_slot r = i \<and> (pr_update r \<longleftrightarrow> T i \<noteq> None)"
  using assms(1,2)
proof (induction "is" arbitrary: s)
  case Nil
  then show ?case using ready_less [of "Suc n" s n] by simp
next
  case (Cons i rest)
  let ?i = "(start + i) mod SLOT_COUNT"
  obtain new :: bytes where new: "encode_slot key value = (Ok new :: (kv_error, bytes) result)" "length new = SLOT_SIZE"
    using assms(3,4) by (rule encode_slot_ok)
  have dec: "decode_slot new = (Ok (Some (key, value)) :: (kv_error, (rstring \<times> rstring) option) result)"
    using assms(3-6) new(1) by (blast intro: decode_encode_slot)
  have "ready (Suc (Suc (n + length rest))) s" using Cons.prems(1) by simp
  then obtain s1 where s1: "rd ?i s = (Ok (slot s ?i), s1)" "ready (Suc (n + length rest)) s1"
      "decodes (slot s1) T" "decode_slot (slot s ?i) = (Ok (T ?i) :: (kv_error, (rstring \<times> rstring) option) result)"
    using rd_decode [OF _ idx_less Cons.prems(2)] by metis
  obtain s2 where s2: "wr ?i new s1 = (Ok (), s2)" "ready (n + length rest) s2"
      "decodes (slot s2) (T(?i \<mapsto> (key, value)))"
    using wr_decode [OF s1(2) idx_less s1(3) new(2) dec] by metis
  have "ready n s2" using ready_less [OF s2(2)] by simp
  then show ?case
    using s1 s2 new Cons.IH [OF s1(2,3)]
    by (cases "T ?i"; cases "probe T key (path start rest)") (auto simp: Let_def)
qed

lemma delete_loop_correct:
  assumes "ready (Suc (n + length is)) s" and "decodes (slot s) T"
  shows "\<exists>r s'. delete_loop rd wr key start is s = (Ok r, s') \<and> ready n s' \<and>
    (case probe T key (path start is) of
       None \<Rightarrow> \<not> dr_found r \<and> decodes (slot s') T
     | Some i \<Rightarrow> (dr_found r \<longleftrightarrow> T i \<noteq> None) \<and> decodes (slot s') (T(i := None)))"
  using assms
proof (induction "is" arbitrary: s)
  case Nil
  then show ?case using ready_less [of "Suc n" s n] by simp
next
  case (Cons i rest)
  let ?i = "(start + i) mod SLOT_COUNT"
  have "ready (Suc (Suc (n + length rest))) s" using Cons.prems(1) by simp
  then obtain s1 where s1: "rd ?i s = (Ok (slot s ?i), s1)" "ready (Suc (n + length rest)) s1"
      "decodes (slot s1) T" "decode_slot (slot s ?i) = (Ok (T ?i) :: (kv_error, (rstring \<times> rstring) option) result)"
    using rd_decode [OF _ idx_less Cons.prems(2)] by metis
  obtain s2 where s2: "wr ?i (replicate SLOT_SIZE 0) s1 = (Ok (), s2)" "ready (n + length rest) s2"
      "decodes (slot s2) (T(?i := None))"
    using wr_decode [OF s1(2) idx_less s1(3) _ decode_zero_slot] by (metis length_replicate)
  have n: "ready n s1" "ready n s2" using ready_less [OF s1(2)] ready_less [OF s2(2)] by simp_all
  show ?case
    using n s1 s2 Cons.IH [OF s1(2,3)] by (cases "T ?i") (auto simp: Let_def fun_upd_idem)
qed

text \<open>The three operations against the decoded table.\<close>

lemma get_correct:
  assumes "ready (n + SLOT_COUNT) s" and "decodes (slot s) T"
  shows "\<exists>r s'. get rd key s = (Ok r, s') \<and> ready n s' \<and> decodes (slot s') T \<and>
    map_option gr_value r = find_key T key"
  using get_loop_correct [of n "[0..<SLOT_COUNT]" s T key "hash_key key"] assms
  by (simp add: get_def find_key_def probe_path_def)

lemma put_correct:
  assumes "ready (Suc (n + SLOT_COUNT)) s" and "decodes (slot s) T"
    and "length key \<le> MAX_KEY_LEN" and "length value \<le> MAX_VALUE_LEN" and "is_utf8 key" and "is_utf8 value"
  shows "case probe T key (probe_path key) of
      None \<Rightarrow> \<exists>s'. put rd wr key value s = (Err TableFull, s') \<and> ready n s' \<and> decodes (slot s') T
    | Some i \<Rightarrow> \<exists>r s'. put rd wr key value s = (Ok r, s') \<and> ready n s' \<and>
        decodes (slot s') (T(i \<mapsto> (key, value))) \<and> pr_slot r = i \<and> (pr_update r \<longleftrightarrow> T i \<noteq> None)"
  using put_loop_correct [of n "[0..<SLOT_COUNT]" s T key "value" "hash_key key"] assms
  by (cases "probe T key (probe_path key)") (simp_all add: put_def probe_path_def)

lemma delete_correct:
  assumes "ready (Suc (n + SLOT_COUNT)) s" and "decodes (slot s) T"
  shows "\<exists>r s'. delete rd wr key s = (Ok r, s') \<and> ready n s' \<and>
    (case probe T key (probe_path key) of
       None \<Rightarrow> \<not> dr_found r \<and> decodes (slot s') T
     | Some i \<Rightarrow> (dr_found r \<longleftrightarrow> T i \<noteq> None) \<and> decodes (slot s') (T(i := None)))"
  using delete_loop_correct [of n "[0..<SLOT_COUNT]" s T key "hash_key key"] assms
  by (simp add: delete_def probe_path_def)

end

end
