(* ===== verification/Memory_Store.thy ===== *)
theory Memory_Store
  imports Payloads Byte_Regions "HOL-Library.Finite_Map"
begin

text \<open>
  The server's memory store of \<open>rdows-server/src/memory_store.rs\<close>: registration, removal,
  key validation, remote writes and reads, atomics, and the generation of R_Keys. A
  \<open>HashMap\<close> is a finite map and a \<open>HashSet\<close> a finite set, since their iteration order is
  never observed. The operating system's random source is a parameter: \<open>os_rng i\<close> are the
  four bytes that the \<open>i\<close>-th \<open>fill_bytes\<close> of a call writes. Memory exhaustion is not
  modelled; a vector longer than \<open>isize::MAX\<close> panics as in the standard library.
\<close>

section \<open>Definitions\<close>

record memory_region_entry =
  me_pd :: protection_domain
  me_lkey :: lkey
  me_rkey :: rkey
  me_access_flags :: access_flags
  me_data :: bytes

record memory_store =
  ms_regions :: "(u32, memory_region_entry) fmap"
  ms_rkey_to_lkey :: "(u32, u32) fmap"
  ms_used_rkeys :: "u32 fset"
  ms_next_lkey :: u32
  ms_total_registered_bytes :: u64
  ms_max_regions :: usize
  ms_max_total_bytes :: u64

definition memory_store_new :: "usize \<Rightarrow> u64 \<Rightarrow> memory_store" where
  "memory_store_new max_regions max_total_bytes =
     \<lparr>ms_regions = fmempty, ms_rkey_to_lkey = fmempty, ms_used_rkeys = {||}, ms_next_lkey = 1,
      ms_total_registered_bytes = 0, ms_max_regions = max_regions,
      ms_max_total_bytes = max_total_bytes\<rparr>"

definition memory_store_default :: memory_store where
  "memory_store_default = memory_store_new 4096 (32 * 1024 * 1024 * 1024)"

text \<open>The body of the loop over \<open>0..1000\<close>, from iteration \<open>i\<close> with \<open>n\<close> iterations left.\<close>

primrec generate_rkey_loop ::
  "nat \<Rightarrow> nat \<Rightarrow> (nat \<Rightarrow> bytes) \<Rightarrow> memory_store \<Rightarrow> (error_code, rkey) result \<times> memory_store"
where
  "generate_rkey_loop 0 i os_rng st = (Err ErrInternal, st)"
| "generate_rkey_loop (Suc n) i os_rng st =
     (let val = from_be (os_rng i) in
      if val \<noteq> 0 \<and> val |\<notin>| ms_used_rkeys st
      then (Ok (RKey val), st\<lparr>ms_used_rkeys := finsert val (ms_used_rkeys st)\<rparr>)
      else generate_rkey_loop n (Suc i) os_rng st)"

definition generate_rkey ::
  "(nat \<Rightarrow> bytes) \<Rightarrow> memory_store \<Rightarrow> (error_code, rkey) result \<times> memory_store" where
  "generate_rkey os_rng st = generate_rkey_loop 1000 0 os_rng st"

definition register ::
  "(nat \<Rightarrow> bytes) \<Rightarrow> protection_domain \<Rightarrow> access_flags \<Rightarrow> u64 \<Rightarrow> memory_store
    \<Rightarrow> (error_code, lkey \<times> rkey) result \<times> memory_store" where
  "register os_rng pd access_flags region_len st =
     (if fcard (fmdom (ms_regions st)) \<ge> ms_max_regions st then (Err ErrInternal, st)
      else
        sbind (u64_add (ms_total_registered_bytes st) region_len, st) (\<lambda>total st.
        if total > ms_max_total_bytes st then (Err ErrBounds, st)
        else
          let lkey = LKey (ms_next_lkey st) in
          sbind (u32_add (ms_next_lkey st) 1, st) (\<lambda>next_lkey st.
          let st = st\<lparr>ms_next_lkey := next_lkey\<rparr> in
          sbind (generate_rkey os_rng st) (\<lambda>rkey st.
          sbind (vec_zeroed (unat region_len), st) (\<lambda>data st.
          let entry = \<lparr>me_pd = pd, me_lkey = lkey, me_rkey = rkey,
                       me_access_flags = access_flags, me_data = data\<rparr>;
              st = st\<lparr>ms_rkey_to_lkey := fmupd (rkey_val rkey) (lkey_val lkey) (ms_rkey_to_lkey st)\<rparr>;
              st = st\<lparr>ms_regions := fmupd (lkey_val lkey) entry (ms_regions st)\<rparr> in
          sbind (u64_add (ms_total_registered_bytes st) region_len, st) (\<lambda>total st.
          (Ok (lkey, rkey), st\<lparr>ms_total_registered_bytes := total\<rparr>)))))))"

definition deregister ::
  "protection_domain \<Rightarrow> lkey \<Rightarrow> memory_store \<Rightarrow> (error_code, unit) result \<times> memory_store" where
  "deregister pd lkey st =
     sbind (ok_or ErrInvalidLkey (fmlookup (ms_regions st) (lkey_val lkey)), st) (\<lambda>entry st.
     if me_pd entry \<noteq> pd then (Err ErrInvalidPd, st)
     else
       let rkey = me_rkey entry;
           region_len = of_nat (length (me_data entry));
           st = st\<lparr>ms_rkey_to_lkey := fmdrop (rkey_val rkey) (ms_rkey_to_lkey st)\<rparr>;
           st = st\<lparr>ms_regions := fmdrop (lkey_val lkey) (ms_regions st)\<rparr> in
       sbind (u64_sub (ms_total_registered_bytes st) region_len, st) (\<lambda>total st.
       (Ok (), st\<lparr>ms_total_registered_bytes := total\<rparr>)))"

definition validate_rkey ::
  "rkey \<Rightarrow> access_flags \<Rightarrow> memory_store \<Rightarrow> (error_code, memory_region_entry) result" where
  "validate_rkey rkey required_access st =
     rbind (ok_or ErrInvalidMkey (fmlookup (ms_rkey_to_lkey st) (rkey_val rkey))) (\<lambda>lkey_val.
     rbind (ok_or ErrInvalidMkey (fmlookup (ms_regions st) lkey_val)) (\<lambda>entry.
     if \<not> af_contains (me_access_flags entry) required_access then Err ErrAccessDenied
     else Ok entry))"

definition write_region ::
  "rkey \<Rightarrow> u64 \<Rightarrow> bytes \<Rightarrow> memory_store \<Rightarrow> (error_code, unit) result \<times> memory_store" where
  "write_region rkey offset data st =
     sbind (ok_or ErrInvalidMkey (fmlookup (ms_rkey_to_lkey st) (rkey_val rkey)), st) (\<lambda>lkey_val st.
     sbind (ok_or ErrInvalidMkey (fmlookup (ms_regions st) lkey_val), st) (\<lambda>entry st.
     if \<not> af_contains (me_access_flags entry) REMOTE_WRITE then (Err ErrAccessDenied, st)
     else
       let start = unat offset in
       sbind (ok_or ErrBounds (checked_add start (length data)), st) (\<lambda>stop st.
       if stop > length (me_data entry) then (Err ErrBounds, st)
       else
         let entry = entry\<lparr>me_data := put_slice (me_data entry) start data\<rparr> in
         (Ok (), st\<lparr>ms_regions := fmupd lkey_val entry (ms_regions st)\<rparr>))))"

definition read_region ::
  "rkey \<Rightarrow> u64 \<Rightarrow> u64 \<Rightarrow> memory_store \<Rightarrow> (error_code, bytes) result" where
  "read_region rkey offset len st =
     rbind (ok_or ErrInvalidMkey (fmlookup (ms_rkey_to_lkey st) (rkey_val rkey))) (\<lambda>lkey_val.
     rbind (ok_or ErrInvalidMkey (fmlookup (ms_regions st) lkey_val)) (\<lambda>entry.
     if \<not> af_contains (me_access_flags entry) REMOTE_READ then Err ErrAccessDenied
     else
       let start = unat offset in
       rbind (ok_or ErrBounds (checked_add start (unat len))) (\<lambda>stop.
       if stop > length (me_data entry) then Err ErrBounds
       else Ok (sub_slice (me_data entry) start stop))))"

definition atomic_op ::
  "rkey \<Rightarrow> u64 \<Rightarrow> u8 \<Rightarrow> u64 \<Rightarrow> u64 \<Rightarrow> memory_store \<Rightarrow> (error_code, u64) result \<times> memory_store" where
  "atomic_op rkey remote_va atomic_type operand1 operand2 st =
     sbind (ok_or ErrInvalidMkey (fmlookup (ms_rkey_to_lkey st) (rkey_val rkey)), st) (\<lambda>lkey_val st.
     sbind (ok_or ErrInvalidMkey (fmlookup (ms_regions st) lkey_val), st) (\<lambda>entry st.
     if \<not> af_contains (me_access_flags entry) REMOTE_ATOMIC then (Err ErrAccessDenied, st)
     else if remote_va mod 8 \<noteq> 0 then (Err ErrAlignment, st)
     else
       let start = unat remote_va in
       sbind (ok_or ErrBounds (checked_add start 8), st) (\<lambda>stop st.
       if stop > length (me_data entry) then (Err ErrBounds, st)
       else
         let original = from_be (sub_slice (me_data entry) start stop) in
         sbind (if atomic_type = 0x01 then Ok (if original = operand1 then operand2 else original)
                else if atomic_type = 0x02 then Ok (original + operand1)
                else Err ErrUnknownOpcode, st) (\<lambda>new_value st.
         let entry = entry\<lparr>me_data := put_slice (me_data entry) start (to_be 8 new_value)\<rparr> in
         (Ok original, st\<lparr>ms_regions := fmupd lkey_val entry (ms_regions st)\<rparr>)))))"

section \<open>Abstract view and invariant\<close>

text \<open>The region an R_Key names.\<close>

definition mr_lookup :: "memory_store \<Rightarrow> rkey \<Rightarrow> memory_region_entry option" where
  "mr_lookup st rk = (case fmlookup (ms_rkey_to_lkey st) (rkey_val rk) of
     None \<Rightarrow> None | Some lk \<Rightarrow> fmlookup (ms_regions st) lk)"

definition mr_bytes :: "memory_store \<Rightarrow> rkey \<Rightarrow> bytes option" where
  "mr_bytes st rk = map_option me_data (mr_lookup st rk)"

definition mr_allows :: "access_flags \<Rightarrow> memory_store \<Rightarrow> rkey \<Rightarrow> bool" where
  "mr_allows fl st rk = (case mr_lookup st rk of
     None \<Rightarrow> False | Some e \<Rightarrow> af_contains (me_access_flags e) fl)"

text \<open>The bytes held by all registered regions together.\<close>

definition held_bytes :: "(u32, memory_region_entry) fmap \<Rightarrow> nat" where
  "held_bytes m = (\<Sum>lk \<in> fset (fmdom m). length (me_data (the (fmlookup m lk))))"

text \<open>
  The two key maps are inverse to each other, every key in use was handed out, the byte
  count is exact, and the quotas are respected.
\<close>

definition keys_ok :: "memory_store \<Rightarrow> bool" where
  "keys_ok st \<longleftrightarrow>
     (\<forall>lk e. fmlookup (ms_regions st) lk = Some e \<longrightarrow>
        me_lkey e = LKey lk \<and> fmlookup (ms_rkey_to_lkey st) (rkey_val (me_rkey e)) = Some lk \<and>
        rkey_val (me_rkey e) |\<in>| ms_used_rkeys st \<and> 0 < lk \<and> lk < ms_next_lkey st) \<and>
     (\<forall>rk lk. fmlookup (ms_rkey_to_lkey st) rk = Some lk \<longrightarrow>
        (\<exists>e. fmlookup (ms_regions st) lk = Some e \<and> me_rkey e = RKey rk)) \<and>
     0 |\<notin>| ms_used_rkeys st \<and> 0 < ms_next_lkey st"

definition quota_ok :: "memory_store \<Rightarrow> bool" where
  "quota_ok st \<longleftrightarrow>
     unat (ms_total_registered_bytes st) = held_bytes (ms_regions st) \<and>
     ms_total_registered_bytes st \<le> ms_max_total_bytes st \<and>
     fcard (fmdom (ms_regions st)) \<le> ms_max_regions st \<and>
     (\<forall>lk e. fmlookup (ms_regions st) lk = Some e \<longrightarrow> length (me_data e) \<le> isize_max)"

definition store_inv :: "memory_store \<Rightarrow> bool" where
  "store_inv st \<longleftrightarrow> keys_ok st \<and> quota_ok st"

text \<open>Replacing the bytes of the region an R_Key names.\<close>

definition mr_update :: "rkey \<Rightarrow> bytes \<Rightarrow> memory_store \<Rightarrow> memory_store" where
  "mr_update rk bs st = (case fmlookup (ms_rkey_to_lkey st) (rkey_val rk) of
     None \<Rightarrow> st
   | Some lk \<Rightarrow> (case fmlookup (ms_regions st) lk of
       None \<Rightarrow> st
     | Some e \<Rightarrow> st\<lparr>ms_regions := fmupd lk (e\<lparr>me_data := bs\<rparr>) (ms_regions st)\<rparr>))"

text \<open>The 64-bit big-endian number stored at an offset, and what an atomic makes of it.\<close>

definition word_at :: "bytes \<Rightarrow> nat \<Rightarrow> u64" where
  "word_at bs i = from_be (sub_slice bs i (i + 8))"

definition atomic_new :: "u8 \<Rightarrow> u64 \<Rightarrow> u64 \<Rightarrow> u64 \<Rightarrow> u64" where
  "atomic_new ty op1 op2 old =
     (if ty = ATOMIC_TYPE_CAS then (if old = op1 then op2 else old) else old + op1)"

text \<open>Runs of the store: any sequence of operations that return, with what they report.\<close>

datatype store_event =
    Registered lkey rkey
  | Deregistered lkey
  | Wrote rkey
  | Atomic rkey
  | Refused error_code

inductive store_step :: "memory_store \<Rightarrow> store_event \<Rightarrow> memory_store \<Rightarrow> bool" where
  registered: "register os_rng pd fl len st = (Ok (lk, rk), st') \<Longrightarrow>
    store_step st (Registered lk rk) st'"
| register_refused: "register os_rng pd fl len st = (Err e, st') \<Longrightarrow> store_step st (Refused e) st'"
| deregistered: "deregister pd lk st = (Ok (), st') \<Longrightarrow> store_step st (Deregistered lk) st'"
| deregister_refused: "deregister pd lk st = (Err e, st') \<Longrightarrow> store_step st (Refused e) st'"
| wrote: "write_region rk off data st = (Ok (), st') \<Longrightarrow> store_step st (Wrote rk) st'"
| write_refused: "write_region rk off data st = (Err e, st') \<Longrightarrow> store_step st (Refused e) st'"
| atomic: "atomic_op rk va ty op1 op2 st = (Ok w, st') \<Longrightarrow> store_step st (Atomic rk) st'"
| atomic_refused: "atomic_op rk va ty op1 op2 st = (Err e, st') \<Longrightarrow> store_step st (Refused e) st'"

inductive store_run :: "memory_store \<Rightarrow> store_event list \<Rightarrow> memory_store \<Rightarrow> bool" where
  run_nil: "store_run st [] st"
| run_snoc: "store_run st evs st' \<Longrightarrow> store_step st' ev st'' \<Longrightarrow> store_run st (evs @ [ev]) st''"

fun registered_rkey :: "store_event \<Rightarrow> rkey option" where
  "registered_rkey (Registered lk rk) = Some rk"
| "registered_rkey _ = None"

fun registered_lkey :: "store_event \<Rightarrow> lkey option" where
  "registered_lkey (Registered lk rk) = Some lk"
| "registered_lkey _ = None"

definition registered_rkeys :: "store_event list \<Rightarrow> rkey list" where
  "registered_rkeys evs = List.map_filter registered_rkey evs"

definition registered_lkeys :: "store_event list \<Rightarrow> lkey list" where
  "registered_lkeys evs = List.map_filter registered_lkey evs"

section \<open>Lemmas on the number of bytes held\<close>

lemma held_bytes_empty [simp, store_simps]: "held_bytes fmempty = 0"
  by (simp add: held_bytes_def)

lemma held_bytes_new [store_simps]:
  assumes "fmlookup m lk = None"
  shows "held_bytes (fmupd lk e m) = held_bytes m + length (me_data e)"
proof -
  have notin: "lk \<notin> fset (fmdom m)" using assms by (simp add: fmdom_notI)
  then have "(\<Sum>k \<in> fset (fmdom m). length (me_data (the (fmlookup (fmupd lk e m) k)))) = held_bytes m"
    unfolding held_bytes_def by (intro sum.cong) auto
  with notin show ?thesis by (simp add: held_bytes_def)
qed

lemma held_bytes_drop [store_simps]:
  assumes "fmlookup m lk = Some e"
  shows "held_bytes m = held_bytes (fmdrop lk m) + length (me_data e)"
proof -
  have "lk \<in> fset (fmdom m)" using assms by (simp add: fmdomI)
  then have "held_bytes m = length (me_data e) +
      (\<Sum>k \<in> fset (fmdom m) - {lk}. length (me_data (the (fmlookup m k))))"
    using assms unfolding held_bytes_def by (simp add: sum.remove)
  moreover have "(\<Sum>k \<in> fset (fmdom m) - {lk}. length (me_data (the (fmlookup m k))))
      = held_bytes (fmdrop lk m)"
    unfolding held_bytes_def by (intro sum.cong) auto
  ultimately show ?thesis by simp
qed

lemma held_bytes_same [store_simps]:
  assumes "fmlookup m lk = Some e" and "length (me_data e') = length (me_data e)"
  shows "held_bytes (fmupd lk e' m) = held_bytes m"
proof -
  have "fmlookup (fmupd lk e' m) lk = Some e'" by simp
  moreover have "fmdrop lk (fmupd lk e' m) = fmdrop lk m" by (intro fmap_ext) simp
  ultimately show ?thesis
    using held_bytes_drop [of "fmupd lk e' m" lk e'] held_bytes_drop [OF assms(1)] assms(2) by simp
qed

lemma fcard_fmdom_drop:
  assumes "fmlookup m lk = Some e"
  shows "fcard (fmdom m) = Suc (fcard (fmdom (fmdrop lk m)))"
proof -
  have "lk |\<in>| fmdom m" using assms by (rule fmdomI)
  from fcard_Suc_fminus1 [OF this] show ?thesis by (simp only: fmdom_drop)
qed

section \<open>Lemmas on the invariant\<close>

lemma keys_okD:
  assumes "keys_ok st" and "fmlookup (ms_regions st) lk = Some e"
  shows "me_lkey e = LKey lk" and "fmlookup (ms_rkey_to_lkey st) (rkey_val (me_rkey e)) = Some lk"
    and "rkey_val (me_rkey e) |\<in>| ms_used_rkeys st" and "0 < lk" and "lk < ms_next_lkey st"
  using assms by (auto simp: keys_ok_def)

lemma keys_ok_rkeyD:
  assumes "keys_ok st" and "fmlookup (ms_rkey_to_lkey st) rk = Some lk"
  obtains e where "fmlookup (ms_regions st) lk = Some e" and "me_rkey e = RKey rk"
  using assms unfolding keys_ok_def by blast

lemma keys_ok_injective:
  assumes "keys_ok st" and "fmlookup (ms_rkey_to_lkey st) rk = Some lk"
    and "fmlookup (ms_rkey_to_lkey st) rk' = Some lk"
  shows "rk' = rk"
proof -
  obtain e where "fmlookup (ms_regions st) lk = Some e" "me_rkey e = RKey rk"
    using assms(1,2) by (rule keys_ok_rkeyD)
  moreover obtain e' where "fmlookup (ms_regions st) lk = Some e'" "me_rkey e' = RKey rk'"
    using assms(1,3) by (rule keys_ok_rkeyD)
  ultimately show ?thesis by simp
qed

lemma mr_lookup_SomeE:
  assumes "mr_lookup st rk = Some e"
  obtains lk where "fmlookup (ms_rkey_to_lkey st) (rkey_val rk) = Some lk"
    and "fmlookup (ms_regions st) lk = Some e"
  using assms by (auto simp: mr_lookup_def split: option.splits)

lemma mr_lookup_next_lkey [simp]: "mr_lookup (st\<lparr>ms_next_lkey := k\<rparr>) = mr_lookup st"
  by (rule ext) (simp add: mr_lookup_def cong: option.case_cong)

lemma mr_lookup_rkey:
  assumes "keys_ok st" and "mr_lookup st rk = Some e"
  shows "me_rkey e = rk"
proof -
  obtain lk where lk: "fmlookup (ms_rkey_to_lkey st) (rkey_val rk) = Some lk"
    "fmlookup (ms_regions st) lk = Some e"
    using assms(2) by (rule mr_lookup_SomeE)
  obtain e' where "fmlookup (ms_regions st) lk = Some e'" "me_rkey e' = RKey (rkey_val rk)"
    using assms(1) lk(1) by (rule keys_ok_rkeyD)
  with lk(2) show ?thesis by simp
qed

lemma mr_lookup_update:
  assumes "keys_ok st" and "mr_lookup st rk = Some e"
  shows "mr_lookup (mr_update rk bs st) = (mr_lookup st)(rk \<mapsto> e\<lparr>me_data := bs\<rparr>)"
proof (rule ext)
  fix rk'
  obtain lk where lk: "fmlookup (ms_rkey_to_lkey st) (rkey_val rk) = Some lk"
    "fmlookup (ms_regions st) lk = Some e"
    using assms(2) by (rule mr_lookup_SomeE)
  have up: "mr_update rk bs st = st\<lparr>ms_regions := fmupd lk (e\<lparr>me_data := bs\<rparr>) (ms_regions st)\<rparr>"
    by (simp add: mr_update_def lk)
  show "mr_lookup (mr_update rk bs st) rk' = ((mr_lookup st)(rk \<mapsto> e\<lparr>me_data := bs\<rparr>)) rk'"
  proof (cases "rk' = rk")
    case True
    then show ?thesis by (simp add: mr_lookup_def up lk)
  next
    case False
    then have "rkey_val rk' \<noteq> rkey_val rk" by (metis rkey.expand)
    then have "fmlookup (ms_rkey_to_lkey st) (rkey_val rk') \<noteq> Some lk"
      using keys_ok_injective [OF assms(1) lk(1)] by blast
    then show ?thesis using False by (auto simp: mr_lookup_def up split: option.split)
  qed
qed

lemma mr_update_inv:
  assumes "store_inv st" and "mr_lookup st rk = Some e" and "length bs = length (me_data e)"
  shows "store_inv (mr_update rk bs st)"
proof -
  obtain lk where lk: "fmlookup (ms_rkey_to_lkey st) (rkey_val rk) = Some lk"
    "fmlookup (ms_regions st) lk = Some e"
    using assms(2) by (rule mr_lookup_SomeE)
  have "finsert lk (fmdom (ms_regions st)) = fmdom (ms_regions st)"
    using fmdomI [OF lk(2)] by blast
  moreover have "held_bytes (fmupd lk (e\<lparr>me_data := bs\<rparr>) (ms_regions st)) = held_bytes (ms_regions st)"
    using lk(2) assms(3) by (simp add: held_bytes_same)
  ultimately have "quota_ok (mr_update rk bs st)"
    using assms(1,3) lk by (auto simp: store_inv_def quota_ok_def mr_update_def)
  moreover have "keys_ok (mr_update rk bs st)"
    using assms(1) lk unfolding store_inv_def keys_ok_def mr_update_def
    by simp (metis option.inject)
  ultimately show ?thesis by (simp add: store_inv_def)
qed

lemma mr_update_fields [simp]:
  "ms_rkey_to_lkey (mr_update rk bs st) = ms_rkey_to_lkey st"
  "ms_used_rkeys (mr_update rk bs st) = ms_used_rkeys st"
  "ms_next_lkey (mr_update rk bs st) = ms_next_lkey st"
  "ms_total_registered_bytes (mr_update rk bs st) = ms_total_registered_bytes st"
  "ms_max_regions (mr_update rk bs st) = ms_max_regions st"
  "ms_max_total_bytes (mr_update rk bs st) = ms_max_total_bytes st"
  by (auto simp: mr_update_def split: option.splits)

lemma store_inv_new: "store_inv (memory_store_new max_regions max_total_bytes)"
  by (simp add: store_inv_def keys_ok_def quota_ok_def memory_store_new_def fcard_fempty)

lemma mr_data_bound: "store_inv st \<Longrightarrow> mr_lookup st rk = Some e \<Longrightarrow> length (me_data e) \<le> isize_max"
  by (auto simp: store_inv_def quota_ok_def elim: mr_lookup_SomeE)

section \<open>The operations on every branch\<close>

lemma generate_rkey_loop_cases:
  obtains j where "j < n" and "from_be (os_rng (i + j)) \<noteq> (0 :: u32)"
      and "from_be (os_rng (i + j)) |\<notin>| ms_used_rkeys st"
      and "generate_rkey_loop n i os_rng st = (Ok (RKey (from_be (os_rng (i + j)))),
        st\<lparr>ms_used_rkeys := finsert (from_be (os_rng (i + j))) (ms_used_rkeys st)\<rparr>)"
  | "\<And>j. j < n \<Longrightarrow> from_be (os_rng (i + j)) = (0 :: u32) \<or> from_be (os_rng (i + j)) |\<in>| ms_used_rkeys st"
      and "generate_rkey_loop n i os_rng st = (Err ErrInternal, st)"
proof (induction n arbitrary: i thesis)
  case 0
  then show ?case by simp
next
  case (Suc n)
  show ?case
  proof (cases "from_be (os_rng i) \<noteq> (0 :: u32) \<and> from_be (os_rng i) |\<notin>| ms_used_rkeys st")
    case True
    then show ?thesis using Suc.prems(1) [of 0] by (simp add: Let_def)
  next
    case False
    then have step: "generate_rkey_loop (Suc n) i os_rng st = generate_rkey_loop n (Suc i) os_rng st"
      by (auto simp: Let_def)
    show ?thesis
    proof (rule Suc.IH [of "Suc i"])
      fix j
      assume "j < n" "from_be (os_rng (Suc i + j)) \<noteq> (0 :: u32)"
        "from_be (os_rng (Suc i + j)) |\<notin>| ms_used_rkeys st"
        "generate_rkey_loop n (Suc i) os_rng st = (Ok (RKey (from_be (os_rng (Suc i + j)))),
          st\<lparr>ms_used_rkeys := finsert (from_be (os_rng (Suc i + j))) (ms_used_rkeys st)\<rparr>)"
      then show ?thesis using Suc.prems(1) [of "Suc j"] step by simp
    next
      assume none: "\<And>j. j < n \<Longrightarrow>
          from_be (os_rng (Suc i + j)) = (0 :: u32) \<or> from_be (os_rng (Suc i + j)) |\<in>| ms_used_rkeys st"
        and "generate_rkey_loop n (Suc i) os_rng st = (Err ErrInternal, st)"
      moreover have "from_be (os_rng (i + j)) = (0 :: u32) \<or> from_be (os_rng (i + j)) |\<in>| ms_used_rkeys st"
        if "j < Suc n" for j
        using that none [of "j - 1"] False by (cases j) auto
      ultimately show ?thesis using Suc.prems(2) step by simp
    qed
  qed
qed

lemma generate_rkey_first:
  assumes "from_be (os_rng 0) = val" and "val \<noteq> 0" and "val |\<notin>| ms_used_rkeys st"
  shows "generate_rkey os_rng st =
    (Ok (RKey val), st\<lparr>ms_used_rkeys := finsert val (ms_used_rkeys st)\<rparr>)"
proof -
  have "generate_rkey os_rng st = generate_rkey_loop (Suc 999) 0 os_rng st"
    by (simp add: generate_rkey_def)
  then show ?thesis using assms by (simp only: generate_rkey_loop.simps) (simp add: Let_def)
qed

lemma validate_rkey_eq:
  "validate_rkey rk fl st = (case mr_lookup st rk of
     None \<Rightarrow> Err ErrInvalidMkey
   | Some e \<Rightarrow> if af_contains (me_access_flags e) fl then Ok e else Err ErrAccessDenied)"
  by (auto simp: validate_rkey_def mr_lookup_def split: option.splits)

lemma write_region_eq:
  assumes "store_inv st"
  shows "write_region rk off data st = (case mr_lookup st rk of
      None \<Rightarrow> (Err ErrInvalidMkey, st)
    | Some e \<Rightarrow>
        if \<not> af_contains (me_access_flags e) REMOTE_WRITE then (Err ErrAccessDenied, st)
        else if length (me_data e) < unat off + length data then (Err ErrBounds, st)
        else (Ok (), mr_update rk (put_slice (me_data e) (unat off) data) st))"
proof (cases "mr_lookup st rk")
  case None
  then show ?thesis by (auto simp: write_region_def mr_lookup_def split: option.splits)
next
  case (Some e)
  then obtain lk where "fmlookup (ms_rkey_to_lkey st) (rkey_val rk) = Some lk"
    "fmlookup (ms_regions st) lk = Some e" by (rule mr_lookup_SomeE)
  with Some mr_data_bound [OF assms Some] show ?thesis
    by (auto simp: write_region_def checked_add_def Let_def mr_update_def)
qed

lemma read_region_eq:
  assumes "store_inv st"
  shows "read_region rk off len st = (case mr_lookup st rk of
      None \<Rightarrow> Err ErrInvalidMkey
    | Some e \<Rightarrow>
        if \<not> af_contains (me_access_flags e) REMOTE_READ then Err ErrAccessDenied
        else if length (me_data e) < unat off + unat len then Err ErrBounds
        else Ok (sub_slice (me_data e) (unat off) (unat off + unat len)))"
proof (cases "mr_lookup st rk")
  case None
  then show ?thesis by (auto simp: read_region_def mr_lookup_def split: option.splits)
next
  case (Some e)
  then obtain lk where "fmlookup (ms_rkey_to_lkey st) (rkey_val rk) = Some lk"
    "fmlookup (ms_regions st) lk = Some e" by (rule mr_lookup_SomeE)
  with Some mr_data_bound [OF assms Some] show ?thesis
    by (auto simp: read_region_def checked_add_def Let_def)
qed

lemma atomic_op_eq:
  assumes "store_inv st"
  shows "atomic_op rk va ty op1 op2 st = (case mr_lookup st rk of
      None \<Rightarrow> (Err ErrInvalidMkey, st)
    | Some e \<Rightarrow>
        if \<not> af_contains (me_access_flags e) REMOTE_ATOMIC then (Err ErrAccessDenied, st)
        else if va mod 8 \<noteq> 0 then (Err ErrAlignment, st)
        else if length (me_data e) < unat va + 8 then (Err ErrBounds, st)
        else if ty \<noteq> ATOMIC_TYPE_CAS \<and> ty \<noteq> ATOMIC_TYPE_FAA then (Err ErrUnknownOpcode, st)
        else (Ok (word_at (me_data e) (unat va)), mr_update rk (put_slice (me_data e) (unat va)
               (to_be 8 (atomic_new ty op1 op2 (word_at (me_data e) (unat va))))) st))"
proof (cases "mr_lookup st rk")
  case None
  then show ?thesis by (auto simp: atomic_op_def mr_lookup_def split: option.splits)
next
  case (Some e)
  then obtain lk where "fmlookup (ms_rkey_to_lkey st) (rkey_val rk) = Some lk"
    "fmlookup (ms_regions st) lk = Some e" by (rule mr_lookup_SomeE)
  with Some mr_data_bound [OF assms Some] show ?thesis
    by (simp add: atomic_op_def checked_add_def Let_def mr_update_def word_at_def atomic_new_def
        ATOMIC_TYPE_CAS_def ATOMIC_TYPE_FAA_def)
qed

lemma word_Suc_less:
  fixes w :: u32
  assumes "unat w + 1 < 4294967296"
  shows "w < w + 1" and "0 < w + 1" and "unat (w + 1) = unat w + 1"
proof -
  show "unat (w + 1) = unat w + 1"
    using assms by (simp add: unat_word_ariths)
  then show "w < w + 1" and "0 < w + 1" by (simp_all add: word_less_nat_alt)
qed

lemma register_OkE:
  assumes "register os_rng pd fl len st = (Ok (lk, rk), st')"
  obtains j where "fcard (fmdom (ms_regions st)) < ms_max_regions st"
    and "unat (ms_total_registered_bytes st) + unat len < usize_limit"
    and "ms_total_registered_bytes st + len \<le> ms_max_total_bytes st"
    and "unat (ms_next_lkey st) + 1 < 4294967296" and "unat len \<le> isize_max"
    and "lk = LKey (ms_next_lkey st)" and "j < 1000" and "rk = RKey (from_be (os_rng j))"
    and "rkey_val rk \<noteq> 0" and "rkey_val rk |\<notin>| ms_used_rkeys st"
    and "st' = st\<lparr>ms_next_lkey := ms_next_lkey st + 1,
      ms_used_rkeys := finsert (rkey_val rk) (ms_used_rkeys st),
      ms_rkey_to_lkey := fmupd (rkey_val rk) (ms_next_lkey st) (ms_rkey_to_lkey st),
      ms_regions := fmupd (ms_next_lkey st) \<lparr>me_pd = pd, me_lkey = lk, me_rkey = rk,
        me_access_flags = fl, me_data = replicate (unat len) 0\<rparr> (ms_regions st),
      ms_total_registered_bytes := ms_total_registered_bytes st + len\<rparr>"
proof -
  define st1 where "st1 = st\<lparr>ms_next_lkey := ms_next_lkey st + 1\<rparr>"
  show thesis
  proof (rule generate_rkey_loop_cases [of 1000 os_rng 0 st1])
    fix j
    assume gen: "j < 1000" "from_be (os_rng (0 + j)) \<noteq> (0 :: u32)"
      "from_be (os_rng (0 + j)) |\<notin>| ms_used_rkeys st1"
      "generate_rkey_loop 1000 0 os_rng st1 = (Ok (RKey (from_be (os_rng (0 + j)))),
        st1\<lparr>ms_used_rkeys := finsert (from_be (os_rng (0 + j))) (ms_used_rkeys st1)\<rparr>)"
    then have "generate_rkey os_rng (st\<lparr>ms_next_lkey := ms_next_lkey st + 1\<rparr>) =
        (Ok (RKey (from_be (os_rng j))), st\<lparr>ms_next_lkey := ms_next_lkey st + 1,
          ms_used_rkeys := finsert (from_be (os_rng j)) (ms_used_rkeys st)\<rparr>)"
      by (simp add: generate_rkey_def st1_def)
    with assms gen that [of j] show thesis
      by (auto simp: register_def u64_add_def u32_add_def vec_zeroed_def Let_def st1_def not_le
          not_less split: if_split_asm)
  next
    assume "generate_rkey_loop 1000 0 os_rng st1 = (Err ErrInternal, st1)"
    with assms show thesis
      by (simp add: register_def u64_add_def u32_add_def Let_def generate_rkey_def st1_def
          split: if_split_asm)
  qed
qed

lemma register_ErrD:
  assumes "register os_rng pd fl len st = (Err e, st')"
  shows "st' = st \<or> (unat (ms_next_lkey st) + 1 < 4294967296 \<and>
    st' = st\<lparr>ms_next_lkey := ms_next_lkey st + 1\<rparr>)"
proof -
  define st1 where "st1 = st\<lparr>ms_next_lkey := ms_next_lkey st + 1\<rparr>"
  show ?thesis
    by (rule generate_rkey_loop_cases [of 1000 os_rng 0 st1])
      (use assms in \<open>auto simp: register_def u64_add_def u32_add_def vec_zeroed_def Let_def
        generate_rkey_def st1_def [symmetric] split: if_split_asm\<close>)
qed

lemma deregister_OkE:
  assumes "deregister pd lk st = (Ok (), st')"
  obtains e where "fmlookup (ms_regions st) (lkey_val lk) = Some e" and "me_pd e = pd"
    and "of_nat (length (me_data e)) \<le> ms_total_registered_bytes st"
    and "st' = st\<lparr>ms_rkey_to_lkey := fmdrop (rkey_val (me_rkey e)) (ms_rkey_to_lkey st),
      ms_regions := fmdrop (lkey_val lk) (ms_regions st),
      ms_total_registered_bytes := ms_total_registered_bytes st - of_nat (length (me_data e))\<rparr>"
  using assms that
  by (cases "fmlookup (ms_regions st) (lkey_val lk)")
    (auto simp: deregister_def u64_sub_def Let_def split: if_split_asm)

lemma register_effect:
  assumes inv: "store_inv st" and reg: "register os_rng pd fl len st = (Ok (lk, rk), st')"
  shows "store_inv st'" and "mr_lookup st rk = None"
    and "mr_lookup st' = (mr_lookup st)(rk \<mapsto> \<lparr>me_pd = pd, me_lkey = lk, me_rkey = rk,
        me_access_flags = fl, me_data = replicate (unat len) 0\<rparr>)"
    and "fmlookup (ms_regions st) (lkey_val lk) = None"
proof -
  let ?k = "ms_next_lkey st"
  let ?e = "\<lparr>me_pd = pd, me_lkey = lk, me_rkey = rk, me_access_flags = fl,
    me_data = replicate (unat len) 0\<rparr>"
  obtain quota: "fcard (fmdom (ms_regions st)) < ms_max_regions st"
      "unat (ms_total_registered_bytes st) + unat len < usize_limit"
      "ms_total_registered_bytes st + len \<le> ms_max_total_bytes st" "unat len \<le> isize_max"
    and next_ok: "unat ?k + 1 < 4294967296"
    and keys: "lk = LKey ?k" "rkey_val rk \<noteq> 0" "rkey_val rk |\<notin>| ms_used_rkeys st"
    and st': "st' = st\<lparr>ms_next_lkey := ?k + 1,
      ms_used_rkeys := finsert (rkey_val rk) (ms_used_rkeys st),
      ms_rkey_to_lkey := fmupd (rkey_val rk) ?k (ms_rkey_to_lkey st),
      ms_regions := fmupd ?k ?e (ms_regions st),
      ms_total_registered_bytes := ms_total_registered_bytes st + len\<rparr>"
    using reg by (rule register_OkE) blast
  have ok: "keys_ok st" using inv by (simp add: store_inv_def)
  have lk_new: "fmlookup (ms_regions st) ?k = None"
    using keys_okD(5) [OF ok, of ?k] by fastforce
  have rk_new: "fmlookup (ms_rkey_to_lkey st) (rkey_val rk) = None"
  proof (rule ccontr)
    assume "fmlookup (ms_rkey_to_lkey st) (rkey_val rk) \<noteq> None"
    then obtain l where "fmlookup (ms_rkey_to_lkey st) (rkey_val rk) = Some l" by blast
    then obtain e where "fmlookup (ms_regions st) l = Some e" "me_rkey e = RKey (rkey_val rk)"
      by (rule keys_ok_rkeyD [OF ok])
    with keys(3) keys_okD(3) [OF ok] show False by fastforce
  qed
  show "fmlookup (ms_regions st) (lkey_val lk) = None" using lk_new keys by simp
  show "mr_lookup st rk = None" using rk_new by (simp add: mr_lookup_def)
  have not_lk: "fmlookup (ms_rkey_to_lkey st) r \<noteq> Some ?k" for r
    using lk_new by (auto elim!: keys_ok_rkeyD [OF ok])
  show "mr_lookup st' = (mr_lookup st)(rk \<mapsto> ?e)"
  proof (rule ext)
    fix r
    have "rkey_val r = rkey_val rk \<longleftrightarrow> r = rk" by (metis rkey.expand)
    then show "mr_lookup st' r = ((mr_lookup st)(rk \<mapsto> ?e)) r"
      using not_lk [of "rkey_val r"] by (auto simp: mr_lookup_def st' split: option.split)
  qed
  have "l < ?k + 1" if "fmlookup (ms_regions st) l = Some e" for l e
    using keys_okD(5) [OF ok that] word_Suc_less(1) [OF next_ok] by (rule less_trans)
  then have "keys_ok st'"
    using ok lk_new rk_new keys word_Suc_less [OF next_ok] not_lk
    unfolding keys_ok_def st' by auto
  moreover have "quota_ok st'"
    using inv quota lk_new
    by (auto simp: store_inv_def quota_ok_def st' held_bytes_new fcard_finsert_if unat_word_ariths)
  ultimately show "store_inv st'" by (simp add: store_inv_def)
qed

lemma region_bytes_le_total:
  assumes "quota_ok st" and "fmlookup (ms_regions st) lk = Some e"
  shows "unat (of_nat (length (me_data e)) :: u64) = length (me_data e)"
    and "(of_nat (length (me_data e)) :: u64) \<le> ms_total_registered_bytes st"
proof -
  have "length (me_data e) \<le> isize_max" using assms by (auto simp: quota_ok_def)
  then show u: "unat (of_nat (length (me_data e)) :: u64) = length (me_data e)"
    by (intro unat_of_nat_u64) simp
  show "(of_nat (length (me_data e)) :: u64) \<le> ms_total_registered_bytes st"
    using assms held_bytes_drop [OF assms(2)] by (simp add: word_le_nat_alt u quota_ok_def)
qed

lemma deregister_eq:
  assumes "store_inv st"
  shows "deregister pd lk st = (case fmlookup (ms_regions st) (lkey_val lk) of
      None \<Rightarrow> (Err ErrInvalidLkey, st)
    | Some e \<Rightarrow>
        if me_pd e \<noteq> pd then (Err ErrInvalidPd, st)
        else (Ok (), st\<lparr>ms_rkey_to_lkey := fmdrop (rkey_val (me_rkey e)) (ms_rkey_to_lkey st),
          ms_regions := fmdrop (lkey_val lk) (ms_regions st),
          ms_total_registered_bytes := ms_total_registered_bytes st - of_nat (length (me_data e))\<rparr>))"
  using assms region_bytes_le_total(2) [of st "lkey_val lk"]
  by (auto simp: deregister_def u64_sub_def Let_def store_inv_def split: option.split)

lemma deregister_effect:
  assumes inv: "store_inv st" and dereg: "deregister pd lk st = (Ok (), st')"
    and e: "fmlookup (ms_regions st) (lkey_val lk) = Some e"
  shows "store_inv st'" and "mr_lookup st' = (mr_lookup st)(me_rkey e := None)"
    and "mr_lookup st (me_rkey e) = Some e"
proof -
  have st': "st' = st\<lparr>ms_rkey_to_lkey := fmdrop (rkey_val (me_rkey e)) (ms_rkey_to_lkey st),
      ms_regions := fmdrop (lkey_val lk) (ms_regions st),
      ms_total_registered_bytes := ms_total_registered_bytes st - of_nat (length (me_data e))\<rparr>"
    using dereg e by (simp add: deregister_eq [OF inv] split: if_split_asm)
  have ok: "keys_ok st" and quota: "quota_ok st" using inv by (simp_all add: store_inv_def)
  note rk = keys_okD(2) [OF ok e]
  show "mr_lookup st (me_rkey e) = Some e" by (simp add: mr_lookup_def rk e)
  have other: "fmlookup (ms_rkey_to_lkey st) r \<noteq> Some (lkey_val lk)" if "r \<noteq> rkey_val (me_rkey e)" for r
    using keys_ok_injective [OF ok rk] that by blast
  show "mr_lookup st' = (mr_lookup st)(me_rkey e := None)"
  proof (rule ext)
    fix r
    have "rkey_val r = rkey_val (me_rkey e) \<longleftrightarrow> r = me_rkey e" by (metis rkey.expand)
    then show "mr_lookup st' r = ((mr_lookup st)(me_rkey e := None)) r"
      using other [of "rkey_val r"] by (auto simp: mr_lookup_def st' split: option.split)
  qed
  have "l = lkey_val lk" if "fmlookup (ms_regions st) l = Some e'" "rkey_val (me_rkey e') = rkey_val (me_rkey e)" for l e'
    using keys_okD(2) [OF ok that(1)] that(2) rk by simp
  then have "keys_ok st'"
    using ok other unfolding keys_ok_def st' by (auto split: if_split_asm)
  moreover have "quota_ok st'"
  proof -
    note len = region_bytes_le_total [OF quota e]
    have "unat (ms_total_registered_bytes st - of_nat (length (me_data e)))
        = unat (ms_total_registered_bytes st) - length (me_data e)"
      using len by (simp add: unat_sub)
    moreover have "ms_total_registered_bytes st - of_nat (length (me_data e)) \<le> ms_total_registered_bytes st"
      using len(2) by (rule word_sub_le)
    ultimately show ?thesis
      using quota held_bytes_drop [OF e] fcard_fmdom_drop [OF e]
      unfolding quota_ok_def st' by (auto simp del: fmdom_drop intro: order_trans)
  qed
  ultimately show "store_inv st'" by (simp add: store_inv_def)
qed

section \<open>The store as a set of byte regions\<close>

lemma mr_bytes_update:
  "keys_ok st \<Longrightarrow> mr_lookup st rk = Some e \<Longrightarrow>
   mr_bytes (mr_update rk bs st) = (mr_bytes st)(rk \<mapsto> bs)"
  by (rule ext) (simp add: mr_bytes_def mr_lookup_update)

lemma mr_allows_update:
  "keys_ok st \<Longrightarrow> mr_lookup st rk = Some e \<Longrightarrow> mr_allows fl (mr_update rk bs st) = mr_allows fl st"
  by (rule ext) (simp add: mr_allows_def mr_lookup_update)

interpretation mem: byte_store store_inv mr_bytes "mr_allows REMOTE_WRITE" "mr_allows REMOTE_READ"
  unat write_region read_region
proof unfold_locales
  fix st rk off data
  assume "store_inv st"
  then show "fst (write_region rk off data st) = Ok () \<longleftrightarrow>
      (\<exists>bs. mr_bytes st rk = Some bs \<and> mr_allows REMOTE_WRITE st rk \<and> unat off + length data \<le> length bs)"
    by (auto simp: write_region_eq mr_bytes_def mr_allows_def split: option.split)
next
  fix st rk off data st' bs
  assume inv: "store_inv st" and wr: "write_region rk off data st = (Ok (), st')"
    and "mr_bytes st rk = Some bs"
  then obtain e where e: "mr_lookup st rk = Some e" "bs = me_data e"
    by (auto simp: mr_bytes_def)
  with inv wr have "st' = mr_update rk (put_slice bs (unat off) data) st"
    "unat off + length data \<le> length bs"
    by (auto simp: write_region_eq split: if_split_asm)
  with e inv show "store_inv st' \<and> mr_bytes st' = (mr_bytes st)(rk \<mapsto> put_slice bs (unat off) data) \<and>
      mr_allows REMOTE_WRITE st' = mr_allows REMOTE_WRITE st \<and>
      mr_allows REMOTE_READ st' = mr_allows REMOTE_READ st"
    using mr_update_inv [OF inv e(1)]
    by (simp add: mr_bytes_update mr_allows_update store_inv_def)
next
  fix rk off data st r st'
  assume "write_region rk off data st = (r, st')" and "r \<noteq> Ok ()"
  then show "st' = st"
    by (cases "fmlookup (ms_rkey_to_lkey st) (rkey_val rk)";
        cases "fmlookup (ms_regions st) (the (fmlookup (ms_rkey_to_lkey st) (rkey_val rk)))";
        cases "checked_add (unat off) (length data)")
      (auto simp: write_region_def Let_def split: if_split_asm)
next
  fix st rk off len data
  assume "store_inv st"
  then show "read_region rk off len st = Ok data \<longleftrightarrow>
      (\<exists>bs. mr_bytes st rk = Some bs \<and> mr_allows REMOTE_READ st rk \<and>
        unat off + unat len \<le> length bs \<and> data = sub_slice bs (unat off) (unat off + unat len))"
    by (auto simp: read_region_eq mr_bytes_def mr_allows_def split: option.split)
next
  fix st st' rk off len
  assume inv: "store_inv st" "store_inv st'"
    and len: "map_option length (mr_bytes st' rk) = map_option length (mr_bytes st rk)"
    and perm: "mr_allows REMOTE_READ st' rk = mr_allows REMOTE_READ st rk"
    and refused: "\<nexists>data. read_region rk off len st = Ok data"
  show "read_region rk off len st' = read_region rk off len st"
    using len perm refused
    by (cases "mr_lookup st rk"; cases "mr_lookup st' rk")
      (auto simp: read_region_eq [OF inv(1)] read_region_eq [OF inv(2)] mr_bytes_def mr_allows_def)
qed

section \<open>Runs of the store\<close>

lemma register_keeps_inv:
  assumes "store_inv st" and "register os_rng pd fl len st = (r, st')" and "r \<noteq> Panic"
  shows "store_inv st'"
proof (cases r)
  case (Ok k)
  then show ?thesis using assms register_effect(1) by (cases k) auto
next
  case (Err e)
  with assms have "st' = st \<or> (unat (ms_next_lkey st) + 1 < 4294967296 \<and>
    st' = st\<lparr>ms_next_lkey := ms_next_lkey st + 1\<rparr>)" by (auto dest: register_ErrD)
  then show ?thesis
  proof
    assume bump: "unat (ms_next_lkey st) + 1 < 4294967296 \<and> st' = st\<lparr>ms_next_lkey := ms_next_lkey st + 1\<rparr>"
    then show ?thesis
      using assms(1) word_Suc_less [of "ms_next_lkey st"]
      by (auto simp: store_inv_def keys_ok_def quota_ok_def intro: less_trans)
  qed (use assms in simp)
next
  case Blocked
  show ?thesis
    by (rule generate_rkey_loop_cases [of 1000 os_rng 0 "st\<lparr>ms_next_lkey := ms_next_lkey st + 1\<rparr>"])
      (use assms(2) Blocked in \<open>auto simp: register_def u64_add_def u32_add_def vec_zeroed_def Let_def
        generate_rkey_def split: if_split_asm\<close>)
qed (use assms in simp)

lemma deregister_keeps_inv:
  assumes "store_inv st" and "deregister pd lk st = (r, st')"
  shows "store_inv st'"
proof (cases "fmlookup (ms_regions st) (lkey_val lk)")
  case None
  then show ?thesis using assms by (simp add: deregister_eq)
next
  case (Some e)
  show ?thesis
  proof (cases "me_pd e = pd")
    case True
    with assms Some have "r = Ok ()" by (simp add: deregister_eq)
    with assms show ?thesis using deregister_effect(1) [OF assms(1) _ Some] by simp
  qed (use assms Some in \<open>simp add: deregister_eq\<close>)
qed

lemma atomic_op_cases:
  assumes "store_inv st"
  shows "snd (atomic_op rk va ty op1 op2 st) = st \<or>
    (\<exists>e. mr_lookup st rk = Some e \<and> unat va + 8 \<le> length (me_data e) \<and>
      snd (atomic_op rk va ty op1 op2 st) = mr_update rk (put_slice (me_data e) (unat va)
        (to_be 8 (atomic_new ty op1 op2 (word_at (me_data e) (unat va))))) st)"
  by (auto simp: atomic_op_eq [OF assms] split: option.split)

lemma atomic_op_keeps_inv:
  "store_inv st \<Longrightarrow> atomic_op rk va ty op1 op2 st = (r, st') \<Longrightarrow> store_inv st'"
  using atomic_op_cases [of st rk va ty op1 op2] mr_update_inv [of st rk] by fastforce

lemma store_step_inv: "store_step st ev st' \<Longrightarrow> store_inv st \<Longrightarrow> store_inv st'"
  by (induction rule: store_step.induct)
    (auto dest: register_keeps_inv deregister_keeps_inv mem.store_keeps_inv atomic_op_keeps_inv)

lemma store_run_inv: "store_run st evs st' \<Longrightarrow> store_inv st \<Longrightarrow> store_inv st'"
  by (induction rule: store_run.induct) (auto dest: store_step_inv)

text \<open>Keys are handed out at most once: the set of used R_Keys and the next L_Key only grow.\<close>

lemma write_region_state:
  assumes "store_inv st" and "write_region rk off data st = (r, st')"
  shows "st' = st \<or> (\<exists>bs. st' = mr_update rk bs st \<and> mr_bytes st' = (mr_bytes st)(rk \<mapsto> bs))"
proof (cases "mr_lookup st rk")
  case (Some e)
  have "keys_ok st" using assms(1) by (simp add: store_inv_def)
  then have "mr_bytes (mr_update rk bs st) = (mr_bytes st)(rk \<mapsto> bs)" for bs
    using Some by (rule mr_bytes_update)
  with Some assms(2) show ?thesis
    by (auto simp: write_region_eq [OF assms(1)] split: if_split_asm)
qed (use assms in \<open>simp add: write_region_eq\<close>)

lemma store_step_used:
  assumes "store_step st ev st'" and "store_inv st"
  shows "ms_used_rkeys st' = (case registered_rkey ev of
      None \<Rightarrow> ms_used_rkeys st | Some rk \<Rightarrow> finsert (rkey_val rk) (ms_used_rkeys st)) \<and>
    (\<forall>rk. registered_rkey ev = Some rk \<longrightarrow> rkey_val rk |\<notin>| ms_used_rkeys st) \<and>
    ms_next_lkey st \<le> ms_next_lkey st' \<and>
    (\<forall>lk. registered_lkey ev = Some lk \<longrightarrow>
       ms_next_lkey st \<le> lkey_val lk \<and> lkey_val lk < ms_next_lkey st') \<and>
    ms_max_regions st' = ms_max_regions st \<and> ms_max_total_bytes st' = ms_max_total_bytes st"
  using assms
proof (induction rule: store_step.induct)
  case (registered os_rng pd fl len st lk rk st')
  from registered(1) show ?case
    by (rule register_OkE) (use word_Suc_less [of "ms_next_lkey st"] in auto)
next
  case (register_refused os_rng pd fl len st e st')
  then show ?case by (auto dest!: register_ErrD dest: word_Suc_less)
next
  case (deregistered pd lk st st')
  from deregistered(1) show ?case by (rule deregister_OkE) simp
next
  case (deregister_refused pd lk st e st')
  then show ?case by (simp add: deregister_eq split: option.splits if_split_asm)
next
  case (wrote rk off data st st')
  then show ?case by (auto dest: write_region_state)
next
  case (write_refused rk off data st e st')
  then show ?case by (auto dest: mem.store_refused)
next
  case (atomic rk va ty op1 op2 st w st')
  then show ?case using atomic_op_cases [of st rk va ty op1 op2] by auto
next
  case (atomic_refused rk va ty op1 op2 st e st')
  then show ?case using atomic_op_cases [of st rk va ty op1 op2] by auto
qed

lemma registered_snoc [simp]:
  "registered_rkeys (evs @ [ev]) = registered_rkeys evs @
     (case registered_rkey ev of None \<Rightarrow> [] | Some rk \<Rightarrow> [rk])"
  "registered_lkeys (evs @ [ev]) = registered_lkeys evs @
     (case registered_lkey ev of None \<Rightarrow> [] | Some lk \<Rightarrow> [lk])"
  "registered_rkeys [] = []" "registered_lkeys [] = []"
  by (auto simp: registered_rkeys_def registered_lkeys_def List.map_filter_def split: option.split)

lemma store_run_keys:
  assumes "store_run st evs st'" and "store_inv st"
  shows "store_inv st' \<and> ms_used_rkeys st |\<subseteq>| ms_used_rkeys st' \<and>
    distinct (registered_rkeys evs) \<and>
    (\<forall>rk \<in> set (registered_rkeys evs).
      rkey_val rk |\<in>| ms_used_rkeys st' \<and> rkey_val rk |\<notin>| ms_used_rkeys st) \<and>
    distinct (registered_lkeys evs) \<and>
    (\<forall>lk \<in> set (registered_lkeys evs). lkey_val lk < ms_next_lkey st')"
  using assms
proof (induction rule: store_run.induct)
  case (run_nil st)
  then show ?case by simp
next
  case (run_snoc st evs st' ev st'')
  note IH = run_snoc.IH [OF run_snoc.prems]
  have inv: "store_inv st'" using IH by simp
  note step = store_step_used [OF run_snoc.hyps(2) inv]
  have "lkey_val lk < ms_next_lkey st''" if "lk \<in> set (registered_lkeys evs)" for lk
    using IH step that by (auto intro: less_le_trans)
  moreover have "store_inv st''" using run_snoc.hyps(2) inv by (rule store_step_inv)
  ultimately show ?case
    using IH step by (auto split: option.split)
qed

lemma store_run_limits:
  assumes "store_run st evs st'" and "store_inv st"
  shows "ms_max_regions st' = ms_max_regions st \<and> ms_max_total_bytes st' = ms_max_total_bytes st"
  using assms
proof (induction rule: store_run.induct)
  case (run_snoc st evs st' ev st'')
  then show ?case using store_step_used [OF run_snoc.hyps(2)] store_run_inv by auto
qed simp

text \<open>A used key that names no region never names one again.\<close>

lemma store_step_revoked:
  assumes "store_step st ev st'" and "store_inv st"
    and "rkey_val rk |\<in>| ms_used_rkeys st" and "mr_lookup st rk = None"
  shows "mr_lookup st' rk = None"
  using assms
proof (induction rule: store_step.induct)
  case (registered os_rng pd fl len st lk rk' st')
  have "rk' \<noteq> rk" using registered by (auto elim: register_OkE)
  with registered show ?case by (simp add: register_effect(3))
next
  case (register_refused os_rng pd fl len st e st')
  then show ?case by (auto dest!: register_ErrD)
next
  case (deregistered pd lk st st')
  from deregistered(1) obtain e where "fmlookup (ms_regions st) (lkey_val lk) = Some e"
    by (rule deregister_OkE)
  with deregistered show ?case by (simp add: deregister_effect(2))
next
  case (deregister_refused pd lk st e st')
  then show ?case by (simp add: deregister_eq split: option.splits if_split_asm)
next
  case (wrote rk' off data st st')
  then obtain bs where "mr_bytes st rk' = Some bs"
      "mr_bytes st' = (mr_bytes st)(rk' \<mapsto> put_slice bs (unat off) data)"
    by (blast elim: mem.store_OkE)
  then have "mr_bytes st' rk = mr_bytes st rk" using wrote by (auto simp: mr_bytes_def)
  with wrote show ?case by (simp add: mr_bytes_def)
next
  case (write_refused rk' off data st e st')
  then show ?case by (auto dest: mem.store_refused)
next
  case (atomic rk' va ty op1 op2 st w st')
  then show ?case
    using atomic_op_cases [of st rk' va ty op1 op2] by (auto simp: mr_lookup_update store_inv_def)
next
  case (atomic_refused rk' va ty op1 op2 st e st')
  then show ?case
    using atomic_op_cases [of st rk' va ty op1 op2] by (auto simp: mr_lookup_update store_inv_def)
qed

lemma store_run_revoked:
  assumes "store_run st evs st'" and "store_inv st"
    and "rkey_val rk |\<in>| ms_used_rkeys st" and "mr_lookup st rk = None"
  shows "mr_lookup st' rk = None"
  using assms
proof (induction rule: store_run.induct)
  case (run_snoc st evs st' ev st'')
  have "store_inv st'" and "rkey_val rk |\<in>| ms_used_rkeys st'"
    using store_run_keys [OF run_snoc.hyps(1)] run_snoc.prems by auto
  then show ?case using run_snoc store_step_revoked by blast
qed simp

lemma generate_rkey_fst:
  "fst (generate_rkey os_rng st) = Err ErrInternal \<and>
     \<not> (\<exists>j < 1000. from_be (os_rng j) \<noteq> (0 :: u32) \<and> from_be (os_rng j) |\<notin>| ms_used_rkeys st) \<or>
   (\<exists>rk. fst (generate_rkey os_rng st) = Ok rk) \<and>
     (\<exists>j < 1000. from_be (os_rng j) \<noteq> (0 :: u32) \<and> from_be (os_rng j) |\<notin>| ms_used_rkeys st)"
  by (rule generate_rkey_loop_cases [of 1000 os_rng 0 st]) (auto simp: generate_rkey_def)

lemma register_late:
  assumes "fcard (fmdom (ms_regions st)) < ms_max_regions st"
    and "unat (ms_total_registered_bytes st) + unat len < usize_limit"
    and "ms_total_registered_bytes st + len \<le> ms_max_total_bytes st"
    and "unat (ms_next_lkey st) < 4294967295"
  shows "fst (register os_rng pd fl len st) =
    (case fst (generate_rkey os_rng (st\<lparr>ms_next_lkey := ms_next_lkey st + 1\<rparr>)) of
       Ok rk \<Rightarrow> if unat len \<le> isize_max then Ok (LKey (ms_next_lkey st), rk) else Panic
     | Err e \<Rightarrow> Err e | Panic \<Rightarrow> Panic | Blocked \<Rightarrow> Blocked)"
proof (cases "generate_rkey os_rng (st\<lparr>ms_next_lkey := ms_next_lkey st + 1\<rparr>)")
  case (Pair r st2)
  have "ms_total_registered_bytes st2 = ms_total_registered_bytes st"
    by (rule generate_rkey_loop_cases [of 1000 os_rng 0 "st\<lparr>ms_next_lkey := ms_next_lkey st + 1\<rparr>"])
      (use Pair in \<open>auto simp: generate_rkey_def\<close>)
  with assms Pair show ?thesis
    by (cases r)
      (simp_all add: register_def u64_add_def u32_add_def vec_zeroed_def Let_def not_less [symmetric])
qed

lemma register_not_Blocked: "fst (register os_rng pd fl len st) \<noteq> Blocked"
proof (cases "generate_rkey os_rng (st\<lparr>ms_next_lkey := ms_next_lkey st + 1\<rparr>)")
  case (Pair r st2)
  then show ?thesis
    using generate_rkey_fst [of os_rng "st\<lparr>ms_next_lkey := ms_next_lkey st + 1\<rparr>"]
    by (cases r) (auto simp: register_def u64_add_def u32_add_def vec_zeroed_def Let_def)
qed

lemma register_Panic_iff:
  "fst (register os_rng pd fl len st) = Panic \<longleftrightarrow>
    fcard (fmdom (ms_regions st)) < ms_max_regions st \<and>
    (usize_limit \<le> unat (ms_total_registered_bytes st) + unat len \<or>
     ms_total_registered_bytes st + len \<le> ms_max_total_bytes st \<and>
      (unat (ms_next_lkey st) = 4294967295 \<or>
       isize_max < unat len \<and>
        (\<exists>j < 1000. from_be (os_rng j) \<noteq> (0 :: u32) \<and> from_be (os_rng j) |\<notin>| ms_used_rkeys st)))"
    (is "?L = ?R")
proof (cases "fcard (fmdom (ms_regions st)) < ms_max_regions st \<and>
    unat (ms_total_registered_bytes st) + unat len < usize_limit \<and>
    ms_total_registered_bytes st + len \<le> ms_max_total_bytes st \<and>
    unat (ms_next_lkey st) < 4294967295")
  case True
  then show ?thesis
    using generate_rkey_fst [of os_rng "st\<lparr>ms_next_lkey := ms_next_lkey st + 1\<rparr>"]
    by (simp add: register_late not_le split: result.splits) auto
next
  case False
  have "unat (ms_next_lkey st) \<le> 4294967295" using unat_less_u32 [of "ms_next_lkey st"] by simp
  with False show ?thesis
    by (elim de_Morgan_conj [THEN iffD1, elim_format] disjE)
      (simp_all add: register_def u64_add_def u32_add_def Let_def not_less not_le)
qed

section \<open>Properties\<close>

text \<open>
  (C4) Memory is never over-committed and the bookkeeping is exact: after any sequence of
  operations the number of regions and the bytes they hold stay within the configured limits,
  the byte counter equals the bytes held, and the two key maps agree.
\<close>

theorem store_quota_respected:
  assumes "store_run (memory_store_new max_regions max_total_bytes) evs st"
  shows "fcard (fmdom (ms_regions st)) \<le> max_regions \<and>
    held_bytes (ms_regions st) \<le> unat max_total_bytes \<and>
    unat (ms_total_registered_bytes st) = held_bytes (ms_regions st) \<and> keys_ok st"
  using store_run_inv [OF assms store_inv_new] store_run_limits [OF assms store_inv_new]
  by (simp add: store_inv_def quota_ok_def memory_store_new_def word_le_nat_alt)

definition sample_rng :: "nat \<Rightarrow> bytes" where
  "sample_rng i = [0xDE, 0xAD, 0xBE, of_nat i]"

definition sample_flags :: access_flags where
  "sample_flags = af_bitor REMOTE_WRITE (af_bitor REMOTE_READ REMOTE_ATOMIC)"

definition sample_register :: "(error_code, lkey \<times> rkey) result \<times> memory_store" where
  "sample_register = register sample_rng (ProtectionDomain 1) sample_flags 16 (memory_store_new 4 64)"

abbreviation sample_store :: memory_store where
  "sample_store \<equiv> snd sample_register"

abbreviation sample_rkey :: rkey where
  "sample_rkey \<equiv> RKey 0xDEADBE00"

lemma sample_register_eq: "sample_register = (Ok (LKey 1, sample_rkey),
   \<lparr>ms_regions = fmupd 1 \<lparr>me_pd = ProtectionDomain 1, me_lkey = LKey 1, me_rkey = sample_rkey,
      me_access_flags = sample_flags, me_data = replicate 16 0\<rparr> fmempty,
    ms_rkey_to_lkey = fmupd 0xDEADBE00 1 fmempty, ms_used_rkeys = {|0xDEADBE00|},
    ms_next_lkey = 2, ms_total_registered_bytes = 16, ms_max_regions = 4, ms_max_total_bytes = 64\<rparr>)"
proof -
  have draw: "from_be (sample_rng 0) = (0xDEADBE00 :: u32)" by code_simp
  have "generate_rkey sample_rng ((memory_store_new 4 64)\<lparr>ms_next_lkey := 2\<rparr>) =
    (Ok sample_rkey, (memory_store_new 4 64)\<lparr>ms_next_lkey := 2, ms_used_rkeys := {|0xDEADBE00|}\<rparr>)"
    by (subst generate_rkey_first [of sample_rng, OF draw]) (simp_all add: memory_store_new_def)
  then show ?thesis
    by (simp add: sample_register_def register_def memory_store_new_def fcard_fempty u64_add_def
        u32_add_def vec_zeroed_def Let_def)
qed

lemma sample_inv: "store_inv sample_store"
  using register_keeps_inv [OF store_inv_new, of sample_rng "ProtectionDomain 1" sample_flags 16 4 64]
    sample_register_eq
  unfolding sample_register_def by simp

lemma sample_run: "store_run (memory_store_new 4 64) [Registered (LKey 1) sample_rkey] sample_store"
proof -
  have "store_step (memory_store_new 4 64) (Registered (LKey 1) sample_rkey) sample_store"
    using sample_register_eq unfolding sample_register_def by (intro registered) simp
  then show ?thesis using run_snoc [OF run_nil] by fastforce
qed

lemma sample_lookup: "mr_lookup sample_store sample_rkey = Some \<lparr>me_pd = ProtectionDomain 1,
    me_lkey = LKey 1, me_rkey = sample_rkey, me_access_flags = sample_flags, me_data = replicate 16 0\<rparr>"
  by (simp add: sample_register_eq mr_lookup_def)

lemma sample_allows:
  "af_contains sample_flags REMOTE_WRITE" "af_contains sample_flags REMOTE_READ"
  "af_contains sample_flags REMOTE_ATOMIC"
  by code_simp+

theorem store_quota_respected_witness:
  "fcard (fmdom (ms_regions sample_store)) \<le> 4 \<and> held_bytes (ms_regions sample_store) \<le> 64 \<and>
   unat (ms_total_registered_bytes sample_store) = held_bytes (ms_regions sample_store) \<and>
   keys_ok sample_store"
  using store_quota_respected [OF sample_run] by simp

text \<open>
  (C15) No key is ever handed out twice: over any sequence of operations, removals included,
  the R_Keys returned by registration are pairwise distinct, and so are the L_Keys.
\<close>

theorem store_keys_unique:
  assumes "store_run (memory_store_new max_regions max_total_bytes) evs st"
  shows "distinct (registered_rkeys evs) \<and> distinct (registered_lkeys evs)"
  using store_run_keys [OF assms store_inv_new] by blast

theorem store_keys_unique_witness:
  "store_run (memory_store_new 4 64) [Registered (LKey 1) sample_rkey] sample_store \<and>
   distinct (registered_rkeys [Registered (LKey 1) sample_rkey]) \<and>
   distinct (registered_lkeys [Registered (LKey 1) sample_rkey])"
  using store_keys_unique [OF sample_run] sample_run by blast

text \<open>
  (C16) A removed region is unreachable for good: once \<open>deregister\<close> has succeeded, every
  later validation, read, write or atomic under its R_Key is refused with ERR_INVALID_MKEY,
  whatever is registered afterwards.
\<close>

theorem deregistered_key_revoked:
  assumes "store_inv st" and "fmlookup (ms_regions st) (lkey_val lk) = Some e"
    and "deregister pd lk st = (Ok (), st')" and "store_run st' evs st''"
  shows "validate_rkey (me_rkey e) fl st'' = Err ErrInvalidMkey \<and>
    read_region (me_rkey e) off len st'' = Err ErrInvalidMkey \<and>
    write_region (me_rkey e) off data st'' = (Err ErrInvalidMkey, st'') \<and>
    atomic_op (me_rkey e) off ty op1 op2 st'' = (Err ErrInvalidMkey, st'')"
proof -
  have inv': "store_inv st'" and gone: "mr_lookup st' (me_rkey e) = None"
    using deregister_effect [OF assms(1,3,2)] by simp_all
  have "keys_ok st" using assms(1) by (simp add: store_inv_def)
  from keys_okD(3) [OF this assms(2)] have "rkey_val (me_rkey e) |\<in>| ms_used_rkeys st'"
    using assms(3) by (auto elim: deregister_OkE)
  then have "mr_lookup st'' (me_rkey e) = None"
    by (rule store_run_revoked [OF assms(4) inv' _ gone])
  moreover have "store_inv st''" using assms(4) inv' by (rule store_run_inv)
  ultimately show ?thesis
    by (simp add: validate_rkey_eq read_region_eq write_region_eq atomic_op_eq)
qed

theorem deregistered_key_revoked_witness:
  "\<exists>st'. deregister (ProtectionDomain 1) (LKey 1) sample_store = (Ok (), st') \<and>
     read_region sample_rkey 0 8 st' = Err ErrInvalidMkey"
proof -
  have e: "fmlookup (ms_regions sample_store) (lkey_val (LKey 1)) = Some \<lparr>me_pd = ProtectionDomain 1,
      me_lkey = LKey 1, me_rkey = sample_rkey, me_access_flags = sample_flags, me_data = replicate 16 0\<rparr>"
    by (simp add: sample_register_eq)
  then obtain st' where st': "deregister (ProtectionDomain 1) (LKey 1) sample_store = (Ok (), st')"
    by (simp add: deregister_eq [OF sample_inv])
  from deregistered_key_revoked [OF sample_inv e this run_nil] st' show ?thesis by auto
qed

text \<open>
  (C14) Remote memory behaves as memory under any sequence of writes, overlapping or not. A
  write is accepted exactly when its key names a region that grants \<open>REMOTE_WRITE\<close> and the
  range lies inside it, whatever was written before it. Afterwards every read, of any range of
  any region, is refused as it was before the writes, with the same error, or returns
  the bytes it returned before with each one replaced by that of the last accepted write that
  covers its address.
\<close>

theorem read_after_write:
  assumes "store_inv st" and "store_all write_region ws st = (acc, st')"
  shows "acc = filter (\<lambda>(k, at, data). \<exists>bs. mr_bytes st k = Some bs \<and> mr_allows REMOTE_WRITE st k \<and>
        unat at + length data \<le> length bs) ws \<and>
    read_region rk off len st' = (case read_region rk off len st of
        Ok bs \<Rightarrow> Ok (overlay unat acc rk (unat off) bs) | r \<Rightarrow> r)"
  using mem.load_after_stores [OF assms] by simp

theorem read_after_write_witness:
  "read_region sample_rkey 1 6 (snd (store_all write_region
      [(sample_rkey, 2, [7, 8, 9]), (sample_rkey, 15, [1, 1]), (sample_rkey, 4, [5, 6])] sample_store)) =
    Ok [0, 7, 8, 5, 6, 0]"
proof -
  let ?ws = "[(sample_rkey, 2, [7, 8, 9]), (sample_rkey, 15, [1, 1]), (sample_rkey, 4, [5, 6])] :: (rkey \<times> u64 \<times> bytes) list"
  obtain acc st' where st': "store_all write_region ?ws sample_store = (acc, st')" by fastforce
  have "read_region sample_rkey 1 6 sample_store = Ok (replicate 6 0)"
    by (simp add: read_region_eq [OF sample_inv] sample_lookup sample_allows sub_slice_def)
  moreover have "mr_allows REMOTE_WRITE sample_store sample_rkey"
    "mr_bytes sample_store sample_rkey = Some (replicate 16 0)"
    by (simp_all add: mr_allows_def mr_bytes_def sample_lookup sample_allows)
  moreover have "overlay unat [(sample_rkey, 2 :: u64, [7, 8, 9]), (sample_rkey, 4, [5, 6])] sample_rkey 1 (replicate 6 0) =
      [0, 7, 8, 5, 6, 0]"
    by (simp add: overlay_def upt_rec)
  ultimately show ?thesis
    using read_after_write [OF sample_inv st', of sample_rkey 1 6] st' by simp
qed

text \<open>
  Remote writes on every branch: an unknown key, a missing permission and an access
  beyond the end are refused with their own error and leave the store as it was; otherwise
  exactly the addressed bytes of exactly that region change.
\<close>

theorem write_region_branches:
  assumes "store_inv st"
  shows "write_region rk off data st = (case mr_lookup st rk of
      None \<Rightarrow> (Err ErrInvalidMkey, st)
    | Some e \<Rightarrow>
        if \<not> af_contains (me_access_flags e) REMOTE_WRITE then (Err ErrAccessDenied, st)
        else if length (me_data e) < unat off + length data then (Err ErrBounds, st)
        else (Ok (), mr_update rk (put_slice (me_data e) (unat off) data) st))"
  using assms by (rule write_region_eq)

theorem write_region_branches_witness:
  "write_region sample_rkey 15 [1, 2] sample_store = (Err ErrBounds, sample_store)"
  using write_region_branches [OF sample_inv, of sample_rkey 15 "[1, 2]"]
  by (simp add: sample_lookup sample_allows)

text \<open>
  Atomics: an accepted operation returns the old 64-bit big-endian word, stores the
  swapped word (compare-and-swap: only when the old word equals the first operand) or the
  wrapped sum (fetch-and-add) in its place, and changes no other byte of any region.
\<close>

theorem atomic_op_semantics:
  assumes "store_inv st" and "atomic_op rk va ty op1 op2 st = (Ok old, st')"
  shows "\<exists>bs bs'. mr_bytes st rk = Some bs \<and> mr_bytes st' = (mr_bytes st)(rk \<mapsto> bs') \<and>
    length bs' = length bs \<and> unat va mod 8 = 0 \<and> unat va + 8 \<le> length bs \<and>
    word_at bs (unat va) = old \<and>
    word_at bs' (unat va) = (if ty = ATOMIC_TYPE_CAS then (if old = op1 then op2 else old) else old + op1) \<and>
    (\<forall>i < length bs. i < unat va \<or> unat va + 8 \<le> i \<longrightarrow> bs' ! i = bs ! i)"
proof (cases "mr_lookup st rk")
  case None
  then show ?thesis using assms by (simp add: atomic_op_eq)
next
  case (Some e)
  let ?bs = "me_data e"
  let ?new = "to_be 8 (atomic_new ty op1 op2 (word_at ?bs (unat va)))"
  have acc: "va mod 8 = 0" "unat va + 8 \<le> length ?bs" "old = word_at ?bs (unat va)"
    "st' = mr_update rk (put_slice ?bs (unat va) ?new) st"
    using assms Some by (auto simp: atomic_op_eq split: if_split_asm)
  have "keys_ok st" using assms(1) by (simp add: store_inv_def)
  then have "mr_bytes st' = (mr_bytes st)(rk \<mapsto> put_slice ?bs (unat va) ?new)"
    using Some acc(4) by (simp add: mr_bytes_update)
  moreover have "word_at (put_slice ?bs (unat va) ?new) (unat va) = atomic_new ty op1 op2 old"
    using acc(2,3) sub_slice_put_slice_same [of "unat va" ?new ?bs] by (simp add: word_at_def)
  moreover have "unat va mod 8 = 0"
    using unat_mod [of va 8] acc(1) by simp
  ultimately show ?thesis
    using Some acc by (intro exI [of _ ?bs] exI [of _ "put_slice ?bs (unat va) ?new"])
      (auto simp: mr_bytes_def nth_put_slice atomic_new_def)
qed

theorem atomic_op_semantics_witness:
  "\<exists>st'. atomic_op sample_rkey 8 ATOMIC_TYPE_FAA 5 0 sample_store = (Ok 0, st') \<and>
     (\<exists>bs'. mr_bytes st' sample_rkey = Some bs' \<and> word_at bs' 8 = 5 \<and> bs' ! 0 = 0)"
proof -
  have old: "word_at (replicate 16 0) 8 = 0" by code_simp
  obtain st' where st': "atomic_op sample_rkey 8 ATOMIC_TYPE_FAA 5 0 sample_store = (Ok 0, st')"
    by (simp add: atomic_op_eq [OF sample_inv] sample_lookup sample_allows old)
  from atomic_op_semantics [OF sample_inv this] obtain bs bs' where
    bs: "mr_bytes sample_store sample_rkey = Some bs"
      "mr_bytes st' = (mr_bytes sample_store)(sample_rkey \<mapsto> bs')" "word_at bs' 8 = 5"
      "\<forall>i < length bs. i < 8 \<or> 8 + 8 \<le> i \<longrightarrow> bs' ! i = bs ! i"
    by (auto simp: ATOMIC_TYPE_CAS_def ATOMIC_TYPE_FAA_def)
  then have "bs = replicate 16 0" by (simp add: mr_bytes_def sample_lookup)
  with bs st' show ?thesis by simp
qed

text \<open>
  A successful registration creates one zero-filled region of the requested size under
  keys that named nothing before, and changes no other region; the byte counter grows by
  exactly its size and the store stays within its limits.
\<close>

theorem register_creates_region:
  assumes "store_inv st" and "register os_rng pd fl len st = (Ok (lk, rk), st')"
  shows "store_inv st' \<and> mr_lookup st rk = None \<and> fmlookup (ms_regions st) (lkey_val lk) = None \<and>
    mr_lookup st' = (mr_lookup st)(rk \<mapsto> \<lparr>me_pd = pd, me_lkey = lk, me_rkey = rk,
      me_access_flags = fl, me_data = replicate (unat len) 0\<rparr>) \<and>
    unat (ms_total_registered_bytes st') = unat (ms_total_registered_bytes st) + unat len \<and>
    rkey_val rk \<noteq> 0"
proof -
  have "unat (ms_total_registered_bytes st') = unat (ms_total_registered_bytes st) + unat len
      \<and> rkey_val rk \<noteq> 0"
    using assms(2) by (rule register_OkE) (simp add: unat_word_ariths)
  with register_effect [OF assms] show ?thesis by simp
qed

theorem register_creates_region_witness:
  "mr_lookup sample_store = (mr_lookup (memory_store_new 4 64))(sample_rkey \<mapsto>
     \<lparr>me_pd = ProtectionDomain 1, me_lkey = LKey 1, me_rkey = sample_rkey,
      me_access_flags = sample_flags, me_data = replicate 16 0\<rparr>) \<and>
   unat (ms_total_registered_bytes sample_store) = 16"
proof -
  have "register sample_rng (ProtectionDomain 1) sample_flags 16 (memory_store_new 4 64) =
      (Ok (LKey 1, sample_rkey), sample_store)"
    using sample_register_eq unfolding sample_register_def by simp
  from register_creates_region [OF store_inv_new this] show ?thesis
    by (simp add: memory_store_new_def)
qed

text \<open>
  (C39) Registration panics exactly when there is room for another region and the requested
  length overflows the 64-bit byte counter, or the request fits the quota and either the
  L_Key counter is exhausted or the region is longer than the largest vector. The check
  against the quota is made on the overflowing sum, so a client can reach the first case with
  one MR_REG message as soon as one byte is registered.
\<close>

theorem register_panics:
  "fst (register os_rng pd fl len st) \<noteq> Blocked \<and>
   (fst (register os_rng pd fl len st) = Panic \<longleftrightarrow>
    fcard (fmdom (ms_regions st)) < ms_max_regions st \<and>
    (usize_limit \<le> unat (ms_total_registered_bytes st) + unat len \<or>
     ms_total_registered_bytes st + len \<le> ms_max_total_bytes st \<and>
      (unat (ms_next_lkey st) = 4294967295 \<or>
       isize_max < unat len \<and>
        (\<exists>j < 1000. from_be (os_rng j) \<noteq> (0 :: u32) \<and> from_be (os_rng j) |\<notin>| ms_used_rkeys st))))"
  using register_not_Blocked register_Panic_iff by blast

end
