(* ===== verification/Sessions.thy ===== *)
theory Sessions
  imports Websocket Messages Memory_Store
begin

text \<open>
  The state of a server session and the operations every handler uses
  (\<open>rdows-server/src/session.rs\<close>, with \<open>PendingOp\<close> of \<open>handler.rs\<close> and \<open>ServerConfig\<close> of
  \<open>lib.rs\<close>). A session and the sending half of its WebSocket are passed along as a pair. The
  WebSocket is a third-party component and a parameter: the sink carries a function that says
  what each attempt to send comes to, and it records the frames that went out. An
  \<open>Instant\<close> is a number of nanoseconds.
\<close>

section \<open>Definitions\<close>

record server_config =
  cfg_recv_queue_depth :: u32
  cfg_max_regions_per_session :: usize
  cfg_max_total_bytes_per_session :: u64
  cfg_max_outstanding_reads :: u32
  cfg_max_sessions_per_ip :: u32
  cfg_mr_reg_rate_limit :: u32

definition server_config_default :: server_config where
  "server_config_default =
     \<lparr>cfg_recv_queue_depth = 128, cfg_max_regions_per_session = 4096,
      cfg_max_total_bytes_per_session = 32 * 1024 * 1024 * 1024,
      cfg_max_outstanding_reads = 128, cfg_max_sessions_per_ip = 256,
      cfg_mr_reg_rate_limit = 1000\<rparr>"

type_synonym instant = nat

definition ONE_SECOND :: nat where
  "ONE_SECOND = 1000000000"

datatype pending_op =
    NoPending
  | AwaitingSendData (asd_wrid: u64)
  | AwaitingWriteData (awd_wrid: u64) (awd_rkey: rkey) (awd_remote_va: u64) (awd_expected_len: u64)
  | DiscardingSendData

datatype session_state =
    AwaitingConnect
  | Ready
  | Closed

record session =
  se_state :: session_state
  se_session_id :: u32
  se_pd :: protection_domain
  se_max_msg_size :: u32
  se_next_seq :: u32
  se_memory_store :: memory_store
  se_pending_op :: pending_op
  se_recv_queue_depth :: u32
  se_expected_remote_seq :: "u32 option"
  se_sends_since_last_credit :: u32
  se_icc :: u32
  se_outstanding_reads :: u32
  se_max_outstanding_reads :: u32
  se_mr_reg_count :: u32
  se_mr_reg_window_start :: instant
  se_mr_reg_rate_limit :: u32

definition session_new :: "server_config \<Rightarrow> instant \<Rightarrow> session" where
  "session_new config now =
     \<lparr>se_state = AwaitingConnect, se_session_id = 0, se_pd = ProtectionDomain 0,
      se_max_msg_size = DEFAULT_MAX_MSG_SIZE, se_next_seq = 0,
      se_memory_store = memory_store_new (cfg_max_regions_per_session config)
        (cfg_max_total_bytes_per_session config),
      se_pending_op = NoPending, se_recv_queue_depth = cfg_recv_queue_depth config,
      se_expected_remote_seq = None, se_sends_since_last_credit = 0, se_icc = DEFAULT_ICC,
      se_outstanding_reads = 0, se_max_outstanding_reads = cfg_max_outstanding_reads config,
      se_mr_reg_count = 0, se_mr_reg_window_start = now,
      se_mr_reg_rate_limit = cfg_mr_reg_rate_limit config\<rparr>"

definition next_header :: "opcode \<Rightarrow> u64 \<Rightarrow> session \<Rightarrow> rdows_header \<times> session" where
  "next_header opcode wrid session =
     (let seq = se_next_seq session in
      (header_new opcode (se_session_id session) seq wrid, session\<lparr>se_next_seq := seq + 1\<rparr>))"

text \<open>
  The sending half of the WebSocket. \<open>wk_outcome n\<close> is what the \<open>n\<close>-th \<open>send\<close> comes to: it
  succeeds, fails with an error text, or never completes.
\<close>

record ws_sink =
  wk_outcome :: "nat \<Rightarrow> (rstring, unit) result"
  wk_attempts :: nat
  wk_frames :: "bytes list"

definition sink_new :: "(nat \<Rightarrow> (rstring, unit) result) \<Rightarrow> ws_sink" where
  "sink_new outcome = \<lparr>wk_outcome = outcome, wk_attempts = 0, wk_frames = []\<rparr>"

definition sink_send :: "bytes \<Rightarrow> ws_sink \<Rightarrow> (rstring, unit) result \<times> ws_sink" where
  "sink_send data sink =
     (let r = wk_outcome sink (wk_attempts sink);
          sink = sink\<lparr>wk_attempts := wk_attempts sink + 1\<rparr>
      in (r, if r = Ok () then sink\<lparr>wk_frames := wk_frames sink @ [data]\<rparr> else sink))"

type_synonym conn = "session \<times> ws_sink"
type_synonym reply = "(rdows_error, unit) result \<times> conn"

definition send_message :: "rdows_message \<Rightarrow> conn \<Rightarrow> reply" where
  "send_message msg = (\<lambda>(session, sink).
     let data = message_encode msg;
         (r, sink) = sink_send data sink
     in (map_err WebSocket r, (session, sink)))"

definition send_error :: "error_code \<Rightarrow> u32 \<Rightarrow> rstring \<Rightarrow> conn \<Rightarrow> reply" where
  "send_error error_code failing_seq description = (\<lambda>(session, sink).
     let (header, session) = next_header opcode.Error 0 session;
         payload = \<lparr>ep_error_code = error_code, ep_failing_seq = failing_seq,
                    ep_description = description\<rparr>;
         msg = Error header payload
     in send_message msg (session, sink))"

end
