(* ===== verification/Handlers.thy ===== *)
theory Handlers
  imports Sessions
begin

text \<open>
  The message handlers of \<open>rdows-server/src/handler.rs\<close>, one function per handler, and their
  dispatch. \<open>now\<close> is what \<open>Instant::now()\<close> returns and \<open>os_rng\<close> what the operating system's
  random source delivers while the message is handled.
\<close>

section \<open>Definitions\<close>


definition handle_mr_reg :: "instant \<Rightarrow> (nat \<Rightarrow> bytes) \<Rightarrow> u64 \<Rightarrow> mr_reg_payload \<Rightarrow> conn \<Rightarrow> reply" where
  "handle_mr_reg now os_rng wrid payload = (\<lambda>(session, sink).
     let session =
           (if now - se_mr_reg_window_start session \<ge> ONE_SECOND
            then session\<lparr>se_mr_reg_count := 0, se_mr_reg_window_start := now\<rparr>
            else session)
     in
     if se_mr_reg_count session \<ge> se_mr_reg_rate_limit session
     then
       let (header, session) = next_header opcode.MrRegAck wrid session;
           ack = \<lparr>mra_pd = mr_pd payload, mra_lkey = LKey 0, mra_rkey = RKey 0,
                  mra_status = error_code_to_u16 ErrInternal\<rparr>
       in send_message (MrRegAck header ack) (session, sink)
     else
       sbind (u32_add (se_mr_reg_count session) 1, (session, sink)) (\<lambda>count (session, sink).
       let session = session\<lparr>se_mr_reg_count := count\<rparr>;
           (registered, store) = register os_rng (mr_pd payload) (mr_access_flags payload)
             (mr_region_len payload) (se_memory_store session);
           session = session\<lparr>se_memory_store := store\<rparr>
       in
       (case registered of
          Ok (lkey, rkey) \<Rightarrow>
            let (header, session) = next_header opcode.MrRegAck wrid session;
                ack = \<lparr>mra_pd = mr_pd payload, mra_lkey = lkey, mra_rkey = rkey, mra_status = 0\<rparr>
            in send_message (MrRegAck header ack) (session, sink)
        | Err code \<Rightarrow>
            let (header, session) = next_header opcode.MrRegAck wrid session;
                ack = \<lparr>mra_pd = mr_pd payload, mra_lkey = LKey 0, mra_rkey = RKey 0,
                       mra_status = error_code_to_u16 code\<rparr>
            in send_message (MrRegAck header ack) (session, sink)
        | Panic \<Rightarrow> (Panic, (session, sink))
        | Blocked \<Rightarrow> (Blocked, (session, sink)))))"

definition handle_mr_dereg :: "u64 \<Rightarrow> mr_dereg_payload \<Rightarrow> conn \<Rightarrow> reply" where
  "handle_mr_dereg wrid payload = (\<lambda>(session, sink).
     let (deregistered, store) = deregister (md_pd payload) (md_lkey payload) (se_memory_store session);
         session = session\<lparr>se_memory_store := store\<rparr>
     in
     sbind (case deregistered of
              Ok _ \<Rightarrow> Ok 0
            | Err code \<Rightarrow> Ok (error_code_to_u16 code)
            | Panic \<Rightarrow> Panic
            | Blocked \<Rightarrow> Blocked, (session, sink)) (\<lambda>status (session, sink).
     let (header, session) = next_header opcode.MrDeregAck wrid session;
         ack = \<lparr>mda_status = status\<rparr>
     in send_message (MrDeregAck header ack) (session, sink)))"

definition handle_send :: "rdows_header \<Rightarrow> send_payload \<Rightarrow> conn \<Rightarrow> reply" where
  "handle_send header payload = (\<lambda>(session, sink).
     if se_recv_queue_depth session = 0
     then
       sbind (send_error ErrRnr (h_sequence header) (lit ''receiver not ready'') (session, sink))
         (\<lambda>_ (session, sink). (Ok (), (session\<lparr>se_pending_op := DiscardingSendData\<rparr>, sink)))
     else
       sbind (u32_sub (se_recv_queue_depth session) 1, (session, sink)) (\<lambda>depth (session, sink).
       (Ok (), (session\<lparr>se_recv_queue_depth := depth,
                        se_pending_op := AwaitingSendData (h_wrid header)\<rparr>, sink))))"

definition handle_send_data :: "rdows_header \<Rightarrow> data_payload \<Rightarrow> conn \<Rightarrow> reply" where
  "handle_send_data header payload = (\<lambda>(session, sink).
     let pending = se_pending_op session;
         session = session\<lparr>se_pending_op := NoPending\<rparr>
     in
     (case pending of
        AwaitingSendData wrid \<Rightarrow>
          let (header, session) = next_header opcode.RecvComp wrid session in
          sbind (send_message (RecvComp header) (session, sink)) (\<lambda>_ (session, sink).
          sbind (u32_add (se_sends_since_last_credit session) 1, (session, sink))
            (\<lambda>sends (session, sink).
          let session = session\<lparr>se_sends_since_last_credit := sends\<rparr> in
          if se_sends_since_last_credit session \<ge> se_icc session div 4
          then
            let (credit_header, session) = next_header opcode.CreditUpdate 0 session;
                credit_payload = \<lparr>cu_credit_increment = se_sends_since_last_credit session\<rparr>
            in
            sbind (send_message (CreditUpdate credit_header credit_payload) (session, sink))
              (\<lambda>_ (session, sink). (Ok (), (session\<lparr>se_sends_since_last_credit := 0\<rparr>, sink)))
          else (Ok (), (session, sink))))
      | DiscardingSendData \<Rightarrow> (Ok (), (session, sink))
      | _ \<Rightarrow> send_error ErrUnknownOpcode 0 (lit ''unexpected SEND_DATA without preceding SEND'')
               (session, sink)))"

definition handle_write :: "rdows_header \<Rightarrow> write_payload \<Rightarrow> conn \<Rightarrow> reply" where
  "handle_write header payload = (\<lambda>(session, sink).
     (case validate_rkey (wp_rkey payload) REMOTE_WRITE (se_memory_store session) of
        Err code \<Rightarrow> send_error code (h_sequence header) [] (session, sink)
      | Ok _ \<Rightarrow>
          (Ok (), (session\<lparr>se_pending_op := AwaitingWriteData (h_wrid header) (wp_rkey payload)
             (wp_remote_va payload) (wp_length payload)\<rparr>, sink))
      | Panic \<Rightarrow> (Panic, (session, sink))
      | Blocked \<Rightarrow> (Blocked, (session, sink))))"

definition handle_write_data :: "rdows_header \<Rightarrow> data_payload \<Rightarrow> conn \<Rightarrow> reply" where
  "handle_write_data header payload = (\<lambda>(session, sink).
     let pending = se_pending_op session;
         session = session\<lparr>se_pending_op := NoPending\<rparr>
     in
     (case pending of
        AwaitingWriteData wrid rkey remote_va expected_len \<Rightarrow>
          let (written, store) = write_region rkey remote_va (dp_data payload) (se_memory_store session);
              session = session\<lparr>se_memory_store := store\<rparr>
          in
          (case written of
             Err code \<Rightarrow> send_error code 0 [] (session, sink)
           | Ok _ \<Rightarrow>
               let (header, session) = next_header opcode.WriteComp wrid session
               in send_message (WriteComp header) (session, sink)
           | Panic \<Rightarrow> (Panic, (session, sink))
           | Blocked \<Rightarrow> (Blocked, (session, sink)))
      | _ \<Rightarrow> send_error ErrUnknownOpcode 0 (lit ''unexpected WRITE_DATA without preceding WRITE'')
               (session, sink)))"

definition handle_read_req :: "rdows_header \<Rightarrow> read_req_payload \<Rightarrow> conn \<Rightarrow> reply" where
  "handle_read_req header payload = (\<lambda>(session, sink).
     if se_outstanding_reads session \<ge> se_max_outstanding_reads session
     then send_error ErrRnr (h_sequence header) (lit ''too many outstanding reads'') (session, sink)
     else
       sbind (u32_add (se_outstanding_reads session) 1, (session, sink)) (\<lambda>n (session, sink).
       let session = session\<lparr>se_outstanding_reads := n\<rparr> in
       (case read_region (rq_rkey payload) (rq_remote_va payload) (rq_read_len payload)
               (se_memory_store session) of
          Ok data \<Rightarrow>
            let (resp_header, session) = next_header opcode.ReadResp (h_wrid header) session;
                resp_payload = \<lparr>rr_fragment_offset = 0, rr_data = data\<rparr>;
                (result, (session, sink)) = send_message (ReadResp resp_header resp_payload) (session, sink)
            in
            (case result of
               Blocked \<Rightarrow> (Blocked, (session, sink))
             | Panic \<Rightarrow> (Panic, (session, sink))
             | _ \<Rightarrow>
               sbind (u32_sub (se_outstanding_reads session) 1, (session, sink)) (\<lambda>n (session, sink).
               (result, (session\<lparr>se_outstanding_reads := n\<rparr>, sink))))
        | Err code \<Rightarrow>
            sbind (u32_sub (se_outstanding_reads session) 1, (session, sink)) (\<lambda>n (session, sink).
            send_error code (h_sequence header) [] (session\<lparr>se_outstanding_reads := n\<rparr>, sink))
        | Panic \<Rightarrow> (Panic, (session, sink))
        | Blocked \<Rightarrow> (Blocked, (session, sink)))))"

definition handle_atomic_req :: "rdows_header \<Rightarrow> atomic_req_payload \<Rightarrow> conn \<Rightarrow> reply" where
  "handle_atomic_req header payload = (\<lambda>(session, sink).
     if aq_atomic_type payload \<noteq> ATOMIC_TYPE_CAS \<and> aq_atomic_type payload \<noteq> ATOMIC_TYPE_FAA
     then send_error ErrUnknownOpcode (h_sequence header) (lit ''invalid atomic type'') (session, sink)
     else
       let (original, store) = atomic_op (aq_rkey payload) (aq_remote_va payload)
             (aq_atomic_type payload) (aq_operand1 payload) (aq_operand2 payload)
             (se_memory_store session);
           session = session\<lparr>se_memory_store := store\<rparr>
       in
       (case original of
          Ok original \<Rightarrow>
            let (resp_header, session) = next_header opcode.AtomicResp (h_wrid header) session;
                resp_payload = \<lparr>ar_original_value = original, ar_status = 0\<rparr>
            in send_message (AtomicResp resp_header resp_payload) (session, sink)
        | Err code \<Rightarrow> send_error code (h_sequence header) [] (session, sink)
        | Panic \<Rightarrow> (Panic, (session, sink))
        | Blocked \<Rightarrow> (Blocked, (session, sink))))"

definition dispatch :: "instant \<Rightarrow> (nat \<Rightarrow> bytes) \<Rightarrow> rdows_message \<Rightarrow> conn \<Rightarrow> reply" where
  "dispatch now os_rng msg conn =
     (let seq = h_sequence (message_header msg) in
      (case msg of
         MrReg header payload \<Rightarrow> handle_mr_reg now os_rng (h_wrid header) payload conn
       | MrDereg header payload \<Rightarrow> handle_mr_dereg (h_wrid header) payload conn
       | Send header payload \<Rightarrow> handle_send header payload conn
       | SendData header payload \<Rightarrow> handle_send_data header payload conn
       | Write header payload \<Rightarrow> handle_write header payload conn
       | WriteData header payload \<Rightarrow> handle_write_data header payload conn
       | ReadReq header payload \<Rightarrow> handle_read_req header payload conn
       | AtomicReq header payload \<Rightarrow> handle_atomic_req header payload conn
       | Ack header \<Rightarrow> (Ok (), conn)
       | _ \<Rightarrow> send_error ErrUnknownOpcode seq (lit ''unsupported opcode'') conn))"

section \<open>Session-level handling\<close>

definition handle_connect :: "rdows_message \<Rightarrow> conn \<Rightarrow> reply" where
  "handle_connect msg = (\<lambda>(session, sink).
     (case msg of
        Connect header payload \<Rightarrow>
          if h_version header \<noteq> RDOWS_VERSION
          then
            sbind (send_error ErrProtoVersion (h_sequence header)
                     (lit ''unsupported protocol version'') (session, sink)) (\<lambda>_ (session, sink).
            (Ok (), (session\<lparr>se_state := Closed\<rparr>, sink)))
          else
            let session = session\<lparr>se_session_id := h_session_id header, se_pd := cp_pd payload,
                  se_max_msg_size := min (cp_max_msg_size payload) DEFAULT_MAX_MSG_SIZE\<rparr>;
                (ack_header, session) = next_header opcode.ConnectAck 0 session;
                ack_payload = \<lparr>cp_pd = se_pd session, cp_capability_flags = 0,
                               cp_max_msg_size = se_max_msg_size session, cp_icc = DEFAULT_ICC\<rparr>;
                ack = ConnectAck ack_header ack_payload
            in
            sbind (send_message ack (session, sink)) (\<lambda>_ (session, sink).
            (Ok (), (session\<lparr>se_expected_remote_seq := Some (h_sequence header + 1),
                             se_state := Ready\<rparr>, sink)))
      | other \<Rightarrow>
          (Err (UnexpectedMessage (lit ''CONNECT'') (h_opcode (message_header other))), (session, sink))))"

definition handle_ready :: "instant \<Rightarrow> (nat \<Rightarrow> bytes) \<Rightarrow> rdows_message \<Rightarrow> conn \<Rightarrow> reply" where
  "handle_ready now os_rng msg = (\<lambda>(session, sink).
     (case msg of
        Disconnect header \<Rightarrow> (Ok (), (session\<lparr>se_state := Closed\<rparr>, sink))
      | CreditUpdate header payload \<Rightarrow> (Ok (), (session, sink))
      | _ \<Rightarrow> dispatch now os_rng msg (session, sink)))"

definition seq_gap_text :: "u32 \<Rightarrow> u32 \<Rightarrow> rstring" where
  "seq_gap_text expected actual =
     lit ''expected seq '' @ show_dec (unat expected) @ lit '', got '' @ show_dec (unat actual)"

definition handle_message :: "instant \<Rightarrow> (nat \<Rightarrow> bytes) \<Rightarrow> rdows_message \<Rightarrow> conn \<Rightarrow> reply" where
  "handle_message now os_rng msg = (\<lambda>(session, sink).
     if se_state session = Ready \<and> h_payload_length (message_header msg) > se_max_msg_size session
     then send_error ErrPayloadSize (h_sequence (message_header msg))
       (lit ''payload exceeds negotiated maximum message size'') (session, sink)
     else
       (case se_state session of
          AwaitingConnect \<Rightarrow> handle_connect msg (session, sink)
        | Ready \<Rightarrow>
            let actual = h_sequence (message_header msg) in
            (case se_expected_remote_seq session of
               Some expected \<Rightarrow>
                 if actual \<noteq> expected
                 then send_error ErrSeqGap actual (seq_gap_text expected actual) (session, sink)
                 else handle_ready now os_rng msg
                        (session\<lparr>se_expected_remote_seq := Some (actual + 1)\<rparr>, sink)
             | None \<Rightarrow> handle_ready now os_rng msg
                        (session\<lparr>se_expected_remote_seq := Some (actual + 1)\<rparr>, sink))
        | Closed \<Rightarrow> (Ok (), (session, sink))))"

text \<open>
  The loop over the WebSocket stream. Each arrival carries the time and the randomness the
  handling of that message sees; the list ends where the stream ends. The loop leaves on a
  transport error, a decode error, a handler error, a closed session or a close frame; it
  returns normally in all of these.
\<close>

record arrival =
  ar_event :: ws_event
  ar_now :: instant
  ar_rng :: "nat \<Rightarrow> bytes"

fun session_loop :: "arrival list \<Rightarrow> conn \<Rightarrow> reply" where
  "session_loop [] conn = (Ok (), conn)"
| "session_loop (a # rest) conn =
     (case ar_event a of
        WsError e \<Rightarrow> (Ok (), conn)
      | Binary data \<Rightarrow>
          (case message_decode data of
             Ok m \<Rightarrow>
               (case handle_message (ar_now a) (ar_rng a) m conn of
                  (Err e, conn) \<Rightarrow> (Ok (), conn)
                | (Ok _, conn) \<Rightarrow>
                    if se_state (fst conn) = Closed then (Ok (), conn) else session_loop rest conn
                | (Panic, conn) \<Rightarrow> (Panic, conn)
                | (Blocked, conn) \<Rightarrow> (Blocked, conn))
           | Err e \<Rightarrow> (Ok (), conn)
           | Panic \<Rightarrow> (Panic, conn)
           | Blocked \<Rightarrow> (Blocked, conn))
      | Close \<Rightarrow> (Ok (), conn)
      | OtherFrame \<Rightarrow> session_loop rest conn)"

definition run_session ::
  "server_config \<Rightarrow> instant \<Rightarrow> (nat \<Rightarrow> (rstring, unit) result) \<Rightarrow> arrival list \<Rightarrow> reply" where
  "run_session config now outcome stream =
     session_loop stream (session_new config now, sink_new outcome)"

end
