(* ===== verification/Server_Inv.thy ===== *)
theory Server_Inv
  imports Handlers
begin

text \<open>
  What a server session keeps true while it runs. \<open>session_ok\<close> constrains the session alone
  (the store's invariant, the counters, the configured limits); \<open>log_ok\<close> relates it to the
  messages it has sent (numbering, session id, flow-control accounting). Every handler
  preserves both, so every reachable session satisfies them.
\<close>

section \<open>Definitions\<close>

definition push :: "rdows_message list \<Rightarrow> ws_sink \<Rightarrow> ws_sink" where
  "push ms sink = sink\<lparr>wk_attempts := wk_attempts sink + length ms,
     wk_frames := wk_frames sink @ map message_encode ms\<rparr>"

definition session_ok :: "server_config \<Rightarrow> session \<Rightarrow> bool" where
  "session_ok cfg s \<longleftrightarrow>
     store_inv (se_memory_store s) \<and>
     ms_max_regions (se_memory_store s) = cfg_max_regions_per_session cfg \<and>
     ms_max_total_bytes (se_memory_store s) = cfg_max_total_bytes_per_session cfg \<and>
     se_outstanding_reads s = 0 \<and> se_max_outstanding_reads s = cfg_max_outstanding_reads cfg \<and>
     se_mr_reg_rate_limit s = cfg_mr_reg_rate_limit cfg \<and>
     se_mr_reg_count s \<le> cfg_mr_reg_rate_limit cfg \<and>
     se_icc s = DEFAULT_ICC \<and> se_sends_since_last_credit s < 16383 \<and>
     se_max_msg_size s \<le> DEFAULT_MAX_MSG_SIZE \<and>
     (se_state s = Ready \<longrightarrow> se_expected_remote_seq s \<noteq> None)"

text \<open>Messages \<open>ms\<close> carry the session id and consecutive sequence numbers from \<open>sq\<close>.\<close>

definition numbered :: "u32 \<Rightarrow> u32 \<Rightarrow> rdows_message list \<Rightarrow> bool" where
  "numbered sid sq ms \<longleftrightarrow>
     (\<forall>i < length ms. let h = message_header (ms ! i) in
        header_wf h \<and> h_opcode h = message_opcode (ms ! i) \<and>
        h_session_id h = sid \<and> h_sequence h = sq + of_nat i)"

fun is_recv_comp :: "rdows_message \<Rightarrow> bool" where
  "is_recv_comp (RecvComp h) = True"
| "is_recv_comp _ = False"

fun is_credit_update :: "rdows_message \<Rightarrow> bool" where
  "is_credit_update (CreditUpdate h p) = True"
| "is_credit_update _ = False"

fun credit_of :: "rdows_message \<Rightarrow> nat" where
  "credit_of (CreditUpdate h p) = unat (cu_credit_increment p)"
| "credit_of _ = 0"

definition recv_comps :: "rdows_message list \<Rightarrow> nat" where
  "recv_comps ms = length (filter is_recv_comp ms)"

definition credits :: "rdows_message list \<Rightarrow> nat" where
  "credits ms = sum_list (map credit_of ms)"

text \<open>What a client that decodes the frames one by one receives.\<close>

fun sent_messages :: "bytes list \<Rightarrow> rdows_message list" where
  "sent_messages [] = []"
| "sent_messages (f # fs) = (case message_decode f of Ok m \<Rightarrow> m # sent_messages fs | _ \<Rightarrow> sent_messages fs)"

text \<open>The receive slot that a SEND still waiting for its data has taken.\<close>

definition reserved_recv :: "session \<Rightarrow> nat" where
  "reserved_recv s = (case se_pending_op s of AwaitingSendData _ \<Rightarrow> 1 | _ \<Rightarrow> 0)"

definition log_ok :: "server_config \<Rightarrow> session \<Rightarrow> rdows_message list \<Rightarrow> bool" where
  "log_ok cfg s ms \<longleftrightarrow>
     numbered (se_session_id s) 0 ms \<and> se_next_seq s = of_nat (length ms) \<and>
     (se_state s = AwaitingConnect \<longrightarrow> ms = []) \<and>
     recv_comps ms = credits ms + unat (se_sends_since_last_credit s) \<and>
     unat (se_recv_queue_depth s) + reserved_recv s + recv_comps ms \<le> unat (cfg_recv_queue_depth cfg) \<and>
     (\<forall>m \<in> set ms. is_credit_update m \<longrightarrow> credit_of m = 16383)"

text \<open>One handled message that returns, and the sessions that can be reached by them.\<close>

inductive session_step :: "conn \<Rightarrow> rdows_message \<Rightarrow> conn \<Rightarrow> bool" where
  step: "se_state (fst c) \<noteq> Closed \<Longrightarrow> handle_message now os_rng m c = (Ok (), c') \<Longrightarrow> session_step c m c'"

inductive session_reach :: "server_config \<Rightarrow> conn \<Rightarrow> bool" where
  init: "session_reach cfg (session_new cfg now, sink_new outcome)"
| more: "session_reach cfg c \<Longrightarrow> session_step c m c' \<Longrightarrow> session_reach cfg c'"

text \<open>What one handler may do to a session.\<close>

definition keeps :: "server_config \<Rightarrow> conn \<Rightarrow> conn \<Rightarrow> bool" where
  "keeps cfg c c' \<longleftrightarrow> (\<exists>ms. snd c' = push ms (snd c) \<and> session_ok cfg (fst c') \<and>
     (\<forall>pre. log_ok cfg (fst c) pre \<longrightarrow> log_ok cfg (fst c') (pre @ ms)))"

section \<open>Sending\<close>

lemma push_simps [simp]:
  "wk_outcome (push ms k) = wk_outcome k"
  "wk_attempts (push ms k) = wk_attempts k + length ms"
  "wk_frames (push ms k) = wk_frames k @ map message_encode ms"
  "push [] k = k"
  "push ns (push ms k) = push (ms @ ns) k"
  by (simp_all add: push_def)

lemma next_header_eq [simp, session_simps]:
  "next_header op wrid s = (header_new op (se_session_id s) (se_next_seq s) wrid,
     s\<lparr>se_next_seq := se_next_seq s + 1\<rparr>)"
  by (simp add: next_header_def Let_def)

lemma send_message_Ok_iff:
  "send_message m (s, k) = (Ok (), c') \<longleftrightarrow>
   wk_outcome k (wk_attempts k) = Ok () \<and> c' = (s, push [m] k)"
  by (cases "wk_outcome k (wk_attempts k)") (auto simp: send_message_def sink_send_def push_def Let_def)

lemma send_error_Ok_iff:
  "send_error code sq desc (s, k) = (Ok (), c') \<longleftrightarrow>
   wk_outcome k (wk_attempts k) = Ok () \<and>
   c' = (s\<lparr>se_next_seq := se_next_seq s + 1\<rparr>,
     push [Error (header_new opcode.Error (se_session_id s) (se_next_seq s) 0)
       \<lparr>ep_error_code = code, ep_failing_seq = sq, ep_description = desc\<rparr>] k)"
  by (auto simp: send_error_def send_message_Ok_iff)

lemma send_message_Panic_iff:
  "fst (send_message m (s, k)) = Panic \<longleftrightarrow> wk_outcome k (wk_attempts k) = Panic"
  by (cases "wk_outcome k (wk_attempts k)") (auto simp: send_message_def sink_send_def Let_def)

lemma send_error_Panic_iff:
  "fst (send_error code sq desc (s, k)) = Panic \<longleftrightarrow> wk_outcome k (wk_attempts k) = Panic"
  by (simp add: send_error_def send_message_Panic_iff)

section \<open>The log\<close>

lemma numbered_append:
  "numbered sid sq (ms @ ns) \<longleftrightarrow> numbered sid sq ms \<and> numbered sid (sq + of_nat (length ms)) ns"
proof -
  have "(\<forall>i < length ms + length ns. P i) \<longleftrightarrow>
      (\<forall>i < length ms. P i) \<and> (\<forall>i < length ns. P (length ms + i))" for P
  proof safe
    fix i assume "\<forall>i < length ms. P i" "\<forall>j < length ns. P (length ms + j)" "i < length ms + length ns"
    then show "P i" by (cases "i < length ms") (auto dest: spec [of _ "i - length ms"])
  qed auto
  then show ?thesis by (simp add: numbered_def nth_append Let_def add.assoc)
qed

lemma numbered_Nil [simp]: "numbered sid sq []"
  by (simp add: numbered_def)

lemma numbered_Cons [simp]:
  "numbered sid sq (m # ms) \<longleftrightarrow>
   header_wf (message_header m) \<and> h_opcode (message_header m) = message_opcode m \<and>
   h_session_id (message_header m) = sid \<and> h_sequence (message_header m) = sq \<and>
   numbered sid (sq + 1) ms"
  using numbered_append [of sid sq "[m]" ms] by (simp add: numbered_def [of sid sq "[m]"] Let_def)

lemma log_counts [simp]:
  "recv_comps [] = 0" "recv_comps (ms @ ns) = recv_comps ms + recv_comps ns"
  "recv_comps (m # ms) = (if is_recv_comp m then 1 else 0) + recv_comps ms"
  "credits [] = 0" "credits (ms @ ns) = credits ms + credits ns"
  "credits (m # ms) = credit_of m + credits ms"
  by (simp_all add: recv_comps_def credits_def)

fun neutral :: "rdows_message \<Rightarrow> bool" where
  "neutral (RecvComp h) = False"
| "neutral (CreditUpdate h p) = False"
| "neutral _ = True"

lemma neutral_counts:
  "neutral m \<Longrightarrow> \<not> is_recv_comp m \<and> credit_of m = 0 \<and> \<not> is_credit_update m"
  by (cases m) simp_all

text \<open>A handler that sends at most one message without meaning for flow control.\<close>

lemma keeps_silent:
  assumes "session_ok cfg s'" and "se_session_id s' = se_session_id s" and "se_next_seq s' = se_next_seq s"
    and "se_sends_since_last_credit s' = se_sends_since_last_credit s"
    and "unat (se_recv_queue_depth s') + reserved_recv s' \<le> unat (se_recv_queue_depth s) + reserved_recv s"
    and "se_state s' \<noteq> AwaitingConnect"
  shows "keeps cfg (s, k) (s', k)"
  unfolding keeps_def using assms by (intro exI [of _ "[]"]) (auto simp: log_ok_def)

lemma keeps_answer:
  assumes "session_ok cfg s'" and "se_session_id s' = se_session_id s" and "se_next_seq s' = se_next_seq s + 1"
    and "se_sends_since_last_credit s' = se_sends_since_last_credit s"
    and "unat (se_recv_queue_depth s') + reserved_recv s' \<le> unat (se_recv_queue_depth s) + reserved_recv s"
    and "se_state s' \<noteq> AwaitingConnect"
    and "neutral m" and "header_wf (message_header m)" and "h_opcode (message_header m) = message_opcode m"
    and "h_session_id (message_header m) = se_session_id s" and "h_sequence (message_header m) = se_next_seq s"
  shows "keeps cfg (s, k) (s', push [m] k)"
  unfolding keeps_def using assms neutral_counts [of m]
  by (intro exI [of _ "[m]"]) (auto simp: log_ok_def numbered_append add.commute)

lemma reserved_recv_simps [simp]:
  "reserved_recv (s\<lparr>se_next_seq := a\<rparr>) = reserved_recv s"
  "reserved_recv (s\<lparr>se_memory_store := st\<rparr>) = reserved_recv s"
  "reserved_recv (s\<lparr>se_mr_reg_count := b\<rparr>) = reserved_recv s"
  "reserved_recv (s\<lparr>se_mr_reg_window_start := d\<rparr>) = reserved_recv s"
  "reserved_recv (s\<lparr>se_outstanding_reads := e\<rparr>) = reserved_recv s"
  "reserved_recv (s\<lparr>se_recv_queue_depth := f\<rparr>) = reserved_recv s"
  "reserved_recv (s\<lparr>se_expected_remote_seq := g\<rparr>) = reserved_recv s"
  "reserved_recv (s\<lparr>se_state := h\<rparr>) = reserved_recv s"
  "reserved_recv (s\<lparr>se_sends_since_last_credit := i\<rparr>) = reserved_recv s"
  "reserved_recv (s\<lparr>se_session_id := j\<rparr>) = reserved_recv s"
  "reserved_recv (s\<lparr>se_pd := l\<rparr>) = reserved_recv s"
  "reserved_recv (s\<lparr>se_max_msg_size := m\<rparr>) = reserved_recv s"
  "reserved_recv (s\<lparr>se_pending_op := op\<rparr>) = (case op of AwaitingSendData _ \<Rightarrow> 1 | _ \<Rightarrow> 0)"
  by (simp_all add: reserved_recv_def cong: pending_op.case_cong)

lemma session_ok_simps [simp]:
  "session_ok cfg (s\<lparr>se_next_seq := a\<rparr>) = session_ok cfg s"
  "session_ok cfg (s\<lparr>se_pending_op := b\<rparr>) = session_ok cfg s"
  "session_ok cfg (s\<lparr>se_recv_queue_depth := d\<rparr>) = session_ok cfg s"
  "session_ok cfg (s\<lparr>se_mr_reg_window_start := e\<rparr>) = session_ok cfg s"
  by (simp_all add: session_ok_def)

section \<open>The handlers preserve the invariant\<close>

lemma keeps_send_error:
  assumes "session_ok cfg s" and "se_state s \<noteq> AwaitingConnect"
    and "send_error code sq desc (s, k) = (Ok (), c')"
  shows "keeps cfg (s, k) c'"
  using assms by (auto simp: send_error_Ok_iff intro!: keeps_answer)

lemma keeps_mr_dereg:
  assumes ok: "session_ok cfg s" and "se_state s = Ready"
    and h: "handle_mr_dereg wrid p (s, k) = (Ok (), c')"
  shows "keeps cfg (s, k) c'"
proof -
  obtain r st where d: "deregister (md_pd p) (md_lkey p) (se_memory_store s) = (r, st)"
    by (cases "deregister (md_pd p) (md_lkey p) (se_memory_store s)")
  have inv: "store_inv (se_memory_store s)" using ok by (simp add: session_ok_def)
  have st: "store_inv st" using inv d by (rule deregister_keeps_inv)
  have lim: "ms_max_regions st = ms_max_regions (se_memory_store s)"
    "ms_max_total_bytes st = ms_max_total_bytes (se_memory_store s)"
    using d by (auto simp: deregister_eq [OF inv] split: option.splits if_split_asm)
  have "session_ok cfg (s\<lparr>se_memory_store := st\<rparr>)" using ok st lim by (simp add: session_ok_def)
  then show ?thesis
    using h d assms(2) by (cases r)
      (auto simp: handle_mr_dereg_def send_message_Ok_iff intro!: keeps_answer)
qed

lemma keeps_send:
  assumes "session_ok cfg s" and "se_state s = Ready"
    and "handle_send h p (s, k) = (Ok (), c')"
  shows "keeps cfg (s, k) c'"
proof (cases "se_recv_queue_depth s = 0")
  case True
  then show ?thesis
    using assms by (auto simp: handle_send_def sbind_Ok_iff send_error_Ok_iff intro!: keeps_answer)
next
  case False
  then have "unat (se_recv_queue_depth s - 1) = unat (se_recv_queue_depth s) - 1"
    "0 < unat (se_recv_queue_depth s)"
    by (simp_all add: unat_minus_one unat_gt_0)
  then show ?thesis
    using assms False
    by (auto simp: handle_send_def u32_sub_def split: if_split_asm intro!: keeps_silent)
qed

lemma keeps_write:
  assumes "session_ok cfg s" and "se_state s = Ready"
    and "handle_write h p (s, k) = (Ok (), c')"
  shows "keeps cfg (s, k) c'"
  using assms
  by (auto simp: handle_write_def send_error_Ok_iff split: result.splits
      intro!: keeps_answer keeps_silent)

lemma keeps_write_data:
  assumes ok: "session_ok cfg s" and "se_state s = Ready"
    and wd: "handle_write_data h p (s, k) = (Ok (), c')"
  shows "keeps cfg (s, k) c'"
proof (cases "se_pending_op s")
  case (AwaitingWriteData wrid rk va len)
  obtain r st where w: "write_region rk va (dp_data p) (se_memory_store s) = (r, st)"
    by (cases "write_region rk va (dp_data p) (se_memory_store s)")
  have inv: "store_inv (se_memory_store s)" using ok by (simp add: session_ok_def)
  have "store_inv st" using inv w by (rule mem.store_keeps_inv)
  moreover have "ms_max_regions st = ms_max_regions (se_memory_store s) \<and>
      ms_max_total_bytes st = ms_max_total_bytes (se_memory_store s)"
    using write_region_state [OF inv w] by auto
  ultimately have "session_ok cfg (s\<lparr>se_pending_op := NoPending, se_memory_store := st\<rparr>)"
    using ok by (simp add: session_ok_def)
  then show ?thesis
    using wd w assms(2) AwaitingWriteData by (cases r)
      (auto simp: handle_write_data_def send_message_Ok_iff send_error_Ok_iff intro!: keeps_answer)
qed (use assms in \<open>auto simp: handle_write_data_def send_error_Ok_iff intro!: keeps_answer\<close>)

definition read_reply :: "session \<Rightarrow> rdows_header \<Rightarrow> read_req_payload \<Rightarrow> rdows_message" where
  "read_reply s h p =
     (let err = (\<lambda>code desc. Error (header_new opcode.Error (se_session_id s) (se_next_seq s) 0)
            \<lparr>ep_error_code = code, ep_failing_seq = h_sequence h, ep_description = desc\<rparr>) in
      if se_max_outstanding_reads s = 0 then err ErrRnr (lit ''too many outstanding reads'')
      else (case read_region (rq_rkey p) (rq_remote_va p) (rq_read_len p) (se_memory_store s) of
          Ok data \<Rightarrow> ReadResp (header_new opcode.ReadResp (se_session_id s) (se_next_seq s) (h_wrid h))
            \<lparr>rr_fragment_offset = 0, rr_data = data\<rparr>
        | Err code \<Rightarrow> err code []
        | _ \<Rightarrow> err ErrInternal []))"

lemma read_region_not_stuck: "read_region rk off len st \<noteq> Panic" "read_region rk off len st \<noteq> Blocked"
  by (auto simp: read_region_def rbind_iffs Let_def)

lemma handle_read_req_Ok_iff:
  assumes "se_outstanding_reads s = 0"
  shows "handle_read_req h p (s, k) = (Ok (), c') \<longleftrightarrow>
    wk_outcome k (wk_attempts k) = Ok () \<and>
    c' = (s\<lparr>se_next_seq := se_next_seq s + 1\<rparr>, push [read_reply s h p] k)"
proof (cases "read_region (rq_rkey p) (rq_remote_va p) (rq_read_len p) (se_memory_store s)")
  case (Ok data)
  show ?thesis
    using assms Ok by (cases "wk_outcome k (wk_attempts k)")
      (auto simp: handle_read_req_def read_reply_def u32_add_def u32_sub_def send_error_Ok_iff
        send_message_def sink_send_def push_def Let_def)
qed (use assms in \<open>auto simp: handle_read_req_def read_reply_def u32_add_def u32_sub_def
    send_error_Ok_iff Let_def read_region_not_stuck\<close>)

lemma read_reply_header:
  "neutral (read_reply s h p)" "header_wf (message_header (read_reply s h p))"
  "h_opcode (message_header (read_reply s h p)) = message_opcode (read_reply s h p)"
  "h_session_id (message_header (read_reply s h p)) = se_session_id s"
  "h_sequence (message_header (read_reply s h p)) = se_next_seq s"
  by (simp_all add: read_reply_def Let_def split: result.split)

lemma keeps_read_req:
  assumes "session_ok cfg s" and "se_state s = Ready"
    and "handle_read_req h p (s, k) = (Ok (), c')"
  shows "keeps cfg (s, k) c'"
proof -
  have "se_outstanding_reads s = 0" using assms(1) by (simp add: session_ok_def)
  with assms show ?thesis
    by (auto simp: handle_read_req_Ok_iff read_reply_header intro!: keeps_answer)
qed

lemma keeps_atomic_req:
  assumes ok: "session_ok cfg s" and "se_state s = Ready"
    and a: "handle_atomic_req h p (s, k) = (Ok (), c')"
  shows "keeps cfg (s, k) c'"
proof -
  obtain r st where op: "atomic_op (aq_rkey p) (aq_remote_va p) (aq_atomic_type p) (aq_operand1 p)
      (aq_operand2 p) (se_memory_store s) = (r, st)"
    by (metis surj_pair)
  have inv: "store_inv (se_memory_store s)" using ok by (simp add: session_ok_def)
  have "store_inv st" using inv op by (rule atomic_op_keeps_inv)
  moreover have "ms_max_regions st = ms_max_regions (se_memory_store s) \<and>
      ms_max_total_bytes st = ms_max_total_bytes (se_memory_store s)"
    using atomic_op_cases [OF inv] op by (metis mr_update_fields(5,6) snd_conv)
  ultimately have "session_ok cfg (s\<lparr>se_memory_store := st\<rparr>)"
    using ok by (simp add: session_ok_def)
  then show ?thesis
    using a op assms(1,2) by (cases r)
      (auto simp: handle_atomic_req_def send_message_Ok_iff send_error_Ok_iff
        split: if_split_asm intro!: keeps_answer)
qed

text \<open>The session after the rate limiter has looked at the clock.\<close>

definition window :: "instant \<Rightarrow> session \<Rightarrow> session" where
  "window now s = (if now - se_mr_reg_window_start s \<ge> ONE_SECOND
     then s\<lparr>se_mr_reg_count := 0, se_mr_reg_window_start := now\<rparr> else s)"

lemma window_fields [simp]:
  "se_state (window now s) = se_state s" "se_session_id (window now s) = se_session_id s"
  "se_next_seq (window now s) = se_next_seq s"
  "se_memory_store (window now s) = se_memory_store s"
  "se_pending_op (window now s) = se_pending_op s"
  "se_recv_queue_depth (window now s) = se_recv_queue_depth s"
  "se_sends_since_last_credit (window now s) = se_sends_since_last_credit s"
  "se_mr_reg_rate_limit (window now s) = se_mr_reg_rate_limit s"
  "reserved_recv (window now s) = reserved_recv s"
  by (simp_all add: window_def)

lemma session_ok_window [simp]: "session_ok cfg s \<Longrightarrow> session_ok cfg (window now s)"
  by (simp add: window_def session_ok_def)

lemma register_limits:
  assumes "store_inv st" and "register os_rng pd fl len st = (r, st')" and "r \<noteq> Panic"
  shows "ms_max_regions st' = ms_max_regions st \<and> ms_max_total_bytes st' = ms_max_total_bytes st"
proof (cases r)
  case (Ok x)
  then have "store_step st (Registered (fst x) (snd x)) st'"
    using assms(2) by (cases x) (auto intro: store_step.registered)
  then show ?thesis using store_step_used assms(1) by blast
next
  case (Err e)
  then have "store_step st (Refused e) st'" using assms(2) by (auto intro: store_step.register_refused)
  then show ?thesis using store_step_used assms(1) by blast
next
  case Blocked
  then show ?thesis using register_not_Blocked [of os_rng pd fl len st] assms(2) by simp
qed (use assms in simp)

lemma keeps_mr_reg:
  assumes ok: "session_ok cfg s" and ready: "se_state s = Ready"
    and reg: "handle_mr_reg now os_rng wrid p (s, k) = (Ok (), c')"
  shows "keeps cfg (s, k) c'"
proof -
  let ?s = "window now s"
  have okw: "session_ok cfg ?s" using ok by simp
  show ?thesis
  proof (cases "se_mr_reg_count ?s \<ge> se_mr_reg_rate_limit ?s")
    case True
    then show ?thesis
      using reg okw ready by (auto simp: handle_mr_reg_def window_def [symmetric] Let_def
          send_message_Ok_iff intro!: keeps_answer)
  next
    case False
    obtain r st where op: "register os_rng (mr_pd p) (mr_access_flags p) (mr_region_len p)
        (se_memory_store s) = (r, st)"
      by (metis surj_pair)
    have inv: "store_inv (se_memory_store s)" using ok by (simp add: session_ok_def)
    have "r \<noteq> Panic" using reg op False
      by (auto simp: handle_mr_reg_def window_def [symmetric] Let_def u32_add_def split: if_split_asm)
    with inv op have st: "store_inv st" by (rule register_keeps_inv)
    have lim: "ms_max_regions st = ms_max_regions (se_memory_store s)"
      "ms_max_total_bytes st = ms_max_total_bytes (se_memory_store s)"
      using register_limits [OF inv op \<open>r \<noteq> Panic\<close>] by simp_all
    have "se_mr_reg_count ?s + 1 \<le> se_mr_reg_rate_limit ?s"
      using False by (simp add: inc_le)
    then have "session_ok cfg (?s\<lparr>se_mr_reg_count := se_mr_reg_count ?s + 1, se_memory_store := st\<rparr>)"
      using okw st lim by (simp add: session_ok_def)
    then show ?thesis
      using reg op ready False by (cases r)
        (auto simp: handle_mr_reg_def window_def [symmetric] Let_def u32_add_def
          send_message_Ok_iff split: if_split_asm intro!: keeps_answer)
  qed
qed

lemma credit_window:
  fixes n :: u32
  assumes "n < 16383"
  shows "unat n + 1 < 4294967296" and "unat (n + 1) = unat n + 1"
    and "n + 1 \<ge> 16383 \<Longrightarrow> n + 1 = 16383" and "\<not> n + 1 \<ge> 16383 \<Longrightarrow> n + 1 < 16383"
proof -
  have n: "unat n < 16383" using assms by (simp add: word_less_nat_alt)
  then show "unat n + 1 < 4294967296" by simp
  show u: "unat (n + 1) = unat n + 1" using n by (simp add: unat_word_ariths)
  show "n + 1 \<ge> 16383 \<Longrightarrow> n + 1 = 16383"
    using n u by (simp add: word_le_nat_alt word_unat_eq_iff)
  show "\<not> n + 1 \<ge> 16383 \<Longrightarrow> n + 1 < 16383" by simp
qed

lemma DEFAULT_ICC_quarter: "DEFAULT_ICC div 4 = 16383"
  by (simp add: DEFAULT_ICC_def)

lemma keeps_send_data_accepted:
  assumes ok: "session_ok cfg s" and ready: "se_state s = Ready"
    and pend: "se_pending_op s = AwaitingSendData wrid"
    and sd: "handle_send_data h p (s, k) = (Ok (), c')"
  shows "keeps cfg (s, k) c'"
proof -
  let ?n = "se_sends_since_last_credit s"
  let ?hdr = "header_new opcode.RecvComp (se_session_id s) (se_next_seq s) wrid"
  let ?chdr = "header_new opcode.CreditUpdate (se_session_id s) (se_next_seq s + 1) 0"
  have n: "?n < 16383" and icc: "se_icc s = DEFAULT_ICC" using ok by (simp_all add: session_ok_def)
  note w = credit_window [OF n]
  have res: "reserved_recv s = 1" by (simp add: reserved_recv_def pend)
  show ?thesis
  proof (cases "?n + 1 \<ge> 16383")
    case True
    have full: "?n + 1 = 16383" using w(3) [OF True] .
    then have cnt: "unat ?n + 1 = 16383" using w(2) by simp
    have c': "c' = (s\<lparr>se_pending_op := NoPending, se_next_seq := se_next_seq s + 1 + 1,
        se_sends_since_last_credit := 0\<rparr>,
        push [RecvComp ?hdr, CreditUpdate ?chdr \<lparr>cu_credit_increment = 16383\<rparr>] k)"
      using sd pend icc w(1) full
      by (auto simp: handle_send_data_def sbind_Ok_iff send_message_Ok_iff u32_add_def Let_def
          DEFAULT_ICC_quarter)
    show ?thesis
      unfolding keeps_def c' using ok ready res cnt
      by (intro exI [of _ "[RecvComp ?hdr, CreditUpdate ?chdr \<lparr>cu_credit_increment = 16383\<rparr>]"])
        (auto simp: log_ok_def numbered_append session_ok_def)
  next
    case False
    have c': "c' = (s\<lparr>se_pending_op := NoPending, se_next_seq := se_next_seq s + 1,
        se_sends_since_last_credit := ?n + 1\<rparr>, push [RecvComp ?hdr] k)"
      using sd pend icc w(1) False
      by (auto simp: handle_send_data_def sbind_Ok_iff send_message_Ok_iff u32_add_def Let_def
          DEFAULT_ICC_quarter)
    show ?thesis
      unfolding keeps_def c' using ok ready res w(2) w(4) [OF False]
      by (intro exI [of _ "[RecvComp ?hdr]"])
        (auto simp: log_ok_def numbered_append session_ok_def)
  qed
qed

lemma keeps_send_data:
  assumes "session_ok cfg s" and "se_state s = Ready"
    and "handle_send_data h p (s, k) = (Ok (), c')"
  shows "keeps cfg (s, k) c'"
proof (cases "se_pending_op s")
  case (AwaitingSendData wrid)
  show ?thesis by (rule keeps_send_data_accepted [OF assms(1,2) AwaitingSendData assms(3)])
qed (use assms in \<open>auto simp: handle_send_data_def send_error_Ok_iff
    intro!: keeps_answer keeps_silent\<close>)

lemma keeps_dispatch:
  assumes "session_ok cfg s" and "se_state s = Ready"
    and "dispatch now os_rng m (s, k) = (Ok (), c')"
  shows "keeps cfg (s, k) c'"
  using assms
  by (cases m)
    (auto simp: dispatch_def Let_def intro: keeps_mr_reg keeps_mr_dereg keeps_send keeps_send_data
      keeps_write keeps_write_data keeps_read_req keeps_atomic_req keeps_send_error keeps_silent)

lemma keeps_ready:
  assumes "session_ok cfg s" and "se_state s = Ready"
    and "handle_ready now os_rng m (s, k) = (Ok (), c')"
  shows "keeps cfg (s, k) c'"
proof -
  have "session_ok cfg (s\<lparr>se_state := Closed\<rparr>)" using assms(1) by (simp add: session_ok_def)
  then show ?thesis
    using assms by (cases m) (auto simp: handle_ready_def intro: keeps_dispatch keeps_silent)
qed

lemma keeps_connect:
  assumes ok: "session_ok cfg s" and new: "se_state s = AwaitingConnect"
    and con: "handle_connect m (s, k) = (Ok (), c')"
  shows "keeps cfg (s, k) c'"
proof -
  obtain h p where m: "m = Connect h p"
    using con by (cases m) (auto simp: handle_connect_def)
  show ?thesis
  proof (cases "h_version h = RDOWS_VERSION")
    case True
    then show ?thesis
      using con ok new unfolding keeps_def m
      by (auto simp: handle_connect_def sbind_Ok_iff send_message_Ok_iff Let_def log_ok_def
          session_ok_def intro!: exI)
  next
    case False
    then show ?thesis
      using con ok new unfolding keeps_def m
      by (auto simp: handle_connect_def sbind_Ok_iff send_error_Ok_iff log_ok_def session_ok_def
          intro!: exI)
  qed
qed

lemma keeps_trans:
  assumes "keeps cfg (s, k) c'" and "\<And>pre. log_ok cfg t pre = log_ok cfg s pre"
  shows "keeps cfg (t, k) c'"
  using assms unfolding keeps_def by auto

theorem keeps_handle_message:
  assumes ok: "session_ok cfg s" and "se_state s \<noteq> Closed"
    and hm: "handle_message now os_rng m (s, k) = (Ok (), c')"
  shows "keeps cfg (s, k) c'"
proof (cases "se_state s")
  case AwaitingConnect
  with hm keeps_connect [OF ok AwaitingConnect] show ?thesis by (auto simp: handle_message_def)
next
  case Ready
  let ?s = "s\<lparr>se_expected_remote_seq := Some (h_sequence (message_header m) + 1)\<rparr>"
  have ok': "session_ok cfg ?s" using ok by (simp add: session_ok_def)
  have same: "log_ok cfg ?s pre = log_ok cfg s pre" for pre by (simp add: log_ok_def)
  from hm Ready consider
      (err) code sq desc where "send_error code sq desc (s, k) = (Ok (), c')"
    | (run) "handle_ready now os_rng m (?s, k) = (Ok (), c')"
    by (auto simp: handle_message_def Let_def split: if_split_asm option.splits)
  then show ?thesis
  proof cases
    case err
    then show ?thesis using keeps_send_error [OF ok] Ready by simp
  next
    case run
    then have "keeps cfg (?s, k) c'" using keeps_ready [OF ok'] Ready by simp
    then show ?thesis using same by (auto simp: keeps_def)
  qed
qed (use assms in simp)

section \<open>Reachable sessions\<close>

lemma session_ok_new: "session_ok cfg (session_new cfg now)"
  by (simp add: session_ok_def session_new_def store_inv_new)
    (simp add: memory_store_new_def)

lemma log_ok_new: "log_ok cfg (session_new cfg now) []"
  by (simp add: log_ok_def session_new_def reserved_recv_def)

lemma session_reach_ok:
  assumes "session_reach cfg c"
  shows "session_ok cfg (fst c) \<and>
    (\<exists>ms. wk_frames (snd c) = map message_encode ms \<and> wk_attempts (snd c) = length ms \<and>
      log_ok cfg (fst c) ms)"
  using assms
proof (induction rule: session_reach.induct)
  case (init cfg now outcome)
  show ?case using session_ok_new log_ok_new by (auto simp: sink_new_def)
next
  case (more cfg c m c')
  then obtain ms where ms: "wk_frames (snd c) = map message_encode ms"
    "wk_attempts (snd c) = length ms" "log_ok cfg (fst c) ms" by blast
  from more.hyps(2) obtain now os_rng where
    st: "se_state (fst c) \<noteq> Closed" "handle_message now os_rng m c = (Ok (), c')"
    by (cases rule: session_step.cases)
  have "keeps cfg c c'"
    using keeps_handle_message [of cfg "fst c" now os_rng m "snd c"] more.IH st by simp
  then obtain ns where "snd c' = push ns (snd c)" "session_ok cfg (fst c')"
    "log_ok cfg (fst c') (ms @ ns)" using ms(3) by (auto simp: keeps_def)
  then show ?case using ms by (intro conjI exI [of _ "ms @ ns"]) simp_all
qed

end
