(* ===== verification/Server_Props.thy ===== *)
theory Server_Props
  imports Server_Inv
begin

text \<open>
  The properties of the server session: what every reachable session satisfies, when the
  handlers can panic, and what each request does to the session on its success and error
  branches.
\<close>

section \<open>Lemmas\<close>

subsection \<open>When a handler panics\<close>

definition tick :: "ws_sink \<Rightarrow> ws_sink" where
  "tick k = k\<lparr>wk_attempts := wk_attempts k + 1\<rparr>"

lemma send_message_eq:
  "send_message m (s, k) = (case wk_outcome k (wk_attempts k) of
     Ok _ \<Rightarrow> (Ok (), (s, push [m] k))
   | Err e \<Rightarrow> (Err (WebSocket e), (s, tick k))
   | Panic \<Rightarrow> (Panic, (s, tick k))
   | Blocked \<Rightarrow> (Blocked, (s, tick k)))"
  by (simp add: send_message_def sink_send_def push_def tick_def Let_def split: result.split)

lemma send_error_eq:
  "send_error code sq desc (s, k) =
     send_message (Error (header_new opcode.Error (se_session_id s) (se_next_seq s) 0)
       \<lparr>ep_error_code = code, ep_failing_seq = sq, ep_description = desc\<rparr>)
       (s\<lparr>se_next_seq := se_next_seq s + 1\<rparr>, k)"
  by (simp add: send_error_def)

lemma validate_rkey_not_stuck: "validate_rkey rk fl st \<noteq> Panic" "validate_rkey rk fl st \<noteq> Blocked"
  by (auto simp: validate_rkey_def rbind_iffs)

lemma write_region_not_stuck:
  "store_inv st \<Longrightarrow> fst (write_region rk off data st) \<noteq> Panic \<and> fst (write_region rk off data st) \<noteq> Blocked"
  by (simp add: write_region_eq split: option.split)

lemma atomic_op_not_stuck:
  "store_inv st \<Longrightarrow> fst (atomic_op rk va ty a b st) \<noteq> Panic \<and> fst (atomic_op rk va ty a b st) \<noteq> Blocked"
  by (simp add: atomic_op_eq split: option.split)

lemma deregister_not_stuck:
  "store_inv st \<Longrightarrow> fst (deregister pd lk st) \<noteq> Panic \<and> fst (deregister pd lk st) \<noteq> Blocked"
  by (simp add: deregister_eq split: option.split)

text \<open>The transport never panics.\<close>

definition sane_sink :: "ws_sink \<Rightarrow> bool" where
  "sane_sink k \<longleftrightarrow> (\<forall>n. wk_outcome k n \<noteq> Panic)"

lemma sane_send [simp]: "sane_sink k \<Longrightarrow> fst (send_message m (s, k)) \<noteq> Panic"
  "sane_sink k \<Longrightarrow> fst (send_error code sq desc (s, k)) \<noteq> Panic"
  by (simp_all add: send_message_Panic_iff send_error_Panic_iff sane_sink_def)

lemma sane_send_pair [simp]: "sane_sink k \<Longrightarrow> send_message m (s, k) \<noteq> (Panic, c)"
  "sane_sink k \<Longrightarrow> send_error code sq desc (s, k) \<noteq> (Panic, c)"
  using sane_send by (metis fst_conv)+

lemma sane_push [simp]: "sane_sink (push ms k) = sane_sink k"
  by (simp add: sane_sink_def)

lemma handle_mr_dereg_no_panic:
  assumes "session_ok cfg s" and "sane_sink k"
  shows "fst (handle_mr_dereg wrid p (s, k)) \<noteq> Panic"
proof -
  have "store_inv (se_memory_store s)" using assms(1) by (simp add: session_ok_def)
  from deregister_not_stuck [OF this, of "md_pd p" "md_lkey p"] assms(2) show ?thesis
    by (cases "deregister (md_pd p) (md_lkey p) (se_memory_store s)")
      (auto simp: handle_mr_dereg_def sbind_Panic_iff split: result.splits)
qed

lemma handle_send_no_panic: "sane_sink k \<Longrightarrow> fst (handle_send h p (s, k)) \<noteq> Panic"
  by (auto simp: handle_send_def sbind_Panic_iff u32_sub_def word_le_nat_alt unat_eq_zero
      Suc_le_eq unat_gt_0)

lemma handle_send_data_no_panic:
  assumes "session_ok cfg s" and "sane_sink k"
  shows "fst (handle_send_data h p (s, k)) \<noteq> Panic"
proof -
  have "se_sends_since_last_credit s < 16383" using assms(1) by (simp add: session_ok_def)
  from credit_window(1) [OF this] show ?thesis
    using assms(2) by (auto simp: handle_send_data_def sbind_Panic_iff send_message_Ok_iff u32_add_def
        Let_def split: pending_op.split)
qed

lemma handle_write_no_panic: "sane_sink k \<Longrightarrow> fst (handle_write h p (s, k)) \<noteq> Panic"
  by (auto simp: handle_write_def validate_rkey_not_stuck split: result.split)

lemma handle_write_data_no_panic:
  assumes "session_ok cfg s" and "sane_sink k"
  shows "fst (handle_write_data h p (s, k)) \<noteq> Panic"
proof -
  have "store_inv (se_memory_store s)" using assms(1) by (simp add: session_ok_def)
  from write_region_not_stuck [OF this] assms(2) show ?thesis
    by (auto simp: handle_write_data_def Let_def split: pending_op.split prod.split result.split)
      (metis fst_conv)
qed

lemma handle_read_req_no_panic:
  assumes "session_ok cfg s" and "sane_sink k"
  shows "fst (handle_read_req h p (s, k)) \<noteq> Panic"
proof -
  have "se_outstanding_reads s = 0" using assms(1) by (simp add: session_ok_def)
  then show ?thesis
    using assms(2)
    by (cases "read_region (rq_rkey p) (rq_remote_va p) (rq_read_len p) (se_memory_store s)";
        cases "wk_outcome k (wk_attempts k)")
      (auto simp: handle_read_req_def sbind_Panic_iff u32_add_def u32_sub_def read_region_not_stuck
        send_message_eq sane_sink_def send_error_eq)
qed

lemma handle_atomic_req_no_panic:
  assumes "session_ok cfg s" and "sane_sink k"
  shows "fst (handle_atomic_req h p (s, k)) \<noteq> Panic"
proof -
  have "store_inv (se_memory_store s)" using assms(1) by (simp add: session_ok_def)
  note ns = atomic_op_not_stuck [OF this, of "aq_rkey p" "aq_remote_va p" "aq_atomic_type p"
      "aq_operand1 p" "aq_operand2 p"]
  obtain r st where op: "atomic_op (aq_rkey p) (aq_remote_va p) (aq_atomic_type p) (aq_operand1 p)
      (aq_operand2 p) (se_memory_store s) = (r, st)"
    by (metis surj_pair)
  from ns assms(2) op show ?thesis by (cases r) (auto simp: handle_atomic_req_def)
qed

lemma handle_mr_reg_Panic_iff:
  assumes "session_ok cfg s" and "sane_sink k"
  shows "fst (handle_mr_reg now os_rng wrid p (s, k)) = Panic \<longleftrightarrow>
    se_mr_reg_count (window now s) < se_mr_reg_rate_limit s \<and>
    fst (register os_rng (mr_pd p) (mr_access_flags p) (mr_region_len p) (se_memory_store s)) = Panic"
proof (cases "se_mr_reg_count (window now s) < se_mr_reg_rate_limit s")
  case True
  then have "unat (se_mr_reg_count (window now s)) < unat (se_mr_reg_rate_limit s)"
    by (simp add: word_less_nat_alt)
  then have small: "unat (se_mr_reg_count (window now s)) < 4294967295"
    using unat_less_u32 [of "se_mr_reg_rate_limit s"] by linarith
  obtain r st where op: "register os_rng (mr_pd p) (mr_access_flags p) (mr_region_len p)
      (se_memory_store s) = (r, st)"
    by (metis surj_pair)
  show ?thesis
    using True small op assms(2)
    by (cases r) (auto simp: handle_mr_reg_def window_def [symmetric] Let_def u32_add_def not_le)
next
  case False
  then show ?thesis
    using assms(2) by (auto simp: handle_mr_reg_def window_def [symmetric] Let_def not_less)
qed

lemma dispatch_Panic_iff:
  assumes "session_ok cfg s" and "sane_sink k"
  shows "fst (dispatch now os_rng m (s, k)) = Panic \<longleftrightarrow>
    (\<exists>h p. m = MrReg h p \<and> se_mr_reg_count (window now s) < se_mr_reg_rate_limit s \<and>
      fst (register os_rng (mr_pd p) (mr_access_flags p) (mr_region_len p) (se_memory_store s)) = Panic)"
  using assms handle_mr_dereg_no_panic [OF assms] handle_send_no_panic [OF assms(2)]
    handle_send_data_no_panic [OF assms] handle_write_no_panic [OF assms(2)]
    handle_write_data_no_panic [OF assms] handle_read_req_no_panic [OF assms]
    handle_atomic_req_no_panic [OF assms]
  by (cases m) (simp_all add: dispatch_def handle_mr_reg_Panic_iff [OF assms])

lemma handle_connect_no_panic: "sane_sink k \<Longrightarrow> fst (handle_connect m (s, k)) \<noteq> Panic"
  by (cases m) (auto simp: handle_connect_def sbind_Panic_iff Let_def)

text \<open>The session passes the size and sequence checks on a message.\<close>

definition admitted :: "session \<Rightarrow> rdows_message \<Rightarrow> bool" where
  "admitted s m \<longleftrightarrow> se_state s = Ready \<and> h_payload_length (message_header m) \<le> se_max_msg_size s \<and>
     se_expected_remote_seq s = Some (h_sequence (message_header m))"

lemma handle_message_admitted:
  "admitted s m \<Longrightarrow> handle_message now os_rng m (s, k) =
     handle_ready now os_rng m
       (s\<lparr>se_expected_remote_seq := Some (h_sequence (message_header m) + 1)\<rparr>, k)"
  by (auto simp: admitted_def handle_message_def)

lemma handle_message_Panic_iff:
  assumes ok: "session_ok cfg s" and "sane_sink k"
  shows "fst (handle_message now os_rng m (s, k)) = Panic \<longleftrightarrow>
    admitted s m \<and>
    (\<exists>h p. m = MrReg h p \<and> se_mr_reg_count (window now s) < se_mr_reg_rate_limit s \<and>
      fst (register os_rng (mr_pd p) (mr_access_flags p) (mr_region_len p) (se_memory_store s)) = Panic)"
    (is "?L \<longleftrightarrow> ?R")
proof (cases "admitted s m")
  case True
  let ?s = "s\<lparr>se_expected_remote_seq := Some (h_sequence (message_header m) + 1)\<rparr>"
  have ok': "session_ok cfg ?s" using ok by (simp add: session_ok_def)
  have win: "se_mr_reg_count (window now (s\<lparr>se_expected_remote_seq := v\<rparr>))
      = se_mr_reg_count (window now s)" for v
    by (simp add: window_def)
  show ?thesis
    using True dispatch_Panic_iff [OF ok' assms(2), of now os_rng m]
    by (cases m) (simp_all add: handle_message_admitted handle_ready_def win)
next
  case False
  have "\<not> ?L"
  proof (cases "se_state s")
    case AwaitingConnect
    then show ?thesis using assms(2) by (simp add: handle_message_def handle_connect_no_panic)
  next
    case Ready
    then have "se_expected_remote_seq s \<noteq> None" using ok by (simp add: session_ok_def)
    then show ?thesis
      using False Ready assms(2) by (auto simp: handle_message_def admitted_def not_le Let_def)
  next
    case Closed
    then show ?thesis by (simp add: handle_message_def)
  qed
  then show ?thesis using False by simp
qed

subsection \<open>When a handler waits forever\<close>

definition live_sink :: "ws_sink \<Rightarrow> bool" where
  "live_sink k \<longleftrightarrow> (\<forall>n. wk_outcome k n \<noteq> Blocked)"

lemma live_send [simp]: "live_sink k \<Longrightarrow> fst (send_message m (s, k)) \<noteq> Blocked"
  "live_sink k \<Longrightarrow> fst (send_error code sq desc (s, k)) \<noteq> Blocked"
  by (auto simp: send_message_eq send_error_eq live_sink_def split: result.split)

lemma live_send_pair [simp]: "live_sink k \<Longrightarrow> send_message m (s, k) \<noteq> (Blocked, c)"
  "live_sink k \<Longrightarrow> send_error code sq desc (s, k) \<noteq> (Blocked, c)"
  using live_send by (metis fst_conv)+

lemma live_push [simp]: "live_sink (push ms k) = live_sink k"
  by (simp add: live_sink_def)

lemma handle_message_not_Blocked:
  assumes ok: "session_ok cfg s" and live: "live_sink k"
  shows "fst (handle_message now os_rng m (s, k)) \<noteq> Blocked"
proof -
  have disp: "fst (dispatch now os_rng m (t, k)) \<noteq> Blocked"
    if "store_inv (se_memory_store t)" "se_outstanding_reads t = 0" for t
  proof (cases m)
    case (MrReg h p)
    have "fst (register os_rng (mr_pd p) (mr_access_flags p) (mr_region_len p) st) \<noteq> Blocked" for st
      by (rule register_not_Blocked)
    then show ?thesis
      using live by (auto simp: MrReg dispatch_def handle_mr_reg_def sbind_Blocked_iff u32_add_def Let_def
          split: result.split prod.split) (metis fst_conv)+
  next
    case (MrDereg h p)
    then show ?thesis
      using live deregister_not_stuck [OF that(1), of "md_pd p" "md_lkey p"]
      by (cases "deregister (md_pd p) (md_lkey p) (se_memory_store t)")
        (auto simp: dispatch_def handle_mr_dereg_def sbind_Blocked_iff split: result.splits)
  next
    case (Send h p)
    then show ?thesis
      using live by (auto simp: dispatch_def handle_send_def sbind_Blocked_iff u32_sub_def)
  next
    case (SendData h p)
    then show ?thesis
      using live by (auto simp: dispatch_def handle_send_data_def sbind_Blocked_iff send_message_Ok_iff
          u32_add_def Let_def split: pending_op.split)
  next
    case (Write h p)
    then show ?thesis
      using live by (auto simp: dispatch_def handle_write_def validate_rkey_not_stuck split: result.split)
  next
    case (WriteData h p)
    then show ?thesis
      using live write_region_not_stuck [OF that(1)]
      by (auto simp: dispatch_def handle_write_data_def Let_def split: pending_op.split prod.split result.split)
        (metis fst_conv)
  next
    case (ReadReq h p)
    then show ?thesis
      using live that(2)
      by (cases "read_region (rq_rkey p) (rq_remote_va p) (rq_read_len p) (se_memory_store t)";
          cases "wk_outcome k (wk_attempts k)")
        (auto simp: dispatch_def handle_read_req_def sbind_Blocked_iff u32_add_def u32_sub_def
          read_region_not_stuck send_message_eq live_sink_def send_error_eq)
  next
    case (AtomicReq h p)
    obtain r st where op: "atomic_op (aq_rkey p) (aq_remote_va p) (aq_atomic_type p) (aq_operand1 p)
        (aq_operand2 p) (se_memory_store t) = (r, st)"
      by (metis surj_pair)
    have "r \<noteq> Blocked" using atomic_op_not_stuck [OF that(1)] op by (metis fst_conv)
    with live op show ?thesis by (cases r) (auto simp: AtomicReq dispatch_def handle_atomic_req_def)
  qed (use live in \<open>auto simp: dispatch_def\<close>)
  have conn: "fst (handle_connect m (s, k)) \<noteq> Blocked"
    using live by (cases m) (auto simp: handle_connect_def sbind_Blocked_iff Let_def)
  have ready: "fst (handle_ready now os_rng m (t, k)) \<noteq> Blocked"
    if "store_inv (se_memory_store t)" "se_outstanding_reads t = 0" for t
    using disp [OF that] by (cases m) (auto simp: handle_ready_def)
  show ?thesis
    using conn ready live ok
    by (auto simp: handle_message_def Let_def session_ok_def split: session_state.split option.split)
qed

section \<open>Properties of every reachable session\<close>

text \<open>
  (C17) Resource limits: in every session that can be reached from a fresh connection by any
  sequence of messages, the memory store is consistent and within its configured limits, no
  read is left outstanding, the registration counter is within the rate limit and the
  negotiated message size is at most 16 MiB.
\<close>

theorem session_limits:
  assumes "session_reach cfg (s, k)"
  shows "store_inv (se_memory_store s) \<and>
    fcard (fmdom (ms_regions (se_memory_store s))) \<le> cfg_max_regions_per_session cfg \<and>
    held_bytes (ms_regions (se_memory_store s)) \<le> unat (cfg_max_total_bytes_per_session cfg) \<and>
    se_outstanding_reads s = 0 \<and> se_mr_reg_count s \<le> cfg_mr_reg_rate_limit cfg \<and>
    se_max_msg_size s \<le> DEFAULT_MAX_MSG_SIZE"
  using session_reach_ok [OF assms]
  by (auto simp: session_ok_def store_inv_def quota_ok_def word_le_nat_alt)

text \<open>
  (C25) Numbering: the \<open>i\<close>-th frame a session has sent decodes to a header with protocol
  version 1, the session's id and sequence number \<open>i\<close> (modulo \<open>2 ^ 32\<close>), whatever the
  client sent.
\<close>

theorem server_frames_numbered:
  assumes "session_reach cfg (s, k)" and "i < length (wk_frames k)"
  shows "\<exists>h rest. header_decode (wk_frames k ! i) = Ok (h, rest) \<and> h_version h = RDOWS_VERSION \<and>
    h_session_id h = se_session_id s \<and> h_sequence h = of_nat i"
proof -
  obtain ms where ms: "wk_frames k = map message_encode ms" "log_ok cfg s ms"
    using session_reach_ok [OF assms(1)] by auto
  let ?m = "ms ! i"
  have "header_wf (message_header ?m)" "h_session_id (message_header ?m) = se_session_id s"
    "h_sequence (message_header ?m) = of_nat i"
    using ms assms(2) by (simp_all add: log_ok_def numbered_def Let_def)
  then show ?thesis
    using ms(1) assms(2) by (simp add: message_encode_def Let_def header_decode_encode)
qed

text \<open>
  A frame decodes to the message it was made from as far as completions and credits go: a
  RECV_COMP and a CREDIT_UPDATE come back whole, and no other message is taken for one.
\<close>

lemma sent_messages_encode:
  assumes "\<And>m. m \<in> set ms \<Longrightarrow> header_wf (message_header m) \<and> h_opcode (message_header m) = message_opcode m"
  shows "recv_comps (sent_messages (map message_encode ms)) = recv_comps ms \<and>
    credits (sent_messages (map message_encode ms)) = credits ms \<and>
    (\<forall>m \<in> set (sent_messages (map message_encode ms)). is_credit_update m \<longrightarrow> (\<exists>m' \<in> set ms. is_credit_update m'))"
  using assms
proof (induction ms)
  case (Cons m ms)
  have hdr: "header_wf (message_header m)" "h_opcode (message_header m) = message_opcode m"
    using Cons.prems by simp_all
  have dec: "message_opcode m' = message_opcode m" if "message_decode (message_encode m) = Ok m'" for m'
  proof -
    have "message_header m' = (message_header m)\<lparr>h_payload_length := of_nat (length (message_payload_encode m))\<rparr>"
      using message_decode_Ok(3) [OF that] hdr(1) by (simp add: message_encode_def Let_def header_decode_encode)
    then show ?thesis using message_decode_Ok(2) [OF that] hdr(2) by simp
  qed
  have whole: "message_decode (message_encode m) = Ok (on_wire m)" if "payload_wf m"
    using message_decode_encode_append [of m "[]"] hdr that by (simp add: message_wf_def)
  show ?case
  proof (cases "message_decode (message_encode m)")
    case (Ok m')
    have "is_recv_comp m' = is_recv_comp m \<and> credit_of m' = credit_of m \<and> is_credit_update m' = is_credit_update m"
      using dec [OF Ok] whole Ok by (cases m; cases m') (auto simp: on_wire_def)
    with Ok Cons show ?thesis by auto
  qed (use Cons whole in \<open>cases m; auto\<close>)+
qed simp

lemma sent_messages_mem: "f \<in> set fs \<Longrightarrow> message_decode f = Ok m \<Longrightarrow> m \<in> set (sent_messages fs)"
  by (induction fs) (auto split: result.split)

lemma sent_messages_log:
  assumes "log_ok cfg s ms"
  shows "recv_comps (sent_messages (map message_encode ms)) = recv_comps ms"
    and "credits (sent_messages (map message_encode ms)) = credits ms"
    and "m \<in> set (sent_messages (map message_encode ms)) \<Longrightarrow> is_credit_update m \<Longrightarrow> \<exists>m' \<in> set ms. is_credit_update m'"
proof -
  have "header_wf (message_header m) \<and> h_opcode (message_header m) = message_opcode m" if "m \<in> set ms" for m
    using assms that by (auto simp: log_ok_def numbered_def Let_def in_set_conv_nth)
  note * = sent_messages_encode [OF this]
  then show "recv_comps (sent_messages (map message_encode ms)) = recv_comps ms"
    "credits (sent_messages (map message_encode ms)) = credits ms"
    "m \<in> set (sent_messages (map message_encode ms)) \<Longrightarrow> is_credit_update m \<Longrightarrow> \<exists>m' \<in> set ms. is_credit_update m'"
    by blast+
qed

text \<open>
  (C24) Flow control: completions and credits are in balance in every reachable session, as
  read off the frames it has sent. Decoding them one by one, the number of RECV_COMPs is the
  sum of the increments of all CREDIT_UPDATEs plus the session's counter of SENDs not yet
  credited. A session completes at most as many SENDs as its receive queue had slots
  at the start: the slots left, the one held for a SEND whose data is outstanding, and the
  completions sent never exceed the configured depth, because slots are not given back.
\<close>

theorem credits_balance:
  assumes "session_reach cfg (s, k)"
  shows "recv_comps (sent_messages (wk_frames k)) =
      credits (sent_messages (wk_frames k)) + unat (se_sends_since_last_credit s) \<and>
    unat (se_recv_queue_depth s) + reserved_recv s + recv_comps (sent_messages (wk_frames k)) \<le>
      unat (cfg_recv_queue_depth cfg)"
proof -
  obtain ms where ms: "wk_frames k = map message_encode ms" "log_ok cfg s ms"
    using session_reach_ok [OF assms] by auto
  then show ?thesis using sent_messages_log(1,2) [OF ms(2)] by (simp add: log_ok_def)
qed

lemma credit_update_counts:
  "\<forall>m \<in> set ms. is_credit_update m \<longrightarrow> credit_of m = 16383 \<Longrightarrow> m \<in> set ms \<Longrightarrow>
   is_credit_update m \<Longrightarrow> 16383 \<le> credits ms"
  by (induction ms) auto

text \<open>
  (C40) With fewer than 16383 receive slots, as in the default configuration, no credit is ever
  returned: no frame that a session sends decodes to a CREDIT_UPDATE.
\<close>

theorem no_credit_with_small_queue:
  assumes "session_reach cfg (s, k)" and "unat (cfg_recv_queue_depth cfg) < 16383" and "f \<in> set (wk_frames k)"
  shows "message_decode f \<noteq> Ok (CreditUpdate h p)"
proof
  assume dec: "message_decode f = Ok (CreditUpdate h p)"
  obtain ms where ms: "wk_frames k = map message_encode ms" "log_ok cfg s ms"
    using session_reach_ok [OF assms(1)] by auto
  then have "credits ms < 16383" using assms(2) by (auto simp: log_ok_def)
  then have "\<not> is_credit_update m" if "m \<in> set ms" for m
    using credit_update_counts [of ms] ms(2) that by (fastforce simp: log_ok_def)
  moreover have "CreditUpdate h p \<in> set (sent_messages (wk_frames k))"
    using sent_messages_mem [OF assms(3) dec] .
  ultimately show False using sent_messages_log(3) [OF ms(2)] ms(1) by fastforce
qed

subsection \<open>A connected session\<close>

text \<open>What CONNECT makes of a session.\<close>

definition connected :: "rdows_header \<Rightarrow> connect_payload \<Rightarrow> session \<Rightarrow> session" where
  "connected h p s = s\<lparr>se_session_id := h_session_id h, se_pd := cp_pd p,
     se_max_msg_size := min (cp_max_msg_size p) DEFAULT_MAX_MSG_SIZE,
     se_next_seq := se_next_seq s + 1,
     se_expected_remote_seq := Some (h_sequence h + 1), se_state := Ready\<rparr>"

definition connect_ack :: "rdows_header \<Rightarrow> connect_payload \<Rightarrow> session \<Rightarrow> rdows_message" where
  "connect_ack h p s = ConnectAck (header_new opcode.ConnectAck (h_session_id h) (se_next_seq s) 0)
     \<lparr>cp_pd = cp_pd p, cp_capability_flags = 0,
      cp_max_msg_size = min (cp_max_msg_size p) DEFAULT_MAX_MSG_SIZE, cp_icc = DEFAULT_ICC\<rparr>"

lemma handle_connect_ok:
  assumes "se_state s = AwaitingConnect" and "h_version h = RDOWS_VERSION"
    and "wk_outcome k (wk_attempts k) = Ok ()"
  shows "handle_message now os_rng (Connect h p) (s, k) =
    (Ok (), (connected h p s, push [connect_ack h p s] k))"
  using assms
  by (simp add: handle_message_def handle_connect_def send_message_eq connected_def connect_ack_def Let_def)

definition sample_cfg :: server_config where
  "sample_cfg = server_config_default\<lparr>cfg_max_regions_per_session := 4,
     cfg_max_total_bytes_per_session := 64\<rparr>"

definition up_sink :: ws_sink where
  "up_sink = sink_new (\<lambda>_. Ok ())"

definition sample_hello :: rdows_message where
  "sample_hello = Connect (header_new opcode.Connect 7 0 0)
     \<lparr>cp_pd = ProtectionDomain 1, cp_capability_flags = 0, cp_max_msg_size = 4096, cp_icc = 65535\<rparr>"

definition sample_conn :: conn where
  "sample_conn = snd (handle_message 0 (\<lambda>_. []) sample_hello (session_new sample_cfg 0, up_sink))"

lemma sample_hello_ok:
  "handle_message 0 (\<lambda>_. []) sample_hello (session_new sample_cfg 0, up_sink) = (Ok (), sample_conn)"
  by (simp add: sample_conn_def sample_hello_def up_sink_def sink_new_def handle_connect_ok
      session_new_def)

lemma sample_conn_reach: "session_reach sample_cfg (fst sample_conn, snd sample_conn)"
proof -
  have "session_step (session_new sample_cfg 0, up_sink) sample_hello sample_conn"
    by (rule session_step.step [OF _ sample_hello_ok]) (simp add: session_new_def)
  then show ?thesis
    using session_reach.more [OF session_reach.init] by (simp add: up_sink_def)
qed

lemma sample_conn_fields:
  "se_state (fst sample_conn) = Ready" "se_session_id (fst sample_conn) = 7"
  "se_expected_remote_seq (fst sample_conn) = Some 1" "se_next_seq (fst sample_conn) = 1"
  "se_max_msg_size (fst sample_conn) = 4096" "se_recv_queue_depth (fst sample_conn) = 128"
  "se_memory_store (fst sample_conn) = memory_store_new 4 64"
  "se_pending_op (fst sample_conn) = NoPending" "se_outstanding_reads (fst sample_conn) = 0"
  "se_mr_reg_count (fst sample_conn) = 0" "se_mr_reg_rate_limit (fst sample_conn) = 1000"
  "se_mr_reg_window_start (fst sample_conn) = 0" "se_max_outstanding_reads (fst sample_conn) = 128"
  "wk_outcome (snd sample_conn) = (\<lambda>_. Ok ())" "length (wk_frames (snd sample_conn)) = 1"
  by (simp_all add: sample_conn_def sample_hello_def up_sink_def sink_new_def handle_connect_ok
      session_new_def connected_def DEFAULT_MAX_MSG_SIZE_def sample_cfg_def server_config_default_def)

theorem session_limits_witness:
  "held_bytes (ms_regions (se_memory_store (fst sample_conn))) \<le> 64 \<and>
   se_max_msg_size (fst sample_conn) \<le> DEFAULT_MAX_MSG_SIZE"
  using session_limits [OF sample_conn_reach]
  by (simp add: sample_cfg_def server_config_default_def)

theorem server_frames_numbered_witness:
  "\<exists>h rest. header_decode (wk_frames (snd sample_conn) ! 0) = Ok (h, rest) \<and>
     h_session_id h = 7 \<and> h_sequence h = 0"
  using server_frames_numbered [OF sample_conn_reach, of 0] by (auto simp: sample_conn_fields)

text \<open>
  Connection set-up: a CONNECT with the right version moves a fresh session to Ready,
  adopts the client's session id and protection domain, negotiates the smaller of the two
  message sizes, expects the client's next sequence number, and is answered with one
  CONNECT_ACK carrying the negotiated values.
\<close>

theorem connect_negotiates:
  assumes "se_state s = AwaitingConnect" and "h_version h = RDOWS_VERSION"
    and "wk_outcome k (wk_attempts k) = Ok ()"
  shows "\<exists>s'. handle_message now os_rng (Connect h p) (s, k) =
      (Ok (), (s', push [ConnectAck (header_new opcode.ConnectAck (h_session_id h) (se_next_seq s) 0)
        \<lparr>cp_pd = cp_pd p, cp_capability_flags = 0, cp_max_msg_size = se_max_msg_size s',
         cp_icc = DEFAULT_ICC\<rparr>] k)) \<and>
    se_state s' = Ready \<and> se_session_id s' = h_session_id h \<and> se_pd s' = cp_pd p \<and>
    se_max_msg_size s' = min (cp_max_msg_size p) DEFAULT_MAX_MSG_SIZE \<and>
    se_expected_remote_seq s' = Some (h_sequence h + 1) \<and> se_memory_store s' = se_memory_store s"
  using handle_connect_ok [OF assms] by (simp add: connected_def connect_ack_def)

theorem connect_negotiates_witness:
  "\<exists>s' k'. handle_message 0 (\<lambda>_. []) sample_hello (session_new sample_cfg 0, up_sink) = (Ok (), (s', k')) \<and>
     se_state s' = Ready \<and> se_max_msg_size s' = 4096"
  using connect_negotiates [of "session_new sample_cfg 0" "header_new opcode.Connect 7 0 0" up_sink]
  by (fastforce simp: sample_hello_def session_new_def up_sink_def sink_new_def DEFAULT_MAX_MSG_SIZE_def)

section \<open>Requests on every branch\<close>

abbreviation error_reply :: "error_code \<Rightarrow> u32 \<Rightarrow> rstring \<Rightarrow> session \<Rightarrow> rdows_message" where
  "error_reply code sq desc s \<equiv> Error (header_new opcode.Error (se_session_id s) (se_next_seq s) 0)
     \<lparr>ep_error_code = code, ep_failing_seq = sq, ep_description = desc\<rparr>"

abbreviation bump :: "session \<Rightarrow> session" where
  "bump s \<equiv> s\<lparr>se_next_seq := se_next_seq s + 1\<rparr>"

definition sink_up :: "ws_sink \<Rightarrow> bool" where
  "sink_up k \<longleftrightarrow> (\<forall>n. wk_outcome k n = Ok ())"

lemma sink_up_push [simp]: "sink_up (push ms k) = sink_up k"
  by (simp add: sink_up_def)

lemma sink_up_send [simp]: "sink_up k \<Longrightarrow> send_message m (s, k) = (Ok (), (s, push [m] k))"
  by (simp add: sink_up_def send_message_eq)

lemma sink_up_error [simp]:
  "sink_up k \<Longrightarrow> send_error code sq desc (s, k) = (Ok (), (bump s, push [error_reply code sq desc s] k))"
  by (simp add: send_error_eq)

text \<open>
  Nothing is served before CONNECT: in a session that is not connected every other
  message ends the session with an error value, sends no frame and changes nothing.
\<close>

theorem before_connect_refused:
  assumes "se_state s = AwaitingConnect" and "\<And>h p. m \<noteq> Connect h p"
  shows "handle_message now os_rng m (s, k) =
    (Err (UnexpectedMessage (lit ''CONNECT'') (h_opcode (message_header m))), (s, k))"
  using assms by (cases m) (auto simp: handle_message_def handle_connect_def)

theorem before_connect_refused_witness:
  "handle_message 0 (\<lambda>_. []) (Ack (header_new opcode.Ack 7 0 0)) (session_new sample_cfg 0, up_sink) =
   (Err (UnexpectedMessage (lit ''CONNECT'') opcode.Ack), (session_new sample_cfg 0, up_sink))"
  using before_connect_refused [of "session_new sample_cfg 0" "Ack (header_new opcode.Ack 7 0 0)"]
  by (simp add: session_new_def)

text \<open>
  (C33) Sequencing: in a connected session a message within the size limit whose sequence number
  is not the expected one is answered with ERR_SEQ_GAP, provided the sink accepts the frame, and
  has no other effect. The expected number, the memory store and the pending operation stay as
  they were, and so does the state: the session is not closed, although the protocol notes ask
  for the ERROR to be followed by a close.
\<close>

theorem sequence_gap_refused:
  assumes "se_state s = Ready" and "se_expected_remote_seq s = Some e"
    and "h_sequence (message_header m) \<noteq> e"
    and "h_payload_length (message_header m) \<le> se_max_msg_size s" and "sink_up k"
  shows "handle_message now os_rng m (s, k) =
    (Ok (), (bump s, push [error_reply ErrSeqGap (h_sequence (message_header m))
       (seq_gap_text e (h_sequence (message_header m))) s] k))"
  using assms by (simp add: handle_message_def not_less Let_def)

lemma sample_sink_up: "sink_up (snd sample_conn)"
  by (simp add: sink_up_def sample_conn_fields)

theorem sequence_gap_refused_witness:
  "\<exists>c'. handle_message 0 (\<lambda>_. []) (Disconnect (header_new opcode.Disconnect 7 5 0)) sample_conn = (Ok (), c') \<and>
     se_state (fst c') = Ready"
  using sequence_gap_refused [OF sample_conn_fields(1,3) _ _ sample_sink_up,
      of "Disconnect (header_new opcode.Disconnect 7 5 0)" 0 "\<lambda>_. []"]
  by (simp add: header_new_def sample_conn_fields)

subsection \<open>A completed SEND\<close>

lemma handle_send_accepted:
  assumes "admitted s (Send h p)" and "se_recv_queue_depth s \<noteq> 0"
  shows "handle_message now os_rng (Send h p) (s, k) =
    (Ok (), (s\<lparr>se_expected_remote_seq := Some (h_sequence h + 1), se_recv_queue_depth := se_recv_queue_depth s - 1,
       se_pending_op := AwaitingSendData (h_wrid h)\<rparr>, k))"
proof -
  have "1 \<le> se_recv_queue_depth s" using assms(2) by (simp add: word_le_nat_alt unat_gt_0 Suc_leI)
  with assms show ?thesis
    by (simp add: handle_message_admitted handle_ready_def dispatch_def handle_send_def u32_sub_def)
qed

lemma handle_send_data_completed:
  assumes "admitted s (SendData h p)" and "se_pending_op s = AwaitingSendData wrid" and "sink_up k"
    and "unat (se_sends_since_last_credit s) + 1 < 16383" and "se_icc s = DEFAULT_ICC"
  shows "handle_message now os_rng (SendData h p) (s, k) =
    (Ok (), (s\<lparr>se_expected_remote_seq := Some (h_sequence h + 1), se_pending_op := NoPending,
       se_next_seq := se_next_seq s + 1, se_sends_since_last_credit := se_sends_since_last_credit s + 1\<rparr>,
       push [RecvComp (header_new opcode.RecvComp (se_session_id s) (se_next_seq s) wrid)] k))"
proof -
  have n: "unat (se_sends_since_last_credit s + 1) = unat (se_sends_since_last_credit s) + 1"
    using assms(4) by (simp add: unat_word_ariths)
  then have "\<not> 16383 \<le> se_sends_since_last_credit s + 1" using assms(4) by (simp add: word_le_nat_alt)
  with assms n show ?thesis
    by (simp add: handle_message_admitted handle_ready_def dispatch_def handle_send_data_def u32_add_def
        DEFAULT_ICC_def Let_def)
qed

definition sample_sent :: conn where
  "sample_sent = snd (handle_message 0 (\<lambda>_. []) (SendData (header_new opcode.SendData 7 2 42) \<lparr>dp_data = [1]\<rparr>)
     (snd (handle_message 0 (\<lambda>_. []) (Send (header_new opcode.Send 7 1 42) \<lparr>sp_sg_list = []\<rparr>) sample_conn)))"

lemma sample_sent_facts:
  "session_reach sample_cfg (fst sample_sent, snd sample_sent)"
  "se_sends_since_last_credit (fst sample_sent) = 1" "se_recv_queue_depth (fst sample_sent) = 127"
  "wk_frames (snd sample_sent) = wk_frames (snd sample_conn) @ [message_encode (RecvComp (header_new opcode.RecvComp 7 1 42))]"
proof -
  let ?h = "header_new opcode.Send 7 1 42" and ?g = "header_new opcode.SendData 7 2 42"
  let ?s = "(fst sample_conn)\<lparr>se_expected_remote_seq := Some 2, se_recv_queue_depth := 127,
    se_pending_op := AwaitingSendData 42\<rparr>"
  have new: "se_sends_since_last_credit (fst sample_conn) = 0" "se_icc (fst sample_conn) = DEFAULT_ICC"
    by (simp_all add: sample_conn_def sample_hello_def up_sink_def sink_new_def handle_connect_ok
      session_new_def connected_def)
  have "admitted (fst sample_conn) (Send ?h \<lparr>sp_sg_list = []\<rparr>)"
    by (simp add: admitted_def sample_conn_fields header_new_def)
  from handle_send_accepted [OF this, of 0 "\<lambda>_. []" "snd sample_conn"]
  have a: "handle_message 0 (\<lambda>_. []) (Send ?h \<lparr>sp_sg_list = []\<rparr>) sample_conn = (Ok (), (?s, snd sample_conn))"
    by (simp add: sample_conn_fields header_new_def)
  have "admitted ?s (SendData ?g \<lparr>dp_data = [1]\<rparr>)" by (simp add: admitted_def sample_conn_fields header_new_def)
  from handle_send_data_completed [OF this, of 42 "snd sample_conn" 0 "\<lambda>_. []"]
  have sent: "handle_message 0 (\<lambda>_. []) (SendData ?g \<lparr>dp_data = [1]\<rparr>) (?s, snd sample_conn) =
      (Ok (), ?s\<lparr>se_expected_remote_seq := Some 3, se_pending_op := NoPending, se_next_seq := 2,
       se_sends_since_last_credit := 1\<rparr>, push [RecvComp (header_new opcode.RecvComp 7 1 42)] (snd sample_conn))"
    using new by (simp add: sample_conn_fields sample_sink_up header_new_def)
  then have b: "handle_message 0 (\<lambda>_. []) (SendData ?g \<lparr>dp_data = [1]\<rparr>) (?s, snd sample_conn) = (Ok (), sample_sent)"
    by (simp add: sample_sent_def a)
  have "session_reach sample_cfg (?s, snd sample_conn)"
    by (rule session_reach.more [OF sample_conn_reach]) (rule session_step.step, use a in \<open>simp_all add: sample_conn_fields\<close>)
  then have "session_reach sample_cfg sample_sent"
    by (rule session_reach.more) (rule session_step.step [OF _ b], simp add: sample_conn_fields)
  then show "session_reach sample_cfg (fst sample_sent, snd sample_sent)" by simp
  show "se_sends_since_last_credit (fst sample_sent) = 1" "se_recv_queue_depth (fst sample_sent) = 127"
    "wk_frames (snd sample_sent) = wk_frames (snd sample_conn) @ [message_encode (RecvComp (header_new opcode.RecvComp 7 1 42))]"
    by (simp_all add: sample_sent_def a sent push_def)
qed

theorem credits_balance_witness:
  "recv_comps (sent_messages (wk_frames (snd sample_sent))) = 1 \<and>
   credits (sent_messages (wk_frames (snd sample_sent))) = 0"
  using credits_balance [OF sample_sent_facts(1)] sample_sent_facts(2,3)
  by (simp add: sample_cfg_def server_config_default_def)

theorem no_credit_with_small_queue_witness:
  "unat (cfg_recv_queue_depth sample_cfg) < 16383 \<and>
   message_decode (message_encode (RecvComp (header_new opcode.RecvComp 7 1 42))) \<noteq> Ok (CreditUpdate (header_new opcode.CreditUpdate 7 1 0) \<lparr>cu_credit_increment = 16383\<rparr>)"
  using no_credit_with_small_queue [OF sample_sent_facts(1), of "message_encode (RecvComp (header_new opcode.RecvComp 7 1 42))"
      "header_new opcode.CreditUpdate 7 1 0" "\<lparr>cu_credit_increment = 16383\<rparr>"]
    sample_sent_facts(4)
  by (simp add: sample_cfg_def server_config_default_def)

text \<open>
  (C38) An oversized message stalls the session: it is refused before its sequence number is
  recorded, so the session goes on expecting that number and refuses the sender's next message
  with ERR_SEQ_GAP although nothing was lost or reordered.
\<close>

theorem oversize_stalls_session:
  assumes "se_state s = Ready" and "se_expected_remote_seq s = Some (h_sequence (message_header m))"
    and "se_max_msg_size s < h_payload_length (message_header m)" and "sink_up k"
    and "h_sequence (message_header m2) = h_sequence (message_header m) + 1"
    and "h_payload_length (message_header m2) \<le> se_max_msg_size s"
  shows "\<exists>s1 k1. handle_message now os_rng m (s, k) = (Ok (), (s1, k1)) \<and>
    se_expected_remote_seq s1 = se_expected_remote_seq s \<and>
    handle_message now2 os_rng2 m2 (s1, k1) = (Ok (), (bump s1, push [error_reply ErrSeqGap
      (h_sequence (message_header m2))
      (seq_gap_text (h_sequence (message_header m)) (h_sequence (message_header m2))) s1] k1))"
  using assms by (simp add: handle_message_def not_less Let_def)

theorem oversize_stalls_session_witness:
  "\<exists>s1 k1. handle_message 0 (\<lambda>_. []) (Ack ((header_new opcode.Ack 7 1 0)\<lparr>h_payload_length := 5000\<rparr>))
      sample_conn = (Ok (), (s1, k1)) \<and> se_expected_remote_seq s1 = Some 1 \<and>
    handle_message 0 (\<lambda>_. []) (Ack (header_new opcode.Ack 7 2 0)) (s1, k1) = (Ok (), (bump s1,
      push [error_reply ErrSeqGap 2 (seq_gap_text 1 2) s1] k1))"
  using oversize_stalls_session [OF sample_conn_fields(1) _ _ sample_sink_up,
      of "Ack ((header_new opcode.Ack 7 1 0)\<lparr>h_payload_length := 5000\<rparr>)"
        "Ack (header_new opcode.Ack 7 2 0)" 0 "\<lambda>_. []" 0 "\<lambda>_. []"]
  by (simp add: header_new_def sample_conn_fields)

text \<open>
  The size limit is checked on what arrives and not on what is sent: a READ that the store
  serves is answered by one READ_RESP without the fragment flag, also when its payload is larger
  than the negotiated message size.
\<close>

theorem oversize_read_response:
  assumes "admitted s (ReadReq h p)" and "se_outstanding_reads s = 0" and "se_max_outstanding_reads s \<noteq> 0"
    and "sink_up k" and "read_region (rq_rkey p) (rq_remote_va p) (rq_read_len p) (se_memory_store s) = Ok data"
    and "unat (se_max_msg_size s) < 8 + length data"
  shows "\<exists>s' r. handle_message now os_rng (ReadReq h p) (s, k) = (Ok (), (s', push [r] k)) \<and>
    r = ReadResp (message_header r) \<lparr>rr_fragment_offset = 0, rr_data = data\<rparr> \<and> h_flags (message_header r) = 0 \<and>
    se_state s' = Ready \<and> unat (se_max_msg_size s') < length (message_payload_encode r)"
proof -
  let ?s = "s\<lparr>se_expected_remote_seq := Some (h_sequence h + 1)\<rparr>"
  have "handle_read_req h p (?s, k) = (Ok (), (bump ?s, push [read_reply ?s h p] k))"
    using assms(2,4) by (subst handle_read_req_Ok_iff) (simp_all add: sink_up_def)
  then have "handle_message now os_rng (ReadReq h p) (s, k) = (Ok (), (bump ?s, push [read_reply ?s h p] k))"
    using assms(1) by (simp add: handle_message_admitted handle_ready_def dispatch_def)
  moreover have "read_reply ?s h p = ReadResp (header_new opcode.ReadResp (se_session_id s) (se_next_seq s) (h_wrid h))
      \<lparr>rr_fragment_offset = 0, rr_data = data\<rparr>"
    using assms(3,5) by (simp add: read_reply_def Let_def)
  ultimately show ?thesis
    using assms(1,6) by (auto simp: admitted_def header_new_def read_resp_payload_encode_def)
qed

subsection \<open>One-sided writes\<close>

abbreviation advance_seq :: "rdows_message \<Rightarrow> session \<Rightarrow> session" where
  "advance_seq m s \<equiv> s\<lparr>se_expected_remote_seq := Some (h_sequence (message_header m) + 1)\<rparr>"

lemma handle_write_ok:
  assumes "admitted s (Write h p)"
    and "validate_rkey (wp_rkey p) REMOTE_WRITE (se_memory_store s) = Ok e"
  shows "handle_message now os_rng (Write h p) (s, k) =
    (Ok (), (s\<lparr>se_expected_remote_seq := Some (h_sequence h + 1),
       se_pending_op := AwaitingWriteData (h_wrid h) (wp_rkey p) (wp_remote_va p) (wp_length p)\<rparr>, k))"
  using assms by (simp add: handle_message_admitted handle_ready_def dispatch_def handle_write_def)

lemma handle_write_refused:
  assumes "admitted s (Write h p)" and "sink_up k"
    and "validate_rkey (wp_rkey p) REMOTE_WRITE (se_memory_store s) = Err code"
  shows "handle_message now os_rng (Write h p) (s, k) =
    (Ok (), (s\<lparr>se_expected_remote_seq := Some (h_sequence h + 1), se_next_seq := se_next_seq s + 1\<rparr>,
       push [error_reply code (h_sequence h) [] s] k))"
  using assms by (simp add: handle_message_admitted handle_ready_def dispatch_def handle_write_def)

lemma handle_write_data_cases:
  assumes "admitted s (WriteData h p)" and "sink_up k"
    and "se_pending_op s = AwaitingWriteData wrid rk va len"
    and "write_region rk va (dp_data p) (se_memory_store s) = (r, st)"
  shows "r = Ok () \<Longrightarrow> handle_message now os_rng (WriteData h p) (s, k) =
      (Ok (), (s\<lparr>se_expected_remote_seq := Some (h_sequence h + 1), se_pending_op := NoPending,
         se_memory_store := st, se_next_seq := se_next_seq s + 1\<rparr>,
        push [WriteComp (header_new opcode.WriteComp (se_session_id s) (se_next_seq s) wrid)] k))"
    and "r = Err code \<Longrightarrow> handle_message now os_rng (WriteData h p) (s, k) =
      (Ok (), (s\<lparr>se_expected_remote_seq := Some (h_sequence h + 1), se_pending_op := NoPending,
         se_memory_store := st, se_next_seq := se_next_seq s + 1\<rparr>,
        push [error_reply code 0 [] s] k))"
  using assms
  by (simp_all add: handle_message_admitted handle_ready_def dispatch_def handle_write_data_def)

lemma handle_write_data_unexpected:
  assumes "admitted s (WriteData h p)" and "sink_up k" and "se_pending_op s = NoPending"
  shows "handle_message now os_rng (WriteData h p) (s, k) =
      (Ok (), (s\<lparr>se_expected_remote_seq := Some (h_sequence h + 1), se_pending_op := NoPending,
         se_next_seq := se_next_seq s + 1\<rparr>,
        push [error_reply ErrUnknownOpcode 0
          (lit ''unexpected WRITE_DATA without preceding WRITE'') s] k))"
  using assms
  by (simp add: handle_message_admitted handle_ready_def dispatch_def handle_write_data_def)

text \<open>
  A WRITE that is accepted, followed by its data, stores exactly that data in the
  region named by its R_Key and is completed by one WRITE_COMP carrying the work request id
  of the WRITE; the announced length of the WRITE plays no part.
\<close>

theorem write_then_data_completes:
  assumes "session_reach cfg (s, k)" and "sink_up k"
    and "admitted s (Write h p)" and "mr_lookup (se_memory_store s) (wp_rkey p) = Some e"
    and "af_contains (me_access_flags e) REMOTE_WRITE"
    and "unat (wp_remote_va p) + length (dp_data d) \<le> length (me_data e)"
    and "h_sequence g = h_sequence h + 1" and "h_payload_length g \<le> se_max_msg_size s"
  shows "\<exists>s1 s2. handle_message now os_rng (Write h p) (s, k) = (Ok (), (s1, k)) \<and>
    handle_message now2 os_rng2 (WriteData g d) (s1, k) = (Ok (), (s2,
      push [WriteComp (header_new opcode.WriteComp (se_session_id s) (se_next_seq s) (h_wrid h))] k)) \<and>
    mr_bytes (se_memory_store s2) = (mr_bytes (se_memory_store s))
      (wp_rkey p \<mapsto> put_slice (me_data e) (unat (wp_remote_va p)) (dp_data d)) \<and>
    se_pending_op s2 = NoPending"
proof -
  let ?st = "se_memory_store s"
  let ?s1 = "s\<lparr>se_expected_remote_seq := Some (h_sequence h + 1),
    se_pending_op := AwaitingWriteData (h_wrid h) (wp_rkey p) (wp_remote_va p) (wp_length p)\<rparr>"
  have inv: "store_inv ?st" using session_reach_ok [OF assms(1)] by (simp add: session_ok_def)
  then have keys: "keys_ok ?st" by (simp add: store_inv_def)
  have "validate_rkey (wp_rkey p) REMOTE_WRITE ?st = Ok e"
    using assms(4,5) by (simp add: validate_rkey_eq)
  then have first: "handle_message now os_rng (Write h p) (s, k) = (Ok (), (?s1, k))"
    using assms(3) by (simp add: handle_write_ok)
  have wr: "write_region (wp_rkey p) (wp_remote_va p) (dp_data d) (se_memory_store ?s1) = (Ok (),
      mr_update (wp_rkey p) (put_slice (me_data e) (unat (wp_remote_va p)) (dp_data d)) ?st)"
    using inv assms(4-6) by (simp add: write_region_eq)
  have "admitted ?s1 (WriteData g d)" using assms(3,7,8) by (simp add: admitted_def)
  note second = handle_write_data_cases(1) [OF this assms(2) _ wr, of "h_wrid h" "wp_length p"]
  show ?thesis
    using first second mr_bytes_update [OF keys assms(4)] by simp
qed

lemma handle_mr_reg_ok:
  assumes "admitted s (MrReg h p)" and "sink_up k"
    and "se_mr_reg_count (window now s) < se_mr_reg_rate_limit s"
    and "register os_rng (mr_pd p) (mr_access_flags p) (mr_region_len p) (se_memory_store s)
      = (Ok (lk, rk), st)"
  shows "\<exists>s'. handle_message now os_rng (MrReg h p) (s, k) = (Ok (), (s',
      push [MrRegAck (header_new opcode.MrRegAck (se_session_id s) (se_next_seq s) (h_wrid h))
        \<lparr>mra_pd = mr_pd p, mra_lkey = lk, mra_rkey = rk, mra_status = 0\<rparr>] k)) \<and>
    s' = (window now s)\<lparr>se_expected_remote_seq := Some (h_sequence h + 1),
      se_mr_reg_count := se_mr_reg_count (window now s) + 1, se_memory_store := st,
      se_next_seq := se_next_seq s + 1\<rparr>"
proof -
  have win: "window now (s\<lparr>se_expected_remote_seq := v\<rparr>) = (window now s)\<lparr>se_expected_remote_seq := v\<rparr>" for v
    by (simp add: window_def)
  have "unat (se_mr_reg_count (window now s)) < unat (se_mr_reg_rate_limit s)"
    using assms(3) by (simp add: word_less_nat_alt)
  then have small: "unat (se_mr_reg_count (window now s)) < 4294967295"
    using unat_less_u32 [of "se_mr_reg_rate_limit s"] by linarith
  show ?thesis
    using assms small
    by (simp add: handle_message_admitted handle_ready_def dispatch_def handle_mr_reg_def
        window_def [symmetric] Let_def u32_add_def win not_le)
qed

definition sample_mr_reg :: rdows_message where
  "sample_mr_reg = MrReg (header_new opcode.MrReg 7 1 0) \<lparr>mr_pd = ProtectionDomain 1,
     mr_access_flags = sample_flags, mr_region_len = 16, mr_suggested_lkey = None\<rparr>"

definition sample_mr_conn :: conn where
  "sample_mr_conn = snd (handle_message 0 sample_rng sample_mr_reg sample_conn)"

lemma sample_admitted: "admitted (fst sample_conn) sample_mr_reg"
  by (simp add: admitted_def sample_conn_fields sample_mr_reg_def header_new_def)

lemma sample_window: "window 0 (fst sample_conn) = fst sample_conn"
  by (simp add: window_def sample_conn_fields ONE_SECOND_def)

lemma sample_mr_conn_eq:
  "handle_message 0 sample_rng sample_mr_reg sample_conn = (Ok (), sample_mr_conn)"
  "fst sample_mr_conn = (fst sample_conn)\<lparr>se_expected_remote_seq := Some 2, se_mr_reg_count := 1,
     se_memory_store := sample_store, se_next_seq := 2\<rparr>"
  "sink_up (snd sample_mr_conn)"
proof -
  have reg: "register sample_rng (mr_pd p) (mr_access_flags p) (mr_region_len p)
      (se_memory_store (fst sample_conn)) = (Ok (LKey 1, sample_rkey), sample_store)"
    if "p = \<lparr>mr_pd = ProtectionDomain 1, mr_access_flags = sample_flags, mr_region_len = 16,
      mr_suggested_lkey = None\<rparr>" for p
    using sample_register_eq that unfolding sample_register_def by (simp add: sample_conn_fields)
  have "se_mr_reg_count (window 0 (fst sample_conn)) < se_mr_reg_rate_limit (fst sample_conn)"
    by (simp add: sample_window sample_conn_fields)
  note ok = handle_mr_reg_ok [OF sample_admitted [unfolded sample_mr_reg_def] sample_sink_up this reg [OF refl],
      folded sample_mr_reg_def]
  then show "handle_message 0 sample_rng sample_mr_reg sample_conn = (Ok (), sample_mr_conn)"
    "fst sample_mr_conn = (fst sample_conn)\<lparr>se_expected_remote_seq := Some 2, se_mr_reg_count := 1,
      se_memory_store := sample_store, se_next_seq := 2\<rparr>"
    "sink_up (snd sample_mr_conn)"
    by (auto simp: sample_mr_conn_def sample_window sample_conn_fields sample_sink_up)
qed

lemma sample_mr_conn_reach: "session_reach sample_cfg (fst sample_mr_conn, snd sample_mr_conn)"
proof -
  have "session_step (fst sample_conn, snd sample_conn) sample_mr_reg sample_mr_conn"
    using session_step.step [OF _ sample_mr_conn_eq(1)] by (simp add: sample_conn_fields)
  then show ?thesis using session_reach.more [OF sample_conn_reach] by simp
qed

theorem write_then_data_completes_witness:
  "\<exists>s1 s2 k'. handle_message 0 (\<lambda>_. []) (Write (header_new opcode.Write 7 2 42)
       \<lparr>wp_rkey = sample_rkey, wp_remote_va = 4, wp_length = 3, wp_sg_list = []\<rparr>)
       sample_mr_conn = (Ok (), (s1, snd sample_mr_conn)) \<and>
     handle_message 0 (\<lambda>_. []) (WriteData (header_new opcode.WriteData 7 3 42) \<lparr>dp_data = [1, 2, 3]\<rparr>)
       (s1, snd sample_mr_conn) = (Ok (), (s2, k')) \<and>
     mr_bytes (se_memory_store s2) sample_rkey = Some (put_slice (replicate 16 0) 4 [1, 2, 3])"
proof -
  let ?h = "header_new opcode.Write 7 2 42" and ?g = "header_new opcode.WriteData 7 3 42"
  let ?p = "\<lparr>wp_rkey = sample_rkey, wp_remote_va = 4, wp_length = 3, wp_sg_list = []\<rparr>"
  have adm: "admitted (fst sample_mr_conn) (Write ?h ?p)"
    by (simp add: sample_mr_conn_eq(2) admitted_def sample_conn_fields header_new_def)
  have look: "mr_lookup (se_memory_store (fst sample_mr_conn)) (wp_rkey ?p) = Some
      \<lparr>me_pd = ProtectionDomain 1, me_lkey = LKey 1, me_rkey = sample_rkey,
       me_access_flags = sample_flags, me_data = replicate 16 0\<rparr>"
    by (simp add: sample_mr_conn_eq(2) sample_lookup)
  have "h_payload_length ?g \<le> se_max_msg_size (fst sample_mr_conn)"
    by (simp add: header_new_def)
  from write_then_data_completes [OF sample_mr_conn_reach sample_mr_conn_eq(3) adm look _ _ _ this,
      of "\<lparr>dp_data = [1, 2, 3]\<rparr>" 0 "\<lambda>_. []" 0 "\<lambda>_. []"]
  show ?thesis by (auto simp: sample_allows)
qed

text \<open>
  A refused WRITE is answered twice: the first ERROR does not make the session skip the
  data message that the client has already sent or is bound to send, and that message is
  answered by a second ERROR with another code.
\<close>

theorem refused_write_answered_twice:
  assumes "sink_up k" and "se_pending_op s = NoPending"
    and "admitted s (Write h p)"
    and "validate_rkey (wp_rkey p) REMOTE_WRITE (se_memory_store s) = Err code"
    and "h_sequence g = h_sequence h + 1" and "h_payload_length g \<le> se_max_msg_size s"
  shows "\<exists>s1 s2. handle_message now os_rng (Write h p) (s, k) =
      (Ok (), (s1, push [error_reply code (h_sequence h) [] s] k)) \<and>
    handle_message now2 os_rng2 (WriteData g d) (s1, push [error_reply code (h_sequence h) [] s] k) =
      (Ok (), (s2, push [error_reply code (h_sequence h) [] s,
        error_reply ErrUnknownOpcode 0 (lit ''unexpected WRITE_DATA without preceding WRITE'') s1] k)) \<and>
    se_memory_store s2 = se_memory_store s"
proof -
  let ?s1 = "s\<lparr>se_expected_remote_seq := Some (h_sequence h + 1), se_next_seq := se_next_seq s + 1\<rparr>"
  have "admitted ?s1 (WriteData g d)" using assms(3,5,6) by (simp add: admitted_def)
  then have "handle_message now2 os_rng2 (WriteData g d) (?s1, push [error_reply code (h_sequence h) [] s] k) =
      (Ok (), (?s1\<lparr>se_expected_remote_seq := Some (h_sequence g + 1), se_pending_op := NoPending,
         se_next_seq := se_next_seq ?s1 + 1\<rparr>,
        push [error_reply code (h_sequence h) [] s,
          error_reply ErrUnknownOpcode 0 (lit ''unexpected WRITE_DATA without preceding WRITE'') ?s1] k))"
    using assms(1,2) by (subst handle_write_data_unexpected) simp_all
  with handle_write_refused [OF assms(3,1,4)] show ?thesis by fastforce
qed

theorem refused_write_answered_twice_witness:
  "\<exists>s1 k1 s2 k2. handle_message 0 (\<lambda>_. []) (Write (header_new opcode.Write 7 1 42)
       \<lparr>wp_rkey = RKey 9, wp_remote_va = 0, wp_length = 3, wp_sg_list = []\<rparr>) sample_conn
       = (Ok (), (s1, k1)) \<and>
     handle_message 0 (\<lambda>_. []) (WriteData (header_new opcode.WriteData 7 2 42) \<lparr>dp_data = [1, 2, 3]\<rparr>)
       (s1, k1) = (Ok (), (s2, k2)) \<and> length (wk_frames k2) = 3"
proof -
  have "validate_rkey (RKey 9) REMOTE_WRITE (memory_store_new 4 64) = Err ErrInvalidMkey"
    by (simp add: validate_rkey_def memory_store_new_def)
  then have val: "validate_rkey (RKey 9) REMOTE_WRITE (se_memory_store (fst sample_conn)) = Err ErrInvalidMkey"
    by (simp add: sample_conn_fields)
  let ?h = "header_new opcode.Write 7 1 42" and ?g = "header_new opcode.WriteData 7 2 42"
  let ?p = "\<lparr>wp_rkey = RKey 9, wp_remote_va = 0, wp_length = 3, wp_sg_list = []\<rparr>"
  have adm: "admitted (fst sample_conn) (Write ?h ?p)"
    by (simp add: admitted_def sample_conn_fields header_new_def)
  have "h_payload_length ?g \<le> se_max_msg_size (fst sample_conn)" by (simp add: header_new_def)
  from refused_write_answered_twice [OF sample_sink_up sample_conn_fields(8) adm _ _ this,
      of ErrInvalidMkey 0 "\<lambda>_. []" 0 "\<lambda>_. []" "\<lparr>dp_data = [1, 2, 3]\<rparr>"]
  show ?thesis using val by (auto simp: sample_conn_fields(15))
qed

subsection \<open>Registration under the rate limit\<close>

text \<open>
  Rate limit: once a session has made as many registrations in the current one-second
  window as configured, a further MR_REG is answered with status ERR_INTERNAL and null keys
  and does not touch the memory store.
\<close>

theorem registration_rate_limited:
  assumes "admitted s (MrReg h p)" and "sink_up k"
    and "now < se_mr_reg_window_start s + ONE_SECOND"
    and "se_mr_reg_rate_limit s \<le> se_mr_reg_count s"
  shows "handle_message now os_rng (MrReg h p) (s, k) =
    (Ok (), (s\<lparr>se_expected_remote_seq := Some (h_sequence h + 1), se_next_seq := se_next_seq s + 1\<rparr>,
      push [MrRegAck (header_new opcode.MrRegAck (se_session_id s) (se_next_seq s) (h_wrid h))
        \<lparr>mra_pd = mr_pd p, mra_lkey = LKey 0, mra_rkey = RKey 0, mra_status = 0xFFFF\<rparr>] k))"
proof -
  have "\<not> ONE_SECOND \<le> now - se_mr_reg_window_start s" using assms(3) by (simp add: ONE_SECOND_def)
  with assms show ?thesis
    by (simp add: handle_message_admitted handle_ready_def dispatch_def handle_mr_reg_def)
qed

theorem registration_rate_limited_witness:
  "\<exists>s' k'. handle_message 0 sample_rng sample_mr_reg
      ((fst sample_conn)\<lparr>se_mr_reg_count := 1000\<rparr>, snd sample_conn) = (Ok (), (s', k')) \<and>
    se_memory_store s' = memory_store_new 4 64"
proof -
  have adm: "admitted ((fst sample_conn)\<lparr>se_mr_reg_count := 1000\<rparr>) sample_mr_reg"
    using sample_admitted by (simp add: admitted_def)
  from registration_rate_limited [OF this [unfolded sample_mr_reg_def] sample_sink_up, of 0 sample_rng]
  show ?thesis unfolding sample_mr_reg_def [symmetric]
    by (simp add: sample_conn_fields ONE_SECOND_def)
qed

section \<open>The receive loop\<close>

text \<open>
  The handlers of a reachable session panic in exactly one situation: an admitted MR_REG
  within the rate limit whose registration panics. No counter, queue or pending-operation
  arithmetic of the session can overflow or underflow.
\<close>

theorem session_panics_only_in_register:
  assumes "session_reach cfg (s, k)" and "sane_sink k"
  shows "fst (handle_message now os_rng m (s, k)) = Panic \<longleftrightarrow>
    admitted s m \<and>
    (\<exists>h p. m = MrReg h p \<and> se_mr_reg_count (window now s) < se_mr_reg_rate_limit s \<and>
      fst (register os_rng (mr_pd p) (mr_access_flags p) (mr_region_len p) (se_memory_store s)) = Panic)"
  using session_reach_ok [OF assms(1)] assms(2) by (intro handle_message_Panic_iff) auto

lemma sample_sane: "sane_sink (snd sample_conn)"
  by (simp add: sane_sink_def sample_conn_fields)

theorem session_panics_only_in_register_witness:
  "fst (handle_message 0 sample_rng (Disconnect (header_new opcode.Disconnect 7 1 0))
     (fst sample_conn, snd sample_conn)) \<noteq> Panic"
  using session_panics_only_in_register [OF sample_conn_reach sample_sane, of 0 sample_rng
      "Disconnect (header_new opcode.Disconnect 7 1 0)"]
  by blast

lemma sink_outcome_kept:
  assumes "handle_message now os_rng m (s, k) = (Ok (), c')" and "session_ok cfg s"
    and "se_state s \<noteq> Closed"
  shows "wk_outcome (snd c') = wk_outcome k"
  using keeps_handle_message [OF assms(2,3,1)] by (auto simp: keeps_def)

lemma session_loop_panics:
  assumes "session_ok cfg (fst c)" and "sane_sink (snd c)" and "se_state (fst c) \<noteq> Closed"
    and "fst (session_loop stream c) = Panic"
  shows "\<exists>a \<in> set stream. \<exists>data. ar_event a = Binary data \<and>
    (message_decode data = Panic \<or> (\<exists>h p. message_decode data = Ok (MrReg h p)))"
  using assms
proof (induction stream arbitrary: c)
  case Nil
  then show ?case by simp
next
  case (Cons a rest)
  show ?case
  proof (cases "ar_event a")
    case (Binary data)
    show ?thesis
    proof (cases "message_decode data")
      case (Ok m)
      obtain r c' where hm: "handle_message (ar_now a) (ar_rng a) m (fst c, snd c) = (r, c')"
        by (metis surj_pair)
      show ?thesis
      proof (cases "r = Panic")
        case True
        then have "\<exists>h p. m = MrReg h p"
          using handle_message_Panic_iff [OF Cons.prems(1,2), of "ar_now a" "ar_rng a" m] hm by auto
        then show ?thesis using Binary Ok by auto
      next
        case False
        then have r: "r = Ok ()" "se_state (fst c') \<noteq> Closed" "fst (session_loop rest c') = Panic"
          using Cons.prems(4) Binary Ok hm by (auto split: result.splits if_split_asm)
        have "keeps cfg c c'"
          using keeps_handle_message [OF Cons.prems(1,3)] hm r(1) by (metis prod.collapse)
        then have "session_ok cfg (fst c')" "sane_sink (snd c')"
          using Cons.prems(2) by (auto simp: keeps_def)
        with Cons.IH r show ?thesis by auto
      qed
    next
      case Panic
      then show ?thesis using Binary by auto
    qed (use Cons.prems Binary in auto)
  next
    case OtherFrame
    with Cons show ?thesis by auto
  qed (use Cons.prems in auto)
qed

lemma session_loop_not_Blocked:
  assumes "session_ok cfg (fst c)" and "live_sink (snd c)" and "se_state (fst c) \<noteq> Closed"
  shows "fst (session_loop stream c) \<noteq> Blocked"
  using assms
proof (induction stream arbitrary: c)
  case (Cons a rest)
  show ?case
  proof (cases "ar_event a")
    case (Binary data)
    show ?thesis
    proof (cases "message_decode data")
      case (Ok m)
      obtain r c' where hm: "handle_message (ar_now a) (ar_rng a) m (fst c, snd c) = (r, c')"
        by (metis surj_pair)
      have "r \<noteq> Blocked"
        using handle_message_not_Blocked [OF Cons.prems(1,2), of "ar_now a" "ar_rng a" m] hm by simp
      moreover have "fst (session_loop rest c') \<noteq> Blocked" if "r = Ok ()" "se_state (fst c') \<noteq> Closed"
      proof -
        have "keeps cfg c c'"
          using keeps_handle_message [OF Cons.prems(1,3)] hm that(1) by (metis prod.collapse)
        then have "session_ok cfg (fst c')" "live_sink (snd c')"
          using Cons.prems(2) by (auto simp: keeps_def)
        with Cons.IH that(2) show ?thesis by auto
      qed
      ultimately show ?thesis using Binary Ok hm by (auto split: result.split)
    qed (use Binary message_decode_not_Blocked [of data] in auto)
  qed (use Cons in auto)
qed simp

lemma session_loop_not_Err: "fst (session_loop stream c) \<noteq> Err e"
  by (induction stream c rule: session_loop.induct)
    (auto split: ws_event.split result.split prod.split)

text \<open>
  (C18) Every session ends in an orderly way: for any stream of WebSocket events, on a
  transport that completes its sends or fails, \<open>run_session\<close> either returns, or it panics and
  then the stream contains a frame that makes the decoder panic or an MR_REG; it never hands
  an error to its caller.
\<close>

theorem run_session_ends:
  assumes "\<And>n. outcome n \<noteq> Panic \<and> outcome n \<noteq> Blocked"
  shows "fst (run_session cfg now outcome stream) = Ok () \<or>
    (fst (run_session cfg now outcome stream) = Panic \<and>
      (\<exists>a \<in> set stream. \<exists>data. ar_event a = Binary data \<and>
        (message_decode data = Panic \<or> (\<exists>h p. message_decode data = Ok (MrReg h p)))))"
proof -
  let ?c = "(session_new cfg now, sink_new outcome)"
  have "sane_sink (snd ?c)" "live_sink (snd ?c)" "session_ok cfg (fst ?c)" "se_state (fst ?c) \<noteq> Closed"
    using assms by (simp_all add: sane_sink_def live_sink_def sink_new_def session_ok_new)
      (simp add: session_new_def)
  with session_loop_panics [of cfg ?c stream] session_loop_not_Blocked [of cfg ?c stream]
    session_loop_not_Err [of stream ?c] show ?thesis
    unfolding run_session_def by (cases "fst (session_loop stream ?c)") auto
qed

definition evil_frame :: bytes where
  "evil_frame = header_encode (header_new opcode.Write 0 0 0) @ replicate 24 0"

lemma evil_frame_panics: "message_decode evil_frame = Panic"
  by (auto simp: message_decode_Panic_iff evil_frame_def header_decode_encode WRITE_HEADER_SIZE_def)
    (simp add: header_new_def)

theorem run_session_ends_witness:
  "fst (run_session sample_cfg 0 (\<lambda>_. Ok ())
     [\<lparr>ar_event = OtherFrame, ar_now = 0, ar_rng = \<lambda>_. []\<rparr>]) = Ok ()"
  using run_session_ends [of "\<lambda>_. Ok ()" sample_cfg 0
      "[\<lparr>ar_event = OtherFrame, ar_now = 0, ar_rng = \<lambda>_. []\<rparr>]"]
  by auto

text \<open>
  One frame of 48 bytes, sent before anything else, makes the session of any server
  configuration panic: a WRITE header announcing an empty payload, followed by 24 bytes.
\<close>

theorem first_frame_can_panic:
  "fst (run_session cfg now outcome
     (\<lparr>ar_event = Binary (header_encode (header_new opcode.Write 0 0 0) @ replicate 24 0),
       ar_now = t, ar_rng = r\<rparr> # rest)) = Panic"
  using evil_frame_panics by (simp add: run_session_def evil_frame_def)

end
