(* ===== verification/End_To_End.thy ===== *)
theory End_To_End
  imports Server_Props Verbs
begin

text \<open>
  Client and server joined by their wire format. \<open>server_net\<close> is the network of a client
  connection whose peer is a server session: a frame the client sends is decoded and handled
  by the session, and the frames the session sends reach the client's receiving half in
  order. \<open>in_sync\<close> says when the two sides agree about ids, sequence numbers and pending
  operations. The verbs keep the two sides in agreement and implement reads, writes and
  atomics on the memory of the server.
\<close>

section \<open>Definitions\<close>

text \<open>
  One round of the receive loop of \<open>run_session\<close> for a binary message, and whether the loop
  goes on. \<open>env\<close> gives the time and the randomness of the round.
\<close>

type_synonym environment = "conn \<Rightarrow> instant \<times> (nat \<Rightarrow> bytes)"

definition serve_frame :: "environment \<Rightarrow> bytes \<Rightarrow> conn \<Rightarrow> bool \<times> conn" where
  "serve_frame env data conn =
     (case message_decode data of
        Ok m \<Rightarrow>
          (case handle_message (fst (env conn)) (snd (env conn)) m conn of
             (Ok _, conn') \<Rightarrow> (se_state (fst conn') \<noteq> Closed, conn')
           | (_, conn') \<Rightarrow> (False, conn'))
      | _ \<Rightarrow> (False, conn))"

type_synonym server_peer = "conn \<times> bool"

definition frames_since :: "conn \<Rightarrow> conn \<Rightarrow> bytes list" where
  "frames_since c c' = drop (length (wk_frames (snd c))) (wk_frames (snd c'))"

text \<open>
  The transport between the two is ideal: it delivers every frame, of any size. The limits
  that a WebSocket library puts on its messages are not part of the model.
\<close>

definition server_net :: "environment \<Rightarrow> server_peer network" where
  "server_net env data = (\<lambda>(conn, running).
     if \<not> running then ((Err (lit ''connection closed''), []), (conn, False))
     else
       let (running, conn') = serve_frame env data conn
       in ((Ok (), map (Item \<circ> Binary) (frames_since conn conn') @ (if running then [] else [EndOfStream])),
           (conn', running)))"

definition peer_session :: "server_peer rdows_connection \<Rightarrow> session" where
  "peer_session c = fst (fst (fst (cn_socket c)))"

definition peer_sink :: "server_peer rdows_connection \<Rightarrow> ws_sink" where
  "peer_sink c = snd (fst (fst (cn_socket c)))"

definition in_sync :: "server_config \<Rightarrow> server_peer rdows_connection \<Rightarrow> bool" where
  "in_sync cfg c \<longleftrightarrow>
     snd (fst (cn_socket c)) \<and> snd (cn_socket c) = [] \<and>
     session_ok cfg (peer_session c) \<and> sink_up (peer_sink c) \<and>
     se_state (peer_session c) = Ready \<and> se_pending_op (peer_session c) = NoPending \<and>
     se_session_id (peer_session c) = cn_session_id c \<and> se_pd (peer_session c) = cn_pd c \<and>
     se_expected_remote_seq (peer_session c) = Some (cn_next_seq c) \<and>
     cn_expected_remote_seq c = Some (se_next_seq (peer_session c)) \<and> local_inv c"

text \<open>The remote memory as the client's user sees it.\<close>

definition remote :: "server_peer rdows_connection \<Rightarrow> memory_store" where
  "remote c = se_memory_store (peer_session c)"

text \<open>
  What a one-sided verb leaves alone besides the memories: the identity of the session, the
  limits, the flow control of SENDs and the registration counter.
\<close>

definition same_link :: "server_peer rdows_connection \<Rightarrow> server_peer rdows_connection \<Rightarrow> bool" where
  "same_link c c' \<longleftrightarrow>
     cn_session_id c' = cn_session_id c \<and> cn_pd c' = cn_pd c \<and> cq_capacity (cn_cq c') = cq_capacity (cn_cq c) \<and>
     cn_send_credits c' = cn_send_credits c \<and>
     se_max_msg_size (peer_session c') = se_max_msg_size (peer_session c) \<and>
     se_recv_queue_depth (peer_session c') = se_recv_queue_depth (peer_session c) \<and>
     se_sends_since_last_credit (peer_session c') = se_sends_since_last_credit (peer_session c) \<and>
     se_mr_reg_count (peer_session c') = se_mr_reg_count (peer_session c) \<and>
     se_mr_reg_window_start (peer_session c') = se_mr_reg_window_start (peer_session c)"

section \<open>The transport\<close>

lemma serve_frame_loop:
  assumes "ar_event a = Binary data" and "env conn = (ar_now a, ar_rng a)"
    and "serve_frame env data conn = (True, conn')"
  shows "session_loop (a # rest) conn = session_loop rest conn'"
  using assms by (auto simp: serve_frame_def split: result.splits prod.splits)

lemma serve_frame_encode:
  assumes "message_wf m" and "env (s, k) = (now, os_rng)"
    and "handle_message now os_rng (on_wire m) (s, k) = (Ok (), (s', push ms k))"
    and "se_state s' \<noteq> Closed"
  shows "server_net env (message_encode m) ((s, k), True) =
    ((Ok (), map (Item \<circ> Binary \<circ> message_encode) ms), ((s', push ms k), True))"
  using assms by (simp add: server_net_def serve_frame_def message_decode_encode frames_since_def)

lemma recv_app_message_next:
  assumes "cn_socket c = (peer, Item (Binary (message_encode m)) # rest)" and "message_wf m"
    and "cn_expected_remote_seq c = Some (h_sequence (message_header m))" and "\<not> is_credit_update m"
  shows "recv_app_message c = (Ok (on_wire m),
    c\<lparr>cn_socket := (peer, rest), cn_expected_remote_seq := Some (h_sequence (message_header m) + 1)\<rparr>)"
  using assms
  by (cases m) (simp_all add: recv_app_message.simps [of c] cn_recv_def message_decode_encode
      validate_remote_seq_def Let_def on_wire_def)

lemma cn_send_server:
  assumes "cn_socket c = (((s, k), True), inbox)" and "message_wf m" and "env (s, k) = (now, os_rng)"
    and "handle_message now os_rng (on_wire m) (s, k) = (Ok (), (s', push ms k))"
    and "se_state s' \<noteq> Closed"
  shows "cn_send (server_net env) m c =
    (Ok (), c\<lparr>cn_socket := (((s', push ms k), True), inbox @ map (Item \<circ> Binary \<circ> message_encode) ms)\<rparr>)"
  using assms by (simp add: cn_send_def socket_send_def serve_frame_encode)

lemma admitted_on_wire:
  assumes "se_state s = Ready" and "se_expected_remote_seq s = Some (h_sequence (message_header m))"
    and "length (message_payload_encode m) \<le> unat (se_max_msg_size s)"
  shows "admitted s (on_wire m)"
proof -
  have "unat (of_nat (length (message_payload_encode m)) :: u32) = length (message_payload_encode m)"
    using assms(3) unat_less_u32 [of "se_max_msg_size s"] by (intro unat_of_nat_u32) linarith
  with assms show ?thesis by (simp add: admitted_def word_le_nat_alt)
qed

lemma on_wire_header_simps [simp]:
  "on_wire (Write h p) = Write (h\<lparr>h_payload_length := of_nat (length (write_payload_encode p))\<rparr>) p"
  "on_wire (WriteData h d) = WriteData (h\<lparr>h_payload_length := of_nat (length (data_payload_encode d))\<rparr>) d"
  "on_wire (ReadReq h q) = ReadReq (h\<lparr>h_payload_length := of_nat (length (read_req_payload_encode q))\<rparr>) q"
  "on_wire (AtomicReq h a) = AtomicReq (h\<lparr>h_payload_length := of_nat (length (atomic_req_payload_encode a))\<rparr>) a"
  "on_wire (MrReg h r) = MrReg (h\<lparr>h_payload_length := of_nat (length (mr_reg_payload_encode r))\<rparr>) r"
  "on_wire (MrDereg h x) = MrDereg (h\<lparr>h_payload_length := of_nat (length (mr_dereg_payload_encode x))\<rparr>) x"
  "on_wire (WriteComp h) = WriteComp (h\<lparr>h_payload_length := 0\<rparr>)"
  "on_wire (ReadResp h y) = ReadResp (h\<lparr>h_payload_length := of_nat (length (read_resp_payload_encode y))\<rparr>) y"
  "on_wire (AtomicResp h z) = AtomicResp (h\<lparr>h_payload_length := of_nat (length (atomic_resp_payload_encode z))\<rparr>) z"
  "on_wire (MrRegAck h u) = MrRegAck (h\<lparr>h_payload_length := of_nat (length (mr_reg_ack_payload_encode u))\<rparr>) u"
  "on_wire (MrDeregAck h v) = MrDeregAck (h\<lparr>h_payload_length := of_nat (length (mr_dereg_ack_payload_encode v))\<rparr>) v"
  "on_wire (Error h w) = Error (h\<lparr>h_payload_length := of_nat (length (error_payload_encode w))\<rparr>) w"
  by (simp_all add: on_wire_def)

text \<open>
  A request that the session answers with one message: the client gets that message, both
  sides advance by one, and nothing else is left in the receiving half.
\<close>

lemma request_answered:
  assumes sock: "cn_socket c = (((s, k), True), [])" and wf: "message_wf m"
    and env: "env (s, k) = (now, os_rng)"
    and hm: "handle_message now os_rng (on_wire m) (s, k) = (Ok (), (s', push [r] k))"
    and open_: "se_state s' \<noteq> Closed" and rwf: "message_wf r" and "\<not> is_credit_update r"
    and "cn_expected_remote_seq c = Some (h_sequence (message_header r))"
  shows "sbind (cn_send (server_net env) m c) (\<lambda>_ c. sbind (recv_app_message c) f) =
    f (on_wire r) (c\<lparr>cn_socket := (((s', push [r] k), True), []),
      cn_expected_remote_seq := Some (h_sequence (message_header r) + 1)\<rparr>)"
proof -
  let ?c1 = "c\<lparr>cn_socket := (((s', push [r] k), True), [Item (Binary (message_encode r))])\<rparr>"
  have "cn_send (server_net env) m c = (Ok (), ?c1)"
    using cn_send_server [of c s k "[]" m env now os_rng s' "[r]"] sock wf env hm open_ by simp
  moreover have "recv_app_message ?c1 = (Ok (on_wire r), ?c1\<lparr>cn_socket := (((s', push [r] k), True), []),
      cn_expected_remote_seq := Some (h_sequence (message_header r) + 1)\<rparr>)"
    using assms by (intro recv_app_message_next) simp_all
  ultimately show ?thesis by simp
qed

lemma in_syncE:
  assumes "in_sync cfg c"
  obtains s k where "cn_socket c = (((s, k), True), [])" and "peer_session c = s" and "peer_sink c = k"
    and "session_ok cfg s" and "sink_up k" and "se_state s = Ready" and "se_pending_op s = NoPending"
    and "se_session_id s = cn_session_id c" and "se_pd s = cn_pd c"
    and "se_expected_remote_seq s = Some (cn_next_seq c)"
    and "cn_expected_remote_seq c = Some (se_next_seq s)" and "local_inv c"
proof -
  obtain s k run inbox where "cn_socket c = (((s, k), run), inbox)" by (metis surj_pair)
  with assms that show thesis by (simp add: in_sync_def peer_session_def peer_sink_def)
qed

lemma session_ok_step:
  assumes "session_ok cfg s" and "se_state s \<noteq> Closed"
    and "handle_message now os_rng m (s, k) = (Ok (), (s', k'))"
  shows "session_ok cfg s'"
  using keeps_handle_message [OF assms] by (auto simp: keeps_def)

lemma cn_next_header_eq [simp]:
  "cn_next_header op wrid c = (header_new op (cn_session_id c) (cn_next_seq c) wrid,
     c\<lparr>cn_next_seq := cn_next_seq c + 1\<rparr>)"
  by (simp add: cn_next_header_def Let_def)

lemma cn_complete_fields [simp]:
  "cn_socket (cn_complete w st op n c) = cn_socket c"
  "cn_session_id (cn_complete w st op n c) = cn_session_id c"
  "cn_pd (cn_complete w st op n c) = cn_pd c"
  "cn_next_seq (cn_complete w st op n c) = cn_next_seq c"
  "cn_expected_remote_seq (cn_complete w st op n c) = cn_expected_remote_seq c"
  "cn_local_mrs (cn_complete w st op n c) = cn_local_mrs c"
  "cn_send_credits (cn_complete w st op n c) = cn_send_credits c"
  "local_inv (cn_complete w st op n c) = local_inv c"
  "local_bytes (cn_complete w st op n c) = local_bytes c"
  by (simp_all add: cn_complete_def local_inv_def local_bytes_def fun_eq_iff)

lemma cn_complete_capacity [simp]: "cq_capacity (cn_cq (cn_complete w st op n c)) = cq_capacity (cn_cq c)"
  by (simp add: cn_complete_def cq_push_def)

lemma cn_complete_cq:
  "\<not> cq_is_full (cn_cq c) \<Longrightarrow> cq_entries (cn_cq (cn_complete w st op n c)) = cq_entries (cn_cq c) @
     [\<lparr>cqe_wrid = WorkRequestId w, cqe_status = st, cqe_opcode = op, cqe_vendor_error = 0,
       cqe_byte_count = n, cqe_qp_number = cn_session_id c\<rparr>]"
  by (simp add: cn_complete_def cq_push_def cq_is_full_def)

section \<open>One request, one answer\<close>

text \<open>The client connection after a request the session answered, leaving it as \<open>s'\<close>.\<close>

definition exchanged :: "session \<Rightarrow> ws_sink \<Rightarrow> server_peer rdows_connection \<Rightarrow> server_peer rdows_connection" where
  "exchanged s' k' c = c\<lparr>cn_next_seq := cn_next_seq c + 1, cn_socket := (((s', k'), True), []),
     cn_expected_remote_seq := Some (se_next_seq s')\<rparr>"

lemma exchanged_fields [simp]:
  "cn_cq (exchanged s' k' c) = cn_cq c" "cn_local_mrs (exchanged s' k' c) = cn_local_mrs c"
  "cn_session_id (exchanged s' k' c) = cn_session_id c" "cn_pd (exchanged s' k' c) = cn_pd c"
  "cn_send_credits (exchanged s' k' c) = cn_send_credits c"
  "peer_session (exchanged s' k' c) = s'" "peer_sink (exchanged s' k' c) = k'"
  "local_inv (exchanged s' k' c) = local_inv c" "local_bytes (exchanged s' k' c) = local_bytes c"
  by (simp_all add: exchanged_def peer_session_def peer_sink_def local_inv_def local_bytes_def fun_eq_iff)

lemma in_sync_exchanged:
  assumes "local_inv c" and "session_ok cfg s'" and "sink_up k'"
    and "se_state s' = Ready" and "se_pending_op s' = NoPending"
    and "se_session_id s' = cn_session_id c" and "se_pd s' = cn_pd c"
    and "se_expected_remote_seq s' = Some (cn_next_seq c + 1)"
  shows "in_sync cfg (exchanged s' k' c)"
  using assms by (simp add: in_sync_def) (simp add: exchanged_def)

lemma in_sync_complete [simp]: "in_sync cfg (cn_complete w st op n c) = in_sync cfg c"
  by (simp add: in_sync_def peer_session_def peer_sink_def)

lemma remote_simps [simp]:
  "remote (cn_complete w st op n c) = remote c" "remote (exchanged s' k' c) = se_memory_store s'"
  "peer_session (cn_complete w st op n c) = peer_session c"
  by (simp_all add: remote_def peer_session_def) (simp add: exchanged_def)

definition answers :: "environment \<Rightarrow> server_peer rdows_connection \<Rightarrow> rdows_message \<Rightarrow> session
    \<Rightarrow> rdows_message \<Rightarrow> bool" where
  "answers env c m s' r \<longleftrightarrow> (case env (peer_session c, peer_sink c) of (now, os_rng) \<Rightarrow>
     handle_message now os_rng (on_wire m) (peer_session c, peer_sink c) =
       (Ok (), (s', push [r] (peer_sink c))))"

lemma exchange:
  assumes sync: "in_sync cfg c" and wf: "message_wf m" and ans: "answers env c m s' r"
    and s': "se_state s' = Ready" "se_pending_op s' = NoPending" "se_session_id s' = cn_session_id c"
      "se_pd s' = cn_pd c" "se_expected_remote_seq s' = Some (cn_next_seq c + 1)"
      "se_next_seq s' = se_next_seq (peer_session c) + 1"
    and r: "message_wf r" "\<not> is_credit_update r" "h_sequence (message_header r) = se_next_seq (peer_session c)"
  shows "in_sync cfg (exchanged s' (push [r] (peer_sink c)) c)"
    and "sbind (cn_send (server_net env) m (c\<lparr>cn_next_seq := cn_next_seq c + 1\<rparr>))
      (\<lambda>_ c. sbind (recv_app_message c) f) = f (on_wire r) (exchanged s' (push [r] (peer_sink c)) c)"
proof -
  obtain s k where c: "cn_socket c = (((s, k), True), [])" "peer_session c = s" "peer_sink c = k"
    "cn_expected_remote_seq c = Some (se_next_seq s)" "session_ok cfg s" "sink_up k" "se_state s = Ready" "local_inv c"
    using sync by (rule in_syncE)
  obtain now os_rng where env: "env (s, k) = (now, os_rng)" by (metis surj_pair)
  have hm: "handle_message now os_rng (on_wire m) (s, k) = (Ok (), (s', push [r] k))"
    using ans c env by (simp add: answers_def)
  then have "session_ok cfg s'" using session_ok_step [OF c(5)] c(7) by simp
  then show "in_sync cfg (exchanged s' (push [r] (peer_sink c)) c)"
    using c s' by (intro in_sync_exchanged) simp_all
  have "cn_socket (c\<lparr>cn_next_seq := cn_next_seq c + 1\<rparr>) = (((s, k), True), [])" using c by simp
  with request_answered [of "c\<lparr>cn_next_seq := cn_next_seq c + 1\<rparr>" s k m env now os_rng s' r f]
  show "sbind (cn_send (server_net env) m (c\<lparr>cn_next_seq := cn_next_seq c + 1\<rparr>))
      (\<lambda>_ c. sbind (recv_app_message c) f) = f (on_wire r) (exchanged s' (push [r] (peer_sink c)) c)"
    using wf s' r c env hm by (simp add: exchanged_def)
qed

lemma sync_admitted:
  assumes "in_sync cfg c" and "h_sequence (message_header m) = cn_next_seq c"
    and "length (message_payload_encode m) \<le> unat (se_max_msg_size (peer_session c))"
  shows "admitted (peer_session c) (on_wire m)"
  using assms by (intro admitted_on_wire) (simp_all add: in_sync_def)

lemma error_reply_wf: "is_utf8 desc \<Longrightarrow> length desc < 65536 \<Longrightarrow> message_wf (error_reply code sq desc s)"
  by (simp add: message_wf_def)

section \<open>Reads\<close>

text \<open>The completion the client records for an operation of kind \<open>op\<close>.\<close>

abbreviation cqe :: "u64 \<Rightarrow> u16 \<Rightarrow> opcode \<Rightarrow> u32 \<Rightarrow> server_peer rdows_connection \<Rightarrow> completion_queue_entry" where
  "cqe wrid status op n c \<equiv> \<lparr>cqe_wrid = WorkRequestId wrid, cqe_status = status, cqe_opcode = op,
     cqe_vendor_error = 0, cqe_byte_count = n, cqe_qp_number = cn_session_id c\<rparr>"

lemma read_reply_simps [simp]:
  "read_reply (s\<lparr>se_expected_remote_seq := v\<rparr>) h p = read_reply s h p"
  "read_reply s (h\<lparr>h_payload_length := n\<rparr>) p = read_reply s h p"
  by (simp_all add: read_reply_def Let_def split: result.split)

lemma read_answered:
  fixes c :: "server_peer rdows_connection" and wrid :: u64
  assumes sync: "in_sync cfg c" and "unat (se_max_msg_size (peer_session c)) \<ge> 40"
  defines "h \<equiv> header_new opcode.ReadReq (cn_session_id c) (cn_next_seq c) wrid"
    and "s' \<equiv> (peer_session c)\<lparr>se_expected_remote_seq := Some (cn_next_seq c + 1),
      se_next_seq := se_next_seq (peer_session c) + 1\<rparr>"
  shows "answers env c (ReadReq h p) s' (read_reply (peer_session c) h p)"
proof -
  obtain s k where c: "peer_session c = s" "peer_sink c = k" "sink_up k" "session_ok cfg s"
    using sync by (rule in_syncE)
  have "admitted s (on_wire (ReadReq h p))"
    using sync_admitted [OF sync, of "ReadReq h p"] c assms(2)
    by (simp add: h_def header_new_def read_req_payload_encode_def)
  moreover have "se_outstanding_reads s = 0" using c by (simp add: session_ok_def)
  ultimately show ?thesis
    using c by (simp add: handle_message_admitted handle_ready_def dispatch_def
      handle_read_req_Ok_iff sink_up_def s'_def h_def answers_def split: prod.split)
qed

text \<open>
  \<open>rdma_read\<close> as one step: the session reads its store, the client stores what it got in its
  own region.
\<close>

lemma rdma_read_eq:
  assumes sync: "in_sync cfg c" and cq: "\<not> cq_is_full (cn_cq c)"
    and size: "unat (se_max_msg_size (peer_session c)) \<ge> 40" and "cfg_max_outstanding_reads cfg \<noteq> 0"
    and len: "unat read_len + 8 < 4294967296"
  obtains c0 where "in_sync cfg c0" and "remote c0 = remote c" and "cn_local_mrs c0 = cn_local_mrs c"
    and "cn_cq c0 = cn_cq c" and "same_link c c0"
    and "rdma_read (server_net env) wrid rk va read_len lk lva c =
      (case read_region rk va read_len (remote c) of
         Ok data \<Rightarrow> sbind (write_local_mr lk (unat lva) data c0) (\<lambda>_ c.
           (Ok (), cn_complete wrid 0 opcode.ReadReq (of_nat (length data)) c))
       | Err code \<Rightarrow> (Err (Protocol code), cn_complete wrid (error_code_to_u16 code) opcode.ReadReq 0 c0)
       | _ \<Rightarrow> (Panic, c0))"
proof -
  obtain s k where c: "peer_session c = s" "peer_sink c = k" "sink_up k" "session_ok cfg s"
      "se_state s = Ready" "se_pending_op s = NoPending" "se_session_id s = cn_session_id c"
      "se_pd s = cn_pd c" "se_expected_remote_seq s = Some (cn_next_seq c)"
    using sync by (rule in_syncE)
  have inv: "store_inv (remote c)" and reads: "se_max_outstanding_reads s \<noteq> 0"
    using c assms(4) by (simp_all add: session_ok_def remote_def)
  define s' where "s' = s\<lparr>se_expected_remote_seq := Some (cn_next_seq c + 1), se_next_seq := se_next_seq s + 1\<rparr>"
  define h where "h = header_new opcode.ReadReq (cn_session_id c) (cn_next_seq c) wrid"
  define p where "p = \<lparr>rq_rkey = rk, rq_remote_va = va, rq_read_len = read_len, rq_local_lkey = lk, rq_local_va = lva\<rparr>"
  define r where "r = read_reply s h p"
  define c0 where "c0 = exchanged s' (push [r] k) c"
  have ans: "answers env c (ReadReq h p) s' r"
    using read_answered [OF sync size, where env = env and p = p and wrid = wrid] c by (simp only: h_def s'_def r_def)
  have short: "length data = unat read_len" if "read_region rk va read_len (remote c) = Ok data" for data
    using that by (auto simp: read_region_eq [OF inv] split: option.splits if_split_asm)
  have r_eq: "r = (case read_region rk va read_len (remote c) of
      Ok data \<Rightarrow> ReadResp (header_new opcode.ReadResp (se_session_id s) (se_next_seq s) wrid)
        \<lparr>rr_fragment_offset = 0, rr_data = data\<rparr>
    | Err code \<Rightarrow> error_reply code (cn_next_seq c) [] s | _ \<Rightarrow> error_reply ErrInternal (cn_next_seq c) [] s)"
    using reads c(1) by (simp add: r_def read_reply_def h_def p_def remote_def split: result.split)
  have "message_wf r"
    using short len unfolding r_eq
    by (auto simp: message_wf_def read_resp_payload_encoded_len_def Let_def split: result.split)
  moreover have "message_wf (ReadReq h p)" by (simp add: message_wf_def h_def)
  moreover have "\<not> is_credit_update r" "h_sequence (message_header r) = se_next_seq s"
    by (simp_all add: r_eq split: result.split)
  moreover note exchange [OF sync, of "ReadReq h p" env s' r]
  ultimately have "in_sync cfg c0"
    and ex: "sbind (cn_send (server_net env) (ReadReq h p) (c\<lparr>cn_next_seq := cn_next_seq c + 1\<rparr>))
      (\<lambda>_ c. sbind (recv_app_message c) f) = f (on_wire r) c0"
    for f :: "rdows_message \<Rightarrow> server_peer rdows_connection \<Rightarrow> (rdows_error, unit) result \<times> server_peer rdows_connection"
    using ans c by (simp_all add: c0_def s'_def)
  moreover have "rdma_read (server_net env) wrid rk va read_len lk lva c =
      (case read_region rk va read_len (remote c) of
         Ok data \<Rightarrow> sbind (write_local_mr lk (unat lva) data c0) (\<lambda>_ c.
           (Ok (), cn_complete wrid 0 opcode.ReadReq (of_nat (length data)) c))
       | Err code \<Rightarrow> (Err (Protocol code), cn_complete wrid (error_code_to_u16 code) opcode.ReadReq 0 c0)
       | _ \<Rightarrow> (Panic, c0))"
    using cq reads read_region_not_stuck [of rk va read_len "remote c"]
    by (cases "read_region rk va read_len (remote c)"; cases "fmlookup (cn_local_mrs c0) (lkey_val lk)")
      (auto simp: rdma_read_def h_def [symmetric] p_def [symmetric] Let_def ex r_eq
        write_local_mr_def usize_add_def)
  ultimately show thesis
    using c that [of c0] by (simp add: c0_def s'_def remote_def same_link_def)
qed

lemma remote_bytesE:
  assumes "mr_bytes st rk = Some bs" and "mr_allows fl st rk"
  obtains e where "mr_lookup st rk = Some e" and "af_contains (me_access_flags e) fl" and "me_data e = bs"
  using assms by (auto simp: mr_bytes_def mr_allows_def split: option.splits)

lemma in_sync_local_mrs:
  assumes "in_sync cfg c" and "local_inv (c\<lparr>cn_local_mrs := mrs\<rparr>)"
  shows "in_sync cfg (c\<lparr>cn_local_mrs := mrs\<rparr>)"
  using assms by (simp add: in_sync_def peer_session_def peer_sink_def)

lemma write_local_ok:
  assumes "local_inv c" and "local_bytes c lk = Some buf" and "off + length data \<le> length buf"
  obtains mrs where "write_local_mr lk off data c = (Ok (), c\<lparr>cn_local_mrs := mrs\<rparr>)"
    and "local_inv (c\<lparr>cn_local_mrs := mrs\<rparr>)"
    and "local_bytes (c\<lparr>cn_local_mrs := mrs\<rparr>) = (local_bytes c)(lk \<mapsto> put_slice buf off data)"
proof -
  obtain c1 where c1: "write_local_mr lk off data c = (Ok (), c1)"
    using loc.store_Ok_iff [OF assms(1), of lk off data] assms(2,3)
    by (metis (no_types, lifting) fst_conv surj_pair)
  then obtain mrs where "c1 = c\<lparr>cn_local_mrs := mrs\<rparr>"
    by (cases "fmlookup (cn_local_mrs c) (lkey_val lk)")
      (auto simp: write_local_mr_def usize_add_def Let_def split: if_split_asm)
  with c1 loc.store_effect [OF assms(1) c1 assms(2)] that show thesis by blast
qed

lemma remote_local_mrs [simp]:
  "remote (c\<lparr>cn_local_mrs := mrs\<rparr>) = remote c" "peer_session (c\<lparr>cn_local_mrs := mrs\<rparr>) = peer_session c"
  by (simp_all add: remote_def peer_session_def)

lemma rdma_read_ok:
  assumes "in_sync cfg c" and "\<not> cq_is_full (cn_cq c)"
    and "unat (se_max_msg_size (peer_session c)) \<ge> 40" and "cfg_max_outstanding_reads cfg \<noteq> 0"
    and "unat read_len + 8 < 4294967296"
    and "mr_bytes (remote c) rk = Some bs" and "mr_allows REMOTE_READ (remote c) rk"
    and "unat va + unat read_len \<le> length bs"
    and "local_bytes c lk = Some buf" and "unat lva + unat read_len \<le> length buf"
  shows "\<exists>c'. rdma_read (server_net env) wrid rk va read_len lk lva c = (Ok (), c') \<and> in_sync cfg c' \<and>
    local_bytes c' = (local_bytes c)(lk \<mapsto> put_slice buf (unat lva) (sub_slice bs (unat va) (unat va + unat read_len))) \<and>
    remote c' = remote c \<and> same_link c c' \<and>
    cq_entries (cn_cq c') = cq_entries (cn_cq c) @ [cqe wrid 0 opcode.ReadReq (ucast read_len) c]"
proof -
  let ?data = "sub_slice bs (unat va) (unat va + unat read_len)"
  obtain c0 where c0: "in_sync cfg c0" "remote c0 = remote c" "cn_local_mrs c0 = cn_local_mrs c"
      "cn_cq c0 = cn_cq c" "same_link c c0"
    and rd: "rdma_read (server_net env) wrid rk va read_len lk lva c =
      (case read_region rk va read_len (remote c) of
         Ok data \<Rightarrow> sbind (write_local_mr lk (unat lva) data c0) (\<lambda>_ c.
           (Ok (), cn_complete wrid 0 opcode.ReadReq (of_nat (length data)) c))
       | Err code \<Rightarrow> (Err (Protocol code), cn_complete wrid (error_code_to_u16 code) opcode.ReadReq 0 c0)
       | _ \<Rightarrow> (Panic, c0))"
    using assms(1-5) by (rule rdma_read_eq)
  have inv: "store_inv (remote c)" "local_inv c0"
    using assms(1) c0(1) by (simp_all add: in_sync_def session_ok_def remote_def)
  have lb: "local_bytes c0 = local_bytes c" using c0(3) by (simp add: local_bytes_def fun_eq_iff)
  have "read_region rk va read_len (remote c) = Ok ?data"
    using assms(6-8) by (simp add: mem.load_Ok_iff [OF inv(1)])
  moreover have len: "length ?data = unat read_len" using assms(8) by simp
  moreover obtain mrs where "write_local_mr lk (unat lva) ?data c0 = (Ok (), c0\<lparr>cn_local_mrs := mrs\<rparr>)"
      "local_inv (c0\<lparr>cn_local_mrs := mrs\<rparr>)"
      "local_bytes (c0\<lparr>cn_local_mrs := mrs\<rparr>) = (local_bytes c)(lk \<mapsto> put_slice buf (unat lva) ?data)"
    using write_local_ok [OF inv(2), of lk buf "unat lva" ?data] assms(9,10) len lb by metis
  ultimately show ?thesis
    using rd c0 in_sync_local_mrs [OF c0(1), of mrs] assms(2)
    by (simp add: cn_complete_cq unsigned_ucast_eq same_link_def)
qed

section \<open>Atomics\<close>

fun atomic_reply :: "u64 \<Rightarrow> (error_code, u64) result \<Rightarrow> server_peer rdows_connection \<Rightarrow> rdows_message" where
  "atomic_reply wrid (Ok v) c = AtomicResp
     (header_new opcode.AtomicResp (cn_session_id c) (se_next_seq (peer_session c)) wrid)
     \<lparr>ar_original_value = v, ar_status = 0\<rparr>"
| "atomic_reply wrid (Err code) c = error_reply code (cn_next_seq c) [] (peer_session c)"
| "atomic_reply wrid _ c = error_reply ErrInternal (cn_next_seq c) [] (peer_session c)"

fun atomic_cqe :: "u64 \<Rightarrow> (error_code, u64) result \<Rightarrow> server_peer rdows_connection \<Rightarrow> completion_queue_entry" where
  "atomic_cqe wrid (Err code) c = cqe wrid (error_code_to_u16 code) opcode.AtomicReq 0 c"
| "atomic_cqe wrid _ c = cqe wrid 0 opcode.AtomicReq 8 c"

lemma atomic_reply_ok:
  "message_wf (atomic_reply wrid res c)" "\<not> is_credit_update (atomic_reply wrid res c)"
  "h_sequence (message_header (atomic_reply wrid res c)) = se_next_seq (peer_session c)"
  by (cases res; simp add: message_wf_def)+

lemma atomic_answered:
  fixes c :: "server_peer rdows_connection" and wrid :: u64
  assumes sync: "in_sync cfg c" and "unat (se_max_msg_size (peer_session c)) \<ge> 40"
    and "aq_atomic_type p = ATOMIC_TYPE_CAS \<or> aq_atomic_type p = ATOMIC_TYPE_FAA"
    and op: "atomic_op (aq_rkey p) (aq_remote_va p) (aq_atomic_type p) (aq_operand1 p) (aq_operand2 p)
      (remote c) = (res, st)"
    and "res \<noteq> Panic" and "res \<noteq> Blocked"
  shows "answers env c (AtomicReq (header_new opcode.AtomicReq (cn_session_id c) (cn_next_seq c) wrid) p)
    ((peer_session c)\<lparr>se_expected_remote_seq := Some (cn_next_seq c + 1),
      se_memory_store := st, se_next_seq := se_next_seq (peer_session c) + 1\<rparr>) (atomic_reply wrid res c)"
proof -
  let ?h = "header_new opcode.AtomicReq (cn_session_id c) (cn_next_seq c) wrid"
  obtain s k where c: "peer_session c = s" "peer_sink c = k" "sink_up k" "se_session_id s = cn_session_id c"
    using sync by (rule in_syncE)
  have "admitted s (on_wire (AtomicReq ?h p))"
    using sync_admitted [OF sync, of "AtomicReq ?h p"] c assms(2)
    by (simp add: header_new_def atomic_req_payload_encode_def)
  then show ?thesis
    using c assms(3,5,6) op by (cases res)
      (auto simp: handle_message_admitted handle_ready_def dispatch_def handle_atomic_req_def
        answers_def remote_def split: prod.split)
qed

lemma post_atomic_eq:
  assumes sync: "in_sync cfg c" and cq: "\<not> cq_is_full (cn_cq c)"
    and size: "unat (se_max_msg_size (peer_session c)) \<ge> 40"
    and ty: "ty = ATOMIC_TYPE_CAS \<or> ty = ATOMIC_TYPE_FAA"
    and op: "atomic_op rk va ty op1 op2 (remote c) = (res, st)"
  shows "\<exists>c'. post_atomic (server_net env) wrid rk va ty op1 op2 c = (map_err Protocol res, c') \<and>
    in_sync cfg c' \<and> remote c' = st \<and> local_bytes c' = local_bytes c \<and> same_link c c' \<and>
    cq_entries (cn_cq c') = cq_entries (cn_cq c) @ [atomic_cqe wrid res c]"
proof -
  obtain s k where c: "peer_session c = s" "se_state s = Ready" "se_pending_op s = NoPending"
      "se_session_id s = cn_session_id c" "se_pd s = cn_pd c" "session_ok cfg s"
    using sync by (rule in_syncE)
  let ?h = "header_new opcode.AtomicReq (cn_session_id c) (cn_next_seq c) wrid"
  let ?p = "\<lparr>aq_rkey = rk, aq_atomic_type = ty, aq_remote_va = va, aq_operand1 = op1, aq_operand2 = op2\<rparr>"
  let ?s' = "s\<lparr>se_expected_remote_seq := Some (cn_next_seq c + 1),
    se_memory_store := st, se_next_seq := se_next_seq s + 1\<rparr>"
  let ?c0 = "exchanged ?s' (push [atomic_reply wrid res c] (peer_sink c)) c"
  have "store_inv (remote c)" using c by (simp add: session_ok_def remote_def)
  then have stuck: "res \<noteq> Panic" "res \<noteq> Blocked"
    using atomic_op_not_stuck [of "remote c" rk va ty op1 op2] op by auto
  have ans: "answers env c (AtomicReq ?h ?p) ?s' (atomic_reply wrid res c)"
    using atomic_answered [OF sync size, of ?p res st env wrid] ty op stuck c by simp
  have wf: "message_wf (AtomicReq ?h ?p)" by (simp add: message_wf_def)
  note step = exchange [OF sync wf ans _ _ _ _ _ _ atomic_reply_ok]
  have "in_sync cfg ?c0" using step(1) c by simp
  moreover have "post_atomic (server_net env) wrid rk va ty op1 op2 c =
      (map_err Protocol res, cn_complete wrid (cqe_status (atomic_cqe wrid res c)) opcode.AtomicReq
        (cqe_byte_count (atomic_cqe wrid res c)) ?c0)"
    using cq c stuck by (cases res) (simp_all add: post_atomic_def step(2))
  ultimately show ?thesis using cq c by (cases res) (simp_all add: cn_complete_cq same_link_def)
qed

section \<open>Writes\<close>

fun write_reply :: "u64 \<Rightarrow> (error_code, unit) result \<Rightarrow> session \<Rightarrow> rdows_message" where
  "write_reply wrid (Ok _) s = WriteComp (header_new opcode.WriteComp (se_session_id s) (se_next_seq s) wrid)"
| "write_reply wrid (Err code) s = error_reply code 0 [] s"
| "write_reply wrid _ s = error_reply ErrInternal 0 [] s"

fun write_cqe :: "u64 \<Rightarrow> (error_code, unit) result \<Rightarrow> nat \<Rightarrow> server_peer rdows_connection \<Rightarrow> completion_queue_entry" where
  "write_cqe wrid (Err code) n c = cqe wrid (error_code_to_u16 code) opcode.Write 0 c"
| "write_cqe wrid _ n c = cqe wrid 0 opcode.Write (of_nat n) c"

lemma write_reply_ok:
  "message_wf (write_reply wrid res s)" "\<not> is_credit_update (write_reply wrid res s)"
  "h_sequence (message_header (write_reply wrid res s)) = se_next_seq s"
  by (cases res; simp add: message_wf_def)+

text \<open>The first half of a write: the session accepts the request and waits for the data.\<close>

lemma write_opened:
  assumes sync: "in_sync cfg c" and allowed: "mr_allows REMOTE_WRITE (remote c) (wp_rkey p)"
    and size: "write_payload_encoded_len p \<le> unat (se_max_msg_size (peer_session c))"
    and h: "h = header_new opcode.Write (cn_session_id c) (cn_next_seq c) wrid"
  shows "cn_send (server_net env) (Write h p) (c\<lparr>cn_next_seq := cn_next_seq c + 1\<rparr>) =
    (Ok (), c\<lparr>cn_next_seq := cn_next_seq c + 1, cn_socket := ((((peer_session c)
       \<lparr>se_expected_remote_seq := Some (cn_next_seq c + 1), se_pending_op :=
         AwaitingWriteData wrid (wp_rkey p) (wp_remote_va p) (wp_length p)\<rparr>, peer_sink c), True), [])\<rparr>)"
proof -
  obtain s k where c: "cn_socket c = (((s, k), True), [])" "peer_session c = s" "peer_sink c = k"
      "se_state s = Ready"
    using sync by (rule in_syncE)
  let ?c1 = "c\<lparr>cn_next_seq := cn_next_seq c + 1\<rparr>"
  let ?s' = "s\<lparr>se_expected_remote_seq := Some (cn_next_seq c + 1), se_pending_op :=
         AwaitingWriteData wrid (wp_rkey p) (wp_remote_va p) (wp_length p)\<rparr>"
  obtain now os_rng where env: "env (s, k) = (now, os_rng)" by (metis surj_pair)
  have wf: "message_wf (Write h p)"
    using size unat_less_u32 [of "se_max_msg_size (peer_session c)"] by (simp add: message_wf_def h)
  have adm: "admitted s (on_wire (Write h p))"
    using sync_admitted [OF sync, of "Write h p"] size c by (simp add: h length_write_payload_encode)
  obtain e where "validate_rkey (wp_rkey p) REMOTE_WRITE (se_memory_store s) = Ok e"
    using allowed c by (auto simp: validate_rkey_eq mr_allows_def remote_def split: option.splits)
  with handle_write_ok [OF adm [simplified]]
  have "handle_message now os_rng (on_wire (Write h p)) (s, k) = (Ok (), (?s', push [] k))"
    by (simp add: h)
  with cn_send_server [of ?c1 s k "[]" "Write h p" env now os_rng ?s' "[]"] wf env c
  show ?thesis by simp
qed

text \<open>The second half: the data arrives and the session answers.\<close>

lemma write_closed:
  assumes sync: "in_sync cfg c" and size: "length data \<le> unat (se_max_msg_size (peer_session c))"
    and s1: "s1 = (peer_session c)\<lparr>se_expected_remote_seq := Some (cn_next_seq c + 1),
      se_pending_op := AwaitingWriteData wrid rk va len\<rparr>"
    and ok: "session_ok cfg s1"
    and op: "write_region rk va data (remote c) = (res, st)" and "res \<noteq> Panic" "res \<noteq> Blocked"
    and h: "h = header_new opcode.WriteData (cn_session_id c) (cn_next_seq c + 1) wrid"
    and s': "s' = (peer_session c)\<lparr>se_expected_remote_seq := Some (cn_next_seq c + 1 + 1),
      se_memory_store := st, se_next_seq := se_next_seq (peer_session c) + 1\<rparr>"
    and c1: "c1 = c\<lparr>cn_next_seq := cn_next_seq c + 1\<rparr>"
    and c0: "c0 = exchanged s' (push [write_reply wrid res (peer_session c)] (peer_sink c)) c1"
  shows "in_sync cfg c0"
    and "sbind (cn_send (server_net env) (WriteData h \<lparr>dp_data = data\<rparr>)
        (c1\<lparr>cn_socket := (((s1, peer_sink c), True), []), cn_next_seq := cn_next_seq c + 1 + 1\<rparr>))
      (\<lambda>_ c. sbind (recv_app_message c) f) = f (on_wire (write_reply wrid res (peer_session c))) c0"
proof -
  obtain s k where c: "peer_session c = s" "peer_sink c = k" "sink_up k" "se_state s = Ready"
      "se_pending_op s = NoPending" "se_session_id s = cn_session_id c" "se_pd s = cn_pd c"
      "cn_expected_remote_seq c = Some (se_next_seq s)" "local_inv c"
    using sync by (rule in_syncE)
  let ?d = "WriteData h \<lparr>dp_data = data\<rparr>" and ?r = "write_reply wrid res s"
  let ?c2 = "c1\<lparr>cn_socket := (((s1, k), True), []), cn_next_seq := cn_next_seq c + 1 + 1\<rparr>"
  obtain now os_rng where env: "env (s1, k) = (now, os_rng)" by (metis surj_pair)
  have wf: "message_wf ?d"
    using size unat_less_u32 [of "se_max_msg_size (peer_session c)"] by (simp add: message_wf_def h)
  have adm: "admitted s1 (on_wire ?d)"
    using size c by (intro admitted_on_wire) (simp_all add: s1 h data_payload_encode_def)
  have wr: "write_region rk va data (se_memory_store s1) = (res, st)"
    using op by (simp add: s1 remote_def)
  have hm: "handle_message now os_rng (on_wire ?d) (s1, k) = (Ok (), (s', push [?r] k))"
    using handle_write_data_cases [OF adm [simplified] c(3), where rk = rk and va = va and st = st and r = res]
      wr assms(6,7) c by (cases res) (simp_all add: s1 s' h)
  then have "session_ok cfg s'" using session_ok_step [OF ok] c by (simp add: s1)
  then show "in_sync cfg c0"
    unfolding c0 using c by (intro in_sync_exchanged) (simp_all add: c1 s' local_inv_def)
  show "sbind (cn_send (server_net env) ?d
        (c1\<lparr>cn_socket := (((s1, peer_sink c), True), []), cn_next_seq := cn_next_seq c + 1 + 1\<rparr>))
      (\<lambda>_ c. sbind (recv_app_message c) f) = f (on_wire (write_reply wrid res (peer_session c))) c0"
    using request_answered [of ?c2 s1 k ?d env now os_rng s' ?r f] wf env hm c write_reply_ok [of wrid res s]
    by (simp add: c0 c1 s' exchanged_def)
qed

lemma ucast_of_nat_u32 [simp]: "ucast (of_nat n :: u64) = (of_nat n :: u32)"
  by transfer simp

lemma rdma_write_eq:
  assumes sync: "in_sync cfg c" and cq: "\<not> cq_is_full (cn_cq c)"
    and ga: "gather_sg_data (cn_local_mrs c) sgs = Ok data"
    and p: "p = \<lparr>wp_rkey = rk, wp_remote_va = va, wp_length = of_nat (length data), wp_sg_list = sgs\<rparr>"
    and size: "write_payload_encoded_len p \<le> unat (se_max_msg_size (peer_session c))"
    and size2: "length data \<le> unat (se_max_msg_size (peer_session c))"
    and allowed: "mr_allows REMOTE_WRITE (remote c) rk"
    and op: "write_region rk va data (remote c) = (res, st)"
  shows "\<exists>c'. rdma_write (server_net env) wrid rk va sgs c = (map_err Protocol res, c') \<and>
    in_sync cfg c' \<and> remote c' = st \<and> local_bytes c' = local_bytes c \<and>
    same_link c c' \<and>
    cq_entries (cn_cq c') = cq_entries (cn_cq c) @ [write_cqe wrid res (length data) c]"
proof -
  let ?n = "cn_next_seq c"
  define s1 where "s1 = (peer_session c)\<lparr>se_expected_remote_seq := Some (?n + 1),
      se_pending_op := AwaitingWriteData wrid rk va (of_nat (length data))\<rparr>"
  define s' where "s' = (peer_session c)\<lparr>se_expected_remote_seq := Some (?n + 1 + 1),
      se_memory_store := st, se_next_seq := se_next_seq (peer_session c) + 1\<rparr>"
  define c1 where "c1 = c\<lparr>cn_next_seq := ?n + 1\<rparr>"
  define c0 where "c0 = exchanged s' (push [write_reply wrid res (peer_session c)] (peer_sink c)) c1"
  let ?h = "header_new opcode.Write (cn_session_id c) ?n wrid"
  let ?g = "header_new opcode.WriteData (cn_session_id c) (?n + 1) wrid"
  have ok: "session_ok cfg (peer_session c)" using sync by (simp add: in_sync_def)
  then have "store_inv (remote c)" by (simp add: session_ok_def remote_def)
  then have stuck: "res \<noteq> Panic" "res \<noteq> Blocked"
    using write_region_not_stuck [of "remote c" rk va data] op by auto
  have ok1: "session_ok cfg s1" using ok by (simp add: s1_def session_ok_def)
  note opened = write_opened [OF sync, of p ?h wrid env, unfolded p, simplified, OF allowed size [unfolded p]]
  note closed = write_closed [OF sync size2 s1_def ok1 op stuck refl s'_def c1_def c0_def]
  have "rdma_write (server_net env) wrid rk va sgs c =
      (map_err Protocol res, cn_complete wrid (cqe_status (write_cqe wrid res (length data) c)) opcode.Write
        (cqe_byte_count (write_cqe wrid res (length data) c)) c0)"
    using cq stuck by (cases res) (simp_all add: rdma_write_def ga opened s1_def [symmetric]
      closed(2) [unfolded c1_def, simplified])
  then show ?thesis
    using closed(1) cq c0_def by (cases res) (simp_all add: cn_complete_cq c1_def local_bytes_def s'_def fun_eq_iff same_link_def)
qed

end
