(* ===== verification/Remote_Ops.thy ===== *)
theory Remote_Ops
  imports End_To_End
begin

text \<open>
  What the verbs of a client achieve against a server session: connecting, registering,
  writing, reading and atomics change the two memories as the verb promises and leave both
  sides in agreement, with the one exception of a write that the session refuses.
\<close>

section \<open>Connecting and registering\<close>

definition fresh_peer :: "server_config \<Rightarrow> instant \<Rightarrow> server_peer" where
  "fresh_peer cfg now = ((session_new cfg now, up_sink), True)"

lemma names_rdows_ok: "response_ok (Some SUBPROTOCOL)"
  by code_simp

lemma up_sink_up [simp]: "sink_up up_sink"
  by (simp add: sink_up_def up_sink_def sink_new_def)

lemma connect_cases:
  assumes "\<not> starts_with url (lit ''ws://'')" and "dial url = Ok (Some SUBPROTOCOL, fresh_peer cfg now)"
  shows "case completion_queue_new (cc_cq_capacity config) :: (rdows_error, completion_queue) result of
      Ok q \<Rightarrow> \<exists>c. connect_with_config (server_net env) dial os_rng url config = Ok c \<and> in_sync cfg c \<and>
        remote c = memory_store_new (cfg_max_regions_per_session cfg) (cfg_max_total_bytes_per_session cfg) \<and>
        cn_session_id c = from_be (os_rng 0) \<and> cn_send_credits c = 65535 \<and> cn_local_mrs c = fmempty \<and>
        cn_cq c = q \<and> cn_max_msg_size c = 16777216 \<and> se_max_msg_size (peer_session c) = 16777216 \<and>
        se_mr_reg_count (peer_session c) = 0 \<and>
        se_recv_queue_depth (peer_session c) = cfg_recv_queue_depth cfg \<and>
        se_sends_since_last_credit (peer_session c) = 0
    | _ \<Rightarrow> connect_with_config (server_net env) dial os_rng url config = Panic"
proof -
  let ?h = "header_new opcode.Connect (from_be (os_rng 0)) 0 0"
  let ?p = "\<lparr>cp_pd = ProtectionDomain 1, cp_capability_flags = 0, cp_max_msg_size = DEFAULT_MAX_MSG_SIZE,
    cp_icc = DEFAULT_ICC\<rparr>"
  let ?s = "session_new cfg now"
  let ?s' = "connected ?h ?p ?s" and ?r = "connect_ack ?h ?p ?s"
  obtain t rng where env: "env (?s, up_sink) = (t, rng)" by (metis surj_pair)
  have wf: "message_wf (Connect ?h ?p)" "message_wf ?r" by (simp_all add: message_wf_def connect_ack_def)
  have wire: "on_wire (Connect ?h ?p) = Connect (?h\<lparr>h_payload_length := of_nat (length (connect_payload_encode ?p))\<rparr>) ?p"
    by (simp add: on_wire_def)
  have hm: "handle_message t rng (on_wire (Connect ?h ?p)) (?s, up_sink) = (Ok (), (?s', push [?r] up_sink))"
    unfolding wire by (subst handle_connect_ok)
      (simp_all add: session_new_def up_sink_def sink_new_def connected_def connect_ack_def header_new_def)
  have "session_ok cfg ?s'"
    using session_ok_step [OF session_ok_new _ hm] by (simp add: session_new_def)
  moreover have "server_net env (message_encode (Connect ?h ?p)) (fresh_peer cfg now) =
      ((Ok (), [Item (Binary (message_encode ?r))]), ((?s', push [?r] up_sink), True))"
    using serve_frame_encode [OF wf(1), of env ?s up_sink t rng ?s' "[?r]"] env hm
    by (simp add: fresh_peer_def connected_def)
  moreover have "message_decode (message_encode ?r) = Ok (on_wire ?r)" using wf(2) by (rule message_decode_encode)
  ultimately show ?thesis
    using assms names_rdows_ok
    by (auto simp: connect_with_config_def completion_queue_new_def connect_def socket_send_def in_sync_def peer_session_def
        peer_sink_def remote_def connect_ack_def connected_def on_wire_def local_inv_def Let_def
        session_new_def DEFAULT_MAX_MSG_SIZE_def DEFAULT_ICC_def)
qed

lemma completion_queue_new_ok:
  "capacity * 24 \<le> isize_max \<Longrightarrow> completion_queue_new capacity = Ok \<lparr>cq_entries = [], cq_capacity = capacity\<rparr>"
  by (simp add: completion_queue_new_def CQE_MEM_SIZE_def)

lemma connect_ok:
  assumes "\<not> starts_with url (lit ''ws://'')" and "dial url = Ok (Some SUBPROTOCOL, fresh_peer cfg now)"
    and "cc_cq_capacity config * 24 \<le> isize_max"
  shows "\<exists>c. connect_with_config (server_net env) dial os_rng url config = Ok c \<and> in_sync cfg c \<and>
    remote c = memory_store_new (cfg_max_regions_per_session cfg) (cfg_max_total_bytes_per_session cfg) \<and>
    cn_session_id c = from_be (os_rng 0) \<and> cn_send_credits c = 65535 \<and> cn_local_mrs c = fmempty \<and>
    cn_cq c = \<lparr>cq_entries = [], cq_capacity = cc_cq_capacity config\<rparr> \<and>
    cn_max_msg_size c = 16777216 \<and> se_max_msg_size (peer_session c) = 16777216 \<and>
    se_mr_reg_count (peer_session c) = 0 \<and>
    se_recv_queue_depth (peer_session c) = cfg_recv_queue_depth cfg \<and>
    se_sends_since_last_credit (peer_session c) = 0"
  using connect_cases [of url dial cfg now env os_rng config, OF assms(1,2)]
  by (simp add: completion_queue_new_ok [OF assms(3)])

text \<open>
  (C22) Connecting to a server: over a dialled and upgraded connection to a fresh session of
  the server, the client's handshake succeeds and leaves the two sides in agreement about the
  session id, the protection domain and both sequence numbers. The server's memory is empty
  with the configured quotas, the client has no local regions, an empty completion queue and
  the 65535 send credits of the server, and the message size limit is the same on both sides.
  Only a completion queue that exceeds the address space makes the call panic, after the
  handshake.
\<close>

theorem connect_agrees:
  assumes "\<not> starts_with url (lit ''ws://'')" and "dial url = Ok (Some SUBPROTOCOL, fresh_peer cfg now)"
  shows "case completion_queue_new (cc_cq_capacity config) :: (rdows_error, completion_queue) result of
      Ok q \<Rightarrow> \<exists>c. connect_with_config (server_net env) dial os_rng url config = Ok c \<and> in_sync cfg c \<and>
        remote c = memory_store_new (cfg_max_regions_per_session cfg) (cfg_max_total_bytes_per_session cfg) \<and>
        cn_session_id c = from_be (os_rng 0) \<and> cn_send_credits c = 65535 \<and> cn_local_mrs c = fmempty \<and>
        cn_cq c = q \<and> cn_max_msg_size c = 16777216 \<and> se_max_msg_size (peer_session c) = 16777216
    | _ \<Rightarrow> connect_with_config (server_net env) dial os_rng url config = Panic"
  using connect_cases [of url dial cfg now env os_rng config] assms by (auto split: result.splits)

theorem connect_agrees_witness:
  "\<exists>c. connect_with_config (server_net (\<lambda>_. (0, \<lambda>_. []))) (\<lambda>_. Ok (Some SUBPROTOCOL, fresh_peer sample_cfg 0))
      (\<lambda>_. [0, 0, 0, 7]) (lit ''wss://host'') connect_config_default = Ok c \<and> in_sync sample_cfg c \<and>
    cn_session_id c = 7 \<and> remote c = memory_store_new 4 64"
proof -
  have url: "\<not> starts_with (lit ''wss://host'') (lit ''ws://'')" by code_simp
  have sid: "from_be [0, 0, 0, 7] = (7 :: u32)" by code_simp
  have "completion_queue_new (cc_cq_capacity connect_config_default) =
      (Ok \<lparr>cq_entries = [], cq_capacity = 65536\<rparr> :: (rdows_error, completion_queue) result)"
    by (simp add: completion_queue_new_ok connect_config_default_def DEFAULT_CQ_CAPACITY_def)
  moreover have "cfg_max_regions_per_session sample_cfg = 4" "cfg_max_total_bytes_per_session sample_cfg = 64"
    by (simp_all add: sample_cfg_def)
  ultimately show ?thesis
    using connect_agrees [OF url, of "\<lambda>_. Ok (Some SUBPROTOCOL, fresh_peer sample_cfg 0)" sample_cfg 0
        "\<lambda>_. (0, \<lambda>_. [])" "\<lambda>_. [0, 0, 0, 7]" connect_config_default] sid
    by auto
qed

lemma window_pd [simp]: "se_pd (window now s) = se_pd s"
  by (simp add: window_def)

lemma window_max_msg_size [simp]: "se_max_msg_size (window now s) = se_max_msg_size s"
  by (simp add: window_def)

lemma window_registered [simp]:
  "se_mr_reg_count (window now ((window now s)\<lparr>se_expected_remote_seq := e, se_mr_reg_count := n,
     se_memory_store := st, se_next_seq := q\<rparr>)) = n"
  by (simp add: window_def ONE_SECOND_def)

lemma vec_zeroed_small: "n \<le> isize_max \<Longrightarrow> vec_zeroed n = Ok (replicate n 0)"
  by (simp add: vec_zeroed_def)

lemma reg_mr_ok:
  assumes "in_sync cfg c" and "unat (se_max_msg_size (peer_session c)) \<ge> 16"
    and "env (peer_session c, peer_sink c) = (now, os_rng)"
    and "se_mr_reg_count (window now (peer_session c)) < cfg_mr_reg_rate_limit cfg"
    and "register os_rng (cn_pd c) fl len (remote c) = (Ok (lk, rk), st)"
  shows "\<exists>c'. reg_mr (server_net env) fl len c = (Ok \<lparr>mh_lkey = lk, mh_rkey = rk, mh_len = len,
      mh_local_buf = replicate (unat len) 0\<rparr>, c') \<and> in_sync cfg c' \<and> remote c' = st \<and>
    local_bytes c' = (local_bytes c)(lk \<mapsto> replicate (unat len) 0) \<and> cn_cq c' = cn_cq c \<and>
    cn_pd c' = cn_pd c \<and> cn_session_id c' = cn_session_id c \<and> cn_send_credits c' = cn_send_credits c \<and>
    peer_session c' = (window now (peer_session c))\<lparr>se_expected_remote_seq := Some (cn_next_seq c + 1),
      se_mr_reg_count := se_mr_reg_count (window now (peer_session c)) + 1, se_memory_store := st,
      se_next_seq := se_next_seq (peer_session c) + 1\<rparr>"
proof -
  obtain s k where c: "peer_session c = s" "peer_sink c = k" "sink_up k" "se_state s = Ready"
      "se_pending_op s = NoPending" "se_session_id s = cn_session_id c" "se_pd s = cn_pd c"
      "session_ok cfg s" "local_inv c"
    using assms(1) by (rule in_syncE)
  let ?h = "header_new opcode.MrReg (cn_session_id c) (cn_next_seq c) 0"
  let ?p = "\<lparr>mr_pd = cn_pd c, mr_access_flags = fl, mr_region_len = len, mr_suggested_lkey = None\<rparr>"
  let ?r = "MrRegAck (header_new opcode.MrRegAck (cn_session_id c) (se_next_seq s) 0)
        \<lparr>mra_pd = cn_pd c, mra_lkey = lk, mra_rkey = rk, mra_status = 0\<rparr>"
  let ?s' = "(window now s)\<lparr>se_expected_remote_seq := Some (cn_next_seq c + 1),
      se_mr_reg_count := se_mr_reg_count (window now s) + 1, se_memory_store := st,
      se_next_seq := se_next_seq s + 1\<rparr>"
  have len: "unat len \<le> isize_max" using assms(5) by (rule register_OkE)
  have adm: "admitted s (on_wire (MrReg ?h ?p))"
    using sync_admitted [OF assms(1), of "MrReg ?h ?p"] assms(2) c
    by (simp add: length_mr_reg_payload_encode mr_reg_payload_encoded_len_def)
  have rate: "se_mr_reg_rate_limit s = cfg_mr_reg_rate_limit cfg" using c by (simp add: session_ok_def)
  have ans: "answers env c (MrReg ?h ?p) ?s' ?r"
    using handle_mr_reg_ok [OF adm [simplified] c(3), of now os_rng lk rk st] assms(3,4,5) rate c
    by (simp add: answers_def remote_def)
  note step = exchange [OF assms(1) _ ans, simplified message_wf_def]
  define c0 where "c0 = exchanged ?s' (push [?r] k) c"
  define mh where "mh = \<lparr>mh_lkey = lk, mh_rkey = rk, mh_len = len, mh_local_buf = replicate (unat len) 0\<rparr>"
  let ?c' = "c0\<lparr>cn_local_mrs := fmupd (lkey_val lk) mh (cn_local_mrs c0)\<rparr>"
  have sync: "in_sync cfg c0" using step(1) c by (simp add: c0_def)
  have "reg_mr (server_net env) fl len c = (Ok mh, ?c')"
    using c len by (simp add: reg_mr_def send_and_recv_def sbind_assoc step(2) vec_zeroed_small c0_def mh_def)
  moreover have "local_inv ?c'" using sync len by (simp add: in_sync_def local_inv_def mh_def)
  moreover have "remote c0 = st" "cn_cq c0 = cn_cq c" "local_bytes c0 = local_bytes c" "cn_pd c0 = cn_pd c"
      "cn_session_id c0 = cn_session_id c" "cn_send_credits c0 = cn_send_credits c" "peer_session c0 = ?s'"
    by (simp_all add: c0_def)
  ultimately show ?thesis
    using in_sync_local_mrs [OF sync] c(1) by (simp add: local_bytes_update mh_def)
qed

lemma handle_mr_dereg_ok:
  assumes "admitted s (MrDereg h p)" and "sink_up k"
    and "deregister (md_pd p) (md_lkey p) (se_memory_store s) = (res, st)" and "res \<noteq> Panic" and "res \<noteq> Blocked"
  shows "handle_message now os_rng (MrDereg h p) (s, k) =
    (Ok (), (s\<lparr>se_expected_remote_seq := Some (h_sequence h + 1), se_memory_store := st,
       se_next_seq := se_next_seq s + 1\<rparr>,
     push [MrDeregAck (header_new opcode.MrDeregAck (se_session_id s) (se_next_seq s) (h_wrid h))
       \<lparr>mda_status = (case res of Err code \<Rightarrow> error_code_to_u16 code | _ \<Rightarrow> 0)\<rparr>] k))"
  using assms by (cases res) (simp_all add: handle_message_admitted handle_ready_def dispatch_def handle_mr_dereg_def)

lemma error_code_to_u16_0: "error_code_to_u16 code = 0 \<longleftrightarrow> code = Success"
  by (cases code) simp_all

text \<open>Removing a region: the store's answer, and the local buffer goes when the region does.\<close>

lemma dereg_mr_ok:
  assumes sync: "in_sync cfg c" and size: "unat (se_max_msg_size (peer_session c)) \<ge> 40"
    and op: "deregister (cn_pd c) lk (remote c) = (res, st)"
  shows "\<exists>c'. dereg_mr (server_net env) lk c = (map_err Protocol res, c') \<and> in_sync cfg c' \<and> remote c' = st \<and>
    same_link c c' \<and> cn_cq c' = cn_cq c \<and>
    local_bytes c' = (case res of Ok _ \<Rightarrow> (local_bytes c)(lk := None) | _ \<Rightarrow> local_bytes c)"
proof -
  obtain s k where c: "peer_session c = s" "peer_sink c = k" "sink_up k" "se_state s = Ready"
      "se_pending_op s = NoPending" "se_session_id s = cn_session_id c" "se_pd s = cn_pd c"
      "session_ok cfg s" "local_inv c"
    using sync by (rule in_syncE)
  have inv: "store_inv (remote c)" using c by (simp add: session_ok_def remote_def)
  have res: "res \<noteq> Panic" "res \<noteq> Blocked" "res \<noteq> Err Success"
    using op by (auto simp: deregister_eq [OF inv] split: option.splits if_split_asm)
  let ?h = "header_new opcode.MrDereg (cn_session_id c) (cn_next_seq c) 0"
  let ?p = "\<lparr>md_pd = cn_pd c, md_lkey = lk\<rparr>"
  let ?r = "MrDeregAck (header_new opcode.MrDeregAck (cn_session_id c) (se_next_seq s) 0)
    \<lparr>mda_status = (case res of Err code \<Rightarrow> error_code_to_u16 code | _ \<Rightarrow> 0)\<rparr>"
  let ?s' = "s\<lparr>se_expected_remote_seq := Some (cn_next_seq c + 1), se_memory_store := st, se_next_seq := se_next_seq s + 1\<rparr>"
  have adm: "admitted s (on_wire (MrDereg ?h ?p))"
    using sync_admitted [OF sync, of "MrDereg ?h ?p"] size c by (simp add: mr_dereg_payload_encode_def)
  have ans: "answers env c (MrDereg ?h ?p) ?s' ?r"
    using handle_mr_dereg_ok [OF adm [simplified] c(3), of res st] op res c
    by (simp add: answers_def remote_def split: prod.split)
  note step = exchange [OF sync _ ans, simplified message_wf_def]
  define c0 where "c0 = exchanged ?s' (push [?r] k) c"
  have sync0: "in_sync cfg c0" using step(1) c by (simp add: c0_def)
  have drop: "local_bytes (c0\<lparr>cn_local_mrs := fmdrop (lkey_val lk) (cn_local_mrs c0)\<rparr>) = (local_bytes c)(lk := None)"
    by (rule ext) (auto simp: local_bytes_def c0_def lkey.expand)
  have "in_sync cfg (c0\<lparr>cn_local_mrs := fmdrop (lkey_val lk) (cn_local_mrs c0)\<rparr>)"
    using sync0 by (intro in_sync_local_mrs) (auto simp: in_sync_def local_inv_def)
  moreover have "same_link c c0" "remote c0 = st" "cn_cq c0 = cn_cq c" "local_bytes c0 = local_bytes c"
    using c by (simp_all add: c0_def same_link_def)
  moreover have "dereg_mr (server_net env) lk c = (case res of
      Ok _ \<Rightarrow> (Ok (), c0\<lparr>cn_local_mrs := fmdrop (lkey_val lk) (cn_local_mrs c0)\<rparr>)
    | Err code \<Rightarrow> (Err (Protocol code), c0))"
    using c res by (cases res) (simp_all add: dereg_mr_def send_and_recv_def sbind_assoc step(2) c0_def error_code_to_u16_0)
  ultimately show ?thesis
    using sync0 drop res by (cases res) (auto simp: same_link_def)
qed

text \<open>
  Registering memory: when the session is within its rate limit and its store accepts
  the registration, the client gets a handle with the keys the store chose, a local region of
  zeros under that L_Key, and the remote memory is the store after the registration. The two
  sides stay in agreement.
\<close>

theorem reg_mr_end_to_end:
  assumes "in_sync cfg c" and "unat (se_max_msg_size (peer_session c)) \<ge> 16"
    and "env (peer_session c, peer_sink c) = (now, os_rng)"
    and "se_mr_reg_count (window now (peer_session c)) < cfg_mr_reg_rate_limit cfg"
    and "register os_rng (cn_pd c) fl len (remote c) = (Ok (lk, rk), st)"
  shows "\<exists>c'. reg_mr (server_net env) fl len c = (Ok \<lparr>mh_lkey = lk, mh_rkey = rk, mh_len = len,
      mh_local_buf = replicate (unat len) 0\<rparr>, c') \<and> in_sync cfg c' \<and> remote c' = st \<and>
    local_bytes c' = (local_bytes c)(lk \<mapsto> replicate (unat len) 0) \<and> cn_cq c' = cn_cq c"
  using reg_mr_ok [of cfg c env now os_rng fl len lk rk st] assms by blast

section \<open>The verbs\<close>

subsection \<open>A connected client with a registered region\<close>

definition sample_client :: "server_peer rdows_connection" where
  "sample_client = \<lparr>cn_socket = ((sample_mr_conn, True), []), cn_session_id = 7, cn_pd = ProtectionDomain 1,
     cn_max_msg_size = 4096, cn_next_seq = 2, cn_expected_remote_seq = Some 2, cn_send_credits = 65535,
     cn_cq = \<lparr>cq_entries = [], cq_capacity = 8\<rparr>, cn_local_mrs = fmupd 1 \<lparr>mh_lkey = LKey 1, mh_rkey = sample_rkey,
       mh_len = 16, mh_local_buf = [1, 2, 3, 4] @ replicate 12 0\<rparr> fmempty\<rparr>"

lemma sample_client_fields:
  "peer_session sample_client = fst sample_mr_conn" "peer_sink sample_client = snd sample_mr_conn"
  "remote sample_client = sample_store" "se_max_msg_size (fst sample_mr_conn) = 4096"
  "\<not> cq_is_full (cn_cq sample_client)" "cq_entries (cn_cq sample_client) = []"
  "cq_capacity (cn_cq sample_client) = 8"
  "local_bytes sample_client (LKey 1) = Some ([1, 2, 3, 4] @ replicate 12 0)"
  by (simp_all add: sample_client_def peer_session_def peer_sink_def remote_def sample_mr_conn_eq(2)
      sample_conn_fields cq_is_full_def local_bytes_def)

lemma sample_in_sync: "in_sync sample_cfg sample_client"
proof -
  have "se_pd (fst sample_conn) = ProtectionDomain 1"
    by (simp add: sample_conn_def sample_hello_def up_sink_def sink_new_def handle_connect_ok
        session_new_def connected_def)
  then show ?thesis
    using session_reach_ok [OF sample_mr_conn_reach] sample_mr_conn_eq(3)
    by (simp add: in_sync_def sample_client_fields sample_mr_conn_eq(2) sample_conn_fields)
      (simp add: sample_client_def local_inv_def)
qed

lemma sample_remote:
  "mr_bytes sample_store sample_rkey = Some (replicate 16 0)"
  "mr_allows REMOTE_WRITE sample_store sample_rkey" "mr_allows REMOTE_READ sample_store sample_rkey"
  by (simp_all add: mr_bytes_def mr_allows_def sample_lookup sample_allows)

abbreviation sample_env :: environment where
  "sample_env \<equiv> \<lambda>_. (0, sample_rng)"

abbreviation sample_sgl :: "scatter_gather_entry list" where
  "sample_sgl \<equiv> [\<lparr>sg_lkey = LKey 1, sg_offset = 1, sg_length = 3\<rparr>]"

lemma sample_gather: "gather_sg_data (cn_local_mrs sample_client) sample_sgl = Ok [2, 3, 4]"
  by (simp add: sample_client_def usize_add_def sub_slice_def)

lemma sample_faa:
  obtains st where "atomic_op sample_rkey 8 ATOMIC_TYPE_FAA 5 0 sample_store = (Ok 0, st)"
    and "mr_bytes st sample_rkey = Some (put_slice (replicate 16 0) 8 (to_be 8 (5 :: u64)))"
proof -
  have old: "word_at (replicate 16 0) 8 = 0" by code_simp
  have "keys_ok sample_store" using sample_inv by (simp add: store_inv_def)
  note upd = mr_bytes_update [OF this sample_lookup]
  show thesis
    by (rule that [of "mr_update sample_rkey (put_slice (replicate 16 0) 8 (to_be 8 (5 :: u64))) sample_store"])
      (simp_all add: atomic_op_eq [OF sample_inv] sample_lookup sample_allows old upd atomic_new_def
        ATOMIC_TYPE_CAS_def ATOMIC_TYPE_FAA_def)
qed

lemma sample_reads: "cfg_max_outstanding_reads sample_cfg \<noteq> 0"
  by (simp add: sample_cfg_def server_config_default_def)

theorem reg_mr_end_to_end_witness:
  "\<exists>c'. reg_mr (server_net (\<lambda>_. (0, \<lambda>_. [0, 0, 0, 9]))) sample_flags 16 sample_client =
     (Ok \<lparr>mh_lkey = LKey 2, mh_rkey = RKey 9, mh_len = 16, mh_local_buf = replicate 16 0\<rparr>, c') \<and>
     in_sync sample_cfg c'"
proof -
  have draw: "from_be [0, 0, 0, 9] = (9 :: u32)" by code_simp
  have "generate_rkey (\<lambda>_. [0, 0, 0, 9]) (sample_store\<lparr>ms_next_lkey := 3\<rparr>) =
      (Ok (RKey 9), sample_store\<lparr>ms_next_lkey := 3, ms_used_rkeys := {|9, 0xDEADBE00|}\<rparr>)"
    by (subst generate_rkey_first [of "\<lambda>_. [0, 0, 0, 9]", OF draw]) (simp_all add: sample_register_eq)
  then obtain st where reg: "register (\<lambda>_. [0, 0, 0, 9]) (cn_pd sample_client) sample_flags 16
      (remote sample_client) = (Ok (LKey 2, RKey 9), st)"
    by (simp add: sample_client_fields register_def sample_register_eq fcard_finsert_if fcard_fempty u64_add_def
        u32_add_def vec_zeroed_def Let_def)
  have "se_mr_reg_count (window 0 (peer_session sample_client)) < cfg_mr_reg_rate_limit sample_cfg"
    by (simp add: sample_client_fields sample_mr_conn_eq(2) window_def sample_conn_fields ONE_SECOND_def
        sample_cfg_def server_config_default_def)
  from reg_mr_end_to_end [OF sample_in_sync _ refl this reg] show ?thesis
    by (auto simp: sample_client_fields)
qed

text \<open>
  (C3) An RDMA WRITE through an R_Key that permits it implements the store's write: the data
  gathered from the local regions is written to the remote range when it fits, and when it
  does not the caller gets the store's error and nothing is written. Local regions do not
  change, one completion with the matching status is queued, and the two sides stay in
  agreement.
\<close>

theorem rdma_write_end_to_end:
  assumes "in_sync cfg c" and "\<not> cq_is_full (cn_cq c)"
    and "gather_sg_data (cn_local_mrs c) sgs = Ok data"
    and "WRITE_HEADER_SIZE + length sgs * SG_ENTRY_SIZE \<le> unat (se_max_msg_size (peer_session c))"
    and "length data \<le> unat (se_max_msg_size (peer_session c))"
    and "mr_bytes (remote c) rk = Some bs" and "mr_allows REMOTE_WRITE (remote c) rk"
  shows "\<exists>c' res. rdma_write (server_net env) wrid rk va sgs c = (map_err Protocol res, c') \<and>
    in_sync cfg c' \<and> local_bytes c' = local_bytes c \<and>
    (if unat va + length data \<le> length bs
     then res = Ok () \<and> mr_bytes (remote c') = (mr_bytes (remote c))(rk \<mapsto> put_slice bs (unat va) data)
     else res = Err ErrBounds \<and> remote c' = remote c) \<and>
    cq_entries (cn_cq c') = cq_entries (cn_cq c) @ [write_cqe wrid res (length data) c]"
proof -
  obtain res st where op: "write_region rk va data (remote c) = (res, st)" by (metis surj_pair)
  obtain e where e: "mr_lookup (remote c) rk = Some e" "af_contains (me_access_flags e) REMOTE_WRITE"
      "me_data e = bs"
    using assms(6,7) by (rule remote_bytesE)
  have inv: "store_inv (remote c)"
    using assms(1) by (simp add: in_sync_def session_ok_def remote_def)
  then have "keys_ok (remote c)" by (simp add: store_inv_def)
  note upd = mr_bytes_update [OF this e(1)]
  from rdma_write_eq [OF assms(1-3) refl _ assms(5,7) op, of env wrid] assms(4)
  obtain c' where "rdma_write (server_net env) wrid rk va sgs c = (map_err Protocol res, c')"
      "in_sync cfg c'" "remote c' = st" "local_bytes c' = local_bytes c"
      "cq_entries (cn_cq c') = cq_entries (cn_cq c) @ [write_cqe wrid res (length data) c]"
    by (auto simp: write_payload_encoded_len_def)
  moreover have "if unat va + length data \<le> length bs
      then res = Ok () \<and> mr_bytes st = (mr_bytes (remote c))(rk \<mapsto> put_slice bs (unat va) data)
      else res = Err ErrBounds \<and> st = remote c"
    using op e upd by (auto simp: write_region_eq [OF inv] split: if_split_asm)
  ultimately show ?thesis by (intro exI [of _ c'] exI [of _ res]) simp
qed

theorem rdma_write_end_to_end_witness:
  "\<exists>c'. rdma_write (server_net sample_env) 42 sample_rkey 4 sample_sgl sample_client = (Ok (), c') \<and>
     mr_bytes (remote c') sample_rkey = Some (put_slice (replicate 16 0) 4 [2, 3, 4])"
  using rdma_write_end_to_end [OF sample_in_sync sample_client_fields(5) sample_gather, of sample_rkey
      "replicate 16 0" sample_env 42 4]
  by (auto simp: sample_client_fields sample_remote WRITE_HEADER_SIZE_def SG_ENTRY_SIZE_def)

lemma fits_u32: "n \<le> unat (w :: u32) \<Longrightarrow> n < 4294967296"
  using unsigned_less [of w, where 'a = nat] by simp

text \<open>
  (C9) An RDMA READ through an R_Key that permits it, into a local range that is large
  enough, of a length whose READ_RESP fits the negotiated message size. When the remote range exists the call succeeds and the local region holds the
  remote bytes at the requested place and is otherwise unchanged; when it does not, the
  caller gets ERR_BOUNDS and the local regions do not change. Either way the remote memory is
  unchanged, one completion of the work request is queued, and the two sides stay in
  agreement.
\<close>

theorem rdma_read_end_to_end:
  assumes "in_sync cfg c" and "\<not> cq_is_full (cn_cq c)"
    and "unat (se_max_msg_size (peer_session c)) \<ge> 40" and "cfg_max_outstanding_reads cfg \<noteq> 0"
    and "unat read_len + 8 \<le> unat (se_max_msg_size (peer_session c))"
    and "mr_bytes (remote c) rk = Some bs" and "mr_allows REMOTE_READ (remote c) rk"
    and "local_bytes c lk = Some buf" and "unat lva + unat read_len \<le> length buf"
  shows "\<exists>c' res. rdma_read (server_net env) wrid rk va read_len lk lva c = (res, c') \<and>
    in_sync cfg c' \<and> remote c' = remote c \<and>
    (if unat va + unat read_len \<le> length bs
     then res = Ok () \<and>
       local_bytes c' = (local_bytes c)(lk \<mapsto> put_slice buf (unat lva) (sub_slice bs (unat va) (unat va + unat read_len))) \<and>
       cq_entries (cn_cq c') = cq_entries (cn_cq c) @ [cqe wrid 0 opcode.ReadReq (ucast read_len) c]
     else res = Err (Protocol ErrBounds) \<and> local_bytes c' = local_bytes c \<and>
       cq_entries (cn_cq c') = cq_entries (cn_cq c) @
         [cqe wrid (error_code_to_u16 ErrBounds) opcode.ReadReq 0 c])"
proof (cases "unat va + unat read_len \<le> length bs")
  case True
  from rdma_read_ok [OF assms(1-4) fits_u32 [OF assms(5)] assms(6,7) this assms(8,9), of env wrid] show ?thesis
    using True by auto
next
  case False
  obtain e where e: "mr_lookup (remote c) rk = Some e" "af_contains (me_access_flags e) REMOTE_READ"
      "me_data e = bs"
    using assms(6,7) by (rule remote_bytesE)
  have "store_inv (remote c)" using assms(1) by (simp add: in_sync_def session_ok_def remote_def)
  then have refused: "read_region rk va read_len (remote c) = Err ErrBounds"
    using e False by (simp add: read_region_eq)
  obtain c0 where c0: "in_sync cfg c0" "remote c0 = remote c" "cn_local_mrs c0 = cn_local_mrs c"
      "cn_cq c0 = cn_cq c" "cn_session_id c0 = cn_session_id c"
    and rd: "rdma_read (server_net env) wrid rk va read_len lk lva c = (Err (Protocol ErrBounds),
      cn_complete wrid (error_code_to_u16 ErrBounds) opcode.ReadReq 0 c0)"
    using assms(1-4) fits_u32 [OF assms(5)] by (rule rdma_read_eq [where env = env and wrid = wrid and rk = rk and va = va
      and lk = lk and lva = lva]) (simp add: refused same_link_def)
  have "local_bytes c0 = local_bytes c" using c0(3) by (simp add: local_bytes_def fun_eq_iff)
  with c0 rd False assms(2) show ?thesis by (simp add: cn_complete_cq)
qed

theorem rdma_read_end_to_end_witness:
  "\<exists>c'. rdma_read (server_net sample_env) 43 sample_rkey 4 3 (LKey 1) 1 sample_client = (Ok (), c') \<and>
     local_bytes c' (LKey 1) = Some (put_slice ([1, 2, 3, 4] @ replicate 12 0) 1 (replicate 3 0))"
  using rdma_read_end_to_end [OF sample_in_sync sample_client_fields(5) _ sample_reads, of 3 sample_rkey
      "replicate 16 0" "LKey 1" "[1, 2, 3, 4] @ replicate 12 0" 1 sample_env 43 4]
  by (auto simp: sample_client_fields sample_remote sub_slice_def)

text \<open>
  (C10) The two atomic verbs implement the store's atomic operation: the caller gets the
  value or the error code the store returns, the remote memory changes as the store changes
  it (so not at all when the operation is refused), local regions do not change, one
  completion with the matching status is queued, and the two sides stay in agreement.
\<close>

theorem atomics_end_to_end:
  assumes "in_sync cfg c" and "\<not> cq_is_full (cn_cq c)"
    and "unat (se_max_msg_size (peer_session c)) \<ge> 40"
  shows "(\<exists>c'. let (res, st) = atomic_op rk va ATOMIC_TYPE_CAS expect swap (remote c) in
      atomic_cas (server_net env) wrid rk va expect swap c = (map_err Protocol res, c') \<and>
      in_sync cfg c' \<and> remote c' = st \<and> local_bytes c' = local_bytes c \<and>
      cq_entries (cn_cq c') = cq_entries (cn_cq c) @ [atomic_cqe wrid res c]) \<and>
    (\<exists>c'. let (res, st) = atomic_op rk va ATOMIC_TYPE_FAA addend 0 (remote c) in
      atomic_faa (server_net env) wrid rk va addend c = (map_err Protocol res, c') \<and>
      in_sync cfg c' \<and> remote c' = st \<and> local_bytes c' = local_bytes c \<and>
      cq_entries (cn_cq c') = cq_entries (cn_cq c) @ [atomic_cqe wrid res c])"
  using post_atomic_eq [OF assms _ prod.collapse [symmetric]] unfolding atomic_cas_def atomic_faa_def
  by (simp add: case_prod_beta) blast

theorem atomics_end_to_end_witness:
  "\<exists>c'. atomic_faa (server_net sample_env) 44 sample_rkey 8 5 sample_client = (Ok 0, c') \<and>
     mr_bytes (remote c') sample_rkey = Some (put_slice (replicate 16 0) 8 (to_be 8 (5 :: u64)))"
proof -
  obtain st where "atomic_op sample_rkey 8 ATOMIC_TYPE_FAA 5 0 sample_store = (Ok 0, st)"
    and "mr_bytes st sample_rkey = Some (put_slice (replicate 16 0) 8 (to_be 8 (5 :: u64)))"
    by (rule sample_faa)
  then show ?thesis
    using atomics_end_to_end [OF sample_in_sync sample_client_fields(5), of sample_rkey 8 0 0 sample_env 44 5]
    by (auto simp: sample_client_fields)
qed

text \<open>
  (C8) Data written to a remote region and read back: after an RDMA WRITE of data gathered
  locally and an RDMA READ of the same remote range, both of which succeed, the local
  destination holds exactly the data that was gathered.
\<close>

theorem write_then_read_back:
  assumes "in_sync cfg c" and "length (cq_entries (cn_cq c)) + 2 \<le> cq_capacity (cn_cq c)"
    and "gather_sg_data (cn_local_mrs c) sgs = Ok data"
    and "WRITE_HEADER_SIZE + length sgs * SG_ENTRY_SIZE \<le> unat (se_max_msg_size (peer_session c))"
    and "length data \<le> unat (se_max_msg_size (peer_session c))"
    and "unat (se_max_msg_size (peer_session c)) \<ge> 40" and "cfg_max_outstanding_reads cfg \<noteq> 0"
    and "mr_bytes (remote c) rk = Some bs" and "unat va + length data \<le> length bs"
    and "mr_allows REMOTE_WRITE (remote c) rk" and "mr_allows REMOTE_READ (remote c) rk"
    and "local_bytes c lk = Some buf" and "unat lva + length data \<le> length buf"
  shows "\<exists>c1 c2. rdma_write (server_net env) wrid rk va sgs c = (Ok (), c1) \<and>
    rdma_read (server_net env) wrid2 rk va (of_nat (length data)) lk lva c1 = (Ok (), c2) \<and>
    local_bytes c2 = (local_bytes c)(lk \<mapsto> put_slice buf (unat lva) data) \<and>
    mr_bytes (remote c2) = (mr_bytes (remote c))(rk \<mapsto> put_slice bs (unat va) data) \<and> in_sync cfg c2"
proof -
  have ok: "session_ok cfg (peer_session c)" using assms(1) by (simp add: in_sync_def)
  then have inv: "store_inv (remote c)" and small: "se_max_msg_size (peer_session c) \<le> DEFAULT_MAX_MSG_SIZE"
    by (simp_all add: session_ok_def remote_def)
  have "length data \<le> 16777216"
    using small assms(5) by (simp add: word_le_nat_alt DEFAULT_MAX_MSG_SIZE_def)
  then have len: "unat (of_nat (length data) :: u64) = length data" "length data + 8 < 4294967296"
    by (simp_all add: unat_of_nat_u64)
  obtain st where op: "write_region rk va data (remote c) = (Ok (), st)"
    using mem.store_Ok_iff [OF inv, of rk va data] assms(8-10) by (metis fst_conv surj_pair)
  note eff = mem.store_effect [OF inv op assms(8)]
  from rdma_write_eq [OF assms(1) _ assms(3) refl _ assms(5,10) op, of env wrid] assms(2,4)
  obtain c1 where w: "rdma_write (server_net env) wrid rk va sgs c = (Ok (), c1)"
      "in_sync cfg c1" "remote c1 = st" "local_bytes c1 = local_bytes c"
      "se_max_msg_size (peer_session c1) = se_max_msg_size (peer_session c)"
      "\<not> cq_is_full (cn_cq c1)"
    by (auto simp: write_payload_encoded_len_def cq_is_full_def same_link_def)
  let ?n = "of_nat (length data) :: u64"
  have "unat va + unat ?n \<le> length (put_slice bs (unat va) data)" using assms(9) len by simp
  from rdma_read_ok [OF w(2,6) _ assms(7) _ _ _ this, of rk lk buf lva env wrid2]
  obtain c2 where "rdma_read (server_net env) wrid2 rk va ?n lk lva c1 = (Ok (), c2)" "in_sync cfg c2"
      "local_bytes c2 = (local_bytes c)(lk \<mapsto> put_slice buf (unat lva) data)" "remote c2 = st"
    using w eff assms len by (auto simp: sub_slice_put_slice_same)
  with w eff show ?thesis by auto
qed

theorem write_then_read_back_witness:
  "\<exists>c1 c2. rdma_write (server_net sample_env) 45 sample_rkey 4 sample_sgl sample_client = (Ok (), c1) \<and>
     rdma_read (server_net sample_env) 46 sample_rkey 4 3 (LKey 1) 8 c1 = (Ok (), c2) \<and>
     local_bytes c2 (LKey 1) = Some (put_slice ([1, 2, 3, 4] @ replicate 12 0) 8 [2, 3, 4])"
  using write_then_read_back [OF sample_in_sync _ sample_gather, of sample_rkey "replicate 16 0" 4
      "LKey 1" "[1, 2, 3, 4] @ replicate 12 0" 8 sample_env 45 46] sample_reads
  by (auto simp: sample_client_fields sample_remote WRITE_HEADER_SIZE_def SG_ENTRY_SIZE_def)

section \<open>A refused write\<close>

lemma handle_atomic_ok:
  assumes "admitted s (AtomicReq h p)" and "sink_up k"
    and "aq_atomic_type p = ATOMIC_TYPE_CAS \<or> aq_atomic_type p = ATOMIC_TYPE_FAA"
    and "atomic_op (aq_rkey p) (aq_remote_va p) (aq_atomic_type p) (aq_operand1 p) (aq_operand2 p)
      (se_memory_store s) = (Ok v, st)"
  shows "\<exists>m. handle_message now os_rng (AtomicReq h p) (s, k) = (Ok (), (s\<lparr>se_expected_remote_seq :=
      Some (h_sequence h + 1), se_memory_store := st, se_next_seq := se_next_seq s + 1\<rparr>, push [m] k))"
  using assms by (auto simp: handle_message_admitted handle_ready_def dispatch_def handle_atomic_req_def)

lemma refused_write_leaves_error:
  assumes sync: "in_sync cfg c" and cq: "\<not> cq_is_full (cn_cq c)"
    and ga: "gather_sg_data (cn_local_mrs c) sgs = Ok data"
    and size: "WRITE_HEADER_SIZE + length sgs * SG_ENTRY_SIZE \<le> unat (se_max_msg_size (peer_session c))"
    and size2: "length data \<le> unat (se_max_msg_size (peer_session c))"
    and refused: "validate_rkey rk REMOTE_WRITE (remote c) = Err code"
    and s2: "s2 = (peer_session c)\<lparr>se_expected_remote_seq := Some (cn_next_seq c + 1 + 1),
      se_next_seq := se_next_seq (peer_session c) + 1 + 1\<rparr>"
    and e2: "e2 = error_reply ErrUnknownOpcode 0 (lit ''unexpected WRITE_DATA without preceding WRITE'')
      (bump (peer_session c))"
  shows "\<exists>k2. sink_up k2 \<and> rdma_write (server_net env) wrid rk va sgs c = (Err (Protocol code),
    cn_complete wrid (error_code_to_u16 code) opcode.Write 0 (c\<lparr>cn_next_seq := cn_next_seq c + 1 + 1,
      cn_socket := (((s2, k2), True), [Item (Binary (message_encode e2))]),
      cn_expected_remote_seq := Some (se_next_seq (peer_session c) + 1)\<rparr>))"
proof -
  obtain s k where c: "cn_socket c = (((s, k), True), [])" "peer_session c = s" "peer_sink c = k" "sink_up k"
      "se_state s = Ready" "se_pending_op s = NoPending"
      "cn_expected_remote_seq c = Some (se_next_seq s)"
    using sync by (rule in_syncE)
  let ?n = "cn_next_seq c"
  let ?h = "header_new opcode.Write (cn_session_id c) ?n wrid"
  let ?g = "header_new opcode.WriteData (cn_session_id c) (?n + 1) wrid"
  let ?p = "\<lparr>wp_rkey = rk, wp_remote_va = va, wp_length = of_nat (length data), wp_sg_list = sgs\<rparr>"
  let ?w = "Write ?h ?p" and ?d = "WriteData ?g \<lparr>dp_data = data\<rparr>"
  let ?s1 = "s\<lparr>se_expected_remote_seq := Some (?n + 1), se_next_seq := se_next_seq s + 1\<rparr>"
  let ?e1 = "error_reply code ?n [] s"
  let ?c1 = "c\<lparr>cn_next_seq := ?n + 1\<rparr>"
  let ?c2 = "c\<lparr>cn_socket := (((?s1, push [?e1] k), True), [Item (Binary (message_encode ?e1))]), cn_next_seq := ?n + 1 + 1\<rparr>"
  let ?c3 = "?c2\<lparr>cn_socket := (((s2, push [e2] (push [?e1] k)), True),
    [Item (Binary (message_encode ?e1)), Item (Binary (message_encode e2))])\<rparr>"
  obtain now rng where env: "env (s, k) = (now, rng)" by (metis surj_pair)
  obtain now2 rng2 where env2: "env (?s1, push [?e1] k) = (now2, rng2)" by (metis surj_pair)
  have max_size: "unat (se_max_msg_size (peer_session c)) < 4294967296" by (rule unat_less_u32)
  have wf: "message_wf ?w" "message_wf ?d" "message_wf ?e1"
    using max_size size size2 by (simp_all add: message_wf_def write_payload_encoded_len_def)
  have adm: "admitted s (on_wire ?w)"
    using sync_admitted [OF sync, of ?w] size c
    by (simp add: length_write_payload_encode write_payload_encoded_len_def)
  have hm: "handle_message now rng (on_wire ?w) (s, k) = (Ok (), (?s1, push [?e1] k))"
    using handle_write_refused [OF adm [simplified] c(4), of code now rng] refused c by (simp add: remote_def)
  have sent: "cn_send (server_net env) ?w ?c1 = (Ok (), ?c1\<lparr>cn_socket := (((?s1, push [?e1] k), True),
      [Item (Binary (message_encode ?e1))])\<rparr>)"
    using cn_send_server [of ?c1 s k "[]" ?w env now rng ?s1 "[?e1]"] wf env hm c by simp
  have adm2: "admitted ?s1 (on_wire ?d)"
    using size2 c by (intro admitted_on_wire) (simp_all add: data_payload_encode_def)
  have hm2: "handle_message now2 rng2 (on_wire ?d) (?s1, push [?e1] k) = (Ok (), (s2, push [e2] (push [?e1] k)))"
    using handle_write_data_unexpected [OF adm2 [simplified], of "push [?e1] k" now2 rng2] c by (simp add: s2 e2)
  have sent2: "cn_send (server_net env) ?d ?c2 = (Ok (), ?c3)"
    using cn_send_server [of ?c2 ?s1 "push [?e1] k" "[Item (Binary (message_encode ?e1))]" ?d env now2 rng2 s2 "[e2]"]
      wf env2 hm2 c by (simp add: s2)
  have "recv_app_message ?c3 = (Ok (on_wire ?e1), ?c3\<lparr>cn_socket := (((s2, push [e2] (push [?e1] k)), True),
      [Item (Binary (message_encode e2))]), cn_expected_remote_seq := Some (se_next_seq s + 1)\<rparr>)"
    using recv_app_message_next [of ?c3 _ ?e1 "[Item (Binary (message_encode e2))]"] wf c by simp
  then show ?thesis
    using cq c(4) by (intro exI [of _ "push [e2] (push [?e1] k)"]) (simp add: rdma_write_def ga sent sent2 [simplified] c)
qed

text \<open>
  (C36) A write the session refuses for its R_Key leaves the connection out of step: the
  session answers the request and its data with an ERROR each, the client takes only the
  first, and the next verb is answered with the second. Here that verb is a fetch-and-add
  through a valid key: the server performs the addition, and the client reports
  ERR_UNKNOWN_OPCODE for it.
\<close>

theorem refused_write_desynchronises:
  assumes "in_sync cfg c" and "length (cq_entries (cn_cq c)) + 2 \<le> cq_capacity (cn_cq c)"
    and "gather_sg_data (cn_local_mrs c) sgs = Ok data"
    and "WRITE_HEADER_SIZE + length sgs * SG_ENTRY_SIZE \<le> unat (se_max_msg_size (peer_session c))"
    and "length data \<le> unat (se_max_msg_size (peer_session c))"
    and "unat (se_max_msg_size (peer_session c)) \<ge> 40"
    and "validate_rkey rk REMOTE_WRITE (remote c) = Err code"
    and "atomic_op rk2 va2 ATOMIC_TYPE_FAA addend 0 (remote c) = (Ok v, st)"
  shows "\<exists>c1 c2. rdma_write (server_net env) wrid rk va sgs c = (Err (Protocol code), c1) \<and>
    atomic_faa (server_net env) wrid2 rk2 va2 addend c1 = (Err (Protocol ErrUnknownOpcode), c2) \<and>
    remote c2 = st"
proof -
  define s2 where "s2 = (peer_session c)\<lparr>se_expected_remote_seq := Some (cn_next_seq c + 1 + 1),
      se_next_seq := se_next_seq (peer_session c) + 1 + 1\<rparr>"
  define e2 where "e2 = error_reply ErrUnknownOpcode 0 (lit ''unexpected WRITE_DATA without preceding WRITE'')
      (bump (peer_session c))"
  have cq: "\<not> cq_is_full (cn_cq c)" using assms(2) by (simp add: cq_is_full_def)
  from refused_write_leaves_error [OF assms(1) cq assms(3-5,7) s2_def e2_def, of env wrid va]
  obtain k2 c1 where k2: "sink_up k2"
    and wr: "rdma_write (server_net env) wrid rk va sgs c = (Err (Protocol code), c1)"
    and c1: "cn_socket c1 = (((s2, k2), True), [Item (Binary (message_encode e2))])"
      "cn_next_seq c1 = cn_next_seq c + 1 + 1" "cn_session_id c1 = cn_session_id c"
      "cn_expected_remote_seq c1 = Some (se_next_seq (peer_session c) + 1)" "\<not> cq_is_full (cn_cq c1)"
    using assms(2) cq by (auto simp: cn_complete_cq cq_is_full_def)
  have ready: "se_state (peer_session c) = Ready" using assms(1) by (simp add: in_sync_def)
  let ?h = "header_new opcode.AtomicReq (cn_session_id c1) (cn_next_seq c1) wrid2"
  let ?a = "AtomicReq ?h \<lparr>aq_rkey = rk2, aq_atomic_type = ATOMIC_TYPE_FAA, aq_remote_va = va2,
    aq_operand1 = addend, aq_operand2 = 0\<rparr>"
  obtain now rng where env: "env (s2, k2) = (now, rng)" by (metis surj_pair)
  have "is_utf8 (lit ''unexpected WRITE_DATA without preceding WRITE'')" by code_simp
  then have wf: "message_wf ?a" "message_wf e2" by (simp_all add: message_wf_def e2_def lit_def)
  have adm: "admitted s2 (on_wire ?a)"
    using assms(6) ready c1 by (intro admitted_on_wire) (simp_all add: s2_def atomic_req_payload_encode_def)
  obtain m s3 where hm: "handle_message now rng (on_wire ?a) (s2, k2) = (Ok (), (s3, push [m] k2))"
    and s3: "se_state s3 = Ready" "se_memory_store s3 = st"
    using handle_atomic_ok [OF adm [simplified] k2, of v st now rng] assms(8) ready
    by (auto simp: s2_def remote_def)
  define c2 where "c2 = c1\<lparr>cn_next_seq := cn_next_seq c1 + 1, cn_socket := (((s3, push [m] k2), True),
      [Item (Binary (message_encode e2)), Item (Binary (message_encode m))])\<rparr>"
  have sent: "cn_send (server_net env) ?a (c1\<lparr>cn_next_seq := cn_next_seq c1 + 1\<rparr>) = (Ok (), c2)"
    using cn_send_server [of "c1\<lparr>cn_next_seq := cn_next_seq c1 + 1\<rparr>" s2 k2
        "[Item (Binary (message_encode e2))]" ?a env now rng s3 "[m]"] wf env hm s3 c1(1)
    by (simp add: c2_def)
  obtain c3 where recv: "recv_app_message c2 = (Ok (on_wire e2), c3)" "remote c3 = st"
    using recv_app_message_next [of c2 "((s3, push [m] k2), True)" e2 "[Item (Binary (message_encode m))]"]
      wf(2) c1(4) s3 by (simp add: e2_def c2_def remote_def peer_session_def)
  have "atomic_faa (server_net env) wrid2 rk2 va2 addend c1 = (Err (Protocol ErrUnknownOpcode),
      cn_complete wrid2 (error_code_to_u16 ErrUnknownOpcode) opcode.AtomicReq 0 c3)"
    using sent recv(1) c1(5) by (simp add: atomic_faa_def post_atomic_def e2_def)
  with wr recv(2) show ?thesis by auto
qed

theorem refused_write_desynchronises_witness:
  "\<exists>c1 c2. rdma_write (server_net sample_env) 47 (RKey 1) 0 sample_sgl sample_client = (Err (Protocol ErrInvalidMkey), c1) \<and>
     atomic_faa (server_net sample_env) 48 sample_rkey 8 5 c1 = (Err (Protocol ErrUnknownOpcode), c2) \<and>
     mr_bytes (remote c2) sample_rkey = Some (put_slice (replicate 16 0) 8 (to_be 8 (5 :: u64)))"
proof -
  obtain st where st: "atomic_op sample_rkey 8 ATOMIC_TYPE_FAA 5 0 sample_store = (Ok 0, st)"
    "mr_bytes st sample_rkey = Some (put_slice (replicate 16 0) 8 (to_be 8 (5 :: u64)))"
    by (rule sample_faa)
  have "validate_rkey (RKey 1) REMOTE_WRITE (remote sample_client) = Err ErrInvalidMkey"
    by (simp add: sample_client_fields validate_rkey_def sample_register_eq)
  from refused_write_desynchronises [OF sample_in_sync _ sample_gather _ _ _ this, of sample_rkey 8 5 0 st
      sample_env 47 0 48] st
  show ?thesis
    by (auto simp: sample_client_fields WRITE_HEADER_SIZE_def SG_ENTRY_SIZE_def)
qed

end
