(* ===== verification/Kv_Props.thy ===== *)
theory Kv_Props
  imports Kv_Store Remote_Ops
begin

text \<open>
  The key-value store over a connection to a server session. The network accesses of the
  store provide the slot contract, so what put, get and delete do to the decoded table holds
  for the table in the server's memory.
\<close>

section \<open>Definitions\<close>

definition kv_slot :: "server_peer kv_store \<Rightarrow> usize \<Rightarrow> bytes" where
  "kv_slot kv i = sub_slice (the (mr_bytes (remote (kv_conn kv)) (kv_remote_rkey kv)))
     (i * SLOT_SIZE) (i * SLOT_SIZE + SLOT_SIZE)"

text \<open>
  The store can do \<open>n\<close> more accesses: both sides agree, the remote region has the size of the
  table and permits reads and writes, the staging region has the size of a slot, no completion
  is waiting, a slot fits a message, and the work request ids do not run out.
\<close>

definition kv_ready :: "server_config \<Rightarrow> nat \<Rightarrow> server_peer kv_store \<Rightarrow> bool" where
  "kv_ready cfg n kv \<longleftrightarrow>
     in_sync cfg (kv_conn kv) \<and> cfg_max_outstanding_reads cfg \<noteq> 0 \<and>
     (\<exists>bs. mr_bytes (remote (kv_conn kv)) (kv_remote_rkey kv) = Some bs \<and> length bs = SLOT_COUNT * SLOT_SIZE) \<and>
     mr_allows REMOTE_READ (remote (kv_conn kv)) (kv_remote_rkey kv) \<and>
     mr_allows REMOTE_WRITE (remote (kv_conn kv)) (kv_remote_rkey kv) \<and>
     (\<exists>buf. local_bytes (kv_conn kv) (kv_local_lkey kv) = Some buf \<and> length buf = SLOT_SIZE) \<and>
     cq_entries (cn_cq (kv_conn kv)) = [] \<and> 0 < cq_capacity (cn_cq (kv_conn kv)) \<and>
     SLOT_SIZE \<le> unat (se_max_msg_size (peer_session (kv_conn kv))) \<and>
     unat (kv_next_wrid kv) + n < usize_limit"

text \<open>
  The set-up in \<open>main\<close> of the key-value server, from the connection on: register the remote
  table and the staging region, and make the store.
\<close>

definition kv_setup :: "'p network \<Rightarrow> 'p rdows_connection \<Rightarrow> (rdows_error, 'p kv_store) result \<times> 'p rdows_connection" where
  "kv_setup net conn =
     (let session_id = cn_session_id conn in
      sbind (reg_mr net (af_bitor REMOTE_WRITE REMOTE_READ) MR_SIZE conn) (\<lambda>remote_mr conn.
      sbind (reg_mr net LOCAL_WRITE (of_nat SLOT_SIZE) conn) (\<lambda>local_mr conn.
      (Ok (kv_store_new conn session_id (mh_rkey remote_mr) (mh_lkey local_mr)), conn))))"

section \<open>Lemmas\<close>

lemma in_sync_cq [simp]:
  "in_sync cfg (c\<lparr>cn_cq := q\<rparr>) = in_sync cfg c" "remote (c\<lparr>cn_cq := q\<rparr>) = remote c"
  "local_bytes (c\<lparr>cn_cq := q\<rparr>) = local_bytes c" "peer_session (c\<lparr>cn_cq := q\<rparr>) = peer_session c"
  by (simp_all add: in_sync_def peer_session_def peer_sink_def remote_def local_inv_def local_bytes_def fun_eq_iff)

lemma poll_one: "snd (cn_poll_cq (Suc 0) c) = c\<lparr>cn_cq := (cn_cq c)\<lparr>cq_entries := drop 1 (cq_entries (cn_cq c))\<rparr>\<rparr>"
  by (cases "cq_entries (cn_cq c)") (simp_all add: cn_poll_cq_def cq_poll_def Let_def min_def)

lemma next_wrid_ok:
  "unat (kv_next_wrid kv) + Suc n < usize_limit \<Longrightarrow>
     next_wrid kv = (Ok (kv_next_wrid kv), kv\<lparr>kv_next_wrid := kv_next_wrid kv + 1\<rparr>) \<and>
     unat (kv_next_wrid kv + 1) = unat (kv_next_wrid kv) + 1"
  by (simp add: next_wrid_def u64_add_def Let_def unat_word_ariths)

lemma sub_slice_all: "n = length data \<Longrightarrow> sub_slice data 0 n = data"
  by (simp add: sub_slice_def)

lemma slot_va:
  assumes "i < SLOT_COUNT"
  shows "unat (of_nat (i * SLOT_SIZE) :: u64) = i * SLOT_SIZE" and "i * SLOT_SIZE + SLOT_SIZE \<le> SLOT_COUNT * SLOT_SIZE"
proof -
  have "i * SLOT_SIZE < usize_limit" using assms by (simp add: slot_layout)
  then show "unat (of_nat (i * SLOT_SIZE) :: u64) = i * SLOT_SIZE" by (rule unat_of_nat_u64)
  show "i * SLOT_SIZE + SLOT_SIZE \<le> SLOT_COUNT * SLOT_SIZE" using assms by (simp add: slot_layout)
qed

lemma kv_read_ok:
  assumes ready: "kv_ready cfg (Suc n) kv" and i: "i < SLOT_COUNT"
  shows "\<exists>kv'. read_slot (server_net env) i kv = (Ok (kv_slot kv i), kv') \<and> kv_ready cfg n kv' \<and>
    (\<forall>j < SLOT_COUNT. kv_slot kv' j = kv_slot kv j)"
proof -
  let ?c = "kv_conn kv" and ?rk = "kv_remote_rkey kv" and ?lk = "kv_local_lkey kv"
  obtain bs buf where k: "in_sync cfg ?c" "cfg_max_outstanding_reads cfg \<noteq> 0"
      "mr_bytes (remote ?c) ?rk = Some bs" "length bs = SLOT_COUNT * SLOT_SIZE"
      "mr_allows REMOTE_READ (remote ?c) ?rk" "mr_allows REMOTE_WRITE (remote ?c) ?rk"
      "local_bytes ?c ?lk = Some buf" "length buf = SLOT_SIZE" "cq_entries (cn_cq ?c) = []"
      "0 < cq_capacity (cn_cq ?c)" "SLOT_SIZE \<le> unat (se_max_msg_size (peer_session ?c))"
      "unat (kv_next_wrid kv) + Suc n < usize_limit"
    using ready by (auto simp: kv_ready_def)
  note va = slot_va [OF i] and wrid = next_wrid_ok [OF k(12)]
  have data: "kv_slot kv i = sub_slice bs (i * SLOT_SIZE) (i * SLOT_SIZE + SLOT_SIZE)"
    using k(3) by (simp add: kv_slot_def)
  then have len: "length (kv_slot kv i) = SLOT_SIZE" using k(4) va by simp
  have size: "unat (of_nat SLOT_SIZE :: u64) = SLOT_SIZE" "SLOT_SIZE + 8 < 4294967296"
    "40 \<le> unat (se_max_msg_size (peer_session ?c))"
    using k(11) by (simp_all add: slot_layout)
  have "\<not> cq_is_full (cn_cq ?c)" using k(9,10) by (simp add: cq_is_full_def)
  then obtain c' where rd: "rdma_read (server_net env) (kv_next_wrid kv) ?rk (of_nat (i * SLOT_SIZE))
        (of_nat SLOT_SIZE) ?lk 0 ?c = (Ok (), c')"
      and c': "in_sync cfg c'" "local_bytes c' = (local_bytes ?c)(?lk \<mapsto> kv_slot kv i)" "remote c' = remote ?c"
        "se_max_msg_size (peer_session c') = se_max_msg_size (peer_session ?c)"
        "cq_capacity (cn_cq c') = cq_capacity (cn_cq ?c)" "length (cq_entries (cn_cq c')) = 1"
    using rdma_read_ok [OF k(1) _ _ k(2) _ k(3,5), of "of_nat SLOT_SIZE" "of_nat (i * SLOT_SIZE)" ?lk buf 0
        env "kv_next_wrid kv"] k va size len put_slice_all [of buf "kv_slot kv i"]
    by (auto simp: data [symmetric] same_link_def)
  let ?c1 = "snd (cn_poll_cq 1 c')"
  let ?kv = "kv\<lparr>kv_next_wrid := kv_next_wrid kv + 1, kv_conn := ?c1\<rparr>"
  have c1: "in_sync cfg ?c1" "local_bytes ?c1 = (local_bytes ?c)(?lk \<mapsto> kv_slot kv i)" "remote ?c1 = remote ?c"
      "se_max_msg_size (peer_session ?c1) = se_max_msg_size (peer_session ?c)"
      "cq_capacity (cn_cq ?c1) = cq_capacity (cn_cq ?c)" "cq_entries (cn_cq ?c1) = []"
    using c' by (simp_all add: poll_one)
  have "local_inv ?c1" using c1(1) by (simp add: in_sync_def)
  then have "read_local_mr ?lk 0 SLOT_SIZE ?c1 = Ok (kv_slot kv i)"
    using c1(2) len by (simp add: loc.load_Ok_iff sub_slice_all)
  then have "read_slot (server_net env) i kv = (Ok (kv_slot kv i), ?kv)"
    using wrid rd len by (simp add: read_slot_def)
  moreover have "kv_ready cfg n ?kv"
    using k c1 wrid len unfolding kv_ready_def by simp
  moreover have "kv_slot ?kv j = kv_slot kv j" for j using c1(3) by (simp add: kv_slot_def)
  ultimately show ?thesis by blast
qed

lemma sub_slice_put_slot:
  assumes "i < SLOT_COUNT" and "j < SLOT_COUNT" and "length bs = SLOT_COUNT * SLOT_SIZE" and "length data = SLOT_SIZE"
  shows "sub_slice (put_slice bs (i * SLOT_SIZE) data) (j * SLOT_SIZE) (j * SLOT_SIZE + SLOT_SIZE) =
    (if j = i then data else sub_slice bs (j * SLOT_SIZE) (j * SLOT_SIZE + SLOT_SIZE))"
proof (cases "j = i")
  case True
  then show ?thesis
    using sub_slice_put_slice_same [of "i * SLOT_SIZE" data bs] slot_va(2) [OF assms(1)] assms(3,4) by simp
next
  case False
  then have "j * SLOT_SIZE + SLOT_SIZE \<le> i * SLOT_SIZE \<or> i * SLOT_SIZE + SLOT_SIZE \<le> j * SLOT_SIZE"
    using mult_le_mono1 [of "Suc j" i SLOT_SIZE] mult_le_mono1 [of "Suc i" j SLOT_SIZE]
    by (cases "j < i") (simp_all add: add.commute)
  with False slot_va(2) [OF assms(1)] slot_va(2) [OF assms(2)] assms(3,4) show ?thesis
    by (simp add: sub_slice_put_slice_disjoint)
qed

lemma kv_write_ok:
  assumes ready: "kv_ready cfg (Suc n) kv" and i: "i < SLOT_COUNT" and len: "length data = SLOT_SIZE"
  shows "\<exists>kv'. write_slot (server_net env) i data kv = (Ok (), kv') \<and> kv_ready cfg n kv' \<and>
    (\<forall>j < SLOT_COUNT. kv_slot kv' j = (if j = i then data else kv_slot kv j))"
proof -
  let ?c = "kv_conn kv" and ?rk = "kv_remote_rkey kv" and ?lk = "kv_local_lkey kv"
  let ?sg = "[\<lparr>sg_lkey = ?lk, sg_offset = 0, sg_length = of_nat SLOT_SIZE\<rparr>]"
  obtain bs buf where k: "in_sync cfg ?c" "cfg_max_outstanding_reads cfg \<noteq> 0"
      "mr_bytes (remote ?c) ?rk = Some bs" "length bs = SLOT_COUNT * SLOT_SIZE"
      "mr_allows REMOTE_READ (remote ?c) ?rk" "mr_allows REMOTE_WRITE (remote ?c) ?rk"
      "local_bytes ?c ?lk = Some buf" "length buf = SLOT_SIZE" "cq_entries (cn_cq ?c) = []"
      "0 < cq_capacity (cn_cq ?c)" "SLOT_SIZE \<le> unat (se_max_msg_size (peer_session ?c))"
      "unat (kv_next_wrid kv) + Suc n < usize_limit"
    using ready by (auto simp: kv_ready_def)
  note va = slot_va [OF i] and wrid = next_wrid_ok [OF k(12)]
  have linv: "local_inv ?c" and inv: "store_inv (remote ?c)"
    using k(1) by (simp_all add: in_sync_def session_ok_def remote_def)
  obtain mrs where c1: "write_local_mr ?lk 0 data ?c = (Ok (), ?c\<lparr>cn_local_mrs := mrs\<rparr>)"
      and linv1: "local_inv (?c\<lparr>cn_local_mrs := mrs\<rparr>)"
      and lb: "local_bytes (?c\<lparr>cn_local_mrs := mrs\<rparr>) = (local_bytes ?c)(?lk \<mapsto> data)"
    using write_local_ok [OF linv k(7), of 0 data] k(8) len put_slice_all [of buf data] by auto
  let ?c1 = "?c\<lparr>cn_local_mrs := mrs\<rparr>"
  from linv1 have sync: "in_sync cfg ?c1" using in_sync_local_mrs [OF k(1)] by simp
  obtain mr where mr: "fmlookup mrs (lkey_val ?lk) = Some mr" "mh_local_buf mr = data"
    using lb local_bytes_SomeE [of ?c1 ?lk data] by auto
  have ga: "gather_sg_data (cn_local_mrs ?c1) ?sg = Ok data"
    using mr len by (simp add: usize_add_def sub_slice_all Let_def slot_layout)
  obtain st where op: "write_region ?rk (of_nat (i * SLOT_SIZE)) data (remote ?c) = (Ok (), st)"
    using mem.store_Ok_iff [OF inv, of ?rk "of_nat (i * SLOT_SIZE)" data] k(3,4,6) va len
    by (auto simp: prod_eq_iff)
  then have op1: "write_region ?rk (of_nat (i * SLOT_SIZE)) data (remote ?c1) = (Ok (), st)" by simp
  note eff = mem.store_effect [OF inv op k(3), unfolded va(1)]
  have size: "write_payload_encoded_len \<lparr>wp_rkey = ?rk, wp_remote_va = of_nat (i * SLOT_SIZE),
      wp_length = of_nat (length data), wp_sg_list = ?sg\<rparr> \<le> unat (se_max_msg_size (peer_session ?c1))"
    using k(11) by (simp add: slot_layout write_payload_encoded_len_def WRITE_HEADER_SIZE_def SG_ENTRY_SIZE_def)
  have size2: "length data \<le> unat (se_max_msg_size (peer_session ?c1))"
    and allowed: "mr_allows REMOTE_WRITE (remote ?c1) ?rk" and room: "\<not> cq_is_full (cn_cq ?c1)"
    using k len by (simp_all add: cq_is_full_def)
  obtain c' where wr: "rdma_write (server_net env) (kv_next_wrid kv) ?rk (of_nat (i * SLOT_SIZE)) ?sg ?c1 =
        (map_err Protocol (Ok ()), c')"
      and c': "in_sync cfg c'" "remote c' = st" "local_bytes c' = local_bytes ?c1"
        "se_max_msg_size (peer_session c') = se_max_msg_size (peer_session ?c1)"
        "cq_capacity (cn_cq c') = cq_capacity (cn_cq ?c1)"
        "cq_entries (cn_cq c') = cq_entries (cn_cq ?c1) @ [write_cqe (kv_next_wrid kv) (Ok ()) (length data) ?c1]"
    using rdma_write_eq [OF sync room ga refl size size2 allowed op1, of env "kv_next_wrid kv"]
    by (auto simp: same_link_def)
  let ?kv = "kv\<lparr>kv_next_wrid := kv_next_wrid kv + 1, kv_conn := snd (cn_poll_cq (Suc 0) c')\<rparr>"
  have "write_slot (server_net env) i data kv = (Ok (), ?kv)"
    using next_wrid_ok [of "kv\<lparr>kv_conn := ?c1\<rparr>" n] k(12) c1 wr
    by (simp add: write_slot_def del: of_nat_mult)
  moreover have "kv_ready cfg n ?kv"
    unfolding kv_ready_def using k(2,4-12) c' wrid len eff va(2) lb by (simp add: poll_one)
  moreover have "kv_slot ?kv j = (if j = i then data else kv_slot kv j)" if "j < SLOT_COUNT" for j
    using sub_slice_put_slot [OF i that k(4) len] c'(2) eff k(3) by (simp add: kv_slot_def poll_one)
  ultimately show ?thesis by blast
qed

text \<open>The network accesses provide the slot contract.\<close>

interpretation kv: slot_array "kv_ready cfg" kv_slot "read_slot (server_net env)" "write_slot (server_net env)"
proof unfold_locales
  fix n :: nat and s :: "server_peer kv_store" and m
  assume "kv_ready cfg n s" "m \<le> n"
  then show "kv_ready cfg m s" by (simp add: kv_ready_def)
qed (simp_all add: kv_read_ok kv_write_ok)

lemma sub_slice_replicate: "b \<le> n \<Longrightarrow> sub_slice (replicate n x) a b = replicate (b - a) x"
  by (simp add: sub_slice_def)

lemma kv_setup_ok:
  assumes "in_sync cfg c" and "cfg_max_outstanding_reads cfg \<noteq> 0"
    and "cq_entries (cn_cq c) = []" and "0 < cq_capacity (cn_cq c)"
    and "SLOT_SIZE \<le> unat (se_max_msg_size (peer_session c))"
    and "unat (se_mr_reg_count (window now (peer_session c))) + 1 < unat (cfg_mr_reg_rate_limit cfg)"
    and r1: "register os_rng (cn_pd c) (af_bitor REMOTE_WRITE REMOTE_READ) MR_SIZE (remote c) = (Ok (lk1, rk1), st1)"
    and r2: "register os_rng (cn_pd c) LOCAL_WRITE (of_nat SLOT_SIZE) st1 = (Ok (lk2, rk2), st2)"
    and "n + 2 < usize_limit"
  shows "\<exists>kv c'. kv_setup (server_net (\<lambda>_. (now, os_rng))) c = (Ok kv, c') \<and> kv_ready cfg n kv \<and>
    decodes (kv_slot kv) (\<lambda>_. None)"
proof -
  let ?env = "\<lambda>_ :: conn. (now, os_rng)"
  have sizes: "unat MR_SIZE = SLOT_COUNT * SLOT_SIZE" "unat (of_nat SLOT_SIZE :: u64) = SLOT_SIZE"
    by (simp_all add: MR_SIZE_def slot_layout)
  have size: "16 \<le> unat (se_max_msg_size (peer_session c))" using assms(5) by (simp add: slot_layout)
  have rate: "se_mr_reg_count (window now (peer_session c)) < cfg_mr_reg_rate_limit cfg"
    "se_mr_reg_count (window now (peer_session c)) + 1 < cfg_mr_reg_rate_limit cfg"
    using assms(6) unat_less_u32 [of "cfg_mr_reg_rate_limit cfg"]
    by (simp_all add: word_less_nat_alt unat_word_ariths)
  obtain c1 where c1: "reg_mr (server_net ?env) (af_bitor REMOTE_WRITE REMOTE_READ) MR_SIZE c =
        (Ok \<lparr>mh_lkey = lk1, mh_rkey = rk1, mh_len = MR_SIZE, mh_local_buf = replicate (unat MR_SIZE) 0\<rparr>, c1)"
      "in_sync cfg c1" "remote c1 = st1" "cn_cq c1 = cn_cq c" "cn_pd c1 = cn_pd c" "cn_session_id c1 = cn_session_id c"
      "se_max_msg_size (peer_session c1) = se_max_msg_size (peer_session c)"
      "se_mr_reg_count (window now (peer_session c1)) = se_mr_reg_count (window now (peer_session c)) + 1"
    using reg_mr_ok [of cfg c ?env now os_rng "af_bitor REMOTE_WRITE REMOTE_READ" MR_SIZE lk1 rk1 st1] assms(1) size rate(1) r1 by auto
  have size1: "16 \<le> unat (se_max_msg_size (peer_session c1))"
    and rate1: "se_mr_reg_count (window now (peer_session c1)) < cfg_mr_reg_rate_limit cfg"
    and r2': "register os_rng (cn_pd c1) LOCAL_WRITE (of_nat SLOT_SIZE) (remote c1) = (Ok (lk2, rk2), st2)"
    using size rate(2) r2 c1 by simp_all
  obtain c2 where c2: "reg_mr (server_net ?env) LOCAL_WRITE (of_nat SLOT_SIZE) c1 =
        (Ok \<lparr>mh_lkey = lk2, mh_rkey = rk2, mh_len = of_nat SLOT_SIZE, mh_local_buf = replicate (unat (of_nat SLOT_SIZE :: u64)) 0\<rparr>, c2)"
      "in_sync cfg c2" "remote c2 = st2"
      "local_bytes c2 = (local_bytes c1)(lk2 \<mapsto> replicate (unat (of_nat SLOT_SIZE :: u64)) 0)" "cn_cq c2 = cn_cq c1"
      "se_max_msg_size (peer_session c2) = se_max_msg_size (peer_session c1)"
    using reg_mr_ok [of cfg c1 ?env now os_rng LOCAL_WRITE "of_nat SLOT_SIZE" lk2 rk2 st2] c1(2) size1 rate1 r2' by auto
  have inv: "store_inv (remote c)" using assms(1) by (simp add: in_sync_def session_ok_def remote_def)
  note e1 = register_effect [OF inv r1]
  note e2 = register_effect [OF e1(1) r2]
  have "rk2 \<noteq> rk1" using e1(3) e2(2) by auto
  then have look: "mr_lookup st2 rk1 = Some \<lparr>me_pd = cn_pd c, me_lkey = lk1, me_rkey = rk1,
      me_access_flags = af_bitor REMOTE_WRITE REMOTE_READ, me_data = replicate (SLOT_COUNT * SLOT_SIZE) 0\<rparr>"
    using e1(3) e2(3) sizes by simp
  have flags: "af_contains (af_bitor REMOTE_WRITE REMOTE_READ) REMOTE_WRITE"
    "af_contains (af_bitor REMOTE_WRITE REMOTE_READ) REMOTE_READ" by code_simp+
  let ?kv = "kv_store_new c2 (cn_session_id c) rk1 lk2"
  have "kv_setup (server_net ?env) c = (Ok ?kv, c2)"
    by (simp add: kv_setup_def c1(1) c2(1))
  moreover have "kv_ready cfg n ?kv"
    unfolding kv_ready_def using c1 c2 assms look flags sizes
    by (simp add: kv_store_new_def mr_bytes_def mr_allows_def)
  moreover have "decodes (kv_slot ?kv) (\<lambda>_. None)"
    using slot_va(2) look c2(3)
    by (simp add: decodes_def kv_slot_def kv_store_new_def mr_bytes_def sub_slice_replicate decode_zero_slot)
  ultimately show ?thesis by blast
qed

lemma probe_path_two:
  "\<exists>rest. probe_path key = hash_key key # (hash_key key + 1) mod SLOT_COUNT # rest"
proof -
  have "[0..<SLOT_COUNT] = 0 # 1 # [2..<SLOT_COUNT]"
    using upt_conv_Cons [of 0 SLOT_COUNT] upt_conv_Cons [of 1 SLOT_COUNT]
    by (simp add: SLOT_COUNT_def numeral_2_eq_2 del: upt_rec_numeral)
  then show ?thesis using hash_key_less [of key] by (simp add: probe_path_def)
qed

subsection \<open>A store to start from\<close>

lemma generate_rkey_second:
  assumes "from_be (os_rng 0) |\<in>| ms_used_rkeys st" and "from_be (os_rng 1) = val" and "val \<noteq> 0"
    and "val |\<notin>| ms_used_rkeys st"
  shows "generate_rkey os_rng st =
    (Ok (RKey val), st\<lparr>ms_used_rkeys := finsert val (ms_used_rkeys st)\<rparr>)"
proof -
  have "generate_rkey os_rng st = generate_rkey_loop (Suc (Suc 998)) 0 os_rng st"
    by (simp add: generate_rkey_def)
  then show ?thesis using assms by (simp only: generate_rkey_loop.simps) (simp add: Let_def)
qed

abbreviation big_store :: memory_store where
  "big_store \<equiv> memory_store_new 4096 (32 * 1024 * 1024 * 1024)"

lemma sample_kv_registers:
  obtains st1 st2 where
    "register sample_rng pd (af_bitor REMOTE_WRITE REMOTE_READ) MR_SIZE big_store = (Ok (LKey 1, sample_rkey), st1)"
    and "register sample_rng pd LOCAL_WRITE (of_nat SLOT_SIZE) st1 = (Ok (LKey 2, RKey 0xDEADBE01), st2)"
proof -
  have draw: "from_be (sample_rng 0) = (0xDEADBE00 :: u32)" "from_be (sample_rng 1) = (0xDEADBE01 :: u32)"
    by code_simp+
  have sizes: "unat MR_SIZE = 65536" "MR_SIZE = 65536" "SLOT_SIZE = 1024"
    by (simp_all add: MR_SIZE_def slot_layout)
  have g1: "generate_rkey sample_rng (big_store\<lparr>ms_next_lkey := 2\<rparr>) = (Ok sample_rkey,
      big_store\<lparr>ms_next_lkey := 2, ms_used_rkeys := {|0xDEADBE00|}\<rparr>)"
    by (subst generate_rkey_first [of sample_rng, OF draw(1)]) (simp_all add: memory_store_new_def)
  define st1 where "st1 = snd (register sample_rng pd (af_bitor REMOTE_WRITE REMOTE_READ) MR_SIZE big_store)"
  have r1: "register sample_rng pd (af_bitor REMOTE_WRITE REMOTE_READ) MR_SIZE big_store =
      (Ok (LKey 1, sample_rkey), st1)"
    and st1: "fmdom (ms_regions st1) = {|1|}" "ms_total_registered_bytes st1 = 65536"
      "ms_next_lkey st1 = 2" "ms_used_rkeys st1 = {|0xDEADBE00|}" "ms_max_regions st1 = 4096"
      "ms_max_total_bytes st1 = 32 * 1024 * 1024 * 1024"
    using g1 unfolding st1_def
    by (simp_all add: register_def memory_store_new_def fcard_fempty u64_add_def u32_add_def vec_zeroed_def
        Let_def sizes)
  have "generate_rkey sample_rng (st1\<lparr>ms_next_lkey := 3\<rparr>) = (Ok (RKey 0xDEADBE01),
      st1\<lparr>ms_next_lkey := 3, ms_used_rkeys := {|0xDEADBE01, 0xDEADBE00|}\<rparr>)"
    by (subst generate_rkey_second [of sample_rng _ "0xDEADBE01"]) (simp_all add: st1 draw draw(2) [simplified])
  then have "fst (register sample_rng pd LOCAL_WRITE (of_nat SLOT_SIZE) st1) = Ok (LKey 2, RKey 0xDEADBE01)"
    by (simp add: register_def st1 fcard_finsert_if fcard_fempty u64_add_def u32_add_def vec_zeroed_def Let_def sizes)
  then show thesis using that [OF r1] by (metis prod.collapse)
qed

lemma sample_connected:
  obtains c :: "server_peer rdows_connection" where "in_sync server_config_default c" and "remote c = big_store"
    and "cn_cq c = \<lparr>cq_entries = [], cq_capacity = 65536\<rparr>" and "se_max_msg_size (peer_session c) = 16777216"
    and "se_mr_reg_count (peer_session c) = 0"
proof -
  have url: "\<not> starts_with (lit ''wss://host'') (lit ''ws://'')" by code_simp
  show thesis
    using connect_ok [OF url, of "\<lambda>_. Ok (Some SUBPROTOCOL, fresh_peer server_config_default 0)"
        server_config_default 0 connect_config_default sample_env "\<lambda>_. [0, 0, 0, 7]"] that
    by (auto simp: server_config_default_def connect_config_default_def DEFAULT_CQ_CAPACITY_def)
qed

lemma sample_kv:
  obtains kv where "kv_ready server_config_default 1000 kv" and "decodes (kv_slot kv) (\<lambda>_. None)"
proof -
  obtain c where c: "in_sync server_config_default c" "remote c = big_store"
      "cn_cq c = \<lparr>cq_entries = [], cq_capacity = 65536\<rparr>" "se_max_msg_size (peer_session c) = 16777216"
      "se_mr_reg_count (peer_session c) = 0"
    by (rule sample_connected)
  obtain st1 st2 where r: "register sample_rng (cn_pd c) (af_bitor REMOTE_WRITE REMOTE_READ) MR_SIZE (remote c) =
        (Ok (LKey 1, sample_rkey), st1)"
      "register sample_rng (cn_pd c) LOCAL_WRITE (of_nat SLOT_SIZE) st1 = (Ok (LKey 2, RKey 0xDEADBE01), st2)"
    unfolding c(2) by (rule sample_kv_registers)
  have "se_mr_reg_count (window 0 (peer_session c)) = 0" using c(5) by (simp add: window_def)
  then show thesis
    using kv_setup_ok [OF c(1) _ _ _ _ _ r, of 0 1000] c(3,4) that
    by (auto simp: server_config_default_def slot_layout)
qed

section \<open>Properties\<close>

abbreviation kv_put :: "environment \<Rightarrow> rstring \<Rightarrow> rstring \<Rightarrow> server_peer kv_store
    \<Rightarrow> (kv_error, put_result) result \<times> server_peer kv_store" where
  "kv_put env \<equiv> put (read_slot (server_net env)) (write_slot (server_net env))"

abbreviation kv_get :: "environment \<Rightarrow> rstring \<Rightarrow> server_peer kv_store
    \<Rightarrow> (kv_error, get_result option) result \<times> server_peer kv_store" where
  "kv_get env \<equiv> get (read_slot (server_net env))"

abbreviation kv_delete :: "environment \<Rightarrow> rstring \<Rightarrow> server_peer kv_store
    \<Rightarrow> (kv_error, delete_result) result \<times> server_peer kv_store" where
  "kv_delete env \<equiv> delete (read_slot (server_net env)) (write_slot (server_net env))"

text \<open>
  (C20) A value that was put is what get returns: after a put that succeeds, whatever the
  table held before, a get of the same key through the server finds the value.
\<close>

theorem put_then_get:
  assumes "kv_ready cfg (2 * SLOT_COUNT + 1) kv" and "decodes (kv_slot kv) T"
    and "is_utf8 key" and "is_utf8 val" and "kv_put env key val kv = (Ok r, kv1)"
  shows "\<exists>g kv2. kv_get env key kv1 = (Ok (Some g), kv2) \<and> gr_value g = val"
proof -
  have lens: "length key \<le> MAX_KEY_LEN" "length val \<le> MAX_VALUE_LEN"
    using assms(5) by (auto simp: put_def split: if_split_asm)
  have "kv_ready cfg (Suc (SLOT_COUNT + SLOT_COUNT)) kv" using assms(1) by (simp add: mult_2)
  note p = kv.put_correct [OF this assms(2) lens assms(3,4), of env]
  obtain i where i: "probe T key (probe_path key) = Some i" and "kv_ready cfg SLOT_COUNT kv1"
      "decodes (kv_slot kv1) (T(i \<mapsto> (key, val)))"
    using p assms(5) by (cases "probe T key (probe_path key)") auto
  with kv.get_correct [of cfg 0 kv1 "T(i \<mapsto> (key, val))" env key] find_key_store [OF i, of val]
  show ?thesis by auto
qed

theorem put_then_get_witness:
  "\<exists>kv r kv1 g kv2. kv_put sample_env (lit ''k'') (lit ''v'') kv = (Ok r, kv1) \<and>
     kv_get sample_env (lit ''k'') kv1 = (Ok (Some g), kv2) \<and> gr_value g = lit ''v''"
proof -
  obtain kv where kv: "kv_ready server_config_default 1000 kv" "decodes (kv_slot kv) (\<lambda>_. None)"
    by (rule sample_kv)
  have u: "is_utf8 (lit ''k'')" "is_utf8 (lit ''v'')" by code_simp+
  have len: "length (lit ''k'') \<le> MAX_KEY_LEN" "length (lit ''v'') \<le> MAX_VALUE_LEN"
    by (simp_all add: lit_def slot_layout)
  have ready: "kv_ready server_config_default (Suc (0 + SLOT_COUNT)) kv"
      "kv_ready server_config_default (2 * SLOT_COUNT + 1) kv"
    by (rule kv.ready_less [OF kv(1)], simp add: slot_layout)+
  obtain rest where "probe_path (lit ''k'') = hash_key (lit ''k'') # rest"
    using probe_path_two by blast
  then have "probe (\<lambda>_. None) (lit ''k'') (probe_path (lit ''k'')) = Some (hash_key (lit ''k''))" by simp
  with kv.put_correct [OF ready(1) kv(2) len u, of sample_env]
  obtain r kv1 where p: "kv_put sample_env (lit ''k'') (lit ''v'') kv = (Ok r, kv1)" by auto
  from put_then_get [OF ready(2) kv(2) u p] p show ?thesis by blast
qed

subsection \<open>The table as a bounded map\<close>

text \<open>
  The specification: a map with at most as many keys as there are slots. A put says whether it
  replaced a value; a put of a new key into a full map is refused, a put of a key that is there
  never is.
\<close>

datatype kv_op = PutOp rstring rstring | GetOp rstring

datatype kv_outcome = PutDone "(kv_error, bool) result" | GetDone "(kv_error, rstring option) result"

fun map_step :: "kv_op \<Rightarrow> (rstring \<rightharpoonup> rstring) \<Rightarrow> kv_outcome \<times> (rstring \<rightharpoonup> rstring)" where
  "map_step (PutOp key val) m =
     (if length key > MAX_KEY_LEN then (PutDone (Err KeyTooLong), m)
      else if length val > MAX_VALUE_LEN then (PutDone (Err ValueTooLong), m)
      else if has_room m key then (PutDone (Ok (key \<in> dom m)), m(key \<mapsto> val))
      else (PutDone (Err TableFull), m))"
| "map_step (GetOp key) m = (GetDone (Ok (m key)), m)"

text \<open>The same operations on the store, with the part of each result that the map determines.\<close>

fun kv_step :: "environment \<Rightarrow> kv_op \<Rightarrow> server_peer kv_store \<Rightarrow> kv_outcome \<times> server_peer kv_store" where
  "kv_step env (PutOp key val) kv =
     (let (r, kv) = kv_put env key val kv in (PutDone (rbind r (\<lambda>p. Ok (pr_update p))), kv))"
| "kv_step env (GetOp key) kv =
     (let (r, kv) = kv_get env key kv in (GetDone (rbind r (\<lambda>g. Ok (map_option gr_value g))), kv))"

fun op_utf8 :: "kv_op \<Rightarrow> bool" where
  "op_utf8 (PutOp key val) \<longleftrightarrow> is_utf8 key \<and> is_utf8 val"
| "op_utf8 (GetOp key) \<longleftrightarrow> is_utf8 key"

fun run_ops :: "('op \<Rightarrow> 's \<Rightarrow> 'o \<times> 's) \<Rightarrow> 'op list \<Rightarrow> 's \<Rightarrow> 'o list \<times> 's" where
  "run_ops f [] s = ([], s)"
| "run_ops f (op # ops) s = (let (out, s) = f op s; (outs, s) = run_ops f ops s in (out # outs, s))"

lemma kv_step_map:
  assumes ready: "kv_ready cfg (n + (SLOT_COUNT + 1)) kv" and dec: "decodes (kv_slot kv) T" and ch: "chained T"
    and "op_utf8 op"
  shows "\<exists>out kv' T'. kv_step env op kv = (out, kv') \<and> kv_ready cfg n kv' \<and> decodes (kv_slot kv') T' \<and>
    chained T' \<and> map_step op (contents T) = (out, contents T')"
proof (cases op)
  case (GetOp key)
  have "kv_ready cfg (n + SLOT_COUNT) kv" by (rule kv.ready_less [OF ready]) simp
  from kv.get_correct [OF this dec, of env key] show ?thesis
    using GetOp ch find_key_contents [OF ch, of key] by fastforce
next
  case (PutOp key val)
  have ready': "kv_ready cfg (Suc (n + SLOT_COUNT)) kv" "kv_ready cfg n kv"
    by (rule kv.ready_less [OF ready], simp)+
  consider "MAX_KEY_LEN < length key" | "length key \<le> MAX_KEY_LEN" "MAX_VALUE_LEN < length val"
    | "length key \<le> MAX_KEY_LEN" "length val \<le> MAX_VALUE_LEN" by linarith
  then show ?thesis
  proof cases
    case 3
    have "is_utf8 key" "is_utf8 val" using PutOp assms(4) by simp_all
    note p = kv.put_correct [OF ready'(1) dec 3 this, of env]
    show ?thesis
    proof (cases "probe T key (probe_path key)")
      case None
      with p PutOp 3 ch probe_has_room [OF ch, of key] show ?thesis by fastforce
    next
      case (Some i)
      then have "has_room (contents T) key" using probe_has_room [OF ch, of key] by simp
      with p PutOp 3 Some chained_store [OF ch Some] contents_store [OF ch Some] probe_contents [OF ch Some]
      show ?thesis by fastforce
    qed
  qed (use PutOp ready'(2) dec ch in \<open>auto simp: put_def\<close>)
qed

lemma contents_empty: "contents (\<lambda>_. None) = Map.empty"
  by (rule ext) (simp add: contents_None_iff)

text \<open>
  (C5) Without deletions the table is a bounded map. From a table in which every entry is where
  its own probe stops, any sequence of puts and gets gives the results of the same sequence on
  the map of its contents, and ends in a table of that shape whose contents are the final map.
  In particular a put is refused with a full table exactly when the key is absent and all
  slots are taken, reports an update exactly when the key was there, and a refused one changes
  nothing. The store stays usable: what is left of its work request ids is the only thing
  that is spent.
\<close>

theorem kv_implements_map:
  assumes "kv_ready cfg (n + length ops * (SLOT_COUNT + 1)) kv" and "decodes (kv_slot kv) T" and "chained T"
    and "list_all op_utf8 ops"
  shows "\<exists>outs kv' T'. run_ops (kv_step env) ops kv = (outs, kv') \<and> kv_ready cfg n kv' \<and>
    decodes (kv_slot kv') T' \<and> chained T' \<and> run_ops map_step ops (contents T) = (outs, contents T')"
  using assms
proof (induction ops arbitrary: kv T)
  case (Cons op ops)
  have "kv_ready cfg ((n + length ops * (SLOT_COUNT + 1)) + (SLOT_COUNT + 1)) kv"
    using Cons.prems(1) by (simp add: algebra_simps)
  then obtain out kv1 T1 where step: "kv_step env op kv = (out, kv1)"
      "kv_ready cfg (n + length ops * (SLOT_COUNT + 1)) kv1" "decodes (kv_slot kv1) T1" "chained T1"
      "map_step op (contents T) = (out, contents T1)"
    using kv_step_map [OF _ Cons.prems(2,3), of cfg "n + length ops * (SLOT_COUNT + 1)" op env] Cons.prems(4)
    by auto
  moreover have "list_all op_utf8 ops" using Cons.prems(4) by simp
  ultimately show ?case using Cons.IH [OF step(2-4)] by fastforce
qed auto

theorem kv_implements_map_witness:
  "\<exists>kv kv'. run_ops (kv_step sample_env) [PutOp (lit ''k'') (lit ''v''), PutOp (lit ''k'') (lit ''w''),
      GetOp (lit ''k''), GetOp (lit ''j'')] kv =
    ([PutDone (Ok False), PutDone (Ok True), GetDone (Ok (Some (lit ''w''))), GetDone (Ok None)], kv')"
proof -
  let ?ops = "[PutOp (lit ''k'') (lit ''v''), PutOp (lit ''k'') (lit ''w''), GetOp (lit ''k''), GetOp (lit ''j'')]"
  obtain kv where kv: "kv_ready server_config_default 1000 kv" "decodes (kv_slot kv) (\<lambda>_. None)"
    by (rule sample_kv)
  have u: "list_all op_utf8 ?ops" by code_simp
  have "kv_ready server_config_default (0 + length ?ops * (SLOT_COUNT + 1)) kv"
    by (rule kv.ready_less [OF kv(1)]) (simp add: slot_layout)
  from kv_implements_map [OF this kv(2) chained_empty u, of sample_env]
  obtain outs kv' T' where "run_ops (kv_step sample_env) ?ops kv = (outs, kv')"
      "run_ops map_step ?ops Map.empty = (outs, contents T')"
    by (auto simp: contents_empty)
  moreover have "fst (run_ops map_step ?ops Map.empty) =
      [PutDone (Ok False), PutDone (Ok True), GetDone (Ok (Some (lit ''w''))), GetDone (Ok None)]"
    by (simp add: lit_def slot_layout has_room_def)
  ultimately show ?thesis by (metis fst_conv)
qed

text \<open>
  (C35) A deletion can make another key disappear: when two keys hash to the same slot, putting
  both into an empty table and deleting the first makes a get of the second return nothing,
  although it was never deleted and its entry is still in the table.
\<close>

theorem delete_hides_colliding_key:
  assumes "kv_ready cfg (4 * SLOT_COUNT + 3) kv" and "decodes (kv_slot kv) (\<lambda>_. None)"
    and "hash_key k1 = hash_key k2" and "k1 \<noteq> k2"
    and "is_utf8 k1" and "is_utf8 k2" and "is_utf8 v1" and "is_utf8 v2"
    and "length k1 \<le> MAX_KEY_LEN" and "length k2 \<le> MAX_KEY_LEN"
    and "length v1 \<le> MAX_VALUE_LEN" and "length v2 \<le> MAX_VALUE_LEN"
  shows "\<exists>r1 kv1 r2 kv2 r3 kv3 kv4 T. kv_put env k1 v1 kv = (Ok r1, kv1) \<and> kv_put env k2 v2 kv1 = (Ok r2, kv2) \<and>
    kv_delete env k1 kv2 = (Ok r3, kv3) \<and> kv_get env k2 kv3 = (Ok None, kv4) \<and>
    decodes (kv_slot kv4) T \<and> contents T k2 = Some v2"
proof -
  let ?n = SLOT_COUNT
  define h where "h = hash_key k1"
  define h' where "h' = (h + 1) mod SLOT_COUNT"
  have same: "probe_path k2 = probe_path k1" using assms(3) by (simp add: probe_path_def)
  obtain rest where path: "probe_path k1 = h # h' # rest" "probe_path k2 = h # h' # rest"
    using probe_path_two [of k1] probe_path_two [of k2] assms(3) same unfolding h_def h'_def by metis
  have h: "h < SLOT_COUNT" "h' < SLOT_COUNT" "h' \<noteq> h"
    using hash_key_less [of k1] by (auto simp: h_def h'_def SLOT_COUNT_def mod_Suc)
  define T2 where "T2 = (\<lambda>_. None)(h \<mapsto> (k1, v1), h' \<mapsto> (k2, v2))"
  have p1: "probe (\<lambda>_. None) k1 (probe_path k1) = Some h" by (simp add: path)
  have p2: "probe ((\<lambda>_. None)(h \<mapsto> (k1, v1))) k2 (probe_path k2) = Some h'"
    using h assms(4) by (simp add: path)
  have p3: "probe T2 k1 (probe_path k1) = Some h" using h by (simp add: path T2_def)
  have budget: "4 * ?n + 3 = Suc ((3 * ?n + 2) + ?n)" "3 * ?n + 2 = Suc ((2 * ?n + 1) + ?n)"
    "2 * ?n + 1 = Suc (?n + ?n)" by simp_all
  note ready = assms(1) [unfolded budget(1)]
  obtain r1 kv1 where 1: "kv_put env k1 v1 kv = (Ok r1, kv1)" "kv_ready cfg (3 * ?n + 2) kv1"
      "decodes (kv_slot kv1) ((\<lambda>_. None)(h \<mapsto> (k1, v1)))"
    using kv.put_correct [OF ready assms(2,9,11,5,7), of env] p1 by auto
  note ready = 1(2) [unfolded budget(2)]
  obtain r2 kv2 where 2: "kv_put env k2 v2 kv1 = (Ok r2, kv2)" "kv_ready cfg (2 * ?n + 1) kv2"
      "decodes (kv_slot kv2) T2"
    using kv.put_correct [OF ready 1(3) assms(10,12,6,8), of env] p2 by (auto simp: T2_def)
  note ready = 2(2) [unfolded budget(3)]
  obtain r3 kv3 where 3: "kv_delete env k1 kv2 = (Ok r3, kv3)" "kv_ready cfg ?n kv3"
      "decodes (kv_slot kv3) (T2(h := None))"
    using kv.delete_correct [OF ready 2(3), of env k1] p3 by auto
  have "find_key (T2(h := None)) k2 = None" by (simp add: find_key_def path)
  then obtain kv4 where 4: "kv_get env k2 kv3 = (Ok None, kv4)" "decodes (kv_slot kv4) (T2(h := None))"
    using kv.get_correct [of cfg 0 kv3 "T2(h := None)" env k2] 3 by auto
  have only: "(T2(h := None)) i = Some (k2, w) \<longleftrightarrow> i = h' \<and> w = v2" for i w
    using h by (auto simp: T2_def)
  then have "contents (T2(h := None)) k2 \<noteq> None" using h by (auto simp: contents_None_iff)
  then have still: "contents (T2(h := None)) k2 = Some v2" using contents_SomeD [of _ k2] only by (metis not_None_eq)
  show ?thesis
    by (intro exI conjI) (rule 1(1) 2(1) 3(1) 4 still)+
qed

theorem delete_hides_colliding_key_witness:
  "\<exists>kv r1 kv1 r2 kv2 r3 kv3 kv4. kv_put sample_env (lit ''p'') (lit ''1'') kv = (Ok r1, kv1) \<and>
     kv_put sample_env (lit ''0'') (lit ''2'') kv1 = (Ok r2, kv2) \<and>
     kv_delete sample_env (lit ''p'') kv2 = (Ok r3, kv3) \<and> kv_get sample_env (lit ''0'') kv3 = (Ok None, kv4)"
proof -
  obtain kv where kv: "kv_ready server_config_default 1000 kv" "decodes (kv_slot kv) (\<lambda>_. None)"
    by (rule sample_kv)
  have ready: "kv_ready server_config_default (4 * SLOT_COUNT + 3) kv"
    by (rule kv.ready_less [OF kv(1)]) (simp add: slot_layout)
  have hash: "hash_key (lit ''p'') = hash_key (lit ''0'')" "lit ''p'' \<noteq> lit ''0''"
    by (simp_all add: hash_key_def lit_def SLOT_COUNT_def)
  have u: "is_utf8 (lit ''p'')" "is_utf8 (lit ''0'')" "is_utf8 (lit ''1'')" "is_utf8 (lit ''2'')" by code_simp+
  have len: "length (lit ''p'') \<le> MAX_KEY_LEN" "length (lit ''0'') \<le> MAX_KEY_LEN"
      "length (lit ''1'') \<le> MAX_VALUE_LEN" "length (lit ''2'') \<le> MAX_VALUE_LEN"
    by (simp_all add: lit_def slot_layout)
  from delete_hides_colliding_key [OF ready kv(2) hash u len, of sample_env] show ?thesis
    by (elim exE conjE) (intro exI conjI, assumption+)
qed

end
