(* ===== verification/Kv_Api.thy ===== *)
theory Kv_Api
  imports Kv_Props
begin

text \<open>
  The HTTP handlers of the key-value server (\<open>rdows-kv/src/api.rs\<close>). Each handler locks the
  store for the whole of its request, so a request is one operation on the store. The
  serialisation of a result to JSON is derived by serde, the parameter \<open>to_value\<close>. An error body
  is the list of its fields.
\<close>

section \<open>Definitions\<close>

type_synonym error_body = "(rstring \<times> rstring) list"
type_synonym 'v response = "(nat \<times> error_body, 'v) result"

definition kv_error_display :: "kv_error \<Rightarrow> rstring" where
  "kv_error_display e =
     (case e of
        Rdma e \<Rightarrow> lit ''RDMA error: '' @ rdows_error_display e
      | TableFull \<Rightarrow> lit ''hash table full''
      | KeyTooLong \<Rightarrow> lit ''key exceeds '' @ show_dec MAX_KEY_LEN @ lit '' bytes''
      | ValueTooLong \<Rightarrow> lit ''value exceeds '' @ show_dec MAX_VALUE_LEN @ lit '' bytes'')"

definition put_key :: "(put_result \<Rightarrow> 'v) \<Rightarrow> 'p network \<Rightarrow> rstring \<Rightarrow> rstring
    \<Rightarrow> 'p kv_store \<Rightarrow> 'v response \<times> 'p kv_store" where
  "put_key to_value net key body_value store =
     (let (r, store) = put (read_slot net) (write_slot net) key body_value store in
      (case r of
         Ok result \<Rightarrow> Ok (to_value result)
       | Err TableFull \<Rightarrow> Err (507, [(lit ''error'', lit ''hash table full'')])
       | Err KeyTooLong \<Rightarrow> Err (413, [(lit ''error'', lit ''key too long (max 255 bytes)'')])
       | Err ValueTooLong \<Rightarrow> Err (413, [(lit ''error'', lit ''value too long (max 764 bytes)'')])
       | Err e \<Rightarrow> Err (500, [(lit ''error'', kv_error_display e)])
       | Panic \<Rightarrow> Panic
       | Blocked \<Rightarrow> Blocked, store))"

definition get_key :: "(get_result \<Rightarrow> 'v) \<Rightarrow> 'p network \<Rightarrow> rstring
    \<Rightarrow> 'p kv_store \<Rightarrow> 'v response \<times> 'p kv_store" where
  "get_key to_value net key store =
     (let (r, store) = get (read_slot net) key store in
      (case r of
         Ok (Some result) \<Rightarrow> Ok (to_value result)
       | Ok None \<Rightarrow> Err (404, [(lit ''error'', lit ''key not found''), (lit ''key'', key)])
       | Err e \<Rightarrow> Err (500, [(lit ''error'', kv_error_display e)])
       | Panic \<Rightarrow> Panic
       | Blocked \<Rightarrow> Blocked, store))"

definition delete_key :: "(delete_result \<Rightarrow> 'v) \<Rightarrow> 'p network \<Rightarrow> rstring
    \<Rightarrow> 'p kv_store \<Rightarrow> 'v response \<times> 'p kv_store" where
  "delete_key to_value net key store =
     (let (r, store) = delete (read_slot net) (write_slot net) key store in
      (case r of
         Ok result \<Rightarrow>
           let status = (if dr_found result then 200 else 404) in
           if dr_found result then Ok (to_value result)
           else Err (status, [(lit ''error'', lit ''key not found''), (lit ''key'', key)])
       | Err e \<Rightarrow> Err (500, [(lit ''error'', kv_error_display e)])
       | Panic \<Rightarrow> Panic
       | Blocked \<Rightarrow> Blocked, store))"

definition get_slots :: "(slot_info list \<Rightarrow> 'v) \<Rightarrow> 'p network
    \<Rightarrow> 'p kv_store \<Rightarrow> 'v response \<times> 'p kv_store" where
  "get_slots to_value net store =
     (let (r, store) = dump_slots (read_slot net) store in
      (case r of
         Ok slots \<Rightarrow> Ok (to_value slots)
       | Err e \<Rightarrow> Err (500, [(lit ''error'', kv_error_display e)])
       | Panic \<Rightarrow> Panic
       | Blocked \<Rightarrow> Blocked, store))"

record kv_stats =
  st_session_id :: rstring
  st_rkey :: rstring
  st_mr_size :: u64
  st_slot_count :: usize
  st_slot_size :: usize

definition get_stats :: "'p kv_store \<Rightarrow> kv_stats" where
  "get_stats kv = \<lparr>st_session_id = lit ''0x'' @ show_hex_pad 8 (unat (kv_session_id kv)),
     st_rkey = lit ''0x'' @ show_hex_pad 8 (unat (kv_remote_rkey_value kv)),
     st_mr_size = MR_SIZE, st_slot_count = SLOT_COUNT, st_slot_size = SLOT_SIZE\<rparr>"

section \<open>Lemmas\<close>

lemma next_wrid_not_Err: "fst (next_wrid kv) \<noteq> Err e"
  by (simp add: next_wrid_def u64_add_def Let_def)

lemma map_err_Rdma: "map_err Rdma r = Err e \<Longrightarrow> \<exists>x. e = Rdma x"
  by (cases r) auto

text \<open>An error of a slot access is an RDMA error, and so is an error of a loop that is not \<open>TableFull\<close>.\<close>

lemma sbind_Err_iff: "fst (sbind m f) = Err e \<longleftrightarrow> fst m = Err e \<or> (\<exists>x s. m = (Ok x, s) \<and> fst (f x s) = Err e)"
  by (cases "(m, f)" rule: sbind.cases) auto

lemma read_slot_Err: "fst (read_slot net i kv) = Err e \<Longrightarrow> \<exists>x. e = Rdma x"
  by (auto simp: read_slot_def sbind_Err_iff next_wrid_not_Err Let_def case_prod_beta dest: map_err_Rdma
      split: if_split_asm)

lemma write_slot_Err: "fst (write_slot net i data kv) = Err e \<Longrightarrow> \<exists>x. e = Rdma x"
  by (auto simp: write_slot_def sbind_Err_iff next_wrid_not_Err Let_def case_prod_beta dest: map_err_Rdma)

lemma encode_slot_not_Err: "encode_slot key val \<noteq> Err e"
  by (simp add: encode_slot_def Let_def)

lemma put_loop_Err:
  "fst (put_loop (read_slot net) (write_slot net) key val start is kv) = Err e \<Longrightarrow> e = TableFull \<or> (\<exists>x. e = Rdma x)"
proof (induction "is" arbitrary: kv)
  case (Cons i rest)
  then show ?case
    by (auto simp: sbind_Err_iff decode_slot_not_Err encode_slot_not_Err Let_def
        dest: read_slot_Err write_slot_Err split: option.splits if_split_asm)
qed simp

section \<open>Properties\<close>

text \<open>
  Whatever the network does, a PUT is answered with status 413 exactly when the key is
  longer than 255 bytes or the value longer than 764, and such a request leaves the store
  untouched.
\<close>

theorem put_key_size_limits:
  "if length key > 255 \<or> length val > 764
   then \<exists>body. put_key to_value net key val kv = (Err (413, body), kv)
   else \<nexists>body. fst (put_key to_value net key val kv) = Err (413, body)"
proof (cases "length key > 255 \<or> length val > 764")
  case True
  then show ?thesis by (auto simp: put_key_def put_def slot_layout)
next
  case False
  obtain r kv' where p: "put (read_slot net) (write_slot net) key val kv = (r, kv')" by (metis surj_pair)
  have "r = Err e \<Longrightarrow> e = TableFull \<or> (\<exists>x. e = Rdma x)" for e
    using put_loop_Err [of net key val "hash_key key" "[0..<SLOT_COUNT]" kv e] p False
    by (simp add: put_def slot_layout)
  with False p show ?thesis
    by (auto simp: put_key_def split: result.splits kv_error.splits)
qed

end
