(* ===== verification/Send_Ops.thy ===== *)
theory Send_Ops
  imports Remote_Ops
begin

text \<open>
  The SEND verb of the client (\<open>post_send\<close> of \<open>rdows-client/src/verbs.rs\<close>) with the server's
  session as its peer. A SEND is two messages, the request and its data, and one answer: the
  completion after the data, or ERR_RNR after the request, in which case the session discards
  the data.
\<close>

section \<open>Two messages, one answer\<close>

lemma pair_answered:
  assumes sock: "cn_socket c = (((s, k), True), [])" and wf: "message_wf m1" "message_wf m2"
    and hm1: "\<And>now rng. handle_message now rng (on_wire m1) (s, k) = (Ok (), (s1, push ms1 k))"
    and hm2: "\<And>now rng. handle_message now rng (on_wire m2) (s1, push ms1 k) = (Ok (), (s2, push ms2 (push ms1 k)))"
    and st: "se_state s1 \<noteq> Closed" "se_state s2 \<noteq> Closed" and r: "ms1 @ ms2 = [r]"
    and rwf: "message_wf r" "\<not> is_credit_update r" "cn_expected_remote_seq c = Some (h_sequence (message_header r))"
    and g: "\<And>x. g (c\<lparr>cn_socket := x\<rparr>) = m2"
  shows "sbind (cn_send (server_net env) m1 c) (\<lambda>_ c. sbind (cn_send (server_net env) (g c)
      (c\<lparr>cn_next_seq := cn_next_seq c + 1\<rparr>)) (\<lambda>_ c. sbind (recv_app_message c) f)) =
    f (on_wire r) (c\<lparr>cn_next_seq := cn_next_seq c + 1, cn_socket := (((s2, push ms2 (push ms1 k)), True), []),
      cn_expected_remote_seq := Some (h_sequence (message_header r) + 1)\<rparr>)"
proof -
  let ?in = "map (Item \<circ> Binary \<circ> message_encode)"
  let ?c1 = "c\<lparr>cn_socket := (((s1, push ms1 k), True), ?in ms1)\<rparr>"
  let ?c2 = "?c1\<lparr>cn_next_seq := cn_next_seq c + 1\<rparr>"
  let ?c3 = "?c2\<lparr>cn_socket := (((s2, push ms2 (push ms1 k)), True), [Item (Binary (message_encode r))])\<rparr>"
  obtain now rng where env: "env (s, k) = (now, rng)" by (metis surj_pair)
  obtain now2 rng2 where env2: "env (s1, push ms1 k) = (now2, rng2)" by (metis surj_pair)
  have "cn_send (server_net env) m1 c = (Ok (), ?c1)"
    using cn_send_server [of c s k "[]" m1 env now rng s1 ms1] sock wf env hm1 st by simp
  moreover have "?in ms1 @ ?in ms2 = [Item (Binary (message_encode r))]"
    by (subst map_append [symmetric]) (simp add: r)
  then have "cn_send (server_net env) m2 ?c2 = (Ok (), ?c3)"
    using cn_send_server [of ?c2 s1 "push ms1 k" "?in ms1" m2 env now2 rng2 s2 ms2] wf env2 hm2 st by simp
  moreover have "recv_app_message ?c3 = (Ok (on_wire r), ?c3\<lparr>cn_socket := (((s2, push ms2 (push ms1 k)), True), []),
      cn_expected_remote_seq := Some (h_sequence (message_header r) + 1)\<rparr>)"
    using rwf by (intro recv_app_message_next) simp_all
  moreover have "?c3\<lparr>cn_socket := x, cn_expected_remote_seq := y\<rparr> =
      c\<lparr>cn_next_seq := cn_next_seq c + 1, cn_socket := x, cn_expected_remote_seq := y\<rparr>" for x y
    by (cases c) simp
  ultimately show ?thesis by (simp add: g)
qed

section \<open>The session's side\<close>

lemma handle_send_refused:
  assumes "admitted s (Send h p)" and "se_recv_queue_depth s = 0" and "sink_up k"
  shows "handle_message now os_rng (Send h p) (s, k) =
    (Ok (), (s\<lparr>se_expected_remote_seq := Some (h_sequence h + 1), se_next_seq := se_next_seq s + 1,
       se_pending_op := DiscardingSendData\<rparr>,
       push [error_reply ErrRnr (h_sequence h) (lit ''receiver not ready'') s] k))"
  using assms by (simp add: handle_message_admitted handle_ready_def dispatch_def handle_send_def)

lemma handle_send_data_discarded:
  assumes "admitted s (SendData h p)" and "se_pending_op s = DiscardingSendData"
  shows "handle_message now os_rng (SendData h p) (s, k) =
    (Ok (), (s\<lparr>se_expected_remote_seq := Some (h_sequence h + 1), se_pending_op := NoPending\<rparr>, k))"
  using assms by (simp add: handle_message_admitted handle_ready_def dispatch_def handle_send_data_def Let_def)

section \<open>The verb\<close>

lemma on_wire_send_simps [simp]:
  "on_wire (Send h p) = Send (h\<lparr>h_payload_length := of_nat (length (send_payload_encode p))\<rparr>) p"
  "on_wire (SendData h d) = SendData (h\<lparr>h_payload_length := of_nat (length (data_payload_encode d))\<rparr>) d"
  "on_wire (RecvComp h) = RecvComp (h\<lparr>h_payload_length := 0\<rparr>)"
  by (simp_all add: on_wire_def)

lemma in_sync_credits [simp]: "in_sync cfg (c\<lparr>cn_send_credits := n\<rparr>) = in_sync cfg c"
  by (simp add: in_sync_def peer_session_def peer_sink_def local_inv_def)

lemma peer_credits [simp]:
  "peer_session (c\<lparr>cn_send_credits := n\<rparr>) = peer_session c" "remote (c\<lparr>cn_send_credits := n\<rparr>) = remote c"
  "local_bytes (c\<lparr>cn_send_credits := n\<rparr>) = local_bytes c"
  by (simp_all add: remote_def peer_session_def local_bytes_def fun_eq_iff)

text \<open>
  A SEND that the session answers with one message \<open>r\<close>, leaving it as \<open>s2\<close>: the client acts on
  \<open>r\<close> in a connection that is again in agreement.
\<close>

lemma send_answered:
  assumes sync: "in_sync cfg c" and cq: "\<not> cq_is_full (cn_cq c)" and cr: "cn_send_credits c \<noteq> 0"
    and ga: "gather_sg_data (cn_local_mrs c) sgs = Ok data" and sgs: "length sgs < 65536"
    and size: "send_payload_encoded_len \<lparr>sp_sg_list = sgs\<rparr> \<le> unat (se_max_msg_size (peer_session c))"
    and size2: "length data \<le> unat (se_max_msg_size (peer_session c))"
    and m1: "m1 = Send (header_new opcode.Send (cn_session_id c) (cn_next_seq c) wrid) \<lparr>sp_sg_list = sgs\<rparr>"
    and m2: "m2 = SendData (header_new opcode.SendData (cn_session_id c) (cn_next_seq c + 1) wrid) \<lparr>dp_data = data\<rparr>"
    and hm1: "\<And>now rng. handle_message now rng (on_wire m1) (peer_session c, peer_sink c) = (Ok (), (s1, push ms1 (peer_sink c)))"
    and hm2: "\<And>now rng. handle_message now rng (on_wire m2) (s1, push ms1 (peer_sink c)) =
      (Ok (), (s2, push ms2 (push ms1 (peer_sink c))))"
    and r: "ms1 @ ms2 = [r]" "message_wf r" "\<not> is_credit_update r"
      "h_sequence (message_header r) = se_next_seq (peer_session c)"
    and s1: "se_state s1 = Ready"
    and s2: "se_state s2 = Ready" "se_pending_op s2 = NoPending" "se_session_id s2 = cn_session_id c"
      "se_pd s2 = cn_pd c" "se_expected_remote_seq s2 = Some (cn_next_seq c + 1 + 1)"
      "se_next_seq s2 = se_next_seq (peer_session c) + 1"
    and c0: "c0 = exchanged s2 (push ms2 (push ms1 (peer_sink c))) (c\<lparr>cn_next_seq := cn_next_seq c + 1\<rparr>)"
  shows "in_sync cfg c0"
    and "post_send (server_net env) wrid sgs c =
      (case on_wire r of
         RecvComp h \<Rightarrow> (Ok (), cn_complete wrid 0 opcode.Send (of_nat (length data))
           (c0\<lparr>cn_send_credits := cn_send_credits c - 1\<rparr>))
       | Error h err \<Rightarrow> (Err (Protocol (ep_error_code err)),
           cn_complete wrid (error_code_to_u16 (ep_error_code err)) opcode.Send 0 c0)
       | other \<Rightarrow> (Err (unexpected ''RECV_COMP'' other), c0))"
proof -
  obtain s k where c: "cn_socket c = (((s, k), True), [])" "peer_session c = s" "peer_sink c = k"
      "session_ok cfg s" "sink_up k" "se_state s = Ready" "cn_expected_remote_seq c = Some (se_next_seq s)" "local_inv c"
    using sync by (rule in_syncE)
  have "session_ok cfg s1" using session_ok_step [OF c(4) _ hm1 [unfolded c]] c by simp
  then have "session_ok cfg s2" using session_ok_step [OF _ _ hm2] s1 by simp
  then show "in_sync cfg c0"
    unfolding c0 using c s2 by (intro in_sync_exchanged) (simp_all add: local_inv_def)
  let ?c1 = "c\<lparr>cn_next_seq := cn_next_seq c + 1\<rparr>"
  have wf: "message_wf m1" "message_wf m2"
    using sgs size size2 unat_less_u32 [of "se_max_msg_size (peer_session c)"] by (simp_all add: message_wf_def m1 m2)
  have credit: "u32_sub (cn_send_credits c) 1 = Ok (cn_send_credits c - 1)"
    using cr by (simp add: u32_sub_def word_le_nat_alt unat_gt_0 Suc_leI)
  let ?g = "\<lambda>c. SendData (header_new opcode.SendData (cn_session_id c) (cn_next_seq c) wrid) \<lparr>dp_data = data\<rparr>"
  note pair = pair_answered [of ?c1 s k m1 m2 s1 ms1 s2 ms2 r ?g env]
  show "post_send (server_net env) wrid sgs c =
      (case on_wire r of
         RecvComp h \<Rightarrow> (Ok (), cn_complete wrid 0 opcode.Send (of_nat (length data))
           (c0\<lparr>cn_send_credits := cn_send_credits c - 1\<rparr>))
       | Error h err \<Rightarrow> (Err (Protocol (ep_error_code err)),
           cn_complete wrid (error_code_to_u16 (ep_error_code err)) opcode.Send 0 c0)
       | other \<Rightarrow> (Err (unexpected ''RECV_COMP'' other), c0))"
    using cq cr ga wf hm1 hm2 r s1 s2 c
    apply (simp add: post_send_def m1 [symmetric] Let_def)
    apply (subst pair)
    apply (simp_all add: m2 c0 exchanged_def credit split: rdows_message.split)
    done
qed

lemma receiver_not_ready: "is_utf8 (lit ''receiver not ready'')" "length (lit ''receiver not ready'') < 65536"
  by code_simp (simp add: lit_def)

text \<open>A completed SEND has used up one receive slot and one credit, and nothing else has changed.\<close>

definition sent_link :: "server_peer rdows_connection \<Rightarrow> server_peer rdows_connection \<Rightarrow> bool" where
  "sent_link c c' \<longleftrightarrow>
     cn_session_id c' = cn_session_id c \<and> cn_pd c' = cn_pd c \<and> cq_capacity (cn_cq c') = cq_capacity (cn_cq c) \<and>
     cn_send_credits c' = cn_send_credits c - 1 \<and> remote c' = remote c \<and>
     se_max_msg_size (peer_session c') = se_max_msg_size (peer_session c) \<and>
     se_recv_queue_depth (peer_session c') = se_recv_queue_depth (peer_session c) - 1 \<and>
     se_sends_since_last_credit (peer_session c') = se_sends_since_last_credit (peer_session c) + 1 \<and>
     se_mr_reg_count (peer_session c') = se_mr_reg_count (peer_session c) \<and>
     se_mr_reg_window_start (peer_session c') = se_mr_reg_window_start (peer_session c)"

lemma post_send_accepted:
  assumes sync: "in_sync cfg c" and cq: "\<not> cq_is_full (cn_cq c)" and "cn_send_credits c \<noteq> 0"
    and "gather_sg_data (cn_local_mrs c) sgs = Ok data" and "length sgs < 65536"
    and size: "send_payload_encoded_len \<lparr>sp_sg_list = sgs\<rparr> \<le> unat (se_max_msg_size (peer_session c))"
    and size2: "length data \<le> unat (se_max_msg_size (peer_session c))"
    and last: "unat (se_sends_since_last_credit (peer_session c)) + 1 < 16383"
    and slot: "se_recv_queue_depth (peer_session c) \<noteq> 0"
  shows "\<exists>c'. post_send (server_net env) wrid sgs c = (Ok (), c') \<and> in_sync cfg c' \<and> sent_link c c' \<and>
    local_bytes c' = local_bytes c \<and>
    cq_entries (cn_cq c') = cq_entries (cn_cq c) @ [cqe wrid 0 opcode.Send (of_nat (length data)) c]"
proof -
  let ?n = "cn_next_seq c" and ?s = "peer_session c" and ?k = "peer_sink c"
  let ?m1 = "Send (header_new opcode.Send (cn_session_id c) ?n wrid) \<lparr>sp_sg_list = sgs\<rparr>"
  let ?m2 = "SendData (header_new opcode.SendData (cn_session_id c) (?n + 1) wrid) \<lparr>dp_data = data\<rparr>"
  let ?s1 = "?s\<lparr>se_expected_remote_seq := Some (?n + 1), se_recv_queue_depth := se_recv_queue_depth ?s - 1,
    se_pending_op := AwaitingSendData wrid\<rparr>"
  let ?s2 = "?s1\<lparr>se_expected_remote_seq := Some (?n + 1 + 1), se_pending_op := NoPending,
    se_next_seq := se_next_seq ?s + 1, se_sends_since_last_credit := se_sends_since_last_credit ?s + 1\<rparr>"
  let ?r = "RecvComp (header_new opcode.RecvComp (cn_session_id c) (se_next_seq ?s) wrid)"
  note c = sync [unfolded in_sync_def]
  have adm: "admitted ?s (on_wire ?m1)"
    using sync_admitted [OF sync, of ?m1] size by (simp add: length_send_payload_encode)
  have adm2: "admitted ?s1 (on_wire ?m2)"
    using size2 c by (intro admitted_on_wire) (simp_all add: data_payload_encode_def)
  have hm: "handle_message now rng (on_wire ?m1) (?s, ?k) = (Ok (), (?s1, push [] ?k))" for now rng
    using handle_send_accepted [OF adm [simplified] slot] by simp
  have hm2: "handle_message now rng (on_wire ?m2) (?s1, push [] ?k) = (Ok (), (?s2, push [?r] (push [] ?k)))" for now rng
    using handle_send_data_completed [OF adm2 [simplified], of wrid ?k now rng] c last
    by (simp add: session_ok_def)
  note answered = send_answered [OF assms(1-7) refl refl hm hm2, where r = ?r, OF _ _ _ _ _ _ _ _ _ _ _ refl]
  have "message_wf ?r" by (simp add: message_wf_def)
  with answered c cq show ?thesis
    by (simp add: cn_complete_cq sent_link_def remote_def local_bytes_def fun_eq_iff)
qed

lemma post_send_refused:
  assumes sync: "in_sync cfg c" and cq: "\<not> cq_is_full (cn_cq c)" and "cn_send_credits c \<noteq> 0"
    and "gather_sg_data (cn_local_mrs c) sgs = Ok data" and "length sgs < 65536"
    and size: "send_payload_encoded_len \<lparr>sp_sg_list = sgs\<rparr> \<le> unat (se_max_msg_size (peer_session c))"
    and size2: "length data \<le> unat (se_max_msg_size (peer_session c))"
    and slot: "se_recv_queue_depth (peer_session c) = 0"
  shows "\<exists>c'. post_send (server_net env) wrid sgs c = (Err (Protocol ErrRnr), c') \<and> in_sync cfg c' \<and>
    remote c' = remote c \<and> local_bytes c' = local_bytes c \<and> same_link c c' \<and>
    cq_entries (cn_cq c') = cq_entries (cn_cq c) @ [cqe wrid (error_code_to_u16 ErrRnr) opcode.Send 0 c]"
proof -
  let ?n = "cn_next_seq c" and ?s = "peer_session c" and ?k = "peer_sink c"
  let ?m1 = "Send (header_new opcode.Send (cn_session_id c) ?n wrid) \<lparr>sp_sg_list = sgs\<rparr>"
  let ?m2 = "SendData (header_new opcode.SendData (cn_session_id c) (?n + 1) wrid) \<lparr>dp_data = data\<rparr>"
  let ?s1 = "?s\<lparr>se_expected_remote_seq := Some (?n + 1), se_next_seq := se_next_seq ?s + 1,
    se_pending_op := DiscardingSendData\<rparr>"
  let ?s2 = "?s1\<lparr>se_expected_remote_seq := Some (?n + 1 + 1), se_pending_op := NoPending\<rparr>"
  let ?e = "error_reply ErrRnr ?n (lit ''receiver not ready'') ?s"
  note c = sync [unfolded in_sync_def]
  have up: "sink_up ?k" using c by simp
  have adm: "admitted ?s (on_wire ?m1)"
    using sync_admitted [OF sync, of ?m1] size by (simp add: length_send_payload_encode)
  have adm2: "admitted ?s1 (on_wire ?m2)"
    using size2 c by (intro admitted_on_wire) (simp_all add: data_payload_encode_def)
  have hm: "handle_message now rng (on_wire ?m1) (?s, ?k) = (Ok (), (?s1, push [?e] ?k))" for now rng
    using handle_send_refused [OF adm [simplified] slot up] by simp
  have hm2: "handle_message now rng (on_wire ?m2) (?s1, push [?e] ?k) = (Ok (), (?s2, push [] (push [?e] ?k)))" for now rng
    using handle_send_data_discarded [OF adm2 [simplified], of now rng "push [?e] ?k"] by simp
  note answered = send_answered [OF assms(1-7) refl refl hm hm2, where r = ?e, OF _ _ _ _ _ _ _ _ _ _ _ refl]
  have "message_wf ?e" by (rule error_reply_wf) (simp_all add: receiver_not_ready)
  with answered c cq slot show ?thesis
    by (simp add: cn_complete_cq same_link_def remote_def local_bytes_def fun_eq_iff)
qed

section \<open>Properties\<close>

text \<open>
  (C11) A SEND while the server has receive slots completes: it uses up one slot and one send
  credit. When there is none left the caller gets ERR_RNR, and the session discards the data
  that follows. Either way one completion with the matching status is queued, no memory
  changes on either side, and the two sides stay in agreement, so that the connection remains
  usable. (The SEND must not be the one in 16383 that is followed by a CREDIT_UPDATE.)
\<close>

theorem post_send_end_to_end:
  assumes "in_sync cfg c" and "\<not> cq_is_full (cn_cq c)" and "cn_send_credits c \<noteq> 0"
    and "gather_sg_data (cn_local_mrs c) sgs = Ok data" and "length sgs < 65536"
    and "send_payload_encoded_len \<lparr>sp_sg_list = sgs\<rparr> \<le> unat (se_max_msg_size (peer_session c))"
    and "length data \<le> unat (se_max_msg_size (peer_session c))"
    and "unat (se_sends_since_last_credit (peer_session c)) + 1 < 16383"
  shows "\<exists>c' res. post_send (server_net env) wrid sgs c = (res, c') \<and>
    in_sync cfg c' \<and> remote c' = remote c \<and> local_bytes c' = local_bytes c \<and>
    (if se_recv_queue_depth (peer_session c) \<noteq> 0
     then res = Ok () \<and> se_recv_queue_depth (peer_session c') = se_recv_queue_depth (peer_session c) - 1 \<and>
       cn_send_credits c' = cn_send_credits c - 1 \<and>
       cq_entries (cn_cq c') = cq_entries (cn_cq c) @ [cqe wrid 0 opcode.Send (of_nat (length data)) c]
     else res = Err (Protocol ErrRnr) \<and> se_recv_queue_depth (peer_session c') = 0 \<and>
       cn_send_credits c' = cn_send_credits c \<and>
       cq_entries (cn_cq c') = cq_entries (cn_cq c) @
         [cqe wrid (error_code_to_u16 ErrRnr) opcode.Send 0 c])"
proof (cases "se_recv_queue_depth (peer_session c) = 0")
  case True
  with post_send_refused [OF assms(1-7), of env wrid] show ?thesis by (auto simp: same_link_def)
next
  case False
  with post_send_accepted [OF assms False, of env wrid] show ?thesis by (auto simp: sent_link_def)
qed

theorem post_send_end_to_end_witness:
  "\<exists>c'. post_send (server_net sample_env) 42 sample_sgl sample_client = (Ok (), c') \<and> in_sync sample_cfg c' \<and>
     se_recv_queue_depth (peer_session c') = 127"
proof -
  have "se_sends_since_last_credit (fst sample_conn) = 0"
    by (simp add: sample_conn_def sample_hello_def up_sink_def sink_new_def handle_connect_ok
        session_new_def connected_def)
  then have "unat (se_sends_since_last_credit (peer_session sample_client)) + 1 < 16383"
    and "se_recv_queue_depth (peer_session sample_client) = 128"
    and "se_max_msg_size (peer_session sample_client) = 4096"
    by (simp_all add: sample_client_fields sample_mr_conn_eq(2) sample_conn_fields)
  moreover have "cn_send_credits sample_client \<noteq> 0" by (simp add: sample_client_def)
  ultimately show ?thesis
    using post_send_end_to_end [OF sample_in_sync sample_client_fields(5) _ sample_gather, of sample_env 42]
    by (auto simp: send_payload_encoded_len_def SG_ENTRY_SIZE_def)
qed

end
