(* ===== verification/Refusals.thy ===== *)
theory Refusals
  imports Remote_Ops
begin

text \<open>
  Registrations that the server refuses, because of its limits or because of the rate: the
  client reports the code, and client and server stay in step.
\<close>

text \<open>
  \<open>refuses cfg now os_rng fl len c code n st\<close>: the session answers a registration with \<open>code\<close>; its
  registration counter becomes \<open>n\<close> and its store \<open>st\<close>.
\<close>

definition refuses :: "server_config \<Rightarrow> instant \<Rightarrow> (nat \<Rightarrow> bytes) \<Rightarrow> access_flags \<Rightarrow> u64 \<Rightarrow> server_peer rdows_connection
    \<Rightarrow> error_code \<Rightarrow> u32 \<Rightarrow> memory_store \<Rightarrow> bool" where
  "refuses cfg now os_rng fl len c code n st \<longleftrightarrow>
     (let k = se_mr_reg_count (window now (peer_session c)) in
      if k < cfg_mr_reg_rate_limit cfg
      then n = k + 1 \<and> register os_rng (cn_pd c) fl len (remote c) = (Err code, st)
      else n = k \<and> code = ErrInternal \<and> st = remote c)"

lemma register_code:
  assumes "register os_rng pd fl len st = (Err code, st')"
  shows "code \<noteq> Success"
proof -
  have "fst (generate_rkey os_rng (st\<lparr>ms_next_lkey := ms_next_lkey st + 1\<rparr>)) \<noteq> Err Success"
    using generate_rkey_fst [of os_rng "st\<lparr>ms_next_lkey := ms_next_lkey st + 1\<rparr>"] by auto
  with assms show ?thesis
    by (cases "generate_rkey os_rng (st\<lparr>ms_next_lkey := ms_next_lkey st + 1\<rparr>)"; cases "fst (generate_rkey os_rng (st\<lparr>ms_next_lkey := ms_next_lkey st + 1\<rparr>))")
      (auto simp: register_def u64_add_def u32_add_def vec_zeroed_def Let_def split: if_split_asm)
qed

lemma refuses_code: "refuses cfg now os_rng fl len c code n st \<Longrightarrow> code \<noteq> Success"
  by (auto simp: refuses_def Let_def dest: register_code split: if_split_asm)

lemma handle_mr_reg_refused:
  assumes "admitted s (MrReg h p)" and "sink_up k"
    and "if se_mr_reg_count (window now s) < se_mr_reg_rate_limit s
      then n = se_mr_reg_count (window now s) + 1 \<and>
        register os_rng (mr_pd p) (mr_access_flags p) (mr_region_len p) (se_memory_store s) = (Err code, st)
      else n = se_mr_reg_count (window now s) \<and> code = ErrInternal \<and> st = se_memory_store s"
  shows "handle_message now os_rng (MrReg h p) (s, k) = (Ok (), ((window now s)\<lparr>se_expected_remote_seq := Some (h_sequence h + 1),
      se_mr_reg_count := n, se_memory_store := st, se_next_seq := se_next_seq s + 1\<rparr>,
      push [MrRegAck (header_new opcode.MrRegAck (se_session_id s) (se_next_seq s) (h_wrid h))
        \<lparr>mra_pd = mr_pd p, mra_lkey = LKey 0, mra_rkey = RKey 0, mra_status = error_code_to_u16 code\<rparr>] k))"
proof -
  have win: "window now (s\<lparr>se_expected_remote_seq := v\<rparr>) = (window now s)\<lparr>se_expected_remote_seq := v\<rparr>" for v
    by (simp add: window_def)
  have same: "se_memory_store (window now s) = se_memory_store s" "se_mr_reg_rate_limit (window now s) = se_mr_reg_rate_limit s"
    "se_next_seq (window now s) = se_next_seq s" "se_session_id (window now s) = se_session_id s"
    by (simp_all add: window_def)
  have small: "unat (se_mr_reg_count (window now s)) < 4294967295" if "se_mr_reg_count (window now s) < se_mr_reg_rate_limit s"
    using that unat_less_u32 [of "se_mr_reg_rate_limit s"] by (simp add: word_less_nat_alt)
  show ?thesis
    using assms small same
    by (cases "se_mr_reg_count (window now s) < se_mr_reg_rate_limit s")
      (simp_all add: handle_message_admitted handle_ready_def dispatch_def handle_mr_reg_def
        window_def [symmetric] Let_def u32_add_def win not_le not_less)
qed

lemma reg_mr_refused:
  assumes "in_sync cfg c" and "unat (se_max_msg_size (peer_session c)) \<ge> 16"
    and "env (peer_session c, peer_sink c) = (now, os_rng)" and "refuses cfg now os_rng fl len c code n st"
  shows "\<exists>c'. reg_mr (server_net env) fl len c = (Err (Protocol code), c') \<and> in_sync cfg c' \<and> remote c' = st \<and>
    local_bytes c' = local_bytes c \<and> cn_cq c' = cn_cq c \<and>
    cn_pd c' = cn_pd c \<and> cn_session_id c' = cn_session_id c \<and> cn_send_credits c' = cn_send_credits c \<and>
    peer_session c' = (window now (peer_session c))\<lparr>se_expected_remote_seq := Some (cn_next_seq c + 1),
      se_mr_reg_count := n, se_memory_store := st, se_next_seq := se_next_seq (peer_session c) + 1\<rparr>"
proof -
  obtain s k where c: "peer_session c = s" "peer_sink c = k" "sink_up k" "se_state s = Ready"
      "se_pending_op s = NoPending" "se_session_id s = cn_session_id c" "se_pd s = cn_pd c" "session_ok cfg s"
    using assms(1) by (rule in_syncE)
  let ?h = "header_new opcode.MrReg (cn_session_id c) (cn_next_seq c) 0"
  let ?p = "\<lparr>mr_pd = cn_pd c, mr_access_flags = fl, mr_region_len = len, mr_suggested_lkey = None\<rparr>"
  let ?r = "MrRegAck (header_new opcode.MrRegAck (cn_session_id c) (se_next_seq s) 0)
        \<lparr>mra_pd = cn_pd c, mra_lkey = LKey 0, mra_rkey = RKey 0, mra_status = error_code_to_u16 code\<rparr>"
  let ?s' = "(window now s)\<lparr>se_expected_remote_seq := Some (cn_next_seq c + 1), se_mr_reg_count := n,
      se_memory_store := st, se_next_seq := se_next_seq s + 1\<rparr>"
  have adm: "admitted s (on_wire (MrReg ?h ?p))"
    using sync_admitted [OF assms(1), of "MrReg ?h ?p"] assms(2) c
    by (simp add: length_mr_reg_payload_encode mr_reg_payload_encoded_len_def)
  have rate: "se_mr_reg_rate_limit s = cfg_mr_reg_rate_limit cfg" using c by (simp add: session_ok_def)
  have ans: "answers env c (MrReg ?h ?p) ?s' ?r"
    using handle_mr_reg_refused [OF adm [simplified] c(3), of now n os_rng code st] assms(3,4) rate c
    by (simp add: answers_def remote_def refuses_def Let_def split: if_split_asm)
  note step = exchange [OF assms(1) _ ans, simplified message_wf_def]
  have "error_code_to_u16 code \<noteq> 0" using refuses_code [OF assms(4)] by (simp add: error_code_to_u16_0)
  then have "reg_mr (server_net env) fl len c = (Err (Protocol code), exchanged ?s' (push [?r] k) c)"
    using c by (simp add: reg_mr_def send_and_recv_def sbind_assoc step(2))
  moreover have "in_sync cfg (exchanged ?s' (push [?r] k) c)" using step(1) c by simp
  ultimately show ?thesis using c(1) by auto
qed

end
