(* ===== verification/Rdma_Machine.thy ===== *)
theory Rdma_Machine
  imports Verbs Memory_Store
begin

text \<open>
  What the verbs promise, without messages, sessions or sequence numbers: an abstract RDMA
  machine. Its state is the two memories, the completion queue and the receive slots; each
  verb is one step. The specification follows the documented meaning of the verbs
  (\<open>rdows-client/src/verbs.rs\<close>); that the client and the server together implement it is shown
  in \<open>Refinement\<close>.
\<close>

section \<open>The machine\<close>

record region =
  rg_access :: access_flags
  rg_lkey :: lkey
  rg_bytes :: bytes

record rdma =
  rd_session :: u32
  rd_max_msg :: nat
  rd_capacity :: nat
  rd_queue :: "completion_queue_entry list"
  rd_local :: "lkey \<Rightarrow> bytes option"
  rd_remote :: "rkey \<Rightarrow> region option"
  rd_slots :: nat
  rd_credits :: nat

datatype verb =
    RegMr access_flags u64
  | DeregMr lkey
  | WriteLocal lkey usize bytes
  | ReadLocal lkey usize usize
  | RdmaWrite u64 rkey u64 "scatter_gather_entry list"
  | RdmaRead u64 rkey u64 u64 lkey u64
  | AtomicCas u64 rkey u64 u64 u64
  | AtomicFaa u64 rkey u64 u64
  | PostSend u64 "scatter_gather_entry list"
  | PollCq usize

datatype answer =
    Keys lkey rkey
  | Done
  | Data bytes
  | Original u64
  | Completions "completion_queue_entry list"

type_synonym outcome = "(rdows_error, answer) result"

section \<open>The verbs\<close>

definition rd_full :: "rdma \<Rightarrow> bool" where
  "rd_full m \<longleftrightarrow> rd_capacity m \<le> length (rd_queue m)"

definition rd_cqe :: "rdma \<Rightarrow> u64 \<Rightarrow> u16 \<Rightarrow> opcode \<Rightarrow> u32 \<Rightarrow> completion_queue_entry" where
  "rd_cqe m wrid status op n = \<lparr>cqe_wrid = WorkRequestId wrid, cqe_status = status, cqe_opcode = op,
     cqe_vendor_error = 0, cqe_byte_count = n, cqe_qp_number = rd_session m\<rparr>"

definition rd_complete :: "u64 \<Rightarrow> u16 \<Rightarrow> opcode \<Rightarrow> u32 \<Rightarrow> rdma \<Rightarrow> rdma" where
  "rd_complete wrid status op n m = m\<lparr>rd_queue := rd_queue m @ [rd_cqe m wrid status op n]\<rparr>"

text \<open>A verb that fails on the remote side: the caller gets the code, and so does the queue.\<close>

definition rd_fail :: "u64 \<Rightarrow> opcode \<Rightarrow> error_code \<Rightarrow> rdma \<Rightarrow> outcome \<times> rdma" where
  "rd_fail wrid op code m = (Err (Protocol code), rd_complete wrid (error_code_to_u16 code) op 0 m)"

fun rd_gather :: "(lkey \<Rightarrow> bytes option) \<Rightarrow> scatter_gather_entry list \<Rightarrow> (rdows_error, bytes) result" where
  "rd_gather L [] = Ok []"
| "rd_gather L (sg # sgs) =
     (case L (sg_lkey sg) of
        None \<Rightarrow> Err (Protocol ErrInvalidLkey)
      | Some bs \<Rightarrow>
          let a = unat (sg_offset sg); b = a + unat (sg_length sg) in
          if b > length bs then Err (Protocol ErrBounds)
          else rbind (rd_gather L sgs) (\<lambda>rest. Ok (sub_slice bs a b @ rest)))"

definition rd_remote_put :: "rkey \<Rightarrow> nat \<Rightarrow> bytes \<Rightarrow> rdma \<Rightarrow> rdma" where
  "rd_remote_put rk a data m = m\<lparr>rd_remote := (rd_remote m)(rk :=
     map_option (\<lambda>r. r\<lparr>rg_bytes := put_slice (rg_bytes r) a data\<rparr>) (rd_remote m rk))\<rparr>"

definition rd_local_put :: "lkey \<Rightarrow> nat \<Rightarrow> bytes \<Rightarrow> rdma \<Rightarrow> rdma" where
  "rd_local_put lk a data m = m\<lparr>rd_local := (rd_local m)(lk :=
     map_option (\<lambda>bs. put_slice bs a data) (rd_local m lk))\<rparr>"

text \<open>Access to \<open>n\<close> bytes at \<open>a\<close> of a remote region, with a permission.\<close>

definition rd_access :: "rdma \<Rightarrow> access_flags \<Rightarrow> rkey \<Rightarrow> nat \<Rightarrow> nat \<Rightarrow> (error_code, bytes) result" where
  "rd_access m fl rk a n =
     (case rd_remote m rk of
        None \<Rightarrow> Err ErrInvalidMkey
      | Some r \<Rightarrow>
          if \<not> af_contains (rg_access r) fl then Err ErrAccessDenied
          else if length (rg_bytes r) < a + n then Err ErrBounds
          else Ok (rg_bytes r))"

definition rd_write :: "u64 \<Rightarrow> rkey \<Rightarrow> u64 \<Rightarrow> scatter_gather_entry list \<Rightarrow> rdma \<Rightarrow> outcome \<times> rdma" where
  "rd_write wrid rk va sgs m =
     (if rd_full m then (Err (Protocol ErrCqOverflow), m)
      else case rd_gather (rd_local m) sgs of
        Ok data \<Rightarrow>
          (case rd_access m REMOTE_WRITE rk (unat va) (length data) of
             Ok _ \<Rightarrow> (Ok Done, rd_complete wrid 0 opcode.Write (of_nat (length data))
               (rd_remote_put rk (unat va) data m))
           | Err code \<Rightarrow> rd_fail wrid opcode.Write code m
           | _ \<Rightarrow> (Panic, m))
      | Err e \<Rightarrow> (Err e, m)
      | _ \<Rightarrow> (Panic, m))"

definition rd_write_local :: "lkey \<Rightarrow> usize \<Rightarrow> bytes \<Rightarrow> rdma \<Rightarrow> outcome \<times> rdma" where
  "rd_write_local lk a data m =
     (case rd_local m lk of
        None \<Rightarrow> (Err (Protocol ErrInvalidLkey), m)
      | Some bs \<Rightarrow>
          if length bs < a + length data then (Err (Protocol ErrBounds), m)
          else (Ok Done, rd_local_put lk a data m))"

definition rd_read_local :: "lkey \<Rightarrow> usize \<Rightarrow> usize \<Rightarrow> rdma \<Rightarrow> outcome" where
  "rd_read_local lk a n m =
     (case rd_local m lk of
        None \<Rightarrow> Err (Protocol ErrInvalidLkey)
      | Some bs \<Rightarrow> if length bs < a + n then Err (Protocol ErrBounds) else Ok (Data (sub_slice bs a (a + n))))"

text \<open>A read that succeeds remotely but has no room locally is not completed.\<close>

definition rd_read :: "u64 \<Rightarrow> rkey \<Rightarrow> u64 \<Rightarrow> u64 \<Rightarrow> lkey \<Rightarrow> u64 \<Rightarrow> rdma \<Rightarrow> outcome \<times> rdma" where
  "rd_read wrid rk va len lk lva m =
     (if rd_full m then (Err (Protocol ErrCqOverflow), m)
      else case rd_access m REMOTE_READ rk (unat va) (unat len) of
        Ok bs \<Rightarrow>
          (case rd_write_local lk (unat lva) (sub_slice bs (unat va) (unat va + unat len)) m of
             (Ok _, m') \<Rightarrow> (Ok Done, rd_complete wrid 0 opcode.ReadReq (ucast len) m')
           | failed \<Rightarrow> failed)
      | Err code \<Rightarrow> rd_fail wrid opcode.ReadReq code m
      | _ \<Rightarrow> (Panic, m))"

definition rd_atomic :: "u64 \<Rightarrow> rkey \<Rightarrow> u64 \<Rightarrow> (u64 \<Rightarrow> u64) \<Rightarrow> rdma \<Rightarrow> outcome \<times> rdma" where
  "rd_atomic wrid rk va f m =
     (if rd_full m then (Err (Protocol ErrCqOverflow), m)
      else case rd_access m REMOTE_ATOMIC rk 0 0 of
        Err code \<Rightarrow> rd_fail wrid opcode.AtomicReq code m
      | _ \<Rightarrow>
          if va mod 8 \<noteq> 0 then rd_fail wrid opcode.AtomicReq ErrAlignment m
          else
            (case rd_access m REMOTE_ATOMIC rk (unat va) 8 of
               Ok bs \<Rightarrow>
                 let old = word_at bs (unat va) in
                 (Ok (Original old), rd_complete wrid 0 opcode.AtomicReq 8
                   (rd_remote_put rk (unat va) (to_be 8 (f old)) m))
             | Err code \<Rightarrow> rd_fail wrid opcode.AtomicReq code m
             | _ \<Rightarrow> (Panic, m)))"

definition rd_send :: "u64 \<Rightarrow> scatter_gather_entry list \<Rightarrow> rdma \<Rightarrow> outcome \<times> rdma" where
  "rd_send wrid sgs m =
     (if rd_full m then (Err (Protocol ErrCqOverflow), m)
      else if rd_credits m = 0 then (Err SendCreditsExhausted, m)
      else case rd_gather (rd_local m) sgs of
        Ok data \<Rightarrow>
          if rd_slots m = 0 then rd_fail wrid opcode.Send ErrRnr m
          else (Ok Done, rd_complete wrid 0 opcode.Send (of_nat (length data))
            (m\<lparr>rd_slots := rd_slots m - 1, rd_credits := rd_credits m - 1\<rparr>))
      | Err e \<Rightarrow> (Err e, m)
      | _ \<Rightarrow> (Panic, m))"

definition rd_dereg :: "lkey \<Rightarrow> rdma \<Rightarrow> outcome \<times> rdma" where
  "rd_dereg lk m =
     (if \<exists>rk r. rd_remote m rk = Some r \<and> rg_lkey r = lk
      then (Ok Done, m\<lparr>rd_local := (rd_local m)(lk := None),
        rd_remote := (\<lambda>rk. case rd_remote m rk of
          Some r \<Rightarrow> if rg_lkey r = lk then None else Some r | None \<Rightarrow> None)\<rparr>)
      else (Err (Protocol ErrInvalidLkey), m))"

text \<open>
  A step of the machine. Registration is the only verb with a choice: it may return any pair of
  keys that are not in use, or refuse with some code and change nothing.
\<close>

inductive rd_step :: "rdma \<Rightarrow> verb \<Rightarrow> outcome \<Rightarrow> rdma \<Rightarrow> bool" where
  reg: "rd_remote m rk = None \<Longrightarrow> rd_local m lk = None \<Longrightarrow> \<forall>rk r. rd_remote m rk = Some r \<longrightarrow> rg_lkey r \<noteq> lk \<Longrightarrow>
    rd_step m (RegMr fl len) (Ok (Keys lk rk))
      (m\<lparr>rd_local := (rd_local m)(lk \<mapsto> replicate (unat len) 0),
         rd_remote := (rd_remote m)(rk \<mapsto> \<lparr>rg_access = fl, rg_lkey = lk, rg_bytes = replicate (unat len) 0\<rparr>)\<rparr>)"
| reg_refused: "code \<noteq> Success \<Longrightarrow> rd_step m (RegMr fl len) (Err (Protocol code)) m"
| dereg: "rd_dereg lk m = (r, m') \<Longrightarrow> rd_step m (DeregMr lk) r m'"
| write_local: "rd_write_local lk a data m = (r, m') \<Longrightarrow> rd_step m (WriteLocal lk a data) r m'"
| read_local: "rd_step m (ReadLocal lk a n) (rd_read_local lk a n m) m"
| rdma_write: "rd_write wrid rk va sgs m = (r, m') \<Longrightarrow> rd_step m (RdmaWrite wrid rk va sgs) r m'"
| rdma_read: "rd_read wrid rk va len lk lva m = (r, m') \<Longrightarrow> rd_step m (RdmaRead wrid rk va len lk lva) r m'"
| atomic_cas: "rd_atomic wrid rk va (\<lambda>old. if old = expect then swap else old) m = (r, m') \<Longrightarrow>
    rd_step m (AtomicCas wrid rk va expect swap) r m'"
| atomic_faa: "rd_atomic wrid rk va (\<lambda>old. old + addend) m = (r, m') \<Longrightarrow>
    rd_step m (AtomicFaa wrid rk va addend) r m'"
| send: "rd_send wrid sgs m = (r, m') \<Longrightarrow> rd_step m (PostSend wrid sgs) r m'"
| poll: "rd_step m (PollCq n) (Ok (Completions (take n (rd_queue m)))) (m\<lparr>rd_queue := drop n (rd_queue m)\<rparr>)"

inductive rd_run :: "rdma \<Rightarrow> verb list \<Rightarrow> outcome list \<Rightarrow> rdma \<Rightarrow> bool" where
  nil: "rd_run m [] [] m"
| cons: "rd_step m v r m1 \<Longrightarrow> rd_run m1 vs rs m2 \<Longrightarrow> rd_run m (v # vs) (r # rs) m2"

inductive_cases rd_run_ConsE: "rd_run m (v # vs) rs m'"

text \<open>
  The verbs the implementation can carry out in a given state. The messages that the client
  sends must fit the negotiated size, address arithmetic on the client's side must not
  overflow, and the key of a remote write must be valid and permit writing (a refused write
  leaves client and server out of step). The answer to a read need only be a frame that the
  header can describe, that is shorter than \<open>2^32\<close> bytes: neither \<open>handle_read_req\<close> nor the client
  compares a READ_RESP with the negotiated size.
\<close>

definition sg_sane :: "scatter_gather_entry list \<Rightarrow> bool" where
  "sg_sane sgs \<longleftrightarrow> length sgs < 65536 \<and> (\<forall>sg \<in> set sgs. unat (sg_offset sg) + unat (sg_length sg) < usize_limit)"

definition rd_fits :: "rdma \<Rightarrow> usize \<Rightarrow> scatter_gather_entry list \<Rightarrow> bool" where
  "rd_fits m header sgs \<longleftrightarrow> sg_sane sgs \<and> header + length sgs * SG_ENTRY_SIZE \<le> rd_max_msg m \<and>
     (case rd_gather (rd_local m) sgs of Ok data \<Rightarrow> length data \<le> rd_max_msg m | _ \<Rightarrow> True)"

fun rd_admits :: "rdma \<Rightarrow> verb \<Rightarrow> bool" where
  "rd_admits m (WriteLocal lk a data) = (a + length data < usize_limit)"
| "rd_admits m (ReadLocal lk a n) = (a + n < usize_limit)"
| "rd_admits m (RdmaWrite wrid rk va sgs) = (rd_fits m WRITE_HEADER_SIZE sgs \<and>
     (case rd_remote m rk of Some r \<Rightarrow> af_contains (rg_access r) REMOTE_WRITE | None \<Rightarrow> False))"
| "rd_admits m (RdmaRead wrid rk va len lk lva) = (unat len + 8 < 4294967296 \<and> unat lva + unat len < usize_limit)"
| "rd_admits m (PostSend wrid sgs) = rd_fits m 4 sgs"
| "rd_admits m v = True"

section \<open>Lemmas\<close>

lemma rd_complete_simps [simp]:
  "rd_local (rd_complete w st op n m) = rd_local m" "rd_remote (rd_complete w st op n m) = rd_remote m"
  "rd_queue (rd_complete w st op n m) = rd_queue m @ [rd_cqe m w st op n]"
  "rd_slots (rd_complete w st op n m) = rd_slots m" "rd_credits (rd_complete w st op n m) = rd_credits m"
  "rd_capacity (rd_complete w st op n m) = rd_capacity m" "rd_max_msg (rd_complete w st op n m) = rd_max_msg m"
  "rd_session (rd_complete w st op n m) = rd_session m"
  by (simp_all add: rd_complete_def)

lemma rd_cqe_cong [simp]:
  "rd_cqe (m\<lparr>rd_local := L\<rparr>) = rd_cqe m" "rd_cqe (m\<lparr>rd_remote := R\<rparr>) = rd_cqe m"
  "rd_cqe (m\<lparr>rd_queue := Q\<rparr>) = rd_cqe m" "rd_cqe (m\<lparr>rd_slots := n, rd_credits := k\<rparr>) = rd_cqe m"
  by (simp_all add: rd_cqe_def fun_eq_iff)

text \<open>Local buffers belong to registered regions; this is what makes fresh keys fresh on both sides.\<close>

definition rd_wf :: "rdma \<Rightarrow> bool" where
  "rd_wf m \<longleftrightarrow> (\<forall>lk. rd_local m lk \<noteq> None \<longrightarrow> (\<exists>rk r. rd_remote m rk = Some r \<and> rg_lkey r = lk))"

lemma rd_wf_remote_put: "rd_wf m \<Longrightarrow> rd_wf (rd_remote_put rk a data m)"
  unfolding rd_wf_def rd_remote_put_def by (simp del: not_None_eq) (metis option.simps(9) region.select_convs(2) region.surjective region.update_convs(3))

lemma rd_wf_local_put: "rd_wf m \<Longrightarrow> rd_wf (rd_local_put lk a data m)"
  by (auto simp: rd_wf_def rd_local_put_def)

lemma rd_wf_complete [simp]: "rd_wf (rd_complete w st op n m) = rd_wf m"
  by (simp add: rd_wf_def)

lemma rd_wf_fields [simp]:
  "rd_wf (m\<lparr>rd_slots := a, rd_credits := b\<rparr>) = rd_wf m" "rd_wf (m\<lparr>rd_queue := q\<rparr>) = rd_wf m"
  by (simp_all add: rd_wf_def)

lemma rd_step_wf:
  assumes "rd_step m v r m'" and "rd_wf m"
  shows "rd_wf m'"
  using assms
proof cases
  case (reg rk lk fl len)
  then show ?thesis using assms(2) by (auto simp: rd_wf_def) (metis option.distinct(1))
next
  case (dereg lk)
  then show ?thesis using assms(2)
    by (fastforce simp: rd_dereg_def rd_wf_def split: if_split_asm option.split)
next
  case (write_local lk a data)
  then show ?thesis using assms(2)
    by (auto simp: rd_write_local_def intro: rd_wf_local_put split: option.splits if_split_asm)
next
  case (rdma_write wrid rk va sgs)
  then show ?thesis using assms(2)
    by (auto simp: rd_write_def rd_fail_def intro: rd_wf_remote_put split: result.splits if_split_asm)
next
  case (rdma_read wrid rk va len lk lva)
  then show ?thesis using assms(2)
    by (auto simp: rd_read_def rd_fail_def rd_write_local_def intro: rd_wf_local_put
        split: result.splits option.splits if_split_asm)
next
  case (atomic_cas wrid rk va expect swap)
  then show ?thesis using assms(2)
    by (auto simp: rd_atomic_def rd_fail_def Let_def intro: rd_wf_remote_put split: result.splits if_split_asm)
next
  case (atomic_faa wrid rk va addend)
  then show ?thesis using assms(2)
    by (auto simp: rd_atomic_def rd_fail_def Let_def intro: rd_wf_remote_put split: result.splits if_split_asm)
next
  case (send wrid sgs)
  then show ?thesis using assms(2)
    by (auto simp: rd_send_def rd_fail_def split: result.splits if_split_asm)
qed simp_all

end
