(* ===== verification/Refinement.thy ===== *)
theory Refinement
  imports Send_Ops Refusals Rdma_Machine
begin

text \<open>
  The client library and the server session together implement the RDMA machine: under the
  abstraction \<open>machine_of\<close>, every verb that the machine admits is one step of the machine with
  the same outcome, and so is every sequence of verbs.
\<close>

section \<open>The abstraction\<close>

definition region_view :: "memory_store \<Rightarrow> rkey \<Rightarrow> region option" where
  "region_view st rk = map_option (\<lambda>e. \<lparr>rg_access = me_access_flags e, rg_lkey = me_lkey e, rg_bytes = me_data e\<rparr>)
     (mr_lookup st rk)"

definition machine_of :: "server_peer rdows_connection \<Rightarrow> rdma" where
  "machine_of c = \<lparr>rd_session = cn_session_id c, rd_max_msg = unat (se_max_msg_size (peer_session c)),
     rd_capacity = cq_capacity (cn_cq c), rd_queue = cq_entries (cn_cq c), rd_local = local_bytes c,
     rd_remote = region_view (remote c), rd_slots = unat (se_recv_queue_depth (peer_session c)),
     rd_credits = unat (cn_send_credits c)\<rparr>"

text \<open>
  The invariant of a connection in use: both sides agree, the limits are sensible, and the
  receive slots used up so far stay below the number that triggers a CREDIT_UPDATE.
\<close>

definition one_pd :: "memory_store \<Rightarrow> protection_domain \<Rightarrow> bool" where
  "one_pd st pd \<longleftrightarrow> (\<forall>rk e. mr_lookup st rk = Some e \<longrightarrow> me_pd e = pd)"

definition linked :: "server_config \<Rightarrow> server_peer rdows_connection \<Rightarrow> bool" where
  "linked cfg c \<longleftrightarrow> in_sync cfg c \<and> rd_wf (machine_of c) \<and>
     40 \<le> unat (se_max_msg_size (peer_session c)) \<and> cfg_max_outstanding_reads cfg \<noteq> 0 \<and>
     unat (se_recv_queue_depth (peer_session c)) + unat (se_sends_since_last_credit (peer_session c)) < 16383 \<and>
     one_pd (remote c) (cn_pd c)"

text \<open>The verbs of the client, with their results as answers.\<close>

fun perform :: "environment \<Rightarrow> verb \<Rightarrow> server_peer rdows_connection \<Rightarrow> outcome \<times> server_peer rdows_connection" where
  "perform env (RegMr fl len) c =
     sbind (reg_mr (server_net env) fl len c) (\<lambda>mr c. (Ok (Keys (mh_lkey mr) (mh_rkey mr)), c))"
| "perform env (DeregMr lk) c = sbind (dereg_mr (server_net env) lk c) (\<lambda>_ c. (Ok Done, c))"
| "perform env (WriteLocal lk a data) c = sbind (write_local_mr lk a data c) (\<lambda>_ c. (Ok Done, c))"
| "perform env (ReadLocal lk a n) c = (rbind (read_local_mr lk a n c) (\<lambda>data. Ok (Data data)), c)"
| "perform env (RdmaWrite wrid rk va sgs) c =
     sbind (rdma_write (server_net env) wrid rk va sgs c) (\<lambda>_ c. (Ok Done, c))"
| "perform env (RdmaRead wrid rk va len lk lva) c =
     sbind (rdma_read (server_net env) wrid rk va len lk lva c) (\<lambda>_ c. (Ok Done, c))"
| "perform env (AtomicCas wrid rk va expect swap) c =
     sbind (atomic_cas (server_net env) wrid rk va expect swap c) (\<lambda>v c. (Ok (Original v), c))"
| "perform env (AtomicFaa wrid rk va addend) c =
     sbind (atomic_faa (server_net env) wrid rk va addend c) (\<lambda>v c. (Ok (Original v), c))"
| "perform env (PostSend wrid sgs) c =
     sbind (post_send (server_net env) wrid sgs c) (\<lambda>_ c. (Ok Done, c))"
| "perform env (PollCq n) c = (let (es, c) = cn_poll_cq n c in (Ok (Completions es), c))"

text \<open>
  A registration must not make the server panic. It may be refused, for the rate or for lack of
  room or of a fresh key.
\<close>

definition registers :: "environment \<Rightarrow> server_config \<Rightarrow> access_flags \<Rightarrow> u64 \<Rightarrow> server_peer rdows_connection \<Rightarrow> bool" where
  "registers env cfg fl len c \<longleftrightarrow> (case env (peer_session c, peer_sink c) of (now, os_rng) \<Rightarrow>
     se_mr_reg_count (window now (peer_session c)) < cfg_mr_reg_rate_limit cfg \<longrightarrow>
     fst (register os_rng (cn_pd c) fl len (remote c)) \<noteq> Panic)"

fun admitted_verb :: "environment \<Rightarrow> server_config \<Rightarrow> verb \<Rightarrow> server_peer rdows_connection \<Rightarrow> bool" where
  "admitted_verb env cfg (RegMr fl len) c = registers env cfg fl len c"
| "admitted_verb env cfg v c = rd_admits (machine_of c) v"

section \<open>The abstraction of each change\<close>

lemma region_view_update:
  assumes "keys_ok st" and "mr_lookup st rk = Some e"
  shows "region_view (mr_update rk bs st) = (region_view st)(rk := map_option (\<lambda>r. r\<lparr>rg_bytes := bs\<rparr>) (region_view st rk))"
  using assms by (auto simp: region_view_def mr_lookup_update fun_eq_iff)

lemma linked_sync: "linked cfg c \<Longrightarrow> in_sync cfg c"
  and linked_store: "linked cfg c \<Longrightarrow> store_inv (remote c)"
  and linked_keys: "linked cfg c \<Longrightarrow> keys_ok (remote c)"
  and linked_local: "linked cfg c \<Longrightarrow> local_inv c"
  and linked_pd: "linked cfg c \<Longrightarrow> one_pd (remote c) (cn_pd c)"
  by (simp_all add: linked_def in_sync_def session_ok_def remote_def store_inv_def)

lemma machine_of_simps [simp]:
  "rd_session (machine_of c) = cn_session_id c" "rd_max_msg (machine_of c) = unat (se_max_msg_size (peer_session c))"
  "rd_capacity (machine_of c) = cq_capacity (cn_cq c)" "rd_queue (machine_of c) = cq_entries (cn_cq c)"
  "rd_local (machine_of c) = local_bytes c" "rd_remote (machine_of c) = region_view (remote c)"
  "rd_slots (machine_of c) = unat (se_recv_queue_depth (peer_session c))"
  "rd_credits (machine_of c) = unat (cn_send_credits c)"
  "rd_full (machine_of c) = cq_is_full (cn_cq c)"
  by (simp_all add: machine_of_def rd_full_def cq_is_full_def)

lemma rd_cqe_machine: "rd_cqe (machine_of c) w st op n = cqe w st op n c"
  by (simp add: rd_cqe_def)

lemma machine_eqI:
  assumes "same_link c c'" and "local_bytes c' = rd_local m" and "region_view (remote c') = rd_remote m"
    and "cq_entries (cn_cq c') = rd_queue m"
    and "m = (machine_of c)\<lparr>rd_local := rd_local m, rd_remote := rd_remote m, rd_queue := rd_queue m\<rparr>"
  shows "machine_of c' = m"
proof -
  have "machine_of c' = (machine_of c)\<lparr>rd_local := rd_local m, rd_remote := rd_remote m, rd_queue := rd_queue m\<rparr>"
    using assms(1-4) by (simp add: machine_of_def same_link_def)
  then show ?thesis using assms(5) by simp
qed

lemma linked_stepI:
  assumes "linked cfg c" and "in_sync cfg c'" and "same_link c c'" and "rd_step (machine_of c) v r (machine_of c')"
    and "one_pd (remote c') (cn_pd c)"
  shows "linked cfg c'"
  using assms(1-3) rd_step_wf [OF assms(4)] assms(5) by (simp add: linked_def same_link_def)

lemma gather_machine:
  assumes "sg_sane sgs"
  shows "gather_sg_data (cn_local_mrs c) sgs = rd_gather (local_bytes c) sgs"
  using assms
proof (induction sgs)
  case (Cons sg sgs)
  then have "sg_sane sgs" "unat (sg_offset sg) + unat (sg_length sg) < usize_limit"
    by (auto simp: sg_sane_def)
  with Cons.IH show ?case
    by (cases "fmlookup (cn_local_mrs c) (lkey_val (sg_lkey sg))")
      (auto simp: local_bytes_def usize_add_def Let_def)
qed simp

lemma rd_access_view:
  "rd_access (machine_of c) fl rk a n = (case mr_lookup (remote c) rk of
     None \<Rightarrow> Err ErrInvalidMkey
   | Some e \<Rightarrow> if \<not> af_contains (me_access_flags e) fl then Err ErrAccessDenied
       else if length (me_data e) < a + n then Err ErrBounds else Ok (me_data e))"
  by (simp add: rd_access_def region_view_def split: option.split)

section \<open>Each verb is a step of the machine\<close>

text \<open>
  The resources of the server that only registering and removing regions change: the table of
  regions, the byte count, the keys given out and the registration counter.
\<close>

definition spent :: "server_peer rdows_connection \<Rightarrow> u32 fset \<times> u64 \<times> u32 \<times> u32 fset \<times> u32" where
  "spent c = (fmdom (ms_regions (remote c)), ms_total_registered_bytes (remote c), ms_next_lkey (remote c),
     ms_used_rkeys (remote c), se_mr_reg_count (peer_session c))"

fun calm :: "verb \<Rightarrow> bool" where
  "calm (RegMr fl len) = False"
| "calm (DeregMr lk) = False"
| "calm v = True"

lemma mr_update_dom: "fmdom (ms_regions (mr_update rk bs st)) = fmdom (ms_regions st)"
  by (auto simp: mr_update_def fmdomI finsert_absorb split: option.split)

lemma one_pd_update:
  assumes "keys_ok st" and "one_pd st pd"
  shows "one_pd (mr_update rk bs st) pd"
proof (cases "mr_lookup st rk")
  case None
  then have "mr_update rk bs st = st" by (auto simp: mr_update_def mr_lookup_def split: option.splits)
  with assms show ?thesis by simp
next
  case (Some e)
  with assms show ?thesis by (simp add: one_pd_def mr_lookup_update [OF assms(1) Some])
qed

text \<open>The statement proved for each verb.\<close>

definition simulated :: "environment \<Rightarrow> server_config \<Rightarrow> verb \<Rightarrow> server_peer rdows_connection \<Rightarrow> bool" where
  "simulated env cfg v c \<longleftrightarrow> (\<exists>r c'. perform env v c = (r, c') \<and> linked cfg c' \<and>
     rd_step (machine_of c) v r (machine_of c') \<and> (calm v \<longrightarrow> spent c' = spent c))"

text \<open>For a verb that changes at most the bytes of one remote region, and no link parameter.\<close>

lemma simulatedI:
  assumes "linked cfg c" and "perform env v c = (r, c')" and "in_sync cfg c'" and "same_link c c'"
    and "rd_step (machine_of c) v r (machine_of c')"
    and "remote c' = remote c \<or> (\<exists>rk bs. remote c' = mr_update rk bs (remote c))"
  shows "simulated env cfg v c"
proof -
  have "one_pd (remote c') (cn_pd c)"
    using assms(6) linked_pd [OF assms(1)] one_pd_update [OF linked_keys linked_pd, OF assms(1,1)] by auto
  then have "linked cfg c'" by (rule linked_stepI [OF assms(1,3,4,5)])
  moreover have "spent c' = spent c" using assms(4,6) by (auto simp: spent_def same_link_def mr_update_dom)
  ultimately show ?thesis using assms(2,5) by (auto simp: simulated_def)
qed

lemma simulated_same:
  assumes "linked cfg c" and "perform env v c = (r, c)" and "rd_step (machine_of c) v r (machine_of c)"
  shows "simulated env cfg v c"
  unfolding simulated_def using assms by blast

lemma rd_gather_cases: "(\<exists>data. rd_gather L sgs = Ok data) \<or> (\<exists>e. rd_gather L sgs = Err e)"
proof (induction sgs)
  case (Cons sg sgs)
  then show ?case by (cases "rd_gather L sgs") (auto simp: Let_def split: option.split)
qed simp

text \<open>The state after a verb that changed one region's bytes, or nothing, and was completed.\<close>

lemma machine_of_updated:
  assumes "linked cfg c" and "mr_lookup (remote c) rk = Some e"
    and "remote c' = mr_update rk (put_slice (me_data e) a data) (remote c)"
    and "same_link c c'" and "local_bytes c' = local_bytes c"
    and "cq_entries (cn_cq c') = cq_entries (cn_cq c) @ [cqe w st op n c]"
  shows "machine_of c' = rd_complete w st op n (rd_remote_put rk a data (machine_of c))"
  using assms region_view_update [OF linked_keys [OF assms(1)] assms(2)]
  by (intro machine_eqI [OF assms(4)])
    (simp_all add: rd_remote_put_def rd_complete_def rd_cqe_def region_view_def)

lemma machine_of_completed:
  assumes "remote c' = remote c" and "same_link c c'" and "local_bytes c' = local_bytes c"
    and "cq_entries (cn_cq c') = cq_entries (cn_cq c) @ [cqe w st op n c]"
  shows "machine_of c' = rd_complete w st op n (machine_of c)"
  using assms by (intro machine_eqI [OF assms(2)]) (simp_all add: rd_complete_def rd_cqe_machine)

lemma simulated_write:
  assumes link: "linked cfg c" and adm: "rd_admits (machine_of c) (RdmaWrite wrid rk va sgs)"
  shows "simulated env cfg (RdmaWrite wrid rk va sgs) c"
proof -
  let ?m = "machine_of c"
  have sane: "sg_sane sgs" using adm by (simp add: rd_fits_def)
  note ga = gather_machine [OF sane, of c]
  consider "cq_is_full (cn_cq c)" | e where "\<not> cq_is_full (cn_cq c)" "rd_gather (local_bytes c) sgs = Err e"
    | data where "\<not> cq_is_full (cn_cq c)" "rd_gather (local_bytes c) sgs = Ok data"
    using rd_gather_cases [of "local_bytes c" sgs] by blast
  then show ?thesis
  proof cases
    case 1
    then show ?thesis using link
      by (intro simulated_same) (auto simp: rdma_write_def rd_write_def intro: rd_step.rdma_write)
  next
    case (2 e)
    then show ?thesis using link
      by (intro simulated_same) (auto simp: rdma_write_def rd_write_def ga intro: rd_step.rdma_write)
  next
    case (3 data)
    obtain e where e: "mr_lookup (remote c) rk = Some e" "af_contains (me_access_flags e) REMOTE_WRITE"
      using adm by (auto simp: region_view_def split: option.splits)
    have sizes: "write_payload_encoded_len \<lparr>wp_rkey = rk, wp_remote_va = va, wp_length = of_nat (length data),
        wp_sg_list = sgs\<rparr> \<le> unat (se_max_msg_size (peer_session c))"
      "length data \<le> unat (se_max_msg_size (peer_session c))" "mr_allows REMOTE_WRITE (remote c) rk"
      using adm 3 e by (simp_all add: rd_fits_def write_payload_encoded_len_def mr_allows_def)
    obtain res st where op: "write_region rk va data (remote c) = (res, st)" by (metis surj_pair)
    obtain c' where c': "rdma_write (server_net env) wrid rk va sgs c = (map_err Protocol res, c')"
        "in_sync cfg c'" "remote c' = st" "local_bytes c' = local_bytes c" "same_link c c'"
        "cq_entries (cn_cq c') = cq_entries (cn_cq c) @ [write_cqe wrid res (length data) c]"
      using rdma_write_eq [OF linked_sync [OF link] 3(1) _ refl sizes op, of env wrid] 3(2) ga by auto
    note eq = op [unfolded write_region_eq [OF linked_store [OF link]], simplified e, simplified]
    have acc: "rd_access ?m REMOTE_WRITE rk (unat va) (length data) =
        (if length (me_data e) < unat va + length data then Err ErrBounds else Ok (me_data e))"
      using e by (simp add: rd_access_view)
    show ?thesis
    proof (cases "length (me_data e) < unat va + length data")
      case True
      then have "res = Err ErrBounds" "remote c' = remote c" using eq e c'(3) by simp_all
      then show ?thesis
        using machine_of_completed [of c' c] c' 3 acc True link
        by (intro simulatedI [of cfg c env _ _ c']) (auto simp: rd_write_def rd_fail_def intro!: rd_step.rdma_write)
    next
      case False
      then have st: "res = Ok ()" "remote c' = mr_update rk (put_slice (me_data e) (unat va) data) (remote c)"
        using eq e c'(3) by simp_all
      then have "machine_of c' = rd_complete wrid 0 opcode.Write (of_nat (length data))
          (rd_remote_put rk (unat va) data (machine_of c))"
        using machine_of_updated [OF link e(1)] c' by simp
      then show ?thesis
        using c' st 3 acc False link
        by (intro simulatedI [of cfg c env _ _ c']) (auto simp: rd_write_def intro!: rd_step.rdma_write)
    qed
  qed
qed

subsection \<open>Local regions\<close>

lemma write_local_cases:
  assumes "local_inv c" and "a + length data < usize_limit"
  obtains (invalid) "local_bytes c lk = None" and "write_local_mr lk a data c = (Err (Protocol ErrInvalidLkey), c)"
  | (bounds) bs where "local_bytes c lk = Some bs" and "length bs < a + length data"
      and "write_local_mr lk a data c = (Err (Protocol ErrBounds), c)"
  | (ok) bs mrs where "local_bytes c lk = Some bs" and "a + length data \<le> length bs"
      and "write_local_mr lk a data c = (Ok (), c\<lparr>cn_local_mrs := mrs\<rparr>)"
      and "local_inv (c\<lparr>cn_local_mrs := mrs\<rparr>)"
      and "local_bytes (c\<lparr>cn_local_mrs := mrs\<rparr>) = (local_bytes c)(lk \<mapsto> put_slice bs a data)"
proof (cases "local_bytes c lk")
  case None
  then show thesis using invalid by (auto simp: write_local_mr_def local_bytes_def)
next
  case (Some bs)
  show thesis
  proof (cases "length bs < a + length data")
    case True
    then show thesis
      using Some assms(2) bounds by (auto simp: write_local_mr_def local_bytes_def usize_add_def)
  next
    case False
    then show thesis using write_local_ok [OF assms(1) Some, of a data] ok [OF Some] by (metis not_le)
  qed
qed

lemma same_link_local [simp]: "same_link c (c\<lparr>cn_local_mrs := mrs\<rparr>)"
  by (simp add: same_link_def)

lemma machine_of_local:
  assumes "local_bytes c lk = Some bs"
    and "local_bytes (c\<lparr>cn_local_mrs := mrs\<rparr>) = (local_bytes c)(lk \<mapsto> put_slice bs a data)"
  shows "machine_of (c\<lparr>cn_local_mrs := mrs\<rparr>) = rd_local_put lk a data (machine_of c)"
  using assms by (intro machine_eqI [of c]) (simp_all add: rd_local_put_def)

lemma simulated_write_local:
  assumes link: "linked cfg c" and adm: "rd_admits (machine_of c) (WriteLocal lk a data)"
  shows "simulated env cfg (WriteLocal lk a data) c"
proof -
  from linked_local [OF link] adm have "local_inv c" "a + length data < usize_limit" by simp_all
  then show ?thesis
  proof (cases rule: write_local_cases [where lk = lk])
    case (ok bs mrs)
    then show ?thesis
      using link linked_pd [OF link] in_sync_local_mrs [OF linked_sync [OF link]] machine_of_local [of c lk bs mrs a data]
      by (intro simulatedI [of cfg c env _ _ "c\<lparr>cn_local_mrs := mrs\<rparr>"])
        (auto simp: rd_write_local_def intro!: rd_step.write_local)
  qed (use link in \<open>auto simp: rd_write_local_def intro!: simulated_same rd_step.write_local\<close>)
qed

lemma simulated_read_local:
  assumes link: "linked cfg c" and adm: "rd_admits (machine_of c) (ReadLocal lk a n)"
  shows "simulated env cfg (ReadLocal lk a n) c"
proof -
  have "rbind (read_local_mr lk a n c) (\<lambda>data. Ok (Data data)) = rd_read_local lk a n (machine_of c)"
    using adm by (cases "fmlookup (cn_local_mrs c) (lkey_val lk)")
      (auto simp: read_local_mr_def rd_read_local_def local_bytes_def usize_add_def)
  then show ?thesis using link rd_step.read_local [of "machine_of c" lk a n] by (intro simulated_same) simp_all
qed

lemma simulated_poll:
  assumes link: "linked cfg c"
  shows "simulated env cfg (PollCq n) c"
proof -
  let ?c' = "snd (cn_poll_cq n c)"
  have cq: "cn_poll_cq n c = (take n (cq_entries (cn_cq c)), ?c')"
    and fields: "cq_entries (cn_cq ?c') = drop n (cq_entries (cn_cq c))" "cq_capacity (cn_cq ?c') = cq_capacity (cn_cq c)"
      "\<And>q. ?c' = c\<lparr>cn_cq := cn_cq ?c'\<rparr>"
    by (simp_all add: cn_poll_cq_def cq_poll_def Let_def min_def)
  then have same: "same_link c ?c'" "remote ?c' = remote c" "local_bytes ?c' = local_bytes c"
    "peer_session ?c' = peer_session c" "peer_sink ?c' = peer_sink c" "local_inv ?c' = local_inv c"
    by (simp_all add: cn_poll_cq_def Let_def case_prod_beta same_link_def remote_def peer_session_def peer_sink_def
        local_bytes_def local_inv_def fun_eq_iff)
  then have "machine_of ?c' = (machine_of c)\<lparr>rd_queue := drop n (rd_queue (machine_of c))\<rparr>"
    using fields(1) by (intro machine_eqI [of c]) simp_all
  then have "rd_step (machine_of c) (PollCq n) (Ok (Completions (take n (cq_entries (cn_cq c))))) (machine_of ?c')"
    using rd_step.poll [of "machine_of c" n] by simp
  moreover have "in_sync cfg ?c'"
    using linked_sync [OF link] same by (simp add: in_sync_def cn_poll_cq_def Let_def case_prod_beta)
  ultimately show ?thesis
    using link same linked_pd [OF link] cq by (intro simulatedI [of cfg c env _ _ ?c']) (auto simp: cn_poll_cq_def cq_poll_def Let_def min_def)
qed

subsection \<open>Reads and atomics\<close>

lemma simulated_read:
  assumes link: "linked cfg c" and adm: "rd_admits (machine_of c) (RdmaRead wrid rk va len lk lva)"
  shows "simulated env cfg (RdmaRead wrid rk va len lk lva) c"
proof (cases "cq_is_full (cn_cq c)")
  case True
  then show ?thesis using link
    by (intro simulated_same) (auto simp: rdma_read_def rd_read_def intro: rd_step.rdma_read)
next
  case room: False
  from link adm have "40 \<le> unat (se_max_msg_size (peer_session c))" "cfg_max_outstanding_reads cfg \<noteq> 0"
    "unat len + 8 < 4294967296" by (simp_all add: linked_def)
  with linked_sync [OF link] room
  obtain c0 where c0: "in_sync cfg c0" "remote c0 = remote c" "cn_local_mrs c0 = cn_local_mrs c"
      "cn_cq c0 = cn_cq c" "same_link c c0"
    and rd: "rdma_read (server_net env) wrid rk va len lk lva c =
      (case read_region rk va len (remote c) of
         Ok data \<Rightarrow> sbind (write_local_mr lk (unat lva) data c0) (\<lambda>_ c.
           (Ok (), cn_complete wrid 0 opcode.ReadReq (of_nat (length data)) c))
       | Err code \<Rightarrow> (Err (Protocol code), cn_complete wrid (error_code_to_u16 code) opcode.ReadReq 0 c0)
       | _ \<Rightarrow> (Panic, c0))"
    by (rule rdma_read_eq)
  have same: "local_bytes c0 = local_bytes c" "local_inv c0" "machine_of c0 = machine_of c"
    using c0 by (simp_all add: local_bytes_def fun_eq_iff in_sync_def machine_of_def same_link_def)
  show ?thesis
  proof (cases "read_region rk va len (remote c)")
    case (Err code)
    let ?c' = "cn_complete wrid (error_code_to_u16 code) opcode.ReadReq 0 c0"
    have "rd_access (machine_of c) REMOTE_READ rk (unat va) (unat len) = Err code"
      using Err by (auto simp: rd_access_view read_region_eq [OF linked_store [OF link]] split: option.splits if_split_asm)
    moreover have "machine_of ?c' = rd_complete wrid (error_code_to_u16 code) opcode.ReadReq 0 (machine_of c)"
      using machine_of_completed [of ?c' c0] room c0 same by (simp add: cn_complete_cq same_link_def)
    ultimately show ?thesis
      using Err rd c0 room link linked_pd [OF link]
      by (intro simulatedI [of cfg c env _ _ ?c']) (auto simp: rd_read_def rd_fail_def same_link_def intro!: rd_step.rdma_read)
  next
    case (Ok data)
    then obtain bs where e: "rd_access (machine_of c) REMOTE_READ rk (unat va) (unat len) = Ok bs"
      "data = sub_slice bs (unat va) (unat va + unat len)" "unat va + unat len \<le> length bs"
      by (auto simp: rd_access_view read_region_eq [OF linked_store [OF link]] split: option.splits if_split_asm)
    then have len: "length data = unat len" by simp
    from same(2) len adm have "local_inv c0" "unat lva + length data < usize_limit" by simp_all
    then show ?thesis
    proof (cases rule: write_local_cases [where lk = lk])
      case (ok bs mrs)
      let ?c' = "cn_complete wrid 0 opcode.ReadReq (of_nat (length data)) (c0\<lparr>cn_local_mrs := mrs\<rparr>)"
      have "machine_of ?c' = rd_complete wrid 0 opcode.ReadReq (ucast len) (rd_local_put lk (unat lva) data (machine_of c))"
        using machine_of_completed [of ?c' "c0\<lparr>cn_local_mrs := mrs\<rparr>"] machine_of_local [OF ok(1,5)] room c0 same len
        by (simp add: cn_complete_cq same_link_def unsigned_ucast_eq)
      then show ?thesis
        using Ok rd c0 room link linked_pd [OF link] ok e same in_sync_local_mrs [OF c0(1) ok(4)]
        by (intro simulatedI [of cfg c env _ _ ?c'])
          (auto simp: rd_read_def rd_write_local_def same_link_def intro!: rd_step.rdma_read)
    qed (use Ok rd c0 room link linked_pd [OF link] e same in
        \<open>auto simp: rd_read_def rd_write_local_def intro!: simulatedI [of cfg c env _ _ c0] rd_step.rdma_read\<close>)
  qed (use read_region_not_stuck [of rk va len "remote c"] in simp_all)
qed

lemma simulated_atomic:
  assumes link: "linked cfg c" and ty: "ty = ATOMIC_TYPE_CAS \<or> ty = ATOMIC_TYPE_FAA"
  obtains r c' where "sbind (post_atomic (server_net env) wrid rk va ty op1 op2 c) (\<lambda>v c. (Ok (Original v), c)) = (r, c')"
    and "rd_atomic wrid rk va (atomic_new ty op1 op2) (machine_of c) = (r, machine_of c')"
    and "in_sync cfg c'" and "same_link c c'"
    and "remote c' = remote c \<or> (\<exists>rk bs. remote c' = mr_update rk bs (remote c))"
proof (cases "cq_is_full (cn_cq c)")
  case True
  then show thesis using linked_sync [OF link] linked_pd [OF link]
    by (intro that [of _ c]) (auto simp: post_atomic_def rd_atomic_def same_link_def)
next
  case room: False
  from link have size: "40 \<le> unat (se_max_msg_size (peer_session c))" by (simp add: linked_def)
  obtain res st where op: "atomic_op rk va ty op1 op2 (remote c) = (res, st)" by (metis surj_pair)
  obtain c' where c': "post_atomic (server_net env) wrid rk va ty op1 op2 c = (map_err Protocol res, c')"
      "in_sync cfg c'" "remote c' = st" "local_bytes c' = local_bytes c" "same_link c c'"
      "cq_entries (cn_cq c') = cq_entries (cn_cq c) @ [atomic_cqe wrid res c]"
    using post_atomic_eq [OF linked_sync [OF link] room size ty op, of env wrid] by auto
  note eq = op [unfolded atomic_op_eq [OF linked_store [OF link]]]
  show thesis
  proof (cases res)
    case (Err code)
    then have same: "remote c' = remote c" using eq c'(3) by (auto split: option.splits if_split_asm)
    have "rd_atomic wrid rk va (atomic_new ty op1 op2) (machine_of c) = rd_fail wrid opcode.AtomicReq code (machine_of c)"
      using eq ty room Err by (auto simp: rd_atomic_def rd_access_view split: option.splits if_split_asm)
    then show thesis
      using c' Err same machine_of_completed [of c' c] linked_pd [OF link] by (intro that [of _ c']) (auto simp: rd_fail_def)
  next
    case (Ok v)
    with eq obtain e where e: "mr_lookup (remote c) rk = Some e" "af_contains (me_access_flags e) REMOTE_ATOMIC"
        "va mod 8 = 0" "\<not> length (me_data e) < unat va + 8" "v = word_at (me_data e) (unat va)"
        "st = mr_update rk (put_slice (me_data e) (unat va) (to_be 8 (atomic_new ty op1 op2 v))) (remote c)"
      by (auto split: option.splits if_split_asm)
    have "machine_of c' = rd_complete wrid 0 opcode.AtomicReq 8
        (rd_remote_put rk (unat va) (to_be 8 (atomic_new ty op1 op2 v)) (machine_of c))"
      using machine_of_updated [OF link e(1)] c' e(6) Ok by simp
    then show thesis
      using c' Ok e room
      by (intro that [of _ c']) (auto simp: rd_atomic_def rd_access_view Let_def)
  qed (use atomic_op_not_stuck [OF linked_store [OF link], of rk va ty op1 op2] op in simp_all)
qed

lemma simulated_cas:
  assumes link: "linked cfg c"
  shows "simulated env cfg (AtomicCas wrid rk va expect swap) c"
proof -
  have "atomic_new ATOMIC_TYPE_CAS expect swap = (\<lambda>old. if old = expect then swap else old)"
    by (simp add: atomic_new_def fun_eq_iff)
  with link show ?thesis
    by (elim simulated_atomic [of cfg c ATOMIC_TYPE_CAS env wrid rk va expect swap, OF _ disjI1, OF _ refl])
      (auto simp: atomic_cas_def intro!: simulatedI [OF link] rd_step.atomic_cas)
qed

lemma simulated_faa:
  assumes link: "linked cfg c"
  shows "simulated env cfg (AtomicFaa wrid rk va addend) c"
proof -
  have "atomic_new ATOMIC_TYPE_FAA addend 0 = (\<lambda>old. old + addend)"
    by (simp add: atomic_new_def fun_eq_iff ATOMIC_TYPE_CAS_def ATOMIC_TYPE_FAA_def)
  with link show ?thesis
    by (elim simulated_atomic [of cfg c ATOMIC_TYPE_FAA env wrid rk va addend 0, OF _ disjI2, OF _ refl])
      (auto simp: atomic_faa_def intro!: simulatedI [OF link] rd_step.atomic_faa)
qed

subsection \<open>SEND\<close>

lemma linked_flowI:
  assumes "linked cfg c" and "in_sync cfg c'" and "rd_step (machine_of c) v r (machine_of c')"
    and "remote c' = remote c" and "cn_pd c' = cn_pd c"
    and "se_max_msg_size (peer_session c') = se_max_msg_size (peer_session c)"
    and "unat (se_recv_queue_depth (peer_session c')) + unat (se_sends_since_last_credit (peer_session c')) < 16383"
  shows "linked cfg c'"
  using assms rd_step_wf [OF assms(3)] by (simp add: linked_def)

lemma simulated_send:
  assumes link: "linked cfg c" and adm: "rd_admits (machine_of c) (PostSend wrid sgs)"
  shows "simulated env cfg (PostSend wrid sgs) c"
proof -
  let ?m = "machine_of c" and ?v = "PostSend wrid sgs"
  have sane: "sg_sane sgs" and count: "length sgs < 65536" using adm by (simp_all add: rd_fits_def sg_sane_def)
  note ga = gather_machine [OF sane, of c]
  consider "cq_is_full (cn_cq c)" | "\<not> cq_is_full (cn_cq c)" "cn_send_credits c = 0"
    | e where "\<not> cq_is_full (cn_cq c)" "cn_send_credits c \<noteq> 0" "rd_gather (local_bytes c) sgs = Err e"
    | data where "\<not> cq_is_full (cn_cq c)" "cn_send_credits c \<noteq> 0" "rd_gather (local_bytes c) sgs = Ok data"
    using rd_gather_cases [of "local_bytes c" sgs] by blast
  then show ?thesis
  proof cases
    case 1
    then show ?thesis using link
      by (intro simulated_same) (auto simp: post_send_def rd_send_def intro: rd_step.send)
  next
    case 2
    then show ?thesis using link
      by (intro simulated_same) (auto simp: post_send_def rd_send_def intro: rd_step.send)
  next
    case (3 e)
    then show ?thesis using link
      by (intro simulated_same) (auto simp: post_send_def rd_send_def ga unat_eq_0 unat_gt_0 intro: rd_step.send)
  next
    case (4 data)
    have sizes: "send_payload_encoded_len \<lparr>sp_sg_list = sgs\<rparr> \<le> unat (se_max_msg_size (peer_session c))"
      "length data \<le> unat (se_max_msg_size (peer_session c))"
      using adm 4 by (simp_all add: rd_fits_def send_payload_encoded_len_def)
    have gad: "gather_sg_data (cn_local_mrs c) sgs = Ok data" using ga 4 by simp
    note args = linked_sync [OF link] 4(1,2) gad count sizes
    have depth: "unat (se_recv_queue_depth (peer_session c)) + unat (se_sends_since_last_credit (peer_session c)) < 16383"
      using link by (simp add: linked_def)
    show ?thesis
    proof (cases "se_recv_queue_depth (peer_session c) = 0")
      case True
      obtain c' where c': "post_send (server_net env) wrid sgs c = (Err (Protocol ErrRnr), c')" "in_sync cfg c'"
          "remote c' = remote c" "local_bytes c' = local_bytes c" "same_link c c'"
          "cq_entries (cn_cq c') = cq_entries (cn_cq c) @ [cqe wrid (error_code_to_u16 ErrRnr) opcode.Send 0 c]"
        using post_send_refused [OF args True, of env wrid] by blast
      then show ?thesis
        using machine_of_completed [of c' c] 4 True link
        by (intro simulatedI [of cfg c env _ _ c']) (auto simp: rd_send_def rd_fail_def unat_gt_0 intro!: rd_step.send)
    next
      case False
      then have "unat (se_recv_queue_depth (peer_session c)) \<noteq> 0" by (simp add: unat_eq_0)
      with depth have last: "unat (se_sends_since_last_credit (peer_session c)) + 1 < 16383" by linarith
      obtain c' where c': "post_send (server_net env) wrid sgs c = (Ok (), c')" "in_sync cfg c'"
          "sent_link c c'" "local_bytes c' = local_bytes c"
          "cq_entries (cn_cq c') = cq_entries (cn_cq c) @ [cqe wrid 0 opcode.Send (of_nat (length data)) c]"
        using post_send_accepted [OF args last False, of env wrid] by blast
      have minus: "unat (x - 1) = unat x - 1" if "x \<noteq> 0" for x :: u32
        using that by (metis unat_minus_one)
      have plus: "unat (se_sends_since_last_credit (peer_session c) + 1) =
          unat (se_sends_since_last_credit (peer_session c)) + 1"
        using last by (simp add: unat_word_ariths)
      have "machine_of c' = rd_complete wrid 0 opcode.Send (of_nat (length data))
          (?m\<lparr>rd_slots := rd_slots ?m - 1, rd_credits := rd_credits ?m - 1\<rparr>)"
        using c' False 4(2) minus by (simp add: machine_of_def rd_complete_def rd_cqe_def sent_link_def)
      then have step: "rd_step ?m ?v (Ok Done) (machine_of c')"
        using 4 False by (auto simp: rd_send_def unat_eq_0 unat_gt_0 intro!: rd_step.send)
      moreover have "linked cfg c'"
        using linked_flowI [OF link c'(2) step] c' depth plus minus [OF False] \<open>unat _ \<noteq> 0\<close>
        by (simp add: sent_link_def)
      ultimately show ?thesis using c'(1,3) by (auto simp: simulated_def spent_def sent_link_def)
    qed
  qed
qed

subsection \<open>Registering and removing regions\<close>

lemma region_lkey:
  assumes "keys_ok st" and "mr_lookup st rk = Some e"
  shows "fmlookup (ms_regions st) (lkey_val (me_lkey e)) = Some e"
  using assms by (auto simp: keys_okD(1) elim!: mr_lookup_SomeE)

lemma window_flow [simp]:
  "se_recv_queue_depth (window now s) = se_recv_queue_depth s"
  "se_sends_since_last_credit (window now s) = se_sends_since_last_credit s"
  by (simp_all add: window_def)

lemma registersE:
  assumes "registers env cfg fl len c"
  obtains (accepted) now os_rng lk rk st where "env (peer_session c, peer_sink c) = (now, os_rng)"
      and "se_mr_reg_count (window now (peer_session c)) < cfg_mr_reg_rate_limit cfg"
      and "register os_rng (cn_pd c) fl len (remote c) = (Ok (lk, rk), st)"
  | (refused) now os_rng code n st where "env (peer_session c, peer_sink c) = (now, os_rng)"
      and "refuses cfg now os_rng fl len c code n st"
proof -
  obtain now os_rng where env: "env (peer_session c, peer_sink c) = (now, os_rng)" by (metis surj_pair)
  obtain r st where reg: "register os_rng (cn_pd c) fl len (remote c) = (r, st)" by (metis surj_pair)
  have "r \<noteq> Blocked" using register_not_Blocked [of os_rng "cn_pd c" fl len "remote c"] reg by simp
  then show thesis
    using assms env reg that
    by (cases "se_mr_reg_count (window now (peer_session c)) < cfg_mr_reg_rate_limit cfg"; cases r)
      (auto simp: registers_def refuses_def Let_def)
qed

lemma reg_mr_machine:
  assumes link: "linked cfg c" and env: "env (peer_session c, peer_sink c) = (now, os_rng)"
    and rate: "se_mr_reg_count (window now (peer_session c)) < cfg_mr_reg_rate_limit cfg"
    and reg: "register os_rng (cn_pd c) fl len (remote c) = (Ok (lk, rk), st)"
  obtains c' where "reg_mr (server_net env) fl len c = (Ok \<lparr>mh_lkey = lk, mh_rkey = rk, mh_len = len,
      mh_local_buf = replicate (unat len) 0\<rparr>, c')"
    and "linked cfg c'" and "rd_step (machine_of c) (RegMr fl len) (Ok (Keys lk rk)) (machine_of c')"
    and "remote c' = st" and "se_mr_reg_count (peer_session c') = se_mr_reg_count (window now (peer_session c)) + 1"
proof -
  let ?m = "machine_of c"
  have size: "16 \<le> unat (se_max_msg_size (peer_session c))" using link by (simp add: linked_def)
  obtain c' where c': "reg_mr (server_net env) fl len c = (Ok \<lparr>mh_lkey = lk, mh_rkey = rk, mh_len = len,
        mh_local_buf = replicate (unat len) 0\<rparr>, c')" "in_sync cfg c'" "remote c' = st"
      "local_bytes c' = (local_bytes c)(lk \<mapsto> replicate (unat len) 0)" "cn_cq c' = cn_cq c" "cn_pd c' = cn_pd c"
      "cn_session_id c' = cn_session_id c" "cn_send_credits c' = cn_send_credits c"
      "peer_session c' = (window now (peer_session c))\<lparr>se_expected_remote_seq := Some (cn_next_seq c + 1),
        se_mr_reg_count := se_mr_reg_count (window now (peer_session c)) + 1, se_memory_store := st,
        se_next_seq := se_next_seq (peer_session c) + 1\<rparr>"
    using reg_mr_ok [of cfg c env now os_rng fl len lk rk st] linked_sync [OF link] size env rate reg by blast
  note eff = register_effect [OF linked_store [OF link] reg]
  have fresh: "rg_lkey r \<noteq> lk" if "rd_remote ?m rk' = Some r" for rk' r
    using that eff(4) region_lkey [OF linked_keys [OF link]] by (auto simp: region_view_def)
  moreover have "rd_local ?m lk = None"
    using link fresh unfolding linked_def rd_wf_def by fastforce
  moreover have "rd_remote ?m rk = None" using eff(2) by (simp add: region_view_def)
  moreover have "machine_of c' = ?m\<lparr>rd_local := (rd_local ?m)(lk \<mapsto> replicate (unat len) 0),
      rd_remote := (rd_remote ?m)(rk \<mapsto> \<lparr>rg_access = fl, rg_lkey = lk, rg_bytes = replicate (unat len) 0\<rparr>)\<rparr>"
    using c' eff(3) by (simp add: machine_of_def region_view_def fun_eq_iff)
  ultimately have step: "rd_step ?m (RegMr fl len) (Ok (Keys lk rk)) (machine_of c')"
    using rd_step.reg [of ?m rk lk fl len] by auto
  moreover have "one_pd st (cn_pd c)" using linked_pd [OF link] eff(3) by (simp add: one_pd_def)
  ultimately have "linked cfg c'"
    using link c' rd_step_wf [OF step] by (simp add: linked_def)
  with that step c' show thesis by simp
qed

lemma refuses_lookup: "refuses cfg now os_rng fl len c code n st \<Longrightarrow> mr_lookup st = mr_lookup (remote c)"
  by (auto simp: refuses_def Let_def dest: register_ErrD split: if_split_asm)

text \<open>A refused registration changes nothing the machine has.\<close>

lemma reg_mr_refused_machine:
  assumes link: "linked cfg c" and env: "env (peer_session c, peer_sink c) = (now, os_rng)"
    and ref: "refuses cfg now os_rng fl len c code n st"
  obtains c' where "reg_mr (server_net env) fl len c = (Err (Protocol code), c')" and "linked cfg c'"
    and "machine_of c' = machine_of c" and "remote c' = st" and "se_mr_reg_count (peer_session c') = n"
proof -
  have size: "16 \<le> unat (se_max_msg_size (peer_session c))" using link by (simp add: linked_def)
  obtain c' where c': "reg_mr (server_net env) fl len c = (Err (Protocol code), c')" "in_sync cfg c'" "remote c' = st"
      "local_bytes c' = local_bytes c" "cn_cq c' = cn_cq c" "cn_pd c' = cn_pd c" "cn_session_id c' = cn_session_id c"
      "cn_send_credits c' = cn_send_credits c"
      "peer_session c' = (window now (peer_session c))\<lparr>se_expected_remote_seq := Some (cn_next_seq c + 1),
        se_mr_reg_count := n, se_memory_store := st, se_next_seq := se_next_seq (peer_session c) + 1\<rparr>"
    using reg_mr_refused [of cfg c env now os_rng fl len code n st] linked_sync [OF link] size env ref by blast
  have same: "machine_of c' = machine_of c"
    using c' refuses_lookup [OF ref] by (simp add: machine_of_def region_view_def fun_eq_iff)
  then have "linked cfg c'"
    using link c' refuses_lookup [OF ref] by (simp add: linked_def one_pd_def)
  with that same c' show thesis by simp
qed

lemma simulated_reg:
  assumes link: "linked cfg c" and adm: "registers env cfg fl len c"
  shows "simulated env cfg (RegMr fl len) c"
  using adm
proof (cases rule: registersE)
  case (accepted now os_rng lk rk st)
  then obtain c' where "reg_mr (server_net env) fl len c = (Ok \<lparr>mh_lkey = lk, mh_rkey = rk, mh_len = len,
      mh_local_buf = replicate (unat len) 0\<rparr>, c')" and "linked cfg c'"
      and "rd_step (machine_of c) (RegMr fl len) (Ok (Keys lk rk)) (machine_of c')"
    by (rule reg_mr_machine [OF link])
  then show ?thesis by (simp add: simulated_def)
next
  case (refused now os_rng code n st)
  then obtain c' where "reg_mr (server_net env) fl len c = (Err (Protocol code), c')" and "linked cfg c'"
      and "machine_of c' = machine_of c"
    by (rule reg_mr_refused_machine [OF link])
  then show ?thesis using rd_step.reg_refused [OF refuses_code [OF refused(2)]] by (simp add: simulated_def)
qed

lemma simulated_dereg:
  assumes link: "linked cfg c"
  shows "simulated env cfg (DeregMr lk) c"
proof -
  let ?m = "machine_of c"
  note keys = linked_keys [OF link] and inv = linked_store [OF link]
  obtain res st where op: "deregister (cn_pd c) lk (remote c) = (res, st)" by (metis surj_pair)
  have size: "40 \<le> unat (se_max_msg_size (peer_session c))" using link by (simp add: linked_def)
  obtain c' where c': "dereg_mr (server_net env) lk c = (map_err Protocol res, c')" "in_sync cfg c'" "remote c' = st"
      "same_link c c'" "cn_cq c' = cn_cq c"
      "local_bytes c' = (case res of Ok _ \<Rightarrow> (local_bytes c)(lk := None) | _ \<Rightarrow> local_bytes c)"
    using dereg_mr_ok [OF linked_sync [OF link] size op] by blast
  show ?thesis
  proof (cases "fmlookup (ms_regions (remote c)) (lkey_val lk)")
    case None
    then have "res = Err ErrInvalidLkey" "st = remote c" using op by (simp_all add: deregister_eq [OF inv])
    moreover have "\<not> (\<exists>rk r. rd_remote ?m rk = Some r \<and> rg_lkey r = lk)"
      using None region_lkey [OF keys] by (auto simp: region_view_def)
    moreover have "machine_of c' = ?m" using c' calculation by (intro machine_eqI [OF c'(4)]) simp_all
    ultimately show ?thesis
      using link c' linked_pd [OF link]
      by (intro simulatedI [of cfg c env _ _ c']) (auto simp: rd_dereg_def intro!: rd_step.dereg)
  next
    case (Some e)
    have look: "mr_lookup (remote c) (me_rkey e) = Some e"
      using keys_okD(2) [OF keys Some] Some by (simp add: mr_lookup_def)
    have "me_pd e = cn_pd c" using linked_pd [OF link] look by (simp add: one_pd_def)
    then have ok: "res = Ok ()" using op Some by (simp add: deregister_eq [OF inv])
    note eff = deregister_effect [OF inv op [unfolded ok] Some]
    have lke: "me_lkey e = lk" using keys_okD(1) [OF keys Some] by simp
    have only: "rk = me_rkey e" if "mr_lookup (remote c) rk = Some e'" "me_lkey e' = lk" for rk e'
      using region_lkey [OF keys that(1)] that(2) Some mr_lookup_rkey [OF keys that(1)] by simp
    let ?m' = "?m\<lparr>rd_local := (local_bytes c)(lk := None), rd_remote := (\<lambda>rk. case region_view (remote c) rk of
        Some r \<Rightarrow> if rg_lkey r = lk then None else Some r | None \<Rightarrow> None)\<rparr>"
    have "region_view st rk = rd_remote ?m' rk" for rk
    proof (cases "rk = me_rkey e")
      case True
      then show ?thesis using eff(2) look lke by (simp add: region_view_def)
    next
      case False
      then show ?thesis using eff(2) only [of rk] by (cases "mr_lookup (remote c) rk") (auto simp: region_view_def)
    qed
    then have "region_view st = rd_remote ?m'" by blast
    then have abs: "machine_of c' = ?m'" using c' ok by (intro machine_eqI [OF c'(4)]) simp_all
    have "rd_remote ?m (me_rkey e) = Some \<lparr>rg_access = me_access_flags e, rg_lkey = lk, rg_bytes = me_data e\<rparr>"
      using look lke by (simp add: region_view_def)
    then have "\<exists>rk r. rd_remote ?m rk = Some r \<and> rg_lkey r = lk" by fastforce
    then have "rd_dereg lk ?m = (Ok Done, machine_of c')" unfolding rd_dereg_def abs by simp
    then have "rd_step ?m (DeregMr lk) (Ok Done) (machine_of c')" by (rule rd_step.dereg)
    moreover have "one_pd (remote c') (cn_pd c)" using linked_pd [OF link] eff(2) c'(3) by (simp add: one_pd_def)
    ultimately have "linked cfg c'" using linked_stepI [OF link c'(2,4)] by blast
    with \<open>rd_step ?m (DeregMr lk) (Ok Done) (machine_of c')\<close> show ?thesis using c'(1) ok by (auto simp: simulated_def)
  qed
qed

section \<open>Sequences of verbs\<close>

text \<open>
  A simulation: the implementation's operations, under an invariant and a guard, are steps of
  the abstract machine. Whole runs then are runs of the machine.
\<close>

locale simulation =
  fixes inv :: "'c \<Rightarrow> bool" and abs :: "'c \<Rightarrow> 'a" and guard :: "'v \<Rightarrow> 'c \<Rightarrow> bool"
    and exec :: "'v \<Rightarrow> 'c \<Rightarrow> 'r \<times> 'c" and astep :: "'a \<Rightarrow> 'v \<Rightarrow> 'r \<Rightarrow> 'a \<Rightarrow> bool"
    and arun :: "'a \<Rightarrow> 'v list \<Rightarrow> 'r list \<Rightarrow> 'a \<Rightarrow> bool"
  assumes step: "inv c \<Longrightarrow> guard v c \<Longrightarrow> exec v c = (r, c') \<Longrightarrow> inv c' \<and> astep (abs c) v r (abs c')"
    and arun_nil: "arun a [] [] a"
    and arun_cons: "astep a v r a1 \<Longrightarrow> arun a1 vs rs a2 \<Longrightarrow> arun a (v # vs) (r # rs) a2"

fun run_verbs :: "('v \<Rightarrow> 'c \<Rightarrow> 'r \<times> 'c) \<Rightarrow> 'v list \<Rightarrow> 'c \<Rightarrow> 'r list \<times> 'c" where
  "run_verbs exec [] c = ([], c)"
| "run_verbs exec (v # vs) c = (let (r, c) = exec v c; (rs, c) = run_verbs exec vs c in (r # rs, c))"

fun guarded :: "('v \<Rightarrow> 'c \<Rightarrow> bool) \<Rightarrow> ('v \<Rightarrow> 'c \<Rightarrow> 'r \<times> 'c) \<Rightarrow> 'v list \<Rightarrow> 'c \<Rightarrow> bool" where
  "guarded guard exec [] c \<longleftrightarrow> True"
| "guarded guard exec (v # vs) c \<longleftrightarrow> guard v c \<and> guarded guard exec vs (snd (exec v c))"

context simulation
begin

lemma run_refines:
  assumes "inv c" and "guarded guard exec vs c" and "run_verbs exec vs c = (rs, c')"
  shows "inv c' \<and> arun (abs c) vs rs (abs c')"
  using assms
proof (induction vs arbitrary: c rs)
  case Nil
  then show ?case by (simp add: arun_nil)
next
  case (Cons v vs)
  obtain r c1 where e: "exec v c = (r, c1)" by (metis surj_pair)
  obtain rs' where rs: "rs = r # rs'" "run_verbs exec vs c1 = (rs', c')"
    using Cons.prems(3) e by (auto simp: Let_def split: prod.splits)
  have "inv c1" "astep (abs c) v r (abs c1)" using step [OF Cons.prems(1) _ e] Cons.prems(2) by simp_all
  then show ?case using Cons.IH [of c1 rs'] Cons.prems(2) rs e arun_cons by (auto simp del: run_verbs.simps)
qed

end

lemma admitted_simulated:
  assumes "linked cfg c" and "admitted_verb env cfg v c"
  shows "simulated env cfg v c"
  using assms by (cases v) (simp_all del: rd_admits.simps add: simulated_reg simulated_dereg simulated_write_local
    simulated_read_local simulated_write simulated_read simulated_cas simulated_faa simulated_send simulated_poll)

lemma perform_step:
  assumes "linked cfg c" and "admitted_verb env cfg v c" and "perform env v c = (r, c')"
  shows "linked cfg c' \<and> rd_step (machine_of c) v r (machine_of c')"
  using admitted_simulated [OF assms(1,2)] assms(3) by (auto simp: simulated_def)

interpretation verbs: simulation "linked cfg" machine_of "\<lambda>v. admitted_verb env cfg v" "perform env" rd_step rd_run
  for cfg env
proof
  show "linked cfg c' \<and> rd_step (machine_of c) v r (machine_of c')"
    if "linked cfg c" "admitted_verb env cfg v c" "perform env v c = (r, c')" for c v r c'
    using that by (rule perform_step)
qed (fact rd_run.nil, erule (1) rd_run.cons)

section \<open>Beginning and end of a connection\<close>

lemma connect_linked:
  assumes "\<not> starts_with url (lit ''ws://'')" and "dial url = Ok (Some SUBPROTOCOL, fresh_peer cfg now)"
    and "cfg_max_outstanding_reads cfg \<noteq> 0" and "unat (cfg_recv_queue_depth cfg) < 16383"
    and "cc_cq_capacity config * 24 \<le> isize_max"
  shows "\<exists>c. connect_with_config (server_net env) dial os_rng url config = Ok c \<and> linked cfg c \<and>
    machine_of c = \<lparr>rd_session = from_be (os_rng 0), rd_max_msg = 16777216, rd_capacity = cc_cq_capacity config,
      rd_queue = [], rd_local = Map.empty, rd_remote = Map.empty,
      rd_slots = unat (cfg_recv_queue_depth cfg), rd_credits = 65535\<rparr> \<and>
    spent c = ({||}, 0, 1, {||}, 0) \<and> cn_session_id c = from_be (os_rng 0)"
proof -
  obtain c where c: "connect_with_config (server_net env) dial os_rng url config = Ok c" "in_sync cfg c"
      "remote c = memory_store_new (cfg_max_regions_per_session cfg) (cfg_max_total_bytes_per_session cfg)"
      "cn_session_id c = from_be (os_rng 0)" "cn_send_credits c = 65535" "cn_local_mrs c = fmempty"
      "cn_cq c = \<lparr>cq_entries = [], cq_capacity = cc_cq_capacity config\<rparr>" "se_max_msg_size (peer_session c) = 16777216"
      "se_mr_reg_count (peer_session c) = 0" "se_recv_queue_depth (peer_session c) = cfg_recv_queue_depth cfg"
      "se_sends_since_last_credit (peer_session c) = 0"
    using connect_ok [of url dial cfg now config env os_rng] assms(1,2,5) by blast
  have look: "mr_lookup (remote c) rk = None" for rk
    using c(3) by (simp add: mr_lookup_def memory_store_new_def)
  have m: "machine_of c = \<lparr>rd_session = from_be (os_rng 0), rd_max_msg = 16777216, rd_capacity = cc_cq_capacity config,
      rd_queue = [], rd_local = Map.empty, rd_remote = Map.empty,
      rd_slots = unat (cfg_recv_queue_depth cfg), rd_credits = 65535\<rparr>"
    using c look by (simp add: machine_of_def region_view_def local_bytes_def fun_eq_iff)
  then have "rd_wf (machine_of c)" by (simp add: rd_wf_def)
  then have "linked cfg c" using c look assms(3,4) by (simp add: linked_def one_pd_def)
  then show ?thesis using c m by (auto simp: spent_def memory_store_new_def)
qed

lemma disconnect_ok:
  assumes "in_sync cfg c"
  shows "\<exists>c'. disconnect (server_net env) c = (Ok (), c') \<and> se_state (peer_session c') = Closed"
proof -
  obtain s k where c: "cn_socket c = (((s, k), True), [])" "se_state s = Ready"
      "se_expected_remote_seq s = Some (cn_next_seq c)"
    using assms by (rule in_syncE)
  let ?m = "Disconnect (header_new opcode.Disconnect (cn_session_id c) (cn_next_seq c) 0)"
  have wf: "message_wf ?m" by (simp add: message_wf_def)
  have adm: "admitted s (on_wire ?m)" using c by (intro admitted_on_wire) simp_all
  have "handle_message now rng (on_wire ?m) (s, k) = (Ok (), (s\<lparr>se_expected_remote_seq := Some (cn_next_seq c + 1),
      se_state := Closed\<rparr>, k))" for now rng
    using handle_message_admitted [OF adm] by (simp add: on_wire_def handle_ready_def)
  then show ?thesis
    using c wf by (simp add: disconnect_def cn_send_def socket_send_def server_net_def serve_frame_def
        message_decode_encode frames_since_def peer_session_def)
qed

section \<open>Properties\<close>

text \<open>
  (C2) The client library and the server session together implement the RDMA machine. For any
  sequence of verbs in which each is admitted when its turn comes (messages fit, the key of a
  write is valid, a registration does not make the server panic), the results the caller sees
  and the effect on both memories, the completion queue, the receive slots and the credits are
  those of a run of the machine, and the connection stays intact.
\<close>

theorem verbs_refine_machine:
  assumes "linked cfg c" and "guarded (\<lambda>v. admitted_verb env cfg v) (perform env) vs c"
    and "run_verbs (perform env) vs c = (rs, c')"
  shows "linked cfg c' \<and> rd_run (machine_of c) vs rs (machine_of c')"
  using assms by (rule verbs.run_refines)

lemma sample_linked: "linked sample_cfg sample_client"
proof -
  have "se_sends_since_last_credit (fst sample_conn) = 0"
    by (simp add: sample_conn_def sample_hello_def up_sink_def sink_new_def handle_connect_ok
        session_new_def connected_def)
  moreover have look: "mr_lookup sample_store rk = (if rk = sample_rkey then Some \<lparr>me_pd = ProtectionDomain 1,
      me_lkey = LKey 1, me_rkey = sample_rkey, me_access_flags = sample_flags, me_data = replicate 16 0\<rparr> else None)" for rk
    by (cases rk) (auto simp: sample_register_eq mr_lookup_def)
  have "local_bytes sample_client lk = None \<longleftrightarrow> lk \<noteq> LKey 1" for lk
    by (cases lk) (simp add: sample_client_def local_bytes_def)
  then have "rd_wf (machine_of sample_client)"
    by (auto simp: rd_wf_def region_view_def sample_client_fields look)
  moreover have "cn_pd sample_client = ProtectionDomain 1" by (simp add: sample_client_def)
  ultimately show ?thesis
    using sample_in_sync sample_reads
    by (simp add: linked_def sample_client_fields sample_mr_conn_eq(2) sample_conn_fields one_pd_def look)
qed

theorem verbs_refine_machine_witness:
  "\<exists>rs c'. run_verbs (perform sample_env)
       [RdmaWrite 1 sample_rkey 4 sample_sgl, AtomicFaa 2 sample_rkey 8 5, PollCq 10] sample_client = (rs, c') \<and>
     rd_run (machine_of sample_client) [RdmaWrite 1 sample_rkey 4 sample_sgl, AtomicFaa 2 sample_rkey 8 5, PollCq 10]
       rs (machine_of c')"
proof -
  let ?vs = "[RdmaWrite 1 sample_rkey 4 sample_sgl, AtomicFaa 2 sample_rkey 8 5, PollCq 10]"
  have "rd_admits (machine_of sample_client) (RdmaWrite 1 sample_rkey 4 sample_sgl)"
    by (simp add: rd_fits_def sg_sane_def sample_client_fields region_view_def sample_lookup sample_allows
        WRITE_HEADER_SIZE_def SG_ENTRY_SIZE_def)
  then have "guarded (\<lambda>v. admitted_verb sample_env sample_cfg v) (perform sample_env) ?vs sample_client"
    by (simp del: perform.simps)
  moreover obtain rs c' where "run_verbs (perform sample_env) ?vs sample_client = (rs, c')" by (metis surj_pair)
  ultimately show ?thesis using verbs_refine_machine [OF sample_linked, of sample_env ?vs rs c'] by blast
qed

end
