(* ===== verification/Programs.thy ===== *)
theory Programs
  imports Refinement
begin

text \<open>
  Reasoning about programs that use a connection. \<open>runs\<close> is total correctness of a
  state-passing computation: it returns, with a result and a state as described. Each verb has
  a rule in terms of the RDMA machine that the connection implements.
\<close>

section \<open>Total correctness\<close>

definition runs :: "('e, 'a) result \<times> 'c \<Rightarrow> ('a \<Rightarrow> 'c \<Rightarrow> bool) \<Rightarrow> bool" where
  "runs p Q \<longleftrightarrow> (\<exists>a c. p = (Ok a, c) \<and> Q a c)"

definition lift_err :: "('e \<Rightarrow> 'f) \<Rightarrow> ('e, 'a) result \<times> 'c \<Rightarrow> ('f, 'a) result \<times> 'c" where
  "lift_err f p = (map_err f (fst p), snd p)"

lemma runs_bind: "runs m (\<lambda>a c. runs (f a c) Q) \<Longrightarrow> runs (sbind m f) Q"
  by (auto simp: runs_def)

lemma runs_Ok: "Q a c \<Longrightarrow> runs (Ok a, c) Q"
  by (auto simp: runs_def)

lemma runs_lift: "runs p Q \<Longrightarrow> runs (lift_err f p) Q"
  by (auto simp: runs_def lift_err_def)

lemma runs_mono: "runs p Q \<Longrightarrow> (\<And>a c. Q a c \<Longrightarrow> R a c) \<Longrightarrow> runs p R"
  by (auto simp: runs_def)

section \<open>The state of a connection, as a program sees it\<close>

text \<open>
  \<open>holds cfg k b m c\<close>: the connection implements the machine \<open>m\<close>, after at most \<open>k\<close>
  registrations of at most \<open>b\<close> bytes in total.
\<close>

fun within :: "nat \<Rightarrow> nat \<Rightarrow> u32 fset \<times> u64 \<times> u32 \<times> u32 fset \<times> u32 \<Rightarrow> bool" where
  "within k b (lks, bytes, next_lkey, rks, regs) \<longleftrightarrow>
     fcard lks \<le> k \<and> unat bytes \<le> b \<and> unat next_lkey \<le> k + 1 \<and> fcard rks \<le> k \<and> unat regs \<le> k"

definition holds :: "server_config \<Rightarrow> nat \<Rightarrow> nat \<Rightarrow> rdma \<Rightarrow> server_peer rdows_connection \<Rightarrow> bool" where
  "holds cfg k b m c \<longleftrightarrow> linked cfg c \<and> machine_of c = m \<and> within k b (spent c)"

text \<open>The server's limits leave room for one more region of \<open>len\<close> bytes.\<close>

definition room :: "server_config \<Rightarrow> nat \<Rightarrow> nat \<Rightarrow> u64 \<Rightarrow> bool" where
  "room cfg k b len \<longleftrightarrow> k < cfg_max_regions_per_session cfg \<and> k < unat (cfg_mr_reg_rate_limit cfg) \<and> k < 1000 \<and>
     b + unat len \<le> unat (cfg_max_total_bytes_per_session cfg) \<and> unat len \<le> isize_max"

text \<open>
  What the programs need of the operating system's random numbers: as long as fewer than 1000
  keys were given out, one of the 1000 draws of a registration is a new one.
\<close>

definition fresh_keys :: "environment \<Rightarrow> bool" where
  "fresh_keys env \<longleftrightarrow> (\<forall>conn. fcard (ms_used_rkeys (se_memory_store (fst conn))) < 1000 \<longrightarrow>
     (\<exists>j < 1000. from_be (snd (env conn) j) \<noteq> (0 :: u32) \<and>
        from_be (snd (env conn) j) |\<notin>| ms_used_rkeys (se_memory_store (fst conn))))"

definition rd_reg :: "access_flags \<Rightarrow> u64 \<Rightarrow> lkey \<Rightarrow> rkey \<Rightarrow> rdma \<Rightarrow> rdma" where
  "rd_reg fl len lk rk m = m\<lparr>rd_local := (rd_local m)(lk \<mapsto> replicate (unat len) 0),
     rd_remote := (rd_remote m)(rk \<mapsto> \<lparr>rg_access = fl, rg_lkey = lk, rg_bytes = replicate (unat len) 0\<rparr>)\<rparr>"

inductive_cases rd_step_RegE: "rd_step m (RegMr fl len) r m'"
inductive_cases rd_step_WriteLocalE: "rd_step m (WriteLocal lk a data) r m'"
inductive_cases rd_step_WriteE: "rd_step m (RdmaWrite wrid rk va sgs) r m'"
inductive_cases rd_step_ReadE: "rd_step m (RdmaRead wrid rk va len lk lva) r m'"
inductive_cases rd_step_FaaE: "rd_step m (AtomicFaa wrid rk va addend) r m'"
inductive_cases rd_step_SendE: "rd_step m (PostSend wrid sgs) r m'"
inductive_cases rd_step_PollE: "rd_step m (PollCq n) r m'"

section \<open>The verbs\<close>

lemma holds_step:
  assumes "holds cfg k b m c" and "rd_admits m v" and "calm v"
  obtains r c' where "perform env v c = (r, c')" and "rd_step m v r (machine_of c')"
    and "holds cfg k b (machine_of c') c'"
proof -
  have "admitted_verb env cfg v c" using assms by (cases v) (simp_all add: holds_def)
  then have "simulated env cfg v c" using assms(1) by (intro admitted_simulated) (simp_all add: holds_def)
  with that assms(1,3) show thesis by (auto simp: simulated_def holds_def)
qed

lemma register_succeeds:
  assumes "fcard (fmdom (ms_regions st)) < ms_max_regions st"
    and "unat (ms_total_registered_bytes st) + unat len \<le> unat (ms_max_total_bytes st)"
    and "unat (ms_next_lkey st) < 4294967295" and "unat len \<le> isize_max"
    and "j < 1000" "from_be (os_rng j) \<noteq> (0 :: u32)" "from_be (os_rng j) |\<notin>| ms_used_rkeys st"
  shows "\<exists>lk rk st'. register os_rng pd fl len st = (Ok (lk, rk), st')"
proof -
  have sum: "unat (ms_total_registered_bytes st) + unat len < usize_limit"
    using assms(2) unat_less_u64 [of "ms_max_total_bytes st"] by simp
  then have le: "ms_total_registered_bytes st + len \<le> ms_max_total_bytes st"
    using assms(2) by (simp add: word_le_nat_alt unat_word_ariths)
  obtain rk where gen: "fst (generate_rkey os_rng (st\<lparr>ms_next_lkey := ms_next_lkey st + 1\<rparr>)) = Ok rk"
    using generate_rkey_fst [of os_rng "st\<lparr>ms_next_lkey := ms_next_lkey st + 1\<rparr>"] assms(5-7) by auto
  have "\<exists>x. fst (register os_rng pd fl len st) = Ok x"
    using register_late [OF assms(1) sum le assms(3), of os_rng pd fl] gen assms(4) by (simp add: vec_zeroed_def)
  then show ?thesis by (metis old.prod.exhaust prod.collapse)
qed

lemma unat_add_1_le: "unat (x + 1 :: 'a :: len word) \<le> unat x + 1"
proof -
  have "unat (x + 1) \<le> unat x + unat (1 :: 'a word)" by (metis mod_less_eq_dividend unat_word_ariths(1))
  then show ?thesis by simp
qed

lemma runs_reg_mr:
  assumes h: "holds cfg k b m c" and fresh: "fresh_keys env" and room: "room cfg k b len"
    and Q: "\<And>lk rk c'. rd_local m lk = None \<Longrightarrow> rd_remote m rk = None \<Longrightarrow>
      holds cfg (Suc k) (b + unat len) (rd_reg fl len lk rk m) c' \<Longrightarrow>
      Q \<lparr>mh_lkey = lk, mh_rkey = rk, mh_len = len, mh_local_buf = replicate (unat len) 0\<rparr> c'"
  shows "runs (reg_mr (server_net env) fl len c) Q"
proof -
  let ?st = "remote c"
  have link: "linked cfg c" and m: "machine_of c = m" and sp: "within k b (spent c)" using h by (simp_all add: holds_def)
  obtain now os_rng where env: "env (peer_session c, peer_sink c) = (now, os_rng)" by (metis surj_pair)
  have ok: "session_ok cfg (peer_session c)" using linked_sync [OF link] by (simp add: in_sync_def)
  have lim: "ms_max_regions ?st = cfg_max_regions_per_session cfg" "ms_max_total_bytes ?st = cfg_max_total_bytes_per_session cfg"
    using ok by (simp_all add: session_ok_def remote_def)
  obtain j where "j < 1000" "from_be (os_rng j) \<noteq> (0 :: u32)" "from_be (os_rng j) |\<notin>| ms_used_rkeys ?st"
    using fresh [unfolded fresh_keys_def, rule_format, of "(peer_session c, peer_sink c)"] sp room env
    by (auto simp: spent_def room_def remote_def)
  then obtain lk rk st where reg: "register os_rng (cn_pd c) fl len ?st = (Ok (lk, rk), st)"
    using register_succeeds [of ?st len j os_rng "cn_pd c" fl] sp room lim by (auto simp: spent_def room_def)
  have count: "unat (se_mr_reg_count (window now (peer_session c))) \<le> k"
    using sp by (auto simp: spent_def window_def)
  then have rate: "se_mr_reg_count (window now (peer_session c)) < cfg_mr_reg_rate_limit cfg"
    using room by (simp add: room_def word_less_nat_alt)
  obtain c' where c': "reg_mr (server_net env) fl len c = (Ok \<lparr>mh_lkey = lk, mh_rkey = rk, mh_len = len,
        mh_local_buf = replicate (unat len) 0\<rparr>, c')" "linked cfg c'"
      "rd_step (machine_of c) (RegMr fl len) (Ok (Keys lk rk)) (machine_of c')" "remote c' = st"
      "se_mr_reg_count (peer_session c') = se_mr_reg_count (window now (peer_session c)) + 1"
    using link env rate reg by (rule reg_mr_machine)
  have "rd_local m lk = None" "rd_remote m rk = None" "machine_of c' = rd_reg fl len lk rk m"
    using c'(3) m by (auto simp: rd_reg_def elim!: rd_step_RegE)
  moreover have "within (Suc k) (b + unat len) (spent c')"
  proof -
    have "fcard (finsert x A) \<le> Suc (fcard A)" for x :: u32 and A by (simp add: fcard_finsert_if)
    moreover have "unat (ms_total_registered_bytes ?st + len) \<le> unat (ms_total_registered_bytes ?st) + unat len"
      by (metis mod_less_eq_dividend unat_word_ariths(1))
    ultimately show ?thesis
      using sp count c'(5) unat_add_1_le [of "ms_next_lkey ?st"] unat_add_1_le [of "se_mr_reg_count (window now (peer_session c))"]
      by (rule_tac register_OkE [OF reg]) (auto simp: spent_def c'(4) fcard_finsert_if)
  qed
  ultimately show ?thesis using c'(1,2) Q [of lk rk c'] by (auto simp: runs_def holds_def)
qed

text \<open>A verb that returns through \<open>perform\<close> has returned.\<close>

lemma sbind_OkE:
  assumes "sbind p f = (Ok b, c'')"
  obtains a c' where "p = (Ok a, c')" and "f a c' = (Ok b, c'')"
  using assms by (cases "(p, f)" rule: sbind.cases) auto

lemma holds_local_bound:
  assumes "holds cfg k b m c" and "rd_local m lk = Some bs"
  shows "length bs \<le> isize_max"
  using assms linked_local [of cfg c] by (auto simp: holds_def local_inv_def local_bytes_def)

lemma runs_write_local:
  assumes h: "holds cfg k b m c" and bs: "rd_local m lk = Some bs" "a + length data \<le> length bs"
    and Q: "\<And>c'. holds cfg k b (rd_local_put lk a data m) c' \<Longrightarrow> Q () c'"
  shows "runs (write_local_mr lk a data c) Q"
proof -
  have "rd_admits m (WriteLocal lk a data)" using holds_local_bound [OF h bs(1)] bs(2) by simp
  from holds_step [OF h this, of undefined] obtain r c' where
      p: "perform undefined (WriteLocal lk a data) c = (r, c')" "rd_step m (WriteLocal lk a data) r (machine_of c')"
        "holds cfg k b (machine_of c') c'"
    by auto
  then have "r = Ok Done" "machine_of c' = rd_local_put lk a data m"
    using bs by (auto simp: rd_write_local_def elim!: rd_step_WriteLocalE)
  with p Q [of c'] show ?thesis by (auto simp: runs_def elim!: sbind_OkE)
qed

lemma read_local_value:
  assumes h: "holds cfg k b m c" and bs: "rd_local m lk = Some bs" "a + n \<le> length bs"
  shows "read_local_mr lk a n c = Ok (sub_slice bs a (a + n))"
  using assms linked_local [of cfg c] by (auto simp: holds_def loc.load_Ok_iff)

lemma runs_rdma_write:
  assumes h: "holds cfg k b m c" and "\<not> rd_full m" and "rd_fits m WRITE_HEADER_SIZE sgs"
    and "rd_gather (rd_local m) sgs = Ok data"
    and "rd_remote m rk = Some r" "af_contains (rg_access r) REMOTE_WRITE" "unat va + length data \<le> length (rg_bytes r)"
    and Q: "\<And>c'. holds cfg k b (rd_complete wrid 0 opcode.Write (of_nat (length data)) (rd_remote_put rk (unat va) data m)) c' \<Longrightarrow>
      Q () c'"
  shows "runs (rdma_write (server_net env) wrid rk va sgs c) Q"
proof -
  have "rd_admits m (RdmaWrite wrid rk va sgs)" using assms by simp
  from holds_step [OF h this, of env] obtain x c' where
      p: "perform env (RdmaWrite wrid rk va sgs) c = (x, c')" "rd_step m (RdmaWrite wrid rk va sgs) x (machine_of c')"
        "holds cfg k b (machine_of c') c'"
    by auto
  then have "x = Ok Done"
      "machine_of c' = rd_complete wrid 0 opcode.Write (of_nat (length data)) (rd_remote_put rk (unat va) data m)"
    using assms by (auto simp: rd_write_def rd_access_def elim!: rd_step_WriteE)
  with p Q [of c'] show ?thesis by (auto simp: runs_def elim!: sbind_OkE)
qed

lemma runs_rdma_read:
  assumes h: "holds cfg k b m c" and "\<not> rd_full m" and "unat len + 8 < 4294967296"
    and "rd_remote m rk = Some r" "af_contains (rg_access r) REMOTE_READ" "unat va + unat len \<le> length (rg_bytes r)"
    and bs: "rd_local m lk = Some bs" "unat lva + unat len \<le> length bs"
    and Q: "\<And>c'. holds cfg k b (rd_complete wrid 0 opcode.ReadReq (ucast len)
      (rd_local_put lk (unat lva) (sub_slice (rg_bytes r) (unat va) (unat va + unat len)) m)) c' \<Longrightarrow> Q () c'"
  shows "runs (rdma_read (server_net env) wrid rk va len lk lva c) Q"
proof -
  have "rd_admits m (RdmaRead wrid rk va len lk lva)" using assms holds_local_bound [OF h bs(1)] by simp
  from holds_step [OF h this, of env] obtain x c' where
      p: "perform env (RdmaRead wrid rk va len lk lva) c = (x, c')"
        "rd_step m (RdmaRead wrid rk va len lk lva) x (machine_of c')" "holds cfg k b (machine_of c') c'"
    by auto
  then have "x = Ok Done" "machine_of c' = rd_complete wrid 0 opcode.ReadReq (ucast len)
      (rd_local_put lk (unat lva) (sub_slice (rg_bytes r) (unat va) (unat va + unat len)) m)"
    using assms by (auto simp: rd_read_def rd_access_def rd_write_local_def elim!: rd_step_ReadE)
  with p Q [of c'] show ?thesis by (auto simp: runs_def elim!: sbind_OkE)
qed

lemma runs_atomic_faa:
  assumes h: "holds cfg k b m c" and "\<not> rd_full m"
    and "rd_remote m rk = Some r" "af_contains (rg_access r) REMOTE_ATOMIC" "va mod 8 = 0" "unat va + 8 \<le> length (rg_bytes r)"
    and Q: "\<And>c'. holds cfg k b (rd_complete wrid 0 opcode.AtomicReq 8 (rd_remote_put rk (unat va)
      (to_be 8 (word_at (rg_bytes r) (unat va) + addend)) m)) c' \<Longrightarrow> Q (word_at (rg_bytes r) (unat va)) c'"
  shows "runs (atomic_faa (server_net env) wrid rk va addend c) Q"
proof -
  have "rd_admits m (AtomicFaa wrid rk va addend)" by simp
  from holds_step [OF h this, of env] obtain x c' where
      p: "perform env (AtomicFaa wrid rk va addend) c = (x, c')" "rd_step m (AtomicFaa wrid rk va addend) x (machine_of c')"
        "holds cfg k b (machine_of c') c'"
    by auto
  have "(x, machine_of c') = rd_atomic wrid rk va (\<lambda>v. v + addend) m" using p(2) by (auto elim!: rd_step_FaaE)
  also have "\<dots> = (Ok (Original (word_at (rg_bytes r) (unat va))), rd_complete wrid 0 opcode.AtomicReq 8
      (rd_remote_put rk (unat va) (to_be 8 (word_at (rg_bytes r) (unat va) + addend)) m))"
    using assms(2-4,6) by (simp add: rd_atomic_def rd_access_def Let_def assms(5))
  finally have "x = Ok (Original (word_at (rg_bytes r) (unat va)))" "machine_of c' = rd_complete wrid 0 opcode.AtomicReq 8
      (rd_remote_put rk (unat va) (to_be 8 (word_at (rg_bytes r) (unat va) + addend)) m)" by simp_all
  with p Q [of c'] show ?thesis by (auto simp: runs_def elim!: sbind_OkE)
qed

lemma poll_value:
  assumes h: "holds cfg k b m c"
  obtains c' where "cn_poll_cq n c = (take n (rd_queue m), c')" and "holds cfg k b (m\<lparr>rd_queue := drop n (rd_queue m)\<rparr>) c'"
proof -
  obtain x c' where
      p: "perform undefined (PollCq n) c = (x, c')" "rd_step m (PollCq n) x (machine_of c')" "holds cfg k b (machine_of c') c'"
    using holds_step [OF h, of "PollCq n" undefined] by auto
  then have "x = Ok (Completions (take n (rd_queue m)))" "machine_of c' = m\<lparr>rd_queue := drop n (rd_queue m)\<rparr>"
    by (auto elim!: rd_step_PollE)
  with p that show thesis by (auto simp: case_prod_beta prod_eq_iff)
qed

lemma post_send_value:
  assumes h: "holds cfg k b m c" and "\<not> rd_full m" and "rd_credits m \<noteq> 0" and "rd_fits m 4 sgs"
    and "rd_gather (rd_local m) sgs = Ok data"
  obtains c' where "post_send (server_net env) wrid sgs c = (if rd_slots m = 0 then Err (Protocol ErrRnr) else Ok (), c')"
    and "holds cfg k b (snd (rd_send wrid sgs m)) c'"
proof -
  have "rd_admits m (PostSend wrid sgs)" using assms by simp
  from holds_step [OF h this, of env] obtain x c' where
      p: "perform env (PostSend wrid sgs) c = (x, c')" "rd_step m (PostSend wrid sgs) x (machine_of c')"
        "holds cfg k b (machine_of c') c'"
    by auto
  then have x: "x = (if rd_slots m = 0 then Err (Protocol ErrRnr) else Ok Done)" "machine_of c' = snd (rd_send wrid sgs m)"
    using assms by (auto simp: rd_send_def rd_fail_def elim!: rd_step_SendE)
  obtain y c1 where y: "post_send (server_net env) wrid sgs c = (y, c1)" by (metis surj_pair)
  with p(1) x have "c1 = c'" "y = (if rd_slots m = 0 then Err (Protocol ErrRnr) else Ok ())"
    by (cases y; simp split: if_split_asm)+
  with y x p(3) that show thesis by simp
qed

lemma connected_holds:
  assumes "\<not> starts_with url (lit ''ws://'')" and "dial url = Ok (Some SUBPROTOCOL, fresh_peer cfg now)"
    and "cfg_max_outstanding_reads cfg \<noteq> 0" and "unat (cfg_recv_queue_depth cfg) < 16383"
  obtains c where "connection_connect (server_net env) dial os_rng url = Ok c" and "cn_session_id c = from_be (os_rng 0)"
    and "holds cfg 0 0 \<lparr>rd_session = from_be (os_rng 0), rd_max_msg = 16777216, rd_capacity = 65536,
      rd_queue = [], rd_local = Map.empty, rd_remote = Map.empty,
      rd_slots = unat (cfg_recv_queue_depth cfg), rd_credits = 65535\<rparr> c"
  using connect_linked [of url dial cfg now connect_config_default env os_rng, OF assms] that
  by (auto simp: connection_connect_def holds_def connect_config_default_def DEFAULT_CQ_CAPACITY_def)

end
