(* ===== verification/Startup.thy ===== *)
theory Startup
  imports Sessions
begin

text \<open>
  How the binaries start: the command lines (\<open>get_arg\<close> of \<open>rdows-client/src/main.rs\<close> and
  \<open>rdows-server/src/main.rs\<close>, which are the same function, and \<open>parse_args\<close> of
  \<open>rdows-kv/src/main.rs\<close>), the TLS configurations the three crates build, and the embedded
  server of the examples.

  The file system, the sockets and the TLS and certificate crates are the fields of a record
  \<open>platform\<close>, an argument of the definitions. What a program prints on its standard output is
  a list of pieces, the literal parts and the formatted arguments of its \<open>print!\<close> and
  \<open>println!\<close> calls; the standard error stream is left out.
\<close>

section \<open>Definitions\<close>

subsection \<open>Results of a program\<close>

text \<open>
  The boxed errors of the programs. A message of the platform stands for an error of one of its
  operations; \<open>Exit\<close> is \<open>std::process::exit\<close>.
\<close>

datatype boxed_error =
    Rdows rdows_error
  | Utf8Error
  | Message rstring
  | Exit nat

text \<open>The pieces of formatted output: \<open>{}\<close>, \<open>{:0nX}\<close> and \<open>{:?}\<close> of a string.\<close>

datatype piece =
    Text rstring
  | Dec nat
  | Hex nat nat
  | Quoted rstring

type_synonym 'c app = "piece list \<times> 'c"

abbreviation newline :: piece where
  "newline \<equiv> Text [10]"

definition print :: "piece list \<Rightarrow> 'c app \<Rightarrow> (boxed_error, unit) result \<times> 'c app" where
  "print ps w = (Ok (), (fst w @ ps, snd w))"

definition println :: "piece list \<Rightarrow> 'c app \<Rightarrow> (boxed_error, unit) result \<times> 'c app" where
  "println ps = print (ps @ [newline])"

subsection \<open>Numbers on the command line\<close>

text \<open>\<open>str::parse\<close> for an unsigned type with values below \<open>bound\<close>: an optional plus sign, then digits.\<close>

fun parse_digits :: "nat \<Rightarrow> nat \<Rightarrow> rstring \<Rightarrow> nat option" where
  "parse_digits bound acc [] = Some acc"
| "parse_digits bound acc (d # ds) =
     (if 48 \<le> d \<and> d \<le> 57 then
        let acc = acc * 10 + unat (d - 48) in
        if acc < bound then parse_digits bound acc ds else None
      else None)"

definition parse_unsigned :: "nat \<Rightarrow> rstring \<Rightarrow> nat option" where
  "parse_unsigned bound s =
     (case s of
        [] \<Rightarrow> None
      | c # cs \<Rightarrow> if c = 43 then (if cs = [] then None else parse_digits bound 0 cs) else parse_digits bound 0 s)"

definition expect :: "'a option \<Rightarrow> ('e, 'a) result" where
  "expect x = (case x of Some a \<Rightarrow> Ok a | None \<Rightarrow> Panic)"

subsection \<open>\<open>get_arg\<close>\<close>

fun position :: "('a \<Rightarrow> bool) \<Rightarrow> 'a list \<Rightarrow> nat option" where
  "position P [] = None"
| "position P (x # xs) = (if P x then Some 0 else map_option Suc (position P xs))"

definition get_arg :: "rstring list \<Rightarrow> rstring \<Rightarrow> rstring option" where
  "get_arg args flag =
     Option.bind (position (\<lambda>a. a = flag) args) (\<lambda>i.
       if i + 1 < length args then Some (args ! (i + 1)) else None)"

definition unwrap_or_else :: "'a option \<Rightarrow> 'a \<Rightarrow> 'a" where
  "unwrap_or_else x d = (case x of Some a \<Rightarrow> a | None \<Rightarrow> d)"

subsection \<open>\<open>parse_args\<close> of the key-value server\<close>

record kv_args =
  ka_http_port :: u16
  ka_rdows_port :: u16
  ka_remote :: "rstring option"
  ka_cert :: "rstring option"
  ka_insecure :: bool

definition kv_args_default :: kv_args where
  "kv_args_default = \<lparr>ka_http_port = 8080, ka_rdows_port = 9443, ka_remote = None, ka_cert = None, ka_insecure = False\<rparr>"

definition parse_u16 :: "rstring \<Rightarrow> u16 option" where
  "parse_u16 s = map_option of_nat (parse_unsigned 65536 s)"

text \<open>The loop, on the arguments not yet read. Reading the value of a last flag is out of range.\<close>

fun parse_loop :: "rstring list \<Rightarrow> kv_args \<Rightarrow> (boxed_error, kv_args) result" where
  "parse_loop [] a = Ok a"
| "parse_loop [x] a =
     (if x = lit ''--insecure'' then Ok (a\<lparr>ka_insecure := True\<rparr>)
      else if x \<in> {lit ''--http-port'', lit ''--rdows-port'', lit ''--remote'', lit ''--cert''} then Panic
      else Err (Exit 1))"
| "parse_loop (x # v # rest) a =
     (if x = lit ''--http-port'' then
        rbind (expect (parse_u16 v)) (\<lambda>port. parse_loop rest (a\<lparr>ka_http_port := port\<rparr>))
      else if x = lit ''--rdows-port'' then
        rbind (expect (parse_u16 v)) (\<lambda>port. parse_loop rest (a\<lparr>ka_rdows_port := port\<rparr>))
      else if x = lit ''--remote'' then parse_loop rest (a\<lparr>ka_remote := Some v\<rparr>)
      else if x = lit ''--cert'' then parse_loop rest (a\<lparr>ka_cert := Some v\<rparr>)
      else if x = lit ''--insecure'' then parse_loop (v # rest) (a\<lparr>ka_insecure := True\<rparr>)
      else Err (Exit 1))"

definition parse_args :: "rstring list \<Rightarrow> (boxed_error, kv_args) result" where
  "parse_args args = parse_loop (drop 1 args) kv_args_default"

subsection \<open>TLS configurations\<close>

record ('cert, 'roots, 'tls, 'listener) platform =
  read_file :: "rstring \<Rightarrow> (rstring, bytes) result"
  pem_certs :: "bytes \<Rightarrow> (rstring, 'cert) result list"
  pem_private_key :: "bytes \<Rightarrow> (rstring, bytes option) result"
  native_certs :: "'cert list"
  roots_empty :: 'roots
  roots_add :: "'cert \<Rightarrow> 'roots \<Rightarrow> (rstring, unit) result \<times> 'roots"
  roots_len :: "'roots \<Rightarrow> nat"
  self_signed :: "rstring list \<Rightarrow> (rstring, 'cert \<times> bytes) result"
  with_single_cert :: "'cert list \<Rightarrow> bytes \<Rightarrow> (rstring, 'tls) result"
  bind_listener :: "rstring \<Rightarrow> (rstring, 'listener) result"
  local_port :: "'listener \<Rightarrow> (rstring, u16) result"

text \<open>The client's configuration: how the server's certificate is verified, and the key log.\<close>

datatype 'roots cert_verifier = RootCertificates 'roots | InsecureVerifier

record 'roots client_tls =
  ct_verifier :: "'roots cert_verifier"
  ct_key_log :: bool

text \<open>Collecting an iterator of results: the first error ends it.\<close>

fun collect :: "('e, 'a) result list \<Rightarrow> ('e, 'a list) result" where
  "collect [] = Ok []"
| "collect (r # rs) = rbind r (\<lambda>x. rbind (collect rs) (\<lambda>xs. Ok (x # xs)))"

fun add_certs :: "('cert \<Rightarrow> 'roots \<Rightarrow> (rstring, unit) result \<times> 'roots) \<Rightarrow> 'cert list \<Rightarrow> 'roots \<Rightarrow> (rstring, 'roots) result" where
  "add_certs add [] roots = Ok roots"
| "add_certs add (cert # certs) roots =
     (case add cert roots of (r, roots) \<Rightarrow> rbind r (\<lambda>_. add_certs add certs roots))"

fun add_native :: "('cert \<Rightarrow> 'roots \<Rightarrow> (rstring, unit) result \<times> 'roots) \<Rightarrow> 'cert list \<Rightarrow> 'roots \<Rightarrow> 'roots" where
  "add_native add [] roots = roots"
| "add_native add (cert # certs) roots = add_native add certs (snd (add cert roots))"

definition load_certs :: "('cert, 'roots, 'tls, 'listener) platform \<Rightarrow> rstring \<Rightarrow> (rstring, 'roots) result" where
  "load_certs pf path =
     rbind (read_file pf path) (\<lambda>pem.
     rbind (collect (pem_certs pf pem)) (\<lambda>certs.
     add_certs (roots_add pf) certs (roots_empty pf)))"

definition build_tls_config :: "('cert, 'roots, 'tls, 'listener) platform \<Rightarrow> rstring option \<Rightarrow> 'c app
    \<Rightarrow> (boxed_error, 'roots client_tls) result \<times> 'c app" where
  "build_tls_config pf cert_path w =
     sbind
       (case cert_path of
          Some path \<Rightarrow>
            sbind (map_err Message (load_certs pf path), w) (\<lambda>roots w.
            sbind (println [Text (lit ''Loaded trust anchor from ''), Text path] w) (\<lambda>_ w.
            (Ok roots, w)))
        | None \<Rightarrow>
            let roots = add_native (roots_add pf) (native_certs pf) (roots_empty pf) in
            sbind (println [Text (lit ''Using system trust store (''), Dec (roots_len pf roots), Text (lit '' roots)'')] w) (\<lambda>_ w.
            (Ok roots, w)))
       (\<lambda>roots w. (Ok \<lparr>ct_verifier = RootCertificates roots, ct_key_log = True\<rparr>, w))"

definition build_remote_tls_config :: "('cert, 'roots, 'tls, 'listener) platform \<Rightarrow> rstring option \<Rightarrow> bool
    \<Rightarrow> (rstring, 'roots client_tls) result" where
  "build_remote_tls_config pf cert_path insecure =
     (if insecure then Ok \<lparr>ct_verifier = InsecureVerifier, ct_key_log = False\<rparr>
      else
        rbind
          (case cert_path of
             Some path \<Rightarrow> load_certs pf path
           | None \<Rightarrow> Ok (add_native (roots_add pf) (native_certs pf) (roots_empty pf)))
          (\<lambda>roots. Ok \<lparr>ct_verifier = RootCertificates roots, ct_key_log = True\<rparr>))"

text \<open>
  Verification of a server's certificate. The web PKI verifier is the parameter \<open>webpki\<close>; the
  insecure one accepts every certificate.
\<close>

definition verify_server_cert :: "('roots \<Rightarrow> 'chain \<Rightarrow> bool) \<Rightarrow> 'roots client_tls \<Rightarrow> 'chain \<Rightarrow> bool" where
  "verify_server_cert webpki tls chain =
     (case ct_verifier tls of RootCertificates roots \<Rightarrow> webpki roots chain | InsecureVerifier \<Rightarrow> True)"

record 'tls server_tls =
  st_config :: 'tls
  st_key_log :: bool

definition build_server_tls_config :: "('cert, 'roots, 'tls, 'listener) platform \<Rightarrow> bytes \<Rightarrow> bytes
    \<Rightarrow> (rstring, 'tls server_tls) result" where
  "build_server_tls_config pf cert_pem key_pem =
     rbind (collect (pem_certs pf cert_pem)) (\<lambda>certs.
     rbind (pem_private_key pf key_pem) (\<lambda>key.
     rbind (ok_or (lit ''no private key found'') key) (\<lambda>key.
     rbind (with_single_cert pf certs key) (\<lambda>config.
     Ok \<lparr>st_config = config, st_key_log = True\<rparr>))))"

subsection \<open>The server's main\<close>

text \<open>
  What the server is started with: the listener, the TLS configuration and the limits. The
  server's loop, \<open>run_server\<close>, does not return.
\<close>

definition server_main :: "('cert, 'roots, 'tls, 'listener) platform \<Rightarrow> rstring list
    \<Rightarrow> (rstring, 'listener \<times> 'tls server_tls \<times> server_config) result" where
  "server_main pf args =
     (let bind = unwrap_or_else (get_arg args (lit ''--bind'')) (lit ''0.0.0.0:9443'') in
      rbind (expect (get_arg args (lit ''--cert''))) (\<lambda>cert_path.
      rbind (expect (get_arg args (lit ''--key''))) (\<lambda>key_path.
      rbind
        (case get_arg args (lit ''--recv-queue-depth'') of
           Some s \<Rightarrow> expect (map_option of_nat (parse_unsigned 4294967296 s))
         | None \<Rightarrow> Ok 128) (\<lambda>recv_queue_depth.
      rbind (read_file pf cert_path) (\<lambda>cert_pem.
      rbind (read_file pf key_path) (\<lambda>key_pem.
      rbind (build_server_tls_config pf cert_pem key_pem) (\<lambda>tls_config.
      rbind (bind_listener pf bind) (\<lambda>listener.
      Ok (listener, tls_config, server_config_default\<lparr>cfg_recv_queue_depth := recv_queue_depth\<rparr>)))))))))"

subsection \<open>The embedded server\<close>

text \<open>
  The server that the examples and the key-value server start beside themselves: a new
  certificate for \<open>localhost\<close>, a listener, and a client configuration that trusts exactly this
  certificate. The spawned task is represented by what it is started with.
\<close>

record ('roots, 'tls, 'listener) embedded =
  em_listener :: 'listener
  em_acceptor :: "'tls server_tls"
  em_config :: server_config
  em_port :: u16
  em_client_tls :: "'roots client_tls"

definition embedded_server :: "('cert, 'roots, 'tls, 'listener) platform \<Rightarrow> rstring \<Rightarrow> server_config
    \<Rightarrow> (rstring, ('roots, 'tls, 'listener) embedded) result" where
  "embedded_server pf addr config =
     rbind (self_signed pf [lit ''localhost'']) (\<lambda>(cert_der, key_der).
     rbind (with_single_cert pf [cert_der] key_der) (\<lambda>server_config.
     rbind (add_certs (roots_add pf) [cert_der] (roots_empty pf)) (\<lambda>root_store.
     rbind (bind_listener pf addr) (\<lambda>listener.
     rbind (local_port pf listener) (\<lambda>port.
     Ok \<lparr>em_listener = listener, em_acceptor = \<lparr>st_config = server_config, st_key_log = True\<rparr>,
         em_config = config, em_port = port,
         em_client_tls = \<lparr>ct_verifier = RootCertificates root_store, ct_key_log = True\<rparr>\<rparr>)))))"

definition unwrap :: "('e, 'a) result \<Rightarrow> ('f, 'a) result" where
  "unwrap r = (case r of Ok a \<Rightarrow> Ok a | Blocked \<Rightarrow> Blocked | _ \<Rightarrow> Panic)"

definition start_embedded_server :: "('cert, 'roots, 'tls, 'listener) platform \<Rightarrow> server_config
    \<Rightarrow> ('e, ('roots, 'tls, 'listener) embedded) result" where
  "start_embedded_server pf config = unwrap (embedded_server pf (lit ''127.0.0.1:0'') config)"

section \<open>Numbers\<close>

lemma parse_digits_append:
  "parse_digits bound acc (xs @ ys) = Option.bind (parse_digits bound acc xs) (\<lambda>acc. parse_digits bound acc ys)"
  by (induction bound acc xs rule: parse_digits.induct) (simp_all add: Let_def)

lemma digit_byte:
  assumes "k < 10"
  shows "(48 :: u8) \<le> of_nat (48 + k)" and "of_nat (48 + k) \<le> (57 :: u8)" and "unat (of_nat (48 + k) - 48 :: u8) = k"
proof -
  have u: "unat (of_nat (48 + k) :: u8) = 48 + k"
    using assms unat_of_nat [of "48 + k", where 'a = 8] by (simp del: of_nat_add)
  show "(48 :: u8) \<le> of_nat (48 + k)" "of_nat (48 + k) \<le> (57 :: u8)"
    unfolding word_le_nat_alt u using assms by simp_all
  have "(of_nat (48 + k) - 48 :: u8) = of_nat k" by simp
  then show "unat (of_nat (48 + k) - 48 :: u8) = k" using assms by (simp add: unat_of_nat)
qed

lemma parse_digits_show_dec: "n < bound \<Longrightarrow> parse_digits bound 0 (show_dec n) = Some n"
proof (induction n rule: show_dec.induct)
  case (1 n)
  show ?case
  proof (cases "n < 10")
    case True
    then show ?thesis using "1.prems" digit_byte [OF True] by (simp add: show_dec.simps [of n] Let_def del: of_nat_add)
  next
    case False
    then have "parse_digits bound 0 (show_dec (n div 10)) = Some (n div 10)" using 1 by simp
    then show ?thesis
      using False "1.prems" digit_byte [of "n mod 10"]
      by (simp add: show_dec.simps [of n] parse_digits_append Let_def del: of_nat_add)
  qed
qed

lemma show_dec_Cons: "\<exists>d ds. show_dec n = d # ds \<and> d \<noteq> 43"
proof (induction n rule: show_dec.induct)
  case (1 n)
  then show ?case
  proof (cases "n < 10")
    case True
    have "of_nat (48 + n) \<noteq> (43 :: u8)" using digit_byte(3) [OF True] True
      by (auto simp del: of_nat_add)
    then show ?thesis using True by (simp add: show_dec.simps [of n])
  qed (auto simp: show_dec.simps [of n])
qed

lemma parse_unsigned_show_dec [simp]: "n < bound \<Longrightarrow> parse_unsigned bound (show_dec n) = Some n"
  using show_dec_Cons [of n] parse_digits_show_dec [of n bound] by (auto simp: parse_unsigned_def)

lemma parse_digits_bound: "parse_digits bound acc s = Some n \<Longrightarrow> acc < bound \<Longrightarrow> n < bound"
  by (induction bound acc s rule: parse_digits.induct) (auto simp: Let_def split: if_split_asm)

lemma parse_u16_show_dec [simp]: "parse_u16 (show_dec (unat p)) = Some p"
proof -
  have "unat p < 65536" using unsigned_less [of p] by simp
  then show ?thesis by (simp add: parse_u16_def del: map_option_eq_Some)
qed

section \<open>Properties\<close>

text \<open>A setting of the key-value server's command line, with its words and its effect.\<close>

datatype setting =
    HttpPort rstring
  | RdowsPort rstring
  | RemoteUrl rstring
  | CertFile rstring
  | Insecure

fun setting_words :: "setting \<Rightarrow> rstring list" where
  "setting_words (HttpPort s) = [lit ''--http-port'', s]"
| "setting_words (RdowsPort s) = [lit ''--rdows-port'', s]"
| "setting_words (RemoteUrl s) = [lit ''--remote'', s]"
| "setting_words (CertFile s) = [lit ''--cert'', s]"
| "setting_words Insecure = [lit ''--insecure'']"

fun setting_apply :: "setting \<Rightarrow> kv_args \<Rightarrow> kv_args option" where
  "setting_apply (HttpPort s) a = map_option (\<lambda>p. a\<lparr>ka_http_port := p\<rparr>) (parse_u16 s)"
| "setting_apply (RdowsPort s) a = map_option (\<lambda>p. a\<lparr>ka_rdows_port := p\<rparr>) (parse_u16 s)"
| "setting_apply (RemoteUrl s) a = Some (a\<lparr>ka_remote := Some s\<rparr>)"
| "setting_apply (CertFile s) a = Some (a\<lparr>ka_cert := Some s\<rparr>)"
| "setting_apply Insecure a = Some (a\<lparr>ka_insecure := True\<rparr>)"

fun settings_apply :: "setting list \<Rightarrow> kv_args \<Rightarrow> kv_args option" where
  "settings_apply [] a = Some a"
| "settings_apply (s # ss) a = Option.bind (setting_apply s a) (settings_apply ss)"

lemma flags_distinct [simp]:
  "lit ''--http-port'' \<noteq> lit ''--rdows-port''" "lit ''--http-port'' \<noteq> lit ''--remote''" "lit ''--http-port'' \<noteq> lit ''--cert''"
  "lit ''--http-port'' \<noteq> lit ''--insecure''" "lit ''--rdows-port'' \<noteq> lit ''--remote''" "lit ''--rdows-port'' \<noteq> lit ''--cert''"
  "lit ''--rdows-port'' \<noteq> lit ''--insecure''" "lit ''--remote'' \<noteq> lit ''--cert''" "lit ''--remote'' \<noteq> lit ''--insecure''"
  "lit ''--cert'' \<noteq> lit ''--insecure''"
  by (simp_all add: lit_def)

lemmas flags_distinct' [simp] = flags_distinct [symmetric]

lemma parse_loop_setting:
  "parse_loop (setting_words s @ xs) a = rbind (expect (setting_apply s a)) (parse_loop xs)"
proof (cases s)
  case Insecure
  then show ?thesis by (cases xs) (simp_all add: expect_def)
qed (auto simp: expect_def split: option.split)

lemma parse_loop_settings:
  "parse_loop (concat (map setting_words ss) @ xs) a = rbind (expect (settings_apply ss a)) (parse_loop xs)"
proof (induction ss arbitrary: a)
  case (Cons s ss)
  then show ?case by (cases "setting_apply s a") (simp_all add: parse_loop_setting expect_def)
qed (simp add: expect_def)

text \<open>How a command line ends: completely read, or at a word that stops the loop.\<close>

definition lacks_value :: "rstring list \<Rightarrow> bool" where
  "lacks_value xs \<longleftrightarrow> (\<exists>flag \<in> {lit ''--http-port'', lit ''--rdows-port'', lit ''--remote'', lit ''--cert''}. xs = [flag])"

definition bad_port :: "rstring list \<Rightarrow> bool" where
  "bad_port xs \<longleftrightarrow> (\<exists>flag v more. flag \<in> {lit ''--http-port'', lit ''--rdows-port''} \<and>
     xs = flag # v # more \<and> parse_u16 v = None)"

definition bad_flag :: "rstring list \<Rightarrow> bool" where
  "bad_flag xs \<longleftrightarrow> (\<exists>x more. xs = x # more \<and> x \<notin> {lit ''--http-port'', lit ''--rdows-port'', lit ''--remote'',
     lit ''--cert'', lit ''--insecure''})"

lemma parse_loop_stops:
  "lacks_value xs \<Longrightarrow> parse_loop xs a = Panic" "bad_port xs \<Longrightarrow> parse_loop xs a = Panic"
  "bad_flag xs \<Longrightarrow> parse_loop xs a = Err (Exit 1)"
  by (auto simp: lacks_value_def bad_port_def bad_flag_def expect_def neq_Nil_conv intro: parse_loop.cases [of "(xs, a)"])

lemma setting_shape:
  assumes "xs \<noteq> []" "\<not> lacks_value xs" "\<not> bad_flag xs"
  obtains s rest where "xs = setting_words s @ rest"
  using assms by (cases xs rule: remdups_adj.cases)
    (auto simp: lacks_value_def bad_flag_def intro: that [of "HttpPort _" ] that [of "RdowsPort _"] that [of "RemoteUrl _"]
      that [of "CertFile _"] that [of Insecure])

lemma bad_port_setting:
  assumes "setting_apply s a = None"
  shows "bad_port (setting_words s @ rest)"
  using assms by (cases s) (auto simp: bad_port_def)

lemma command_line_split:
  "\<exists>ss b rest. xs = concat (map setting_words ss) @ rest \<and> settings_apply ss a = Some b \<and>
     (rest = [] \<or> lacks_value rest \<or> bad_port rest \<or> bad_flag rest)"
proof (induction xs arbitrary: a rule: length_induct)
  case (1 xs)
  show ?case
  proof (cases "xs = [] \<or> lacks_value xs \<or> bad_flag xs")
    case True
    then have "xs = concat (map setting_words []) @ xs" "settings_apply [] a = Some a" by simp_all
    with True show ?thesis by blast
  next
    case False
    then obtain s rest where xs: "xs = setting_words s @ rest" using setting_shape by blast
    show ?thesis
    proof (cases "setting_apply s a")
      case None
      then have "bad_port xs" using bad_port_setting xs by simp
      moreover have "xs = concat (map setting_words []) @ xs" "settings_apply [] a = Some a" by simp_all
      ultimately show ?thesis by blast
    next
      case (Some a')
      have "length rest < length xs" using xs by (cases s) simp_all
      then obtain ss b rest' where r: "rest = concat (map setting_words ss) @ rest'" "settings_apply ss a' = Some b"
          "rest' = [] \<or> lacks_value rest' \<or> bad_port rest' \<or> bad_flag rest'"
        using 1 by blast
      then have "xs = concat (map setting_words (s # ss)) @ rest'" "settings_apply (s # ss) a = Some b"
        using xs Some by simp_all
      with r(3) show ?thesis by blast
    qed
  qed
qed

text \<open>
  (C30) The command line of the key-value server. It is accepted exactly when it is a sequence of
  settings (in any order, the last of a kind counts), and then gives their effect on the
  defaults; the program panics exactly when, after some settings, a flag lacks its value or a
  port is not a number below 65536; in every other case it exits with status 1.
\<close>

theorem parse_args_exact:
  "(parse_args args = Ok b \<longleftrightarrow>
      (\<exists>ss. drop 1 args = concat (map setting_words ss) \<and> settings_apply ss kv_args_default = Some b)) \<and>
   (parse_args args = Panic \<longleftrightarrow>
      (\<exists>ss rest. drop 1 args = concat (map setting_words ss) @ rest \<and>
        settings_apply ss kv_args_default \<noteq> None \<and> (lacks_value rest \<or> bad_port rest))) \<and>
   (parse_args args \<in> range Ok \<union> {Panic, Err (Exit 1)})"
proof -
  obtain ss c rest where split: "drop 1 args = concat (map setting_words ss) @ rest"
      "settings_apply ss kv_args_default = Some c" and
      stop: "rest = [] \<or> lacks_value rest \<or> bad_port rest \<or> bad_flag rest"
    using command_line_split by blast
  have now: "parse_args args = parse_loop rest c"
    unfolding parse_args_def split(1) parse_loop_settings by (simp add: split(2) expect_def)
  have all: "parse_args args = rbind (expect (settings_apply ss' kv_args_default)) (parse_loop rest')"
    if "drop 1 args = concat (map setting_words ss') @ rest'" for ss' rest'
    unfolding parse_args_def that parse_loop_settings ..
  have ok: "rest = []" if "parse_args args = Ok b" using that now stop by (auto simp: parse_loop_stops)
  have panic: "lacks_value rest \<or> bad_port rest" if "parse_args args = Panic"
    using that now stop by (auto simp: parse_loop_stops)
  have 1: "parse_args args = Ok b" if "drop 1 args = concat (map setting_words ss')"
      "settings_apply ss' kv_args_default = Some b" for ss'
    using all [of ss' "[]"] that by (simp add: expect_def)
  have 2: "parse_args args = Panic" if "drop 1 args = concat (map setting_words ss') @ rest'"
      "settings_apply ss' kv_args_default \<noteq> None" "lacks_value rest' \<or> bad_port rest'" for ss' rest'
    using all [OF that(1)] that(2,3) by (auto simp: expect_def parse_loop_stops)
  have "\<exists>ss. drop 1 args = concat (map setting_words ss) \<and> settings_apply ss kv_args_default = Some b"
    if "parse_args args = Ok b"
    using ok [OF that] now that split by auto
  moreover have "\<exists>ss rest. drop 1 args = concat (map setting_words ss) @ rest \<and>
      settings_apply ss kv_args_default \<noteq> None \<and> (lacks_value rest \<or> bad_port rest)" if "parse_args args = Panic"
    using panic [OF that] split by blast
  moreover have "parse_args args \<in> range Ok \<union> {Panic, Err (Exit 1)}" using now stop by (auto simp: parse_loop_stops)
  ultimately show ?thesis using 1 2 by blast
qed

text \<open>
  What the program relies on of the certificate store: adding a certificate that is accepted
  makes exactly this certificate an additional trust anchor, and a refused one changes nothing.
\<close>

definition store_laws :: "('cert, 'roots, 'tls, 'listener) platform \<Rightarrow> ('roots \<Rightarrow> 'cert set) \<Rightarrow> bool" where
  "store_laws pf anchors \<longleftrightarrow> anchors (roots_empty pf) = {} \<and>
     (\<forall>cert roots r roots'. roots_add pf cert roots = (r, roots') \<longrightarrow>
        anchors roots' = (if r = Ok () then insert cert (anchors roots) else anchors roots))"

lemma add_certs_anchors:
  assumes "store_laws pf anchors" and "add_certs (roots_add pf) certs roots = Ok roots'"
  shows "anchors roots' = anchors roots \<union> set certs"
  using assms(2)
proof (induction certs arbitrary: roots)
  case (Cons cert certs)
  obtain r roots1 where add: "roots_add pf cert roots = (r, roots1)" by (metis surj_pair)
  then have "anchors roots1 = (if r = Ok () then insert cert (anchors roots) else anchors roots)"
    using assms(1) by (simp add: store_laws_def)
  with Cons add show ?case by (auto simp: rbind_Ok_iff)
qed simp

lemma collect_Ok: "collect rs = Ok xs \<Longrightarrow> rs = map Ok xs"
  by (induction rs arbitrary: xs) (auto simp: rbind_Ok_iff)

lemma load_certs_anchors:
  assumes "store_laws pf anchors" and "load_certs pf path = Ok roots"
  shows "\<exists>pem certs. read_file pf path = Ok pem \<and> pem_certs pf pem = map Ok certs \<and> anchors roots = set certs"
proof -
  obtain pem certs where "read_file pf path = Ok pem" "collect (pem_certs pf pem) = Ok certs"
      "add_certs (roots_add pf) certs (roots_empty pf) = Ok roots"
    using assms(2) by (auto simp: load_certs_def rbind_Ok_iff)
  moreover have "anchors (roots_empty pf) = {}" using assms(1) by (simp add: store_laws_def)
  ultimately show ?thesis using add_certs_anchors [OF assms(1)] collect_Ok by (metis sup_bot_left)
qed

text \<open>
  (C31) With a certificate file on the command line and without \<open>--insecure\<close>, the key-value
  server's client trusts the certificates of that file and no others, system roots included: a
  server whose chain the verifier accepts was accepted with these roots alone.
\<close>

theorem pinned_certificates:
  assumes "store_laws pf anchors" and "build_remote_tls_config pf (Some path) False = Ok tls"
    and "verify_server_cert webpki tls chain"
  shows "\<exists>pem certs roots. read_file pf path = Ok pem \<and> pem_certs pf pem = map Ok certs \<and>
    anchors roots = set certs \<and> webpki roots chain"
proof -
  obtain roots where roots: "load_certs pf path = Ok roots" "ct_verifier tls = RootCertificates roots"
    using assms(2) by (auto simp: build_remote_tls_config_def rbind_Ok_iff)
  with assms(3) have "webpki roots chain" by (simp add: verify_server_cert_def)
  with load_certs_anchors [OF assms(1) roots(1)] show ?thesis by blast
qed

definition sample_platform :: "(nat, nat set, unit, unit) platform" where
  "sample_platform = \<lparr>read_file = (\<lambda>p. if p = lit ''ca.pem'' then Ok [1, 2] else Err (lit ''not found'')),
     pem_certs = (\<lambda>bs. map (\<lambda>b. Ok (unat b)) bs), pem_private_key = (\<lambda>bs. Ok (Some bs)),
     native_certs = [7], roots_empty = {}, roots_add = (\<lambda>c s. (Ok (), insert c s)), roots_len = card,
     self_signed = (\<lambda>_. Ok (9, [1])), with_single_cert = (\<lambda>_ _. Ok ()),
     bind_listener = (\<lambda>_. Ok ()), local_port = (\<lambda>_. Ok 40000)\<rparr>"

theorem pinned_certificates_witness:
  "\<exists>pem certs roots. read_file sample_platform (lit ''ca.pem'') = Ok pem \<and>
     pem_certs sample_platform pem = map Ok certs \<and> roots = set certs \<and> (2 :: nat) \<in> roots \<and> 7 \<notin> roots"
proof -
  let ?tls = "\<lparr>ct_verifier = RootCertificates {1, 2}, ct_key_log = True\<rparr>"
  have laws: "store_laws sample_platform (\<lambda>s. s)" by (auto simp: store_laws_def sample_platform_def)
  have tls: "build_remote_tls_config sample_platform (Some (lit ''ca.pem'')) False = Ok ?tls"
    by (simp add: build_remote_tls_config_def load_certs_def sample_platform_def insert_commute)
  have "verify_server_cert (\<lambda>roots c. c \<in> roots \<and> 7 \<notin> roots) ?tls (2 :: nat)" by (simp add: verify_server_cert_def)
  from pinned_certificates [OF laws tls this] show ?thesis by blast
qed

end
