(* ===== verification/Demos.thy ===== *)
theory Demos
  imports Programs Startup
begin

text \<open>
  The demonstration client (\<open>rdows-client/src/main.rs\<close>): its five modes, each a program over the
  verbs, and its main function. A program's state is what it has printed and its connection.
  The theorems run it against the server's session: the assertions hold, and the output is
  what the demonstration claims.
\<close>

section \<open>Definitions\<close>

subsection \<open>Calls on the connection\<close>

text \<open>A verb followed by \<open>?\<close>, for verbs that change the connection and for those that only read it.\<close>

definition on_conn :: "('c \<Rightarrow> (rdows_error, 'a) result \<times> 'c) \<Rightarrow> 'c app \<Rightarrow> (boxed_error, 'a) result \<times> 'c app" where
  "on_conn f w = (case f (snd w) of (r, c) \<Rightarrow> (map_err Rdows r, (fst w, c)))"

definition reading :: "('c \<Rightarrow> (rdows_error, 'a) result) \<Rightarrow> 'c app \<Rightarrow> (boxed_error, 'a) result \<times> 'c app" where
  "reading f w = (map_err Rdows (f (snd w)), w)"

definition polled :: "usize \<Rightarrow> 'p rdows_connection app
    \<Rightarrow> (boxed_error, completion_queue_entry list) result \<times> 'p rdows_connection app" where
  "polled limit w = (case cn_poll_cq limit (snd w) of (cqes, c) \<Rightarrow> (Ok cqes, (fst w, c)))"

definition str_from_utf8 :: "bytes \<Rightarrow> (boxed_error, rstring) result" where
  "str_from_utf8 bs = (if is_utf8 bs then Ok bs else Err Utf8Error)"

definition assert_eq :: "'a \<Rightarrow> 'a \<Rightarrow> 'c app \<Rightarrow> (boxed_error, unit) result \<times> 'c app" where
  "assert_eq x y w = (if x = y then Ok () else Panic, w)"

text \<open>\<open>cqes.first().map(|c| c.status).unwrap_or_else(0xFFFF)\<close>, and \<open>cqes[0]\<close>.\<close>

definition first_status :: "completion_queue_entry list \<Rightarrow> u16" where
  "first_status cqes = (case cqes of [] \<Rightarrow> 0xFFFF | c # _ \<Rightarrow> cqe_status c)"

definition first_cqe :: "completion_queue_entry list \<Rightarrow> ('e, completion_queue_entry) result" where
  "first_cqe cqes = (case cqes of [] \<Rightarrow> Panic | c # _ \<Rightarrow> Ok c)"

definition sg_entry :: "lkey \<Rightarrow> nat \<Rightarrow> scatter_gather_entry" where
  "sg_entry lkey len = \<lparr>sg_lkey = lkey, sg_offset = 0, sg_length = of_nat len\<rparr>"

type_synonym 'p program = "'p network \<Rightarrow> 'p rdows_connection app \<Rightarrow> (boxed_error, unit) result \<times> 'p rdows_connection app"

abbreviation say :: "string \<Rightarrow> piece" where
  "say s \<equiv> Text (lit s)"

abbreviation key_hex :: "rkey \<Rightarrow> piece" where
  "key_hex k \<equiv> Hex 8 (unat (rkey_val k))"

abbreviation status_hex :: "u16 \<Rightarrow> piece" where
  "status_hex s \<equiv> Hex 4 (unat s)"

subsection \<open>Writing and reading back\<close>

definition payload :: bytes where
  "payload = lit ''RDMA over WebSockets: because InfiniBand was too easy.''"

definition demo_write :: "'p program" where
  "demo_write net w =
     sbind (on_conn (reg_mr net (af_bitor REMOTE_WRITE REMOTE_READ) 4096) w) (\<lambda>remote_mr w.
     sbind (println [say ''Remote MR registered: R_Key=0x'', key_hex (mh_rkey remote_mr), say '', size=4096''] w) (\<lambda>_ w.
     sbind (on_conn (reg_mr net LOCAL_WRITE 4096) w) (\<lambda>local_mr w.
     sbind (on_conn (write_local_mr (mh_lkey local_mr) 0 payload) w) (\<lambda>_ w.
     sbind (println [say ''RDMA Write: '', Dec (length payload), say '' bytes -> remote VA 0x0000''] w) (\<lambda>_ w.
     sbind (on_conn (rdma_write net 1 (mh_rkey remote_mr) 0 [sg_entry (mh_lkey local_mr) (length payload)]) w) (\<lambda>_ w.
     sbind (polled 10 w) (\<lambda>cqes w.
     sbind (println [say ''Write complete: status=0x'', status_hex (first_status cqes)] w) (\<lambda>_ w.
     sbind (on_conn (reg_mr net LOCAL_WRITE 4096) w) (\<lambda>read_mr w.
     sbind (println [say ''RDMA Read: '', Dec (length payload), say '' bytes <- remote VA 0x0000''] w) (\<lambda>_ w.
     sbind (on_conn (rdma_read net 2 (mh_rkey remote_mr) 0 (of_nat (length payload)) (mh_lkey read_mr) 0) w) (\<lambda>_ w.
     sbind (polled 10 w) (\<lambda>cqes w.
     sbind (println [say ''Read complete: status=0x'', status_hex (first_status cqes)] w) (\<lambda>_ w.
     sbind (reading (read_local_mr (mh_lkey read_mr) 0 (length payload)) w) (\<lambda>read_back w.
     sbind (str_from_utf8 read_back, w) (\<lambda>text w.
     sbind (println [say ''Data: '', Quoted text] w) (\<lambda>_ w.
     sbind (assert_eq read_back payload w) (\<lambda>_ w.
     println [say ''Verification passed.''] w)))))))))))))))))"

subsection \<open>Random access\<close>

definition records :: "rstring list" where
  "records = [lit ''record_0: alpha'', lit ''record_1: bravo'', lit ''record_2: charlie'', lit ''record_3: delta'']"

fun populate :: "'p network \<Rightarrow> lkey \<Rightarrow> rkey \<Rightarrow> nat \<Rightarrow> rstring list \<Rightarrow> 'p rdows_connection app
    \<Rightarrow> (boxed_error, unit) result \<times> 'p rdows_connection app" where
  "populate net lkey rkey i [] w = (Ok (), w)"
| "populate net lkey rkey i (r # rs) w =
     sbind (on_conn (write_local_mr lkey 0 r) w) (\<lambda>_ w.
     sbind (on_conn (rdma_write net (of_nat i) rkey (of_nat (i * 64)) [sg_entry lkey (length r)]) w) (\<lambda>_ w.
     populate net lkey rkey (i + 1) rs w))"

text \<open>The argument \<open>decode\<close> is the call of \<open>from_utf8\<close>, followed by \<open>?\<close> here and by \<open>unwrap\<close> in the example.\<close>

fun read_records :: "(bytes \<Rightarrow> (boxed_error, rstring) result) \<Rightarrow> 'p network \<Rightarrow> rkey \<Rightarrow> lkey \<Rightarrow> nat list
    \<Rightarrow> 'p rdows_connection app \<Rightarrow> (boxed_error, unit) result \<times> 'p rdows_connection app" where
  "read_records decode net rkey lkey [] w = (Ok (), w)"
| "read_records decode net rkey lkey (i # is) w =
     (let offset = i * 64; len = length (records ! i) in
      sbind (on_conn (rdma_read net (100 + of_nat i) rkey (of_nat offset) (of_nat len) lkey 0) w) (\<lambda>_ w.
      sbind (reading (read_local_mr lkey 0 len) w) (\<lambda>data w.
      sbind (decode data, w) (\<lambda>text w.
      sbind (println [say ''  Read VA 0x'', Hex 4 offset, say '': '', Quoted text] w) (\<lambda>_ w.
      read_records decode net rkey lkey is w)))))"

definition demo_read :: "'p program" where
  "demo_read net w =
     sbind (on_conn (reg_mr net (af_bitor REMOTE_WRITE REMOTE_READ) 256) w) (\<lambda>remote_mr w.
     sbind (println [say ''Remote MR registered: R_Key=0x'', key_hex (mh_rkey remote_mr), say '', size=256''] w) (\<lambda>_ w.
     sbind (on_conn (reg_mr net LOCAL_WRITE 256) w) (\<lambda>write_mr w.
     sbind (populate net (mh_lkey write_mr) (mh_rkey remote_mr) 0 records w) (\<lambda>_ w.
     sbind (polled 10 w) (\<lambda>_ w.
     sbind (println [say ''Populated remote MR with '', Dec (length records), say '' records''] w) (\<lambda>_ w.
     sbind (on_conn (reg_mr net LOCAL_WRITE 256) w) (\<lambda>read_mr w.
     sbind (read_records str_from_utf8 net (mh_rkey remote_mr) (mh_lkey read_mr) (rev [0..<length records]) w) (\<lambda>_ w.
     sbind (polled 10 w) (\<lambda>_ w.
     println [say ''Random-access read verification passed.''] w)))))))))"

subsection \<open>Sending\<close>

definition greeting :: bytes where
  "greeting = lit ''Hello, RDoWS! The CPU never saw this coming.''"

definition cqe_line :: "completion_queue_entry \<Rightarrow> piece list" where
  "cqe_line e = [say ''CQE: wrid='', Dec (unat (wrid_val (cqe_wrid e))), say '', status=0x'', status_hex (cqe_status e),
     say '', bytes='', Dec (unat (cqe_byte_count e))]"

fun print_cqes :: "completion_queue_entry list \<Rightarrow> 'c app \<Rightarrow> (boxed_error, unit) result \<times> 'c app" where
  "print_cqes [] w = (Ok (), w)"
| "print_cqes (e # es) w = sbind (println (cqe_line e) w) (\<lambda>_ w. print_cqes es w)"

definition send_greeting :: "'p program" where
  "send_greeting net w =
     sbind (on_conn (reg_mr net LOCAL_WRITE 256) w) (\<lambda>mr w.
     sbind (println [say ''Registered MR: L_Key=0x'', Hex 8 (unat (lkey_val (mh_lkey mr))), say '', R_Key=0x'',
       key_hex (mh_rkey mr), say '', size=256''] w) (\<lambda>_ w.
     sbind (on_conn (write_local_mr (mh_lkey mr) 0 greeting) w) (\<lambda>_ w.
     sbind (println [say ''Posting SEND ('', Dec (length greeting), say '' bytes)...''] w) (\<lambda>_ w.
     sbind (on_conn (post_send net 1 [sg_entry (mh_lkey mr) (length greeting)]) w) (\<lambda>_ w.
     sbind (polled 10 w) (\<lambda>cqes w.
     print_cqes cqes w))))))"

definition demo_echo :: "'p program" where
  "demo_echo net w = sbind (send_greeting net w) (\<lambda>_ w. println [say ''SEND complete.''] w)"

subsection \<open>The atomic counter\<close>

fun faa_loop :: "'p network \<Rightarrow> rkey \<Rightarrow> nat list \<Rightarrow> 'p rdows_connection app
    \<Rightarrow> (boxed_error, unit) result \<times> 'p rdows_connection app" where
  "faa_loop net rkey [] w = (Ok (), w)"
| "faa_loop net rkey (i # is) w =
     sbind (on_conn (atomic_faa net (of_nat i) rkey 0 1) w) (\<lambda>prev w.
     sbind (polled 10 w) (\<lambda>_ w.
     sbind (println [say ''FAA #'', Dec i, say '': previous value = '', Dec (unat prev)] w) (\<lambda>_ w.
     faa_loop net rkey is w)))"

text \<open>\<open>u64::from_be_bytes(final_bytes.try_into().unwrap())\<close>.\<close>

definition u64_from_be_bytes :: "bytes \<Rightarrow> ('e, u64) result" where
  "u64_from_be_bytes bs = (if length bs = 8 then Ok (from_be bs) else Panic)"

definition demo_atomic :: "'p program" where
  "demo_atomic net w =
     sbind (on_conn (reg_mr net (af_bitor (af_bitor REMOTE_ATOMIC REMOTE_READ) REMOTE_WRITE) 64) w) (\<lambda>remote_mr w.
     sbind (println [say ''Remote MR registered: R_Key=0x'', key_hex (mh_rkey remote_mr), say '', size=64''] w) (\<lambda>_ w.
     sbind (on_conn (reg_mr net LOCAL_WRITE 64) w) (\<lambda>local_mr w.
     sbind (on_conn (write_local_mr (mh_lkey local_mr) 0 (to_be 8 (0 :: u64))) w) (\<lambda>_ w.
     sbind (on_conn (rdma_write net 0 (mh_rkey remote_mr) 0 [sg_entry (mh_lkey local_mr) 8]) w) (\<lambda>_ w.
     sbind (polled 10 w) (\<lambda>_ w.
     sbind (println [say ''Counter initialized to 0''] w) (\<lambda>_ w.
     sbind (faa_loop net (mh_rkey remote_mr) [1..<6] w) (\<lambda>_ w.
     sbind (on_conn (reg_mr net LOCAL_WRITE 64) w) (\<lambda>read_mr w.
     sbind (on_conn (rdma_read net 100 (mh_rkey remote_mr) 0 8 (mh_lkey read_mr) 0) w) (\<lambda>_ w.
     sbind (polled 10 w) (\<lambda>_ w.
     sbind (reading (read_local_mr (mh_lkey read_mr) 0 8) w) (\<lambda>final_bytes w.
     sbind (u64_from_be_bytes final_bytes, w) (\<lambda>final_value w.
     sbind (println [say ''Final counter value: '', Dec (unat final_value)] w) (\<lambda>_ w.
     sbind (assert_eq final_value 5 w) (\<lambda>_ w.
     println [say ''Verification passed.''] w)))))))))))))))"

subsection \<open>Receive queue exhaustion\<close>

definition rnr_message :: bytes where
  "rnr_message = lit ''Hello from SEND''"

text \<open>
  The loop \<open>for i in 1..=sends\<close>, with \<open>n\<close> iterations left; it returns the number of sends that
  succeeded, which is at most \<open>sends\<close> and does not overflow.
\<close>

fun send_loop :: "'p network \<Rightarrow> scatter_gather_entry list \<Rightarrow> nat \<Rightarrow> nat \<Rightarrow> u64 \<Rightarrow> 'p rdows_connection app
    \<Rightarrow> (boxed_error, u64) result \<times> 'p rdows_connection app" where
  "send_loop net sg i 0 succeeded w = (Ok succeeded, w)"
| "send_loop net sg i (Suc n) succeeded w =
     sbind (print [say ''SEND #'', Dec i, say '': ''] w) (\<lambda>_ w.
     case post_send net (of_nat i) sg (snd w) of (r, c) \<Rightarrow>
       let w = (fst w, c) in
       case r of
         Ok _ \<Rightarrow>
           sbind (polled 10 w) (\<lambda>cqes w.
           sbind (first_cqe cqes, w) (\<lambda>cqe w.
           sbind (println [say ''OK (CQE: wrid='', Dec (unat (wrid_val (cqe_wrid cqe))), say '', status=0x'',
             status_hex (cqe_status cqe), say '', bytes='', Dec (unat (cqe_byte_count cqe)), say '')''] w) (\<lambda>_ w.
           send_loop net sg (i + 1) n (succeeded + 1) w)))
       | Err e \<Rightarrow>
           if e = Protocol ErrRnr then
             sbind (polled 10 w) (\<lambda>cqes w.
             sbind (first_cqe cqes, w) (\<lambda>cqe w.
             sbind (println [say ''ERR_RNR (CQE: wrid='', Dec (unat (wrid_val (cqe_wrid cqe))), say '', status=0x'',
               status_hex (cqe_status cqe), say '')''] w) (\<lambda>_ w.
             send_loop net sg (i + 1) n succeeded w)))
           else (Err (Rdows e), w)
       | Panic \<Rightarrow> (Panic, w)
       | Blocked \<Rightarrow> (Blocked, w))"

text \<open>The RDMA write that shows that the connection still works. The dash is U+2014.\<close>

definition still_alive :: "lkey \<Rightarrow> 'p program" where
  "still_alive lkey net w =
     sbind (println [newline, say ''Connection still alive '', Text [0xE2, 0x80, 0x94], say '' performing RDMA Write...''] w) (\<lambda>_ w.
     sbind (on_conn (reg_mr net REMOTE_WRITE 64) w) (\<lambda>remote_mr w.
     sbind (on_conn (write_local_mr lkey 0 (lit ''still alive'')) w) (\<lambda>_ w.
     sbind (on_conn (rdma_write net 100 (mh_rkey remote_mr) 0 [sg_entry lkey 11]) w) (\<lambda>_ w.
     sbind (polled 10 w) (\<lambda>cqes w.
     sbind (first_cqe cqes, w) (\<lambda>cqe w.
     println [say ''RDMA Write: OK (CQE: wrid='', Dec (unat (wrid_val (cqe_wrid cqe))), say '', status=0x'',
       status_hex (cqe_status cqe), say '')''] w))))))"

definition demo_err_rnr :: "u64 \<Rightarrow> 'p program" where
  "demo_err_rnr sends net w =
     sbind (on_conn (reg_mr net LOCAL_WRITE 256) w) (\<lambda>mr w.
     sbind (on_conn (write_local_mr (mh_lkey mr) 0 rnr_message) w) (\<lambda>_ w.
     sbind (send_loop net [sg_entry (mh_lkey mr) (length rnr_message)] 1 (unat sends) 0 w) (\<lambda>succeeded w.
     sbind (still_alive (mh_lkey mr) net w) (\<lambda>_ w.
     println [newline, say ''Server receive queue exhausted after '', Dec (unat succeeded),
       say '' SENDs. Connection remains usable for RDMA operations.''] w))))"

subsection \<open>The main function\<close>

text \<open>
  The first part of a main ends with the connection; the rest of it runs with the connection.
  Of a finished run its result and its output are left.
\<close>

definition with_connection :: "(boxed_error, 'c) result \<times> unit app \<Rightarrow> ('c app \<Rightarrow> (boxed_error, unit) result \<times> 'c app)
    \<Rightarrow> (boxed_error, unit) result \<times> piece list" where
  "with_connection p rest =
     (case p of
        (Ok conn, w) \<Rightarrow> (case rest (fst w, conn) of (r, w) \<Rightarrow> (r, fst w))
      | (Err e, w) \<Rightarrow> (Err e, fst w)
      | (Panic, w) \<Rightarrow> (Panic, fst w)
      | (Blocked, w) \<Rightarrow> (Blocked, fst w))"

definition run_mode :: "rstring \<Rightarrow> u64 \<Rightarrow> 'p program" where
  "run_mode mode sends net w =
     (if mode = lit ''write'' then demo_write net w
      else if mode = lit ''read'' then demo_read net w
      else if mode = lit ''echo'' then demo_echo net w
      else if mode = lit ''atomic'' then demo_atomic net w
      else if mode = lit ''err_rnr'' then demo_err_rnr sends net w
      else (Err (Exit 1), w))"

definition client_main :: "('cert, 'roots, 'tls, 'listener) platform \<Rightarrow> 'p network \<Rightarrow> ('roots client_tls \<Rightarrow> 'p dialler)
    \<Rightarrow> (nat \<Rightarrow> bytes) \<Rightarrow> rstring list \<Rightarrow> (boxed_error, unit) result \<times> piece list" where
  "client_main pf net dial os_rng args =
     (let url = unwrap_or_else (get_arg args (lit ''--url'')) (lit ''wss://localhost:9443/rdows'');
          cert_path = get_arg args (lit ''--cert'');
          mode = unwrap_or_else (get_arg args (lit ''--mode'')) (lit ''write'') in
      with_connection
        (sbind (build_tls_config pf cert_path ([], ())) (\<lambda>tls_config w.
         sbind (println [say ''Connecting to '', Text url, say ''...''] w) (\<lambda>_ w.
         (map_err Rdows (connection_connect net (dial tls_config) os_rng url), w))))
        (\<lambda>w.
         sbind (println [say ''Session established (id: 0x'', Hex 8 (unat (cn_session_id (snd w))), say '')''] w) (\<lambda>_ w.
         sbind (case get_arg args (lit ''--sends'') of
                  Some s \<Rightarrow> expect (map_option of_nat (parse_unsigned usize_limit s))
                | None \<Rightarrow> Ok 4, w) (\<lambda>sends w.
         sbind (run_mode mode sends net w) (\<lambda>_ w.
         sbind (on_conn (disconnect net) w) (\<lambda>_ w.
         println [say ''Disconnected.''] w))))))"

section \<open>Rules\<close>

subsection \<open>The state of a program\<close>

text \<open>
  What a program knows of its connection: the number and the bytes of the regions it has
  registered, the local buffers, the remote regions, the entries of the completion queue (work
  request, status and byte count) and the receive slots that are left.
\<close>

definition cq_view :: "completion_queue_entry list \<Rightarrow> (u64 \<times> u16 \<times> u32) list" where
  "cq_view = map (\<lambda>e. (wrid_val (cqe_wrid e), cqe_status e, cqe_byte_count e))"

definition stage :: "server_config \<Rightarrow> nat \<Rightarrow> nat \<Rightarrow> (lkey \<Rightarrow> bytes option) \<Rightarrow> (rkey \<Rightarrow> region option)
    \<Rightarrow> (u64 \<times> u16 \<times> u32) list \<Rightarrow> nat \<Rightarrow> server_peer rdows_connection \<Rightarrow> bool" where
  "stage cfg k b L R q slots c \<longleftrightarrow> (\<exists>m. holds cfg k b m c \<and> rd_local m = L \<and> rd_remote m = R \<and>
     cq_view (rd_queue m) = q \<and> rd_slots m = slots \<and> slots < rd_credits m \<and>
     rd_capacity m = 65536 \<and> rd_max_msg m = 16777216)"

lemma stageE:
  assumes "stage cfg k b L R q slots c"
  obtains m where "holds cfg k b m c" "rd_local m = L" "rd_remote m = R" "cq_view (rd_queue m) = q" "rd_slots m = slots"
    "slots < rd_credits m" "rd_capacity m = 65536" "rd_max_msg m = 16777216" "length (rd_queue m) = length q"
  using assms by (auto simp: stage_def cq_view_def)

lemma cq_view_append [simp]: "cq_view (es @ [rd_cqe m w st op n]) = cq_view es @ [(w, st, n)]"
  by (simp add: cq_view_def rd_cqe_def)

definition regions :: "server_config \<Rightarrow> nat \<Rightarrow> nat \<Rightarrow> bool" where
  "regions cfg n bytes \<longleftrightarrow> n \<le> cfg_max_regions_per_session cfg \<and> n \<le> unat (cfg_mr_reg_rate_limit cfg) \<and> n \<le> 1000 \<and>
     bytes \<le> unat (cfg_max_total_bytes_per_session cfg)"

lemma regions_room: "regions cfg n bytes \<Longrightarrow> k < n \<Longrightarrow> b + unat len \<le> bytes \<Longrightarrow> unat len \<le> isize_max \<Longrightarrow> room cfg k b len"
  by (simp add: regions_def room_def)

lemma rd_reg_simps [simp]:
  "rd_local (rd_reg fl len lk rk m) = (rd_local m)(lk \<mapsto> replicate (unat len) 0)"
  "rd_remote (rd_reg fl len lk rk m) = (rd_remote m)(rk \<mapsto> \<lparr>rg_access = fl, rg_lkey = lk, rg_bytes = replicate (unat len) 0\<rparr>)"
  "rd_queue (rd_reg fl len lk rk m) = rd_queue m" "rd_capacity (rd_reg fl len lk rk m) = rd_capacity m"
  "rd_max_msg (rd_reg fl len lk rk m) = rd_max_msg m" "rd_slots (rd_reg fl len lk rk m) = rd_slots m"
  "rd_credits (rd_reg fl len lk rk m) = rd_credits m"
  by (simp_all add: rd_reg_def)

lemma put_simps [simp]:
  "rd_local (rd_local_put lk a data m) = (rd_local m)(lk := map_option (\<lambda>bs. put_slice bs a data) (rd_local m lk))"
  "rd_remote (rd_local_put lk a data m) = rd_remote m" "rd_queue (rd_local_put lk a data m) = rd_queue m"
  "rd_capacity (rd_local_put lk a data m) = rd_capacity m" "rd_max_msg (rd_local_put lk a data m) = rd_max_msg m"
  "rd_slots (rd_local_put lk a data m) = rd_slots m" "rd_credits (rd_local_put lk a data m) = rd_credits m"
  "rd_remote (rd_remote_put rk a data m) = (rd_remote m)(rk :=
     map_option (\<lambda>r. r\<lparr>rg_bytes := put_slice (rg_bytes r) a data\<rparr>) (rd_remote m rk))"
  "rd_local (rd_remote_put rk a data m) = rd_local m" "rd_queue (rd_remote_put rk a data m) = rd_queue m"
  "rd_capacity (rd_remote_put rk a data m) = rd_capacity m" "rd_max_msg (rd_remote_put rk a data m) = rd_max_msg m"
  "rd_slots (rd_remote_put rk a data m) = rd_slots m" "rd_credits (rd_remote_put rk a data m) = rd_credits m"
  by (simp_all add: rd_local_put_def rd_remote_put_def)

subsection \<open>The verbs\<close>

lemma runs_on_conn:
  "runs (v c) (\<lambda>a c'. runs (f a (out, c')) Q) \<Longrightarrow> runs (sbind (on_conn v (out, c)) f) Q"
  by (auto simp: runs_def on_conn_def)

lemma verb_reg:
  assumes st: "stage cfg k b L R q sl c" and "fresh_keys env" and "room cfg k b len"
    and "\<And>lk rk c'. L lk = None \<Longrightarrow> R rk = None \<Longrightarrow> stage cfg (Suc k) (b + unat len) (L(lk \<mapsto> replicate (unat len) 0))
        (R(rk \<mapsto> \<lparr>rg_access = fl, rg_lkey = lk, rg_bytes = replicate (unat len) 0\<rparr>)) q sl c' \<Longrightarrow>
      runs (f \<lparr>mh_lkey = lk, mh_rkey = rk, mh_len = len, mh_local_buf = replicate (unat len) 0\<rparr> (out, c')) Q"
  shows "runs (sbind (on_conn (reg_mr (server_net env) fl len) (out, c)) f) Q"
proof -
  obtain m where m: "holds cfg k b m c" "rd_local m = L" "rd_remote m = R" "cq_view (rd_queue m) = q" "rd_slots m = sl"
      "sl < rd_credits m" "rd_capacity m = 65536" "rd_max_msg m = 16777216"
    using st by (rule stageE)
  show ?thesis
    by (rule runs_on_conn, rule runs_reg_mr [OF m(1) assms(2,3)], rule assms(4))
      (use m(2-) in \<open>auto simp: stage_def intro!: exI [of _ "rd_reg _ _ _ _ m"]\<close>)
qed

lemma verb_write_local:
  assumes st: "stage cfg k b L R q sl c" and "L lk = Some bs" and "length data \<le> length bs"
    and "\<And>c'. stage cfg k b (L(lk \<mapsto> put_slice bs 0 data)) R q sl c' \<Longrightarrow> runs (f () (out, c')) Q"
  shows "runs (sbind (on_conn (write_local_mr lk 0 data) (out, c)) f) Q"
proof -
  obtain m where m: "holds cfg k b m c" "rd_local m = L" "rd_remote m = R" "cq_view (rd_queue m) = q" "rd_slots m = sl"
      "sl < rd_credits m" "rd_capacity m = 65536" "rd_max_msg m = 16777216"
    using st by (rule stageE)
  show ?thesis
    by (rule runs_on_conn, rule runs_write_local [OF m(1)], use m(2) assms(2,3) in simp, use m(2) assms(2,3) in simp,
        rule assms(4)) (use m(2-) assms(2) in \<open>auto simp: stage_def intro!: exI [of _ "rd_local_put _ _ _ m"]\<close>)
qed

text \<open>The programs send and write one local buffer, from its beginning.\<close>

lemma rd_fits_entry:
  assumes "rd_local m lk = Some bs" and "n \<le> length bs" and "n \<le> 4096" and "rd_max_msg m = 16777216" and "header \<le> 4096"
  shows "rd_gather (rd_local m) [sg_entry lk n] = Ok (take n bs)" and "rd_fits m header [sg_entry lk n]"
  using assms by (simp_all add: sg_entry_def rd_fits_def sg_sane_def unat_of_nat SG_ENTRY_SIZE_def sub_slice_def min_def)

lemma verb_write:
  assumes st: "stage cfg k b L R q sl c" and len: "length q < 65536"
    and bs: "L lk = Some bs" "n \<le> length bs" "n \<le> 4096"
    and r: "R rk = Some r" "af_contains (rg_access r) REMOTE_WRITE" "unat va + n \<le> length (rg_bytes r)"
    and "\<And>c'. stage cfg k b L (R(rk \<mapsto> r\<lparr>rg_bytes := put_slice (rg_bytes r) (unat va) (take n bs)\<rparr>))
        (q @ [(wrid, 0, of_nat n)]) sl c' \<Longrightarrow> runs (f () (out, c')) Q"
  shows "runs (sbind (on_conn (rdma_write (server_net env) wrid rk va [sg_entry lk n]) (out, c)) f) Q"
proof -
  obtain m where m: "holds cfg k b m c" "rd_local m = L" "rd_remote m = R" "cq_view (rd_queue m) = q" "rd_slots m = sl"
      "sl < rd_credits m" "rd_capacity m = 65536" "rd_max_msg m = 16777216" "length (rd_queue m) = length q"
    using st by (rule stageE)
  have full: "\<not> rd_full m" using m len by (simp add: rd_full_def)
  have fit: "rd_gather (rd_local m) [sg_entry lk n] = Ok (take n bs)" "rd_fits m WRITE_HEADER_SIZE [sg_entry lk n]"
    using rd_fits_entry [of m lk bs n WRITE_HEADER_SIZE] m bs by (auto simp: WRITE_HEADER_SIZE_def simp del: rd_gather.simps)
  have n: "length (take n bs) = n" using bs by simp
  show ?thesis
    by (rule runs_on_conn, rule runs_rdma_write [OF m(1) full fit(2,1), unfolded m n, OF r], rule assms(9))
      (use m(2-) r in \<open>auto simp: stage_def intro!: exI [of _ "rd_complete _ _ _ _ (rd_remote_put _ _ _ m)"]\<close>)
qed

lemma verb_read:
  assumes st: "stage cfg k b L R q sl c" and len: "length q < 65536" and small: "n \<le> 4096"
    and r: "R rk = Some r" "af_contains (rg_access r) REMOTE_READ" "unat va + n \<le> length (rg_bytes r)"
    and bs: "L lk = Some bs" "n \<le> length bs"
    and "\<And>c'. stage cfg k b (L(lk \<mapsto> put_slice bs 0 (sub_slice (rg_bytes r) (unat va) (unat va + n)))) R
        (q @ [(wrid, 0, of_nat n)]) sl c' \<Longrightarrow> runs (f () (out, c')) Q"
  shows "runs (sbind (on_conn (rdma_read (server_net env) wrid rk va (of_nat n) lk 0) (out, c)) f) Q"
proof -
  obtain m where m: "holds cfg k b m c" "rd_local m = L" "rd_remote m = R" "cq_view (rd_queue m) = q" "rd_slots m = sl"
      "sl < rd_credits m" "rd_capacity m = 65536" "rd_max_msg m = 16777216" "length (rd_queue m) = length q"
    using st by (rule stageE)
  have full: "\<not> rd_full m" using m len by (simp add: rd_full_def)
  have n: "unat (of_nat n :: u64) = n" "(ucast (of_nat n :: u64) :: u32) = of_nat n"
    using small by (simp_all add: unat_of_nat)
  show ?thesis
    by (rule runs_on_conn, rule runs_rdma_read [OF m(1) full], use small n in simp, use m r n bs in simp_all)
      (use m(2-) bs in \<open>auto simp: stage_def intro!: assms(9) exI [of _ "rd_complete _ _ _ _ (rd_local_put _ _ _ m)"]\<close>)
qed

lemma verb_faa:
  assumes st: "stage cfg k b L R q sl c" and len: "length q < 65536"
    and r: "R rk = Some r" "af_contains (rg_access r) REMOTE_ATOMIC" "8 \<le> length (rg_bytes r)"
    and "\<And>c'. stage cfg k b L (R(rk \<mapsto> r\<lparr>rg_bytes := put_slice (rg_bytes r) 0 (to_be 8 (word_at (rg_bytes r) 0 + addend))\<rparr>))
        (q @ [(wrid, 0, 8)]) sl c' \<Longrightarrow> runs (f (word_at (rg_bytes r) 0) (out, c')) Q"
  shows "runs (sbind (on_conn (atomic_faa (server_net env) wrid rk 0 addend) (out, c)) f) Q"
proof -
  obtain m where m: "holds cfg k b m c" "rd_local m = L" "rd_remote m = R" "cq_view (rd_queue m) = q" "rd_slots m = sl"
      "sl < rd_credits m" "rd_capacity m = 65536" "rd_max_msg m = 16777216" "length (rd_queue m) = length q"
    using st by (rule stageE)
  have full: "\<not> rd_full m" using m len by (simp add: rd_full_def)
  show ?thesis
  proof (rule runs_on_conn, rule runs_atomic_faa [OF m(1) full, unfolded m(3), OF r(1,2)])
    fix c'
    assume h: "holds cfg k b (rd_complete wrid 0 opcode.AtomicReq 8 (rd_remote_put rk (unat (0 :: u64))
      (to_be 8 (word_at (rg_bytes r) (unat (0 :: u64)) + addend)) m)) c'"
    have "stage cfg k b L (R(rk \<mapsto> r\<lparr>rg_bytes := put_slice (rg_bytes r) 0 (to_be 8 (word_at (rg_bytes r) 0 + addend))\<rparr>))
        (q @ [(wrid, 0, 8)]) sl c'"
      unfolding stage_def by (rule exI, rule conjI [OF h]) (use m(2-) r in auto)
    then show "runs (f (word_at (rg_bytes r) (unat (0 :: u64))) (out, c')) Q" by (simp add: assms(6))
  qed (use r(3) in simp_all)
qed

lemma verb_read_local:
  assumes st: "stage cfg k b L R q sl c" and "L lk = Some bs" and "n \<le> length bs" and "runs (f (take n bs) (out, c)) Q"
  shows "runs (sbind (reading (read_local_mr lk 0 n) (out, c)) f) Q"
proof -
  obtain m where "holds cfg k b m c" "rd_local m = L" using st by (rule stageE)
  then have "read_local_mr lk 0 n c = Ok (take n bs)" using read_local_value [of cfg k b m c lk bs 0 n] assms(2,3)
    by (simp add: sub_slice_def)
  with assms(4) show ?thesis by (simp add: reading_def)
qed

lemma verb_poll:
  assumes st: "stage cfg k b L R q sl c"
    and Q: "\<And>cqes c'. cq_view cqes = take n q \<Longrightarrow> stage cfg k b L R (drop n q) sl c' \<Longrightarrow> runs (f cqes (out, c')) Q"
  shows "runs (sbind (polled n (out, c)) f) Q"
proof -
  obtain m where m: "holds cfg k b m c" "rd_local m = L" "rd_remote m = R" "cq_view (rd_queue m) = q" "rd_slots m = sl"
      "sl < rd_credits m" "rd_capacity m = 65536" "rd_max_msg m = 16777216"
    using st by (rule stageE)
  obtain c' where c': "cn_poll_cq n c = (take n (rd_queue m), c')" "holds cfg k b (m\<lparr>rd_queue := drop n (rd_queue m)\<rparr>) c'"
    using m(1) by (rule poll_value)
  have "stage cfg k b L R (drop n q) sl c'"
    unfolding stage_def by (rule exI, rule conjI [OF c'(2)]) (use m(2-) in \<open>auto simp: cq_view_def drop_map\<close>)
  then show ?thesis using Q [of "take n (rd_queue m)" c'] m(4) c'(1) by (auto simp: polled_def cq_view_def take_map)
qed

lemma post_send_stage:
  assumes st: "stage cfg k b L R q sl c" and len: "length q < 65536" and bs: "L lk = Some bs" "n \<le> length bs" "n \<le> 4096"
  obtains c' where "post_send (server_net env) wrid [sg_entry lk n] c = (if sl = 0 then Err (Protocol ErrRnr) else Ok (), c')"
    and "stage cfg k b L R (q @ [if sl = 0 then (wrid, error_code_to_u16 ErrRnr, 0) else (wrid, 0, of_nat n)]) (sl - 1) c'"
proof -
  obtain m where m: "holds cfg k b m c" "rd_local m = L" "rd_remote m = R" "cq_view (rd_queue m) = q" "rd_slots m = sl"
      "sl < rd_credits m" "rd_capacity m = 65536" "rd_max_msg m = 16777216" "length (rd_queue m) = length q"
    using st by (rule stageE)
  have full: "\<not> rd_full m" using m len by (simp add: rd_full_def)
  have fit: "rd_gather (rd_local m) [sg_entry lk n] = Ok (take n bs)" "rd_fits m 4 [sg_entry lk n]"
    using rd_fits_entry [of m lk bs n 4] m bs by (auto simp del: rd_gather.simps)
  obtain c' where c': "post_send (server_net env) wrid [sg_entry lk n] c =
        (if rd_slots m = 0 then Err (Protocol ErrRnr) else Ok (), c')" "holds cfg k b (snd (rd_send wrid [sg_entry lk n] m)) c'"
    by (rule post_send_value [OF m(1) full _ fit(2,1)]) (use m(6) in auto)
  have send: "snd (rd_send wrid [sg_entry lk n] m) = (if sl = 0 then rd_complete wrid (error_code_to_u16 ErrRnr) opcode.Send 0 m
      else rd_complete wrid 0 opcode.Send (of_nat n) (m\<lparr>rd_slots := sl - 1, rd_credits := rd_credits m - 1\<rparr>))"
    using full m(5,6) fit(1) bs by (simp add: rd_send_def rd_fail_def del: rd_gather.simps)
  have "stage cfg k b L R (q @ [if sl = 0 then (wrid, error_code_to_u16 ErrRnr, 0) else (wrid, 0, of_nat n)]) (sl - 1) c'"
    unfolding stage_def by (rule exI, rule conjI [OF c'(2)]) (use m(2-) in \<open>auto simp: send\<close>)
  with that c'(1) m(5) show thesis by simp
qed

lemma verb_send:
  assumes "stage cfg k b L R q sl c" and "length q < 65536" and "L lk = Some bs" "n \<le> length bs" "n \<le> 4096" and "sl \<noteq> 0"
    and "\<And>c'. stage cfg k b L R (q @ [(wrid, 0, of_nat n)]) (sl - 1) c' \<Longrightarrow> runs (f () (out, c')) Q"
  shows "runs (sbind (on_conn (post_send (server_net env) wrid [sg_entry lk n]) (out, c)) f) Q"
proof -
  obtain c' where "post_send (server_net env) wrid [sg_entry lk n] c = (Ok (), c')"
      "stage cfg k b L R (q @ [(wrid, 0, of_nat n)]) (sl - 1) c'"
    using post_send_stage [OF assms(1-5), of env wrid] assms(6) by auto
  then show ?thesis using assms(7) by (auto simp: runs_def on_conn_def)
qed

subsection \<open>The other steps\<close>

named_theorems app_simps \<open>the parts of a program that do not use the connection\<close>

lemma app_steps [app_simps]:
  "print ps (out, c) = (Ok (), (out @ ps, c))"
  "println ps (out, c) = (Ok (), (out @ ps @ [newline], c))"
  "assert_eq x x w = (Ok (), w)"
  by (simp_all add: print_def println_def assert_eq_def)

lemma cq_view_first [app_simps]:
  assumes "cq_view cqes = (w, st, n) # es"
  shows "first_status cqes = st" and "\<exists>cqe. first_cqe cqes = Ok cqe \<and> cqe_wrid cqe = WorkRequestId w \<and> cqe_status cqe = st \<and>
    cqe_byte_count cqe = n"
  using assms by (cases cqes; auto simp: cq_view_def first_status_def first_cqe_def work_request_id.expand)+

lemma access_bits [simp]:
  "af_contains (af_bitor REMOTE_WRITE REMOTE_READ) REMOTE_WRITE" "af_contains (af_bitor REMOTE_WRITE REMOTE_READ) REMOTE_READ"
  "af_contains (af_bitor (af_bitor REMOTE_ATOMIC REMOTE_READ) REMOTE_WRITE) REMOTE_WRITE"
  "af_contains (af_bitor (af_bitor REMOTE_ATOMIC REMOTE_READ) REMOTE_WRITE) REMOTE_READ"
  "af_contains (af_bitor (af_bitor REMOTE_ATOMIC REMOTE_READ) REMOTE_WRITE) REMOTE_ATOMIC"
  "af_contains REMOTE_WRITE REMOTE_WRITE"
  by (code_simp)+

section \<open>The demonstrations\<close>

lemma take_put_slice [simp]: "length data \<le> length bs \<Longrightarrow> n = length data \<Longrightarrow> take n (put_slice bs 0 data) = data"
  by (simp add: put_slice_def)

lemma sub_slice_0 [simp]: "sub_slice bs 0 n = take n bs"
  by (simp add: sub_slice_def)

lemma payload_facts [simp]: "length payload = 54" "is_utf8 payload"
  by (simp add: payload_def lit_def) (rule is_utf8_ascii, simp add: payload_def lit_def)

text \<open>A program has run to its end, with its output, and its connection still works.\<close>

definition finished :: "server_config \<Rightarrow> piece list \<Rightarrow> server_peer rdows_connection app \<Rightarrow> bool" where
  "finished cfg out w \<longleftrightarrow> fst w = out \<and> (\<exists>k b L R q sl. stage cfg k b L R q sl (snd w))"

lemma runs_finished: "stage cfg k b L R q sl c \<Longrightarrow> out = out' x \<Longrightarrow> runs (Ok (), (out, c)) (\<lambda>_ w. \<exists>x. finished cfg (out' x) w)"
  unfolding runs_def finished_def by (intro exI conjI) auto

lemma runs_finished2: "stage cfg k b L R q sl c \<Longrightarrow> out = out' x y \<Longrightarrow> runs (Ok (), (out, c)) (\<lambda>_ w. \<exists>x y. finished cfg (out' x y) w)"
  unfolding runs_def finished_def by (intro exI conjI) auto

text \<open>What \<open>demo_write\<close> prints when all goes well, for the key \<open>rk\<close>.\<close>

definition write_output :: "rkey \<Rightarrow> piece list" where
  "write_output rk =
     [say ''Remote MR registered: R_Key=0x'', key_hex rk, say '', size=4096'', newline,
      say ''RDMA Write: '', Dec 54, say '' bytes -> remote VA 0x0000'', newline,
      say ''Write complete: status=0x'', Hex 4 0, newline,
      say ''RDMA Read: '', Dec 54, say '' bytes <- remote VA 0x0000'', newline,
      say ''Read complete: status=0x'', Hex 4 0, newline,
      say ''Data: '', Quoted payload, newline, say ''Verification passed.'', newline]"

lemma demo_write_runs:
  assumes st: "stage cfg 0 0 L R [] sl c" and room: "regions cfg 3 12288" and fresh: "fresh_keys env"
  shows "runs (demo_write (server_net env) (out, c)) (\<lambda>_ w. \<exists>rk. finished cfg (out @ write_output rk) w)"
  unfolding demo_write_def
  apply (rule verb_reg [OF st fresh])
   apply (rule regions_room [OF room]; simp)
  apply (clarsimp simp: app_simps)
  apply (rule verb_reg [OF _ fresh], assumption)
   apply (rule regions_room [OF room]; simp)
  apply (clarsimp simp: app_simps split: if_split_asm)
  apply (rule verb_write_local, assumption, simp, simp)
  apply (clarsimp simp: app_simps)
  apply (rule verb_write, assumption, simp+)
  apply (rule verb_poll, assumption)
  apply (clarsimp simp: app_simps)
  apply (rule verb_reg [OF _ fresh], assumption)
   apply (rule regions_room [OF room]; simp)
  apply (clarsimp simp: app_simps split: if_split_asm)
  apply (rule verb_read [where n = 54, simplified], assumption, simp+)
  apply (rule verb_poll, assumption)
  apply (clarsimp simp: app_simps)
  apply (rule verb_read_local, assumption, simp, simp)
  apply (simp add: app_simps str_from_utf8_def)
  by (rule runs_finished, assumption) (simp add: write_output_def)

lemma runs_seq:
  assumes "runs p P" and "\<And>a out c. P a (out, c) \<Longrightarrow> runs (f a (out, c)) Q"
  shows "runs (sbind p f) Q"
  using assms by (auto simp: runs_def)

subsection \<open>Random access\<close>

fun fill :: "nat \<Rightarrow> rstring list \<Rightarrow> bytes \<Rightarrow> bytes" where
  "fill i [] bs = bs"
| "fill i (r # rs) bs = fill (i + 1) rs (put_slice bs (i * 64) r)"

lemma length_fill [simp]: "\<forall>r \<in> set rs. length r \<le> 64 \<Longrightarrow> (i + length rs) * 64 \<le> length bs \<Longrightarrow> length (fill i rs bs) = length bs"
  by (induction i rs bs rule: fill.induct) simp_all

lemma unat_slot: "i \<le> 64 \<Longrightarrow> unat (of_nat i * 64 :: u64) = i * 64"
  using unat_of_nat [of "i * 64", where 'a = 64] by simp

lemma populate_runs:
  assumes "stage cfg k b L R q sl c" and "L lk = Some bs" and "64 \<le> length bs"
    and "R rk = Some r" and "af_contains (rg_access r) REMOTE_WRITE" and "(i + length rs) * 64 \<le> length (rg_bytes r)"
    and "length (rg_bytes r) \<le> 4096" and "\<forall>r \<in> set rs. length r \<le> 64" and "length q + length rs < 65536"
  shows "runs (populate (server_net env) lk rk i rs (out, c)) (\<lambda>_ w. fst w = out \<and>
    (\<exists>L' R' q'. stage cfg k b L' R' q' sl (snd w) \<and> R' rk = Some (r\<lparr>rg_bytes := fill i rs (rg_bytes r)\<rparr>) \<and>
      length q' = length q + length rs))"
  using assms
proof (induction rs arbitrary: c L R q bs r i)
  case Nil
  then show ?case by (auto simp: runs_def)
next
  case (Cons x rs)
  have x: "length x \<le> 64" "i * 64 + length x \<le> length (rg_bytes r)" "i \<le> 64" using Cons.prems by simp_all
  let ?r = "r\<lparr>rg_bytes := put_slice (rg_bytes r) (i * 64) x\<rparr>"
  show ?case
    unfolding populate.simps
  proof (rule verb_write_local [OF Cons.prems(1,2)])
    show "length x \<le> length bs" using x Cons.prems by simp
    fix c1
    assume st1: "stage cfg k b (L(lk \<mapsto> put_slice bs 0 x)) R q sl c1"
    show "runs (sbind (on_conn (rdma_write (server_net env) (of_nat i) rk (of_nat (i * 64)) [sg_entry lk (length x)]) (out, c1))
      (\<lambda>_ w. populate (server_net env) lk rk (i + 1) rs w)) (\<lambda>_ w. fst w = out \<and> (\<exists>L' R' q'. stage cfg k b L' R' q' sl (snd w) \<and>
        R' rk = Some (r\<lparr>rg_bytes := fill i (x # rs) (rg_bytes r)\<rparr>) \<and> length q' = length q + length (x # rs)))"
    proof (rule verb_write [OF st1, where bs = "put_slice bs 0 x"])
      fix c2
      assume "stage cfg k b (L(lk \<mapsto> put_slice bs 0 x)) (R(rk \<mapsto> r\<lparr>rg_bytes := put_slice (rg_bytes r)
        (unat (of_nat (i * 64) :: u64)) (take (length x) (put_slice bs 0 x))\<rparr>)) (q @ [(of_nat i, 0, of_nat (length x))]) sl c2"
      then have "stage cfg k b (L(lk \<mapsto> put_slice bs 0 x)) (R(rk \<mapsto> ?r)) (q @ [(of_nat i, 0, of_nat (length x))]) sl c2"
        using x Cons.prems by (simp add: unat_slot)
      from Cons.IH [OF this, of "put_slice bs 0 x" ?r "i + 1"] show "runs (populate (server_net env) lk rk (i + 1) rs (out, c2))
        (\<lambda>_ w. fst w = out \<and> (\<exists>L' R' q'. stage cfg k b L' R' q' sl (snd w) \<and>
          R' rk = Some (r\<lparr>rg_bytes := fill i (x # rs) (rg_bytes r)\<rparr>) \<and> length q' = length q + length (x # rs)))"
        using Cons.prems x by simp
    qed (use Cons.prems x in \<open>simp_all add: unat_slot\<close>)
  qed
qed

definition read_line :: "nat \<Rightarrow> piece list" where
  "read_line i = [say ''  Read VA 0x'', Hex 4 (i * 64), say '': '', Quoted (records ! i), newline]"

lemma read_records_runs:
  assumes "stage cfg k b L R q sl c" and "L lk = Some bs" and "64 \<le> length bs"
    and r: "R rk = Some r" "af_contains (rg_access r) REMOTE_READ" "length (rg_bytes r) \<le> 4096"
    and rec: "\<forall>i \<in> set is. length (records ! i) \<le> 64 \<and> i * 64 + length (records ! i) \<le> length (rg_bytes r) \<and>
      sub_slice (rg_bytes r) (i * 64) (i * 64 + length (records ! i)) = records ! i \<and> decode (records ! i) = Ok (records ! i)"
    and "length q + length is < 65536"
  shows "runs (read_records decode (server_net env) rk lk is (out, c)) (\<lambda>_ w. fst w = out @ concat (map read_line is) \<and>
    (\<exists>L' q'. stage cfg k b L' R q' sl (snd w)))"
  using assms
proof (induction "is" arbitrary: c L q bs out)
  case Nil
  then show ?case by (auto simp: runs_def)
next
  case (Cons i "is")
  let ?n = "length (records ! i)"
  have n: "?n \<le> 64" "i * 64 + ?n \<le> length (rg_bytes r)" "sub_slice (rg_bytes r) (i * 64) (i * 64 + ?n) = records ! i"
      "decode (records ! i) = Ok (records ! i)" "i \<le> 64" using Cons.prems by auto
  show ?case
    unfolding read_records.simps Let_def
  proof (rule verb_read [OF Cons.prems(1) _ _ Cons.prems(4,5) _ Cons.prems(2)])
    fix c1
    assume "stage cfg k b (L(lk \<mapsto> put_slice bs 0 (sub_slice (rg_bytes r) (unat (of_nat (i * 64) :: u64))
      (unat (of_nat (i * 64) :: u64) + ?n)))) R (q @ [(100 + of_nat i, 0, of_nat ?n)]) sl c1"
    then have st: "stage cfg k b (L(lk \<mapsto> put_slice bs 0 (records ! i))) R (q @ [(100 + of_nat i, 0, of_nat ?n)]) sl c1"
      using n by (simp add: unat_slot)
    show "runs (sbind (reading (read_local_mr lk 0 ?n) (out, c1)) (\<lambda>data w. sbind (decode data, w) (\<lambda>text w.
       sbind (println [say ''  Read VA 0x'', Hex 4 (i * 64), say '': '', Quoted text] w) (\<lambda>_ w.
       read_records decode (server_net env) rk lk is w)))) (\<lambda>_ w. fst w = out @ concat (map read_line (i # is)) \<and>
         (\<exists>L' q'. stage cfg k b L' R q' sl (snd w)))"
    proof (rule verb_read_local [OF st, of lk "put_slice bs 0 (records ! i)"])
      have "?n \<le> length bs" using n(1) Cons.prems(3) by simp
      then show "?n \<le> length (put_slice bs 0 (records ! i))" by (simp add: length_put_slice)
      have "64 \<le> length (put_slice bs 0 (records ! i))" using \<open>?n \<le> length bs\<close> Cons.prems(3) by (simp add: length_put_slice)
      with Cons.IH [OF st, of "put_slice bs 0 (records ! i)" "out @ read_line i"] \<open>?n \<le> length bs\<close> Cons.prems n(4)
      show "runs (sbind (decode (take ?n (put_slice bs 0 (records ! i))), (out, c1)) (\<lambda>text w.
         sbind (println [say ''  Read VA 0x'', Hex 4 (i * 64), say '': '', Quoted text] w) (\<lambda>_ w.
         read_records decode (server_net env) rk lk is w))) (\<lambda>_ w. fst w = out @ concat (map read_line (i # is)) \<and>
           (\<exists>L' q'. stage cfg k b L' R q' sl (snd w)))"
        by (simp add: app_simps read_line_def [symmetric])
    qed simp
  qed (use Cons.prems n in \<open>simp_all add: unat_slot\<close>)
qed

lemma record_facts:
  assumes "i < 4"
  shows "length (records ! i) \<le> 17" "is_utf8 (records ! i)"
    "sub_slice (fill 0 records (replicate 256 0)) (i * 64) (i * 64 + length (records ! i)) = records ! i"
proof -
  have i: "i = 0 \<or> i = 1 \<or> i = 2 \<or> i = 3" using assms by auto
  show "length (records ! i) \<le> 17" using i by (auto simp: records_def lit_def)
  show "is_utf8 (records ! i)" using i by (intro is_utf8_ascii) (auto simp: records_def lit_def)
  show "sub_slice (fill 0 records (replicate 256 0)) (i * 64) (i * 64 + length (records ! i)) = records ! i"
    using i by (auto simp: records_def lit_def put_slice_def sub_slice_def)
qed

text \<open>Records are read back in reverse order, each with the contents that were written.\<close>

definition read_output :: "rkey \<Rightarrow> piece list" where
  "read_output rk =
     [say ''Remote MR registered: R_Key=0x'', key_hex rk, say '', size=256'', newline,
      say ''Populated remote MR with '', Dec 4, say '' records'', newline]
     @ concat (map read_line [3, 2, 1, 0]) @ [say ''Random-access read verification passed.'', newline]"

lemma length_records [simp]: "length records = 4" "r \<in> set records \<Longrightarrow> length r \<le> 64"
  by (auto simp: records_def lit_def)

lemma demo_read_runs:
  assumes st: "stage cfg 0 0 L R [] sl c" and room: "regions cfg 3 768" and fresh: "fresh_keys env"
  shows "runs (demo_read (server_net env) (out, c)) (\<lambda>_ w. \<exists>rk. finished cfg (out @ read_output rk) w)"
  unfolding demo_read_def
  apply (rule verb_reg [OF st fresh])
   apply (rule regions_room [OF room]; simp)
  apply (clarsimp simp: app_simps)
  apply (rule verb_reg [OF _ fresh], assumption)
   apply (rule regions_room [OF room]; simp)
  apply (clarsimp split: if_split_asm)
  apply (rule runs_seq)
   apply (rule populate_runs, assumption, simp, simp, simp, simp, simp, simp, simp, simp)
  apply clarsimp
  apply (rule verb_poll, assumption)
  apply (clarsimp simp: app_simps)
  apply (rule verb_reg [OF _ fresh], assumption)
   apply (rule regions_room [OF room]; simp)
  apply (clarsimp split: if_split_asm)
  apply (rule runs_seq)
   apply (rule read_records_runs, assumption, simp, simp)
       apply (fastforce)
      apply simp
     apply simp
    apply (use record_facts in \<open>fastforce simp: str_from_utf8_def\<close>)
   apply simp
  apply clarsimp
  apply (rule verb_poll, assumption)
  apply (clarsimp simp: app_simps)
  apply (rule runs_finished, assumption)
  apply (simp add: read_output_def eval_nat_numeral)
  done

subsection \<open>Sending\<close>

definition echo_output :: "lkey \<Rightarrow> rkey \<Rightarrow> piece list" where
  "echo_output lk rk =
     [say ''Registered MR: L_Key=0x'', Hex 8 (unat (lkey_val lk)), say '', R_Key=0x'', key_hex rk, say '', size=256'', newline,
      say ''Posting SEND ('', Dec 44, say '' bytes)...'', newline,
      say ''CQE: wrid='', Dec 1, say '', status=0x'', Hex 4 0, say '', bytes='', Dec 44, newline]"

lemma greeting_length [simp]: "length greeting = 44"
  by (simp add: greeting_def lit_def)

lemma print_one:
  assumes "cq_view cqes = [(wr, st, n)]"
  shows "print_cqes cqes (out, c) = (Ok (), (out @ [say ''CQE: wrid='', Dec (unat wr), say '', status=0x'', Hex 4 (unat st),
    say '', bytes='', Dec (unat n), newline], c))"
  using assms by (auto simp: cq_view_def cqe_line_def app_simps)

lemma send_greeting_runs:
  assumes st: "stage cfg 0 0 L R [] sl c" and slots: "sl \<noteq> 0" and room: "regions cfg 1 256" and fresh: "fresh_keys env"
  shows "runs (send_greeting (server_net env) (out, c)) (\<lambda>_ w. \<exists>lk rk. finished cfg (out @ echo_output lk rk) w)"
  unfolding send_greeting_def
  apply (rule verb_reg [OF st fresh])
   apply (rule regions_room [OF room]; simp)
  apply (clarsimp simp: app_simps)
  apply (rule verb_write_local, assumption, simp, simp)
  apply (clarsimp simp: app_simps)
  apply (rule verb_send, assumption, simp, simp, simp add: length_put_slice, simp, simp add: slots)
  apply (rule verb_poll, assumption)
  apply (clarsimp simp: print_one)
  apply (rule runs_finished2, assumption)
  apply (simp add: echo_output_def)
  done

lemma demo_echo_runs:
  assumes st: "stage cfg 0 0 L R [] sl c" and slots: "sl \<noteq> 0" and room: "regions cfg 1 256" and fresh: "fresh_keys env"
  shows "runs (demo_echo (server_net env) (out, c)) (\<lambda>_ w. \<exists>lk rk.
    finished cfg (out @ echo_output lk rk @ [say ''SEND complete.'', newline]) w)"
  unfolding demo_echo_def
  by (rule runs_seq [OF send_greeting_runs [OF assms]]) (auto simp: app_simps runs_def finished_def)

subsection \<open>The atomic counter\<close>

fun faa_output :: "u64 \<Rightarrow> nat list \<Rightarrow> piece list" where
  "faa_output v [] = []"
| "faa_output v (i # is) = [say ''FAA #'', Dec i, say '': previous value = '', Dec (unat v), newline] @ faa_output (v + 1) is"

lemma word_at_put [simp]: "8 \<le> length bs \<Longrightarrow> word_at (put_slice bs 0 (to_be 8 v)) 0 = v"
  by (simp add: word_at_def)

lemma faa_loop_runs:
  assumes "stage cfg k b L R [] sl c" and "R rk = Some r" and "af_contains (rg_access r) REMOTE_ATOMIC"
    and "8 \<le> length (rg_bytes r)" and "word_at (rg_bytes r) 0 = v"
  shows "runs (faa_loop (server_net env) rk is (out, c)) (\<lambda>_ w. fst w = out @ faa_output v is \<and>
    (\<exists>R' bs. stage cfg k b L R' [] sl (snd w) \<and> R' rk = Some (r\<lparr>rg_bytes := bs\<rparr>) \<and> length bs = length (rg_bytes r) \<and>
      word_at bs 0 = v + of_nat (length is)))"
  using assms
proof (induction "is" arbitrary: c R r v out)
  case Nil
  then show ?case by (auto simp: runs_def intro!: exI [of _ R] exI [of _ "rg_bytes r"])
next
  case (Cons i "is")
  let ?bs = "put_slice (rg_bytes r) 0 (to_be 8 (v + 1))"
  let ?line = "[say ''FAA #'', Dec i, say '': previous value = '', Dec (unat v), newline]"
  show ?case
    unfolding faa_loop.simps
  proof (rule verb_faa [OF Cons.prems(1) _ Cons.prems(2-4)], simp, rule verb_poll, assumption)
    fix c1 c2 cqes
    assume "stage cfg k b L (R(rk \<mapsto> r\<lparr>rg_bytes := put_slice (rg_bytes r) 0 (to_be 8 (word_at (rg_bytes r) 0 + 1))\<rparr>))
      (drop 10 ([] @ [(of_nat i, 0, 8)])) sl c2"
    then have st: "stage cfg k b L (R(rk \<mapsto> r\<lparr>rg_bytes := ?bs\<rparr>)) [] sl c2" using Cons.prems(5) by simp
    have "length ?bs = length (rg_bytes r)" using Cons.prems(4) by (simp add: length_put_slice)
    with Cons.IH [OF st, of "r\<lparr>rg_bytes := ?bs\<rparr>" "v + 1" "out @ ?line"] Cons.prems
    show "runs (sbind (println [say ''FAA #'', Dec i, say '': previous value = '', Dec (unat (word_at (rg_bytes r) 0))] (out, c2))
      (\<lambda>_. faa_loop (server_net env) rk is)) (\<lambda>_ w. fst w = out @ faa_output v (i # is) \<and>
      (\<exists>R' bs. stage cfg k b L R' [] sl (snd w) \<and> R' rk = Some (r\<lparr>rg_bytes := bs\<rparr>) \<and> length bs = length (rg_bytes r) \<and>
        word_at bs 0 = v + of_nat (length (i # is))))"
      by (simp add: app_simps add.assoc [symmetric])
  qed
qed

text \<open>The counter counts: the five additions return 0 to 4, and the value read back is 5.\<close>

definition atomic_output :: "rkey \<Rightarrow> piece list" where
  "atomic_output rk =
     [say ''Remote MR registered: R_Key=0x'', key_hex rk, say '', size=64'', newline,
      say ''Counter initialized to 0'', newline]
     @ concat (map (\<lambda>i. [say ''FAA #'', Dec i, say '': previous value = '', Dec (i - 1), newline]) [1, 2, 3, 4, 5])
     @ [say ''Final counter value: '', Dec 5, newline, say ''Verification passed.'', newline]"

lemma faa_output_5:
  "faa_output 0 [Suc 0..<6] =
     concat (map (\<lambda>i. [say ''FAA #'', Dec i, say '': previous value = '', Dec (i - 1), newline]) [1, 2, 3, 4, 5])"
  by (simp add: upt_rec)

lemma demo_atomic_runs:
  assumes st: "stage cfg 0 0 L R [] sl c" and room: "regions cfg 3 192" and fresh: "fresh_keys env"
  shows "runs (demo_atomic (server_net env) (out, c)) (\<lambda>_ w. \<exists>rk. finished cfg (out @ atomic_output rk) w)"
  unfolding demo_atomic_def
  apply (rule verb_reg [OF st fresh])
   apply (rule regions_room [OF room]; simp)
  apply (clarsimp simp: app_simps)
  apply (rule verb_reg [OF _ fresh], assumption)
   apply (rule regions_room [OF room]; simp)
  apply (clarsimp split: if_split_asm)
  apply (rule verb_write_local, assumption, simp, simp)
  apply (rule verb_write, assumption, simp+)
  apply (rule verb_poll, assumption)
  apply (clarsimp simp: app_simps)
  apply (rule runs_seq)
   apply (rule faa_loop_runs, assumption, simp, simp, simp, simp)
  apply clarsimp
  apply (rule verb_reg [OF _ fresh], assumption)
   apply (rule regions_room [OF room]; simp)
  apply (clarsimp split: if_split_asm)
  apply (rule verb_read [where n = 8, simplified], assumption, simp, fastforce, simp+)
  apply (rule verb_poll, assumption)
  apply (rule verb_read_local, assumption, simp, simp)
  apply (clarsimp simp: app_simps u64_from_be_bytes_def word_at_def)
  apply (rule runs_finished, assumption)
  apply (simp add: atomic_output_def faa_output_5)
  done

end
