(* ===== verification/Demo_Props.thy ===== *)
theory Demo_Props
  imports Demos
begin

text \<open>
  The receive-queue demonstration, and the demonstration client as a whole: every mode of
  \<open>rdows-client/src/main.rs\<close>, run against the server's session, ends without an error.
\<close>

section \<open>Receive queue exhaustion\<close>

lemma message_length [simp]: "length rnr_message = 15"
  by (simp add: rnr_message_def lit_def)

text \<open>
  The lines of the sends with numbers \<open>i\<close> to \<open>i + n - 1\<close>, with \<open>sl\<close> receive slots left: the
  first \<open>sl\<close> of them complete, the others report \<open>ERR_RNR\<close>.
\<close>

definition send_line :: "nat \<Rightarrow> bool \<Rightarrow> piece list" where
  "send_line i accepted = [say ''SEND #'', Dec i, say '': ''] @
     (if accepted then [say ''OK (CQE: wrid='', Dec i, say '', status=0x'', Hex 4 0, say '', bytes='', Dec 15, say '')'', newline]
      else [say ''ERR_RNR (CQE: wrid='', Dec i, say '', status=0x'', Hex 4 (unat (error_code_to_u16 ErrRnr)), say '')'', newline])"

fun sends_output :: "nat \<Rightarrow> nat \<Rightarrow> nat \<Rightarrow> piece list" where
  "sends_output i 0 sl = []"
| "sends_output i (Suc n) sl = send_line i (sl \<noteq> 0) @ sends_output (i + 1) n (sl - 1)"

lemma cq_view_one:
  assumes "cq_view cqes = [(wr, st, n)]"
  obtains cqe where "first_cqe cqes = (Ok cqe :: (boxed_error, completion_queue_entry) result)" and "wrid_val (cqe_wrid cqe) = wr" and "cqe_status cqe = st" and "cqe_byte_count cqe = n"
  using assms by (cases cqes) (auto simp: cq_view_def first_cqe_def)

lemma verb_poll_one:
  assumes st: "stage cfg k b L R [(wr, st, n)] sl c"
    and Q: "\<And>cqe c'. wrid_val (cqe_wrid cqe) = wr \<Longrightarrow> cqe_status cqe = st \<Longrightarrow> cqe_byte_count cqe = n \<Longrightarrow>
      stage cfg k b L R [] sl c' \<Longrightarrow> runs (f cqe (out, c')) Q"
  shows "runs (sbind (polled 10 (out, c)) (\<lambda>cqes w. sbind (first_cqe cqes, w) f)) Q"
proof (rule verb_poll [OF st])
  fix cqes c'
  assume e: "cq_view cqes = take 10 [(wr, st, n)]" and s: "stage cfg k b L R (drop 10 [(wr, st, n)]) sl c'"
  from e have "cq_view cqes = [(wr, st, n)]" by simp
  then obtain cqe where "first_cqe cqes = (Ok cqe :: (boxed_error, completion_queue_entry) result)" "wrid_val (cqe_wrid cqe) = wr" "cqe_status cqe = st" "cqe_byte_count cqe = n"
    by (rule cq_view_one)
  then show "runs (sbind (first_cqe cqes, (out, c')) f) Q" using Q s by simp
qed

lemma send_loop_runs:
  assumes "stage cfg k b L R [] sl c" and bs: "L lk = Some bs" "15 \<le> length bs" and "i + n \<le> 18446744073709551616"
  shows "runs (send_loop (server_net env) [sg_entry lk 15] i n ok (out, c)) (\<lambda>succeeded w.
    fst w = out @ sends_output i n sl \<and> succeeded = ok + of_nat (min n sl) \<and> stage cfg k b L R [] (sl - n) (snd w))"
  using assms(1,4)
proof (induction n arbitrary: c sl i ok out)
  case 0
  then show ?case by (simp add: runs_def)
next
  case (Suc n)
  obtain c' where c': "post_send (server_net env) (of_nat i) [sg_entry lk 15] c =
        (if sl = 0 then Err (Protocol ErrRnr) else Ok (), c')"
      and st: "stage cfg k b L R ([] @ [if sl = 0 then (of_nat i, error_code_to_u16 ErrRnr, 0) else (of_nat i, 0, of_nat 15)])
        (sl - 1) c'"
    by (rule post_send_stage [OF Suc.prems(1) _ bs, of env "of_nat i"]) simp_all
  have i: "unat (of_nat i :: u64) = i" using Suc.prems(2) by (simp add: unat_of_nat)
  have rest: "runs (send_loop (server_net env) [sg_entry lk 15] (i + 1) n ok' (out @ send_line i (sl \<noteq> 0), c'')) (\<lambda>succeeded w.
      fst w = out @ sends_output i (Suc n) sl \<and> succeeded = ok' + of_nat (min n (sl - 1)) \<and>
      stage cfg k b L R [] (sl - Suc n) (snd w))"
    if "stage cfg k b L R [] (sl - 1) c''" for c'' ok'
    using Suc.IH [OF that, of "i + 1" ok' "out @ send_line i (sl \<noteq> 0)"] Suc.prems(2) by simp
  show ?case
  proof (cases "sl = 0")
    case True
    with st have "stage cfg k b L R [(of_nat i, error_code_to_u16 ErrRnr, 0)] 0 c'" by simp
    then show ?thesis
      unfolding send_loop.simps app_steps(1) sbind.simps fst_conv snd_conv c'
      using True rest [where ok' = ok]
      by (simp add: Let_def del: sends_output.simps)
        (auto simp: app_simps i send_line_def simp del: sends_output.simps intro!: verb_poll_one)
  next
    case False
    with st have "stage cfg k b L R [(of_nat i, 0, 15)] (sl - 1) c'" by simp
    moreover have "min (Suc n) sl = Suc (min n (sl - 1))" using False by simp
    ultimately show ?thesis
      unfolding send_loop.simps app_steps(1) sbind.simps fst_conv snd_conv c'
      using False rest [where ok' = "ok + 1"]
      by (simp add: Let_def add.assoc del: sends_output.simps min_Suc_Suc)
        (auto simp: app_simps i send_line_def simp del: sends_output.simps intro!: verb_poll_one)
  qed
qed

definition alive_output :: "piece list" where
  "alive_output =
     [newline, say ''Connection still alive '', Text [0xE2, 0x80, 0x94], say '' performing RDMA Write...'', newline,
      say ''RDMA Write: OK (CQE: wrid='', Dec 100, say '', status=0x'', Hex 4 0, say '')'', newline]"

lemma alive_length [simp]: "length (lit ''still alive'') = 11"
  by (simp add: lit_def)

lemma still_alive_runs:
  assumes st: "stage cfg k b L R [] sl c" and bs: "L lk = Some bs" "11 \<le> length bs"
    and room: "room cfg k b 64" and fresh: "fresh_keys env"
  shows "runs (still_alive lk (server_net env) (out, c)) (\<lambda>_ w. fst w = out @ alive_output \<and>
    (\<exists>L R. stage cfg (Suc k) (b + 64) L R [] sl (snd w)))"
  using bs unfolding still_alive_def
  apply (simp add: app_simps)
  apply (rule verb_reg [OF st fresh room])
  apply clarsimp
  apply (rule verb_write_local, assumption, fastforce, simp)
  apply (rule verb_write, assumption, simp, simp, simp add: length_put_slice, simp, simp, simp, simp)
  apply simp
  apply (rule verb_poll_one, assumption)
  apply (auto simp: app_simps runs_def alive_output_def)
  done

text \<open>The connection works after the queue was exhausted.\<close>

definition err_rnr_output :: "u64 \<Rightarrow> nat \<Rightarrow> piece list" where
  "err_rnr_output sends slots = sends_output 1 (unat sends) slots @ alive_output @
     [newline, say ''Server receive queue exhausted after '', Dec (min (unat sends) slots),
      say '' SENDs. Connection remains usable for RDMA operations.'', newline]"

lemma demo_err_rnr_runs:
  assumes st: "stage cfg 0 0 L R [] sl c" and room: "regions cfg 2 320" and fresh: "fresh_keys env" and "sl < 65536"
  shows "runs (demo_err_rnr sends (server_net env) (out, c)) (\<lambda>_ w. finished cfg (out @ err_rnr_output sends sl) w)"
proof -
  have n: "Suc 0 + unat sends \<le> 18446744073709551616" using unat_less_u64 [of sends] by simp
  have ok: "unat (of_nat (min (unat sends) sl) :: u64) = min (unat sends) sl"
    using unat_less_u64 [of sends] by (simp add: unat_of_nat)
  show ?thesis
    unfolding demo_err_rnr_def
    apply (rule verb_reg [OF st fresh])
     apply (rule regions_room [OF room]; simp)
    apply clarsimp
    apply (rule verb_write_local, assumption, simp, simp)
    apply clarsimp
    apply (rule runs_seq)
     apply (rule send_loop_runs [OF _ _ _ n], assumption, simp, simp add: length_put_slice)
    apply clarsimp
    apply (rule runs_seq)
     apply (rule still_alive_runs [OF _ _ _ _ fresh], assumption, simp, simp add: length_put_slice)
     apply (rule regions_room [OF room]; simp)
    using ok apply (fastforce simp: app_simps runs_def finished_def err_rnr_output_def)
    done
qed

section \<open>The client\<close>

text \<open>A new connection, as the programs get it.\<close>

lemma connected_stage:
  assumes "\<not> starts_with url (lit ''ws://'')" and "dial url = Ok (Some SUBPROTOCOL, fresh_peer cfg now)"
    and "cfg_max_outstanding_reads cfg \<noteq> 0" and "unat (cfg_recv_queue_depth cfg) < 16383"
  obtains c where "connection_connect (server_net env) dial os_rng url = Ok c" and "cn_session_id c = from_be (os_rng 0)"
    and "stage cfg 0 0 Map.empty Map.empty [] (unat (cfg_recv_queue_depth cfg)) c"
proof -
  obtain c where c: "connection_connect (server_net env) dial os_rng url = Ok c" "cn_session_id c = from_be (os_rng 0)"
    "holds cfg 0 0 \<lparr>rd_session = from_be (os_rng 0), rd_max_msg = 16777216, rd_capacity = 65536,
      rd_queue = [], rd_local = Map.empty, rd_remote = Map.empty,
      rd_slots = unat (cfg_recv_queue_depth cfg), rd_credits = 65535\<rparr> c"
    by (rule connected_holds [of url dial cfg now env os_rng, OF assms])
  have "stage cfg 0 0 Map.empty Map.empty [] (unat (cfg_recv_queue_depth cfg)) c"
    unfolding stage_def by (rule exI, rule conjI [OF c(3)]) (use assms(4) in \<open>simp add: cq_view_def\<close>)
  with c(1,2) that show thesis by blast
qed

lemma finished_disconnect:
  assumes "finished cfg out w"
  shows "\<exists>c. on_conn (disconnect (server_net env)) w = (Ok (), (out, c))"
proof -
  obtain k b m where "fst w = out" "holds cfg k b m (snd w)" using assms by (auto simp: finished_def stage_def)
  then show ?thesis
    using disconnect_ok [of cfg "snd w" env] linked_sync [of cfg "snd w"] by (auto simp: on_conn_def holds_def)
qed

text \<open>The possible outputs of a mode; they differ in the keys the server chose.\<close>

definition mode_outputs :: "rstring \<Rightarrow> u64 \<Rightarrow> nat \<Rightarrow> piece list set" where
  "mode_outputs mode sends slots =
     (if mode = lit ''write'' then range write_output
      else if mode = lit ''read'' then range read_output
      else if mode = lit ''echo'' then {echo_output lk rk @ [say ''SEND complete.'', newline] |lk rk. True}
      else if mode = lit ''atomic'' then range atomic_output
      else {err_rnr_output sends slots})"

definition modes :: "rstring set" where
  "modes = {lit ''write'', lit ''read'', lit ''echo'', lit ''atomic'', lit ''err_rnr''}"

lemma regions_less: "regions cfg n b \<Longrightarrow> n' \<le> n \<Longrightarrow> b' \<le> b \<Longrightarrow> regions cfg n' b'"
  by (simp add: regions_def)

lemma run_mode_runs:
  assumes st: "stage cfg 0 0 L R [] sl c" and room: "regions cfg 3 12288" and fresh: "fresh_keys env"
    and slots: "sl \<noteq> 0" "sl < 65536" and mode: "mode \<in> modes"
  shows "runs (run_mode mode sends (server_net env) (out, c)) (\<lambda>_ w. \<exists>out' \<in> mode_outputs mode sends sl. finished cfg (out @ out') w)"
proof -
  have "runs (demo_write (server_net env) (out, c)) (\<lambda>_ w. \<exists>rk. finished cfg (out @ write_output rk) w)"
    using demo_write_runs [OF st room fresh] .
  moreover have "runs (demo_read (server_net env) (out, c)) (\<lambda>_ w. \<exists>rk. finished cfg (out @ read_output rk) w)"
    using demo_read_runs [OF st _ fresh] regions_less [OF room] by simp
  moreover have "runs (demo_echo (server_net env) (out, c)) (\<lambda>_ w. \<exists>lk rk.
      finished cfg (out @ echo_output lk rk @ [say ''SEND complete.'', newline]) w)"
    using demo_echo_runs [OF st slots(1) _ fresh] regions_less [OF room] by simp
  moreover have "runs (demo_atomic (server_net env) (out, c)) (\<lambda>_ w. \<exists>rk. finished cfg (out @ atomic_output rk) w)"
    using demo_atomic_runs [OF st _ fresh] regions_less [OF room] by simp
  moreover have "runs (demo_err_rnr sends (server_net env) (out, c)) (\<lambda>_ w. finished cfg (out @ err_rnr_output sends sl) w)"
    using demo_err_rnr_runs [OF st _ fresh slots(2)] regions_less [OF room] by simp
  ultimately show ?thesis
    using mode unfolding run_mode_def mode_outputs_def modes_def
    by (auto elim!: runs_mono split: if_split)
qed

text \<open>A source of random numbers that gives 1000 different keys to every registration.\<close>

definition counting_env :: environment where
  "counting_env = (\<lambda>_. (0, \<lambda>j. to_be 4 (of_nat (j + 1) :: u32)))"

lemma counting_fresh: "fresh_keys counting_env"
  unfolding fresh_keys_def
proof (intro allI impI)
  fix conn :: conn
  let ?used = "ms_used_rkeys (se_memory_store (fst conn))"
  let ?draw = "\<lambda>j. of_nat (j + 1) :: u32"
  assume few: "fcard ?used < 1000"
  have inj: "inj_on ?draw {..<1000}"
  proof (rule inj_onI)
    fix i j :: nat
    assume "i \<in> {..<1000}" "j \<in> {..<1000}" "?draw i = ?draw j"
    then have "unat (?draw i) = unat (?draw j)" "i < 1000" "j < 1000" by simp_all
    then show "i = j" using unat_of_nat [of "i + 1", where 'a = 32] unat_of_nat [of "j + 1", where 'a = 32] by simp
  qed
  have "\<not> ?draw ` {..<1000} \<subseteq> fset ?used"
    using card_mono [of "fset ?used" "?draw ` {..<1000}"] few card_image [OF inj] by (auto simp: fcard.rep_eq)
  then obtain j where j: "j < 1000" "?draw j \<notin> fset ?used" by auto
  have "unat (?draw j) = j + 1" using j(1) unat_of_nat [of "j + 1", where 'a = 32] by simp
  then have "?draw j \<noteq> 0" by auto
  with j show "\<exists>j<1000. from_be (snd (counting_env conn) j) \<noteq> (0 :: u32) \<and> from_be (snd (counting_env conn) j) |\<notin>| ?used"
    by (intro exI [of _ j]) (simp add: counting_env_def from_be_to_be)
qed

text \<open>
  (C6) The demonstration client works. Started with a URL that is not plain \<open>ws://\<close>, a trust
  store that loads, and one of its five modes, against a server with room for three regions
  and a receive queue, the program ends without an error: its assertions hold, and its output is
  the one of the mode. In particular \<open>write\<close> reads back the payload, \<open>read\<close> the four records in
  reverse order, \<open>atomic\<close> counts to five, and \<open>err_rnr\<close> reports \<open>ERR_RNR\<close> for exactly the sends
  beyond the receive queue and can still write afterwards.
\<close>

theorem client_main_succeeds:
  assumes "url = unwrap_or_else (get_arg args (lit ''--url'')) (lit ''wss://localhost:9443/rdows'')"
    and "\<not> starts_with url (lit ''ws://'')"
    and tls: "build_tls_config pf (get_arg args (lit ''--cert'')) ([], ()) = (Ok tls, (out, ()))"
    and "dial tls url = Ok (Some SUBPROTOCOL, fresh_peer cfg now)"
    and "cfg_max_outstanding_reads cfg \<noteq> 0" and depth: "unat (cfg_recv_queue_depth cfg) \<in> {1..<16383}"
    and room: "regions cfg 3 12288" and fresh: "fresh_keys env"
    and mode: "mode = unwrap_or_else (get_arg args (lit ''--mode'')) (lit ''write'')" "mode \<in> modes"
    and sends: "sends = 4 \<and> get_arg args (lit ''--sends'') = None \<or>
      (\<exists>s. get_arg args (lit ''--sends'') = Some s \<and> parse_unsigned usize_limit s = Some (unat sends))"
  shows "\<exists>out' \<in> mode_outputs mode sends (unat (cfg_recv_queue_depth cfg)).
    client_main pf (server_net env) dial os_rng args = (Ok (), out @
      [say ''Connecting to '', Text url, say ''...'', newline,
       say ''Session established (id: 0x'', Hex 8 (unat (from_be (os_rng 0) :: u32)), say '')'', newline] @ out' @
      [say ''Disconnected.'', newline])"
proof -
  let ?hello = "[say ''Connecting to '', Text url, say ''...'', newline,
       say ''Session established (id: 0x'', Hex 8 (unat (from_be (os_rng 0) :: u32)), say '')'', newline]"
  obtain c where c: "connection_connect (server_net env) (dial tls) os_rng url = Ok c" "cn_session_id c = from_be (os_rng 0)"
      "stage cfg 0 0 Map.empty Map.empty [] (unat (cfg_recv_queue_depth cfg)) c"
    by (rule connected_stage [of url "dial tls" cfg now env os_rng]) (use assms in simp_all)
  obtain out' w where r: "run_mode mode sends (server_net env) (out @ ?hello, c) = (Ok (), w)"
      "out' \<in> mode_outputs mode sends (unat (cfg_recv_queue_depth cfg))" "finished cfg ((out @ ?hello) @ out') w"
    using run_mode_runs [OF c(3) room fresh _ _ mode(2), of sends "out @ ?hello"] depth by (auto simp: runs_def)
  obtain c' where d: "on_conn (disconnect (server_net env)) w = (Ok (), ((out @ ?hello) @ out', c'))"
    using finished_disconnect [OF r(3)] by blast
  have s: "(case get_arg args (lit ''--sends'') of Some s \<Rightarrow> expect (map_option of_nat (parse_unsigned usize_limit s)) | None \<Rightarrow> Ok 4) =
      (Ok sends :: (boxed_error, u64) result)"
    using sends by (auto simp: expect_def)
  have "client_main pf (server_net env) dial os_rng args = (Ok (), out @ ?hello @ out' @ [say ''Disconnected.'', newline])"
    unfolding client_main_def Let_def with_connection_def assms(1) [symmetric] mode(1) [symmetric] s
    using tls c(1,2) r(1) d by (simp add: app_simps)
  with r(2) show ?thesis by auto
qed

theorem client_main_succeeds_witness:
  "\<exists>rk. client_main sample_platform (server_net counting_env) (\<lambda>_ _. Ok (Some SUBPROTOCOL, fresh_peer server_config_default 0))
     (\<lambda>_. [0, 0, 0, 7]) [lit ''rdows-client'', lit ''--mode'', lit ''atomic''] = (Ok (),
     [say ''Using system trust store ('', Dec 1, say '' roots)'', newline, say ''Connecting to '', say ''wss://localhost:9443/rdows'',
      say ''...'', newline, say ''Session established (id: 0x'', Hex 8 (unat (from_be [0, 0, 0, 7] :: u32)), say '')'', newline]
     @ atomic_output rk @ [say ''Disconnected.'', newline])"
proof -
  let ?args = "[lit ''rdows-client'', lit ''--mode'', lit ''atomic'']"
  let ?url = "lit ''wss://localhost:9443/rdows''"
  have args: "get_arg ?args (lit ''--url'') = None" "get_arg ?args (lit ''--cert'') = None" "get_arg ?args (lit ''--sends'') = None"
      "get_arg ?args (lit ''--mode'') = Some (lit ''atomic'')"
    by (simp_all add: get_arg_def lit_def)
  have tls: "build_tls_config sample_platform None ([], ()) = (Ok \<lparr>ct_verifier = RootCertificates {7}, ct_key_log = True\<rparr>,
      ([say ''Using system trust store ('', Dec 1, say '' roots)'', newline], ()))"
    by (simp add: build_tls_config_def sample_platform_def println_def print_def)
  have url: "\<not> starts_with ?url (lit ''ws://'')" by (simp add: starts_with_def lit_def)
  have room: "regions server_config_default 3 12288" "unat (cfg_recv_queue_depth server_config_default) \<in> {1..<16383}"
      "cfg_max_outstanding_reads server_config_default \<noteq> 0"
    by (simp_all add: regions_def server_config_default_def)
  have mode: "mode_outputs (lit ''atomic'') 4 n = range atomic_output" for n
    by (simp add: mode_outputs_def lit_def del: of_char_eq_iff)
  show ?thesis
    using client_main_succeeds [of ?url ?args sample_platform _ _ "\<lambda>_ _. Ok (Some SUBPROTOCOL, fresh_peer server_config_default 0)"
        server_config_default 0 counting_env "lit ''atomic''" 4 "\<lambda>_. [0, 0, 0, 7]", unfolded args, OF _ url tls _ room(3,2,1) counting_fresh]
    by (auto simp: unwrap_or_else_def modes_def mode)
qed

end
