(* ===== verification/Examples.thy ===== *)
theory Examples
  imports Demo_Props
begin

text \<open>
  The examples of the client crate (\<open>rdows-client/examples\<close>). Each starts a server beside
  itself, connects to it and uses the verbs. The statements of \<open>atomic_counter.rs\<close> are those of
  the demonstration client's \<open>demo_atomic\<close>, and \<open>echo_send_recv.rs\<close> is \<open>demo_echo\<close> without its last line;
  the other three have definitions of their own.
\<close>

section \<open>Definitions\<close>

text \<open>
  The argument \<open>dial\<close> of the mains reaches the embedded server with the client's TLS
  configuration.
\<close>

type_synonym ('roots, 'tls, 'listener, 'p) embedded_dialler = "('roots, 'tls, 'listener) embedded \<Rightarrow> 'p dialler"

definition embedded_url :: "u16 \<Rightarrow> rstring" where
  "embedded_url port = lit ''wss://localhost:'' @ show_dec (unat port) @ lit ''/rdows''"

definition embedded_connect :: "bool \<Rightarrow> ('cert, 'roots, 'tls, 'listener) platform \<Rightarrow> 'p network
    \<Rightarrow> ('roots, 'tls, 'listener, 'p) embedded_dialler \<Rightarrow> (nat \<Rightarrow> bytes) \<Rightarrow> server_config
    \<Rightarrow> (boxed_error, 'p rdows_connection) result \<times> unit app" where
  "embedded_connect announce pf net dial os_rng config =
     sbind (start_embedded_server pf config, ([], ())) (\<lambda>em w.
     let url = embedded_url (em_port em) in
     sbind (if announce then println [say ''Connecting to '', Text url, say ''...''] w else (Ok (), w)) (\<lambda>_ w.
     (map_err Rdows (connection_connect net (dial em) os_rng url), w)))"

definition session_line :: "'p rdows_connection app \<Rightarrow> piece list" where
  "session_line w = [say ''Session established (id: 0x'', Hex 8 (unat (cn_session_id (snd w))), say '')'']"

definition and_disconnect :: "'p network \<Rightarrow> rstring \<Rightarrow> (boxed_error, unit) result \<times> 'p rdows_connection app
    \<Rightarrow> (boxed_error, unit) result \<times> 'p rdows_connection app" where
  "and_disconnect net farewell p =
     sbind p (\<lambda>_ w.
     sbind (on_conn (disconnect net) w) (\<lambda>_ w.
     println [Text farewell] w))"

subsection \<open>\<open>atomic_counter.rs\<close> and \<open>echo_send_recv.rs\<close>\<close>

definition atomic_counter_main :: "('cert, 'roots, 'tls, 'listener) platform \<Rightarrow> 'p network
    \<Rightarrow> ('roots, 'tls, 'listener, 'p) embedded_dialler \<Rightarrow> (nat \<Rightarrow> bytes) \<Rightarrow> (boxed_error, unit) result \<times> piece list" where
  "atomic_counter_main pf net dial os_rng =
     with_connection (embedded_connect True pf net dial os_rng server_config_default) (\<lambda>w.
     sbind (println (session_line w) w) (\<lambda>_ w.
     and_disconnect net (lit ''Disconnected.'') (demo_atomic net w)))"

definition echo_send_recv_main :: "('cert, 'roots, 'tls, 'listener) platform \<Rightarrow> 'p network
    \<Rightarrow> ('roots, 'tls, 'listener, 'p) embedded_dialler \<Rightarrow> (nat \<Rightarrow> bytes) \<Rightarrow> (boxed_error, unit) result \<times> piece list" where
  "echo_send_recv_main pf net dial os_rng =
     with_connection (embedded_connect True pf net dial os_rng server_config_default) (\<lambda>w.
     sbind (println (session_line w) w) (\<lambda>_ w.
     and_disconnect net (lit ''Disconnected.'') (send_greeting net w)))"

subsection \<open>\<open>one_sided_write.rs\<close>\<close>

definition one_sided_write :: "'p program" where
  "one_sided_write net w =
     sbind (on_conn (reg_mr net (af_bitor REMOTE_WRITE REMOTE_READ) 4096) w) (\<lambda>remote_mr w.
     sbind (println [say ''Remote MR registered: R_Key=0x'', key_hex (mh_rkey remote_mr), say '', size=4096''] w) (\<lambda>_ w.
     sbind (on_conn (reg_mr net LOCAL_WRITE 4096) w) (\<lambda>local_mr w.
     sbind (on_conn (write_local_mr (mh_lkey local_mr) 0 payload) w) (\<lambda>_ w.
     sbind (println [say ''RDMA Write: '', Dec (length payload), say '' bytes -> remote VA 0x0000''] w) (\<lambda>_ w.
     sbind (on_conn (rdma_write net 100 (mh_rkey remote_mr) 0 [sg_entry (mh_lkey local_mr) (length payload)]) w) (\<lambda>_ w.
     sbind (polled 10 w) (\<lambda>cqes w.
     sbind (println [say ''Write complete: '', Dec (length cqes), say '' CQE(s), status=0x'', status_hex (first_status cqes)] w) (\<lambda>_ w.
     sbind (on_conn (reg_mr net LOCAL_WRITE 4096) w) (\<lambda>read_mr w.
     sbind (println [say ''RDMA Read: '', Dec (length payload), say '' bytes <- remote VA 0x0000''] w) (\<lambda>_ w.
     sbind (on_conn (rdma_read net 200 (mh_rkey remote_mr) 0 (of_nat (length payload)) (mh_lkey read_mr) 0) w) (\<lambda>_ w.
     sbind (polled 10 w) (\<lambda>cqes w.
     sbind (println [say ''Read complete: '', Dec (length cqes), say '' CQE(s), status=0x'', status_hex (first_status cqes)] w) (\<lambda>_ w.
     sbind (reading (read_local_mr (mh_lkey read_mr) 0 (length payload)) w) (\<lambda>read_back w.
     sbind (unwrap (str_from_utf8 read_back), w) (\<lambda>text w.
     sbind (println [say ''Readback: '', Quoted text] w) (\<lambda>_ w.
     sbind (assert_eq read_back payload w) (\<lambda>_ w.
     println [say ''Verification passed.''] w)))))))))))))))))"

definition one_sided_write_main :: "('cert, 'roots, 'tls, 'listener) platform \<Rightarrow> 'p network
    \<Rightarrow> ('roots, 'tls, 'listener, 'p) embedded_dialler \<Rightarrow> (nat \<Rightarrow> bytes) \<Rightarrow> (boxed_error, unit) result \<times> piece list" where
  "one_sided_write_main pf net dial os_rng =
     with_connection (embedded_connect True pf net dial os_rng server_config_default) (\<lambda>w.
     sbind (println (session_line w) w) (\<lambda>_ w.
     and_disconnect net (lit ''Disconnected.'') (one_sided_write net w)))"

subsection \<open>\<open>one_sided_read.rs\<close>\<close>

definition one_sided_read :: "'p program" where
  "one_sided_read net w =
     sbind (on_conn (reg_mr net (af_bitor REMOTE_WRITE REMOTE_READ) 256) w) (\<lambda>remote_mr w.
     sbind (on_conn (reg_mr net LOCAL_WRITE 256) w) (\<lambda>write_mr w.
     sbind (populate net (mh_lkey write_mr) (mh_rkey remote_mr) 0 records w) (\<lambda>_ w.
     sbind (polled 10 w) (\<lambda>_ w.
     sbind (println [say ''Populated remote MR with '', Dec (length records), say '' records''] w) (\<lambda>_ w.
     sbind (on_conn (reg_mr net LOCAL_WRITE 256) w) (\<lambda>read_mr w.
     sbind (read_records (\<lambda>data. unwrap (str_from_utf8 data)) net (mh_rkey remote_mr) (mh_lkey read_mr)
       (rev [0..<length records]) w) (\<lambda>_ w.
     sbind (polled 10 w) (\<lambda>_ w.
     (Ok (), w)))))))))"

definition one_sided_read_main :: "('cert, 'roots, 'tls, 'listener) platform \<Rightarrow> 'p network
    \<Rightarrow> ('roots, 'tls, 'listener, 'p) embedded_dialler \<Rightarrow> (nat \<Rightarrow> bytes) \<Rightarrow> (boxed_error, unit) result \<times> piece list" where
  "one_sided_read_main pf net dial os_rng =
     with_connection (embedded_connect False pf net dial os_rng server_config_default) (\<lambda>w.
     sbind (println [say ''Session 0x'', Hex 8 (unat (cn_session_id (snd w))), say '' established''] w) (\<lambda>_ w.
     and_disconnect net (lit ''Done.'') (one_sided_read net w)))"

subsection \<open>\<open>err_rnr_demo.rs\<close>\<close>

text \<open>The embedded server of this example has a receive queue of three.\<close>

definition three_slots :: server_config where
  "three_slots = server_config_default\<lparr>cfg_recv_queue_depth := 3\<rparr>"

definition err_rnr_demo :: "'p program" where
  "err_rnr_demo net w =
     sbind (on_conn (reg_mr net LOCAL_WRITE 256) w) (\<lambda>mr w.
     sbind (on_conn (write_local_mr (mh_lkey mr) 0 rnr_message) w) (\<lambda>_ w.
     sbind (send_loop net [sg_entry (mh_lkey mr) (length rnr_message)] 1 4 0 w) (\<lambda>_ w.
     sbind (still_alive (mh_lkey mr) net w) (\<lambda>_ w.
     println [newline, say ''Server receive queue exhausted after 3 SENDs. Connection remains usable for RDMA operations.''] w))))"

definition err_rnr_demo_main :: "('cert, 'roots, 'tls, 'listener) platform \<Rightarrow> 'p network
    \<Rightarrow> ('roots, 'tls, 'listener, 'p) embedded_dialler \<Rightarrow> (nat \<Rightarrow> bytes) \<Rightarrow> (boxed_error, unit) result \<times> piece list" where
  "err_rnr_demo_main pf net dial os_rng =
     with_connection (embedded_connect True pf net dial os_rng three_slots) (\<lambda>w.
     sbind (println (session_line w @ [newline]) w) (\<lambda>_ w.
     sbind (err_rnr_demo net w) (\<lambda>_ w.
     on_conn (disconnect net) w)))"

section \<open>Lemmas\<close>

lemma embedded_url_secure: "\<not> starts_with (embedded_url port) (lit ''ws://'')"
  by (simp add: starts_with_def embedded_url_def lit_def)

text \<open>An example that connects: its rest starts in the first stage of a connection.\<close>

lemma connected_runs:
  assumes em: "start_embedded_server pf cfg = (Ok em :: (boxed_error, _) result)"
    and dial: "dial em (embedded_url (em_port em)) = Ok (Some SUBPROTOCOL, fresh_peer cfg now)"
    and cfg: "cfg_max_outstanding_reads cfg \<noteq> 0" "unat (cfg_recv_queue_depth cfg) < 16383"
    and rest: "\<And>c. cn_session_id c = from_be (os_rng 0) \<Longrightarrow> stage cfg 0 0 Map.empty Map.empty [] (unat (cfg_recv_queue_depth cfg)) c \<Longrightarrow>
      runs (rest (if announce then [say ''Connecting to '', Text (embedded_url (em_port em)), say ''...'', newline] else [], c)) (\<lambda>_ w. P (fst w))"
  shows "\<exists>out. with_connection (embedded_connect announce pf (server_net env) dial os_rng cfg) rest = (Ok (), out) \<and> P out"
proof -
  obtain c where c: "connection_connect (server_net env) (dial em) os_rng (embedded_url (em_port em)) = Ok c"
      "cn_session_id c = from_be (os_rng 0)" "stage cfg 0 0 Map.empty Map.empty [] (unat (cfg_recv_queue_depth cfg)) c"
    by (rule connected_stage [of _ "dial em" cfg now env os_rng, OF embedded_url_secure dial cfg])
  show ?thesis
    using rest [OF c(2,3)] em c(1) by (auto simp: embedded_connect_def with_connection_def Let_def runs_def app_simps)
qed

lemma runs_and_disconnect:
  assumes "runs p (\<lambda>_ w. \<exists>x. finished cfg (out x) w)"
  shows "runs (and_disconnect (server_net env) bye p) (\<lambda>_ w. \<exists>x. fst w = out x @ [Text bye, newline])"
  unfolding and_disconnect_def
  by (rule runs_seq [OF assms]) (use finished_disconnect [of cfg _ _ env] in \<open>fastforce simp: runs_def app_simps\<close>)

lemma runs_and_disconnect_exact:
  assumes "runs p (\<lambda>_ w. finished cfg out w)"
  shows "runs (and_disconnect (server_net env) bye p) (\<lambda>_ w. fst w = out @ [Text bye, newline])"
  using runs_and_disconnect [of p cfg "\<lambda>_ :: unit. out" env bye] assms by simp

definition one_sided_write_output :: "rkey \<Rightarrow> piece list" where
  "one_sided_write_output rk =
     [say ''Remote MR registered: R_Key=0x'', key_hex rk, say '', size=4096'', newline,
      say ''RDMA Write: '', Dec 54, say '' bytes -> remote VA 0x0000'', newline,
      say ''Write complete: '', Dec 1, say '' CQE(s), status=0x'', Hex 4 0, newline,
      say ''RDMA Read: '', Dec 54, say '' bytes <- remote VA 0x0000'', newline,
      say ''Read complete: '', Dec 1, say '' CQE(s), status=0x'', Hex 4 0, newline,
      say ''Readback: '', Quoted payload, newline, say ''Verification passed.'', newline]"

lemma cq_view_length: "cq_view cqes = q \<Longrightarrow> length cqes = length q"
  by (auto simp: cq_view_def)

lemma one_sided_write_runs:
  assumes st: "stage cfg 0 0 L R [] sl c" and room: "regions cfg 3 12288" and fresh: "fresh_keys env"
  shows "runs (one_sided_write (server_net env) (out, c)) (\<lambda>_ w. \<exists>rk. finished cfg (out @ one_sided_write_output rk) w)"
  unfolding one_sided_write_def
  apply (rule verb_reg [OF st fresh])
   apply (rule regions_room [OF room]; simp)
  apply (clarsimp simp: app_simps)
  apply (rule verb_reg [OF _ fresh], assumption)
   apply (rule regions_room [OF room]; simp)
  apply (clarsimp simp: app_simps split: if_split_asm)
  apply (rule verb_write_local, assumption, simp, simp)
  apply (clarsimp simp: app_simps)
  apply (rule verb_write, assumption, simp+)
  apply (rule verb_poll, assumption)
  apply (clarsimp simp: app_simps cq_view_length)
  apply (rule verb_reg [OF _ fresh], assumption)
   apply (rule regions_room [OF room]; simp)
  apply (clarsimp simp: app_simps split: if_split_asm)
  apply (rule verb_read [where n = 54, simplified], assumption, simp+)
  apply (rule verb_poll, assumption)
  apply (clarsimp simp: app_simps cq_view_length)
  apply (rule verb_read_local, assumption, simp, simp)
  apply (simp add: app_simps str_from_utf8_def unwrap_def)
  by (rule runs_finished, assumption) (simp add: one_sided_write_output_def)

lemma runs_finished_exact: "stage cfg k b L R q sl c \<Longrightarrow> out = out' \<Longrightarrow> runs (Ok (), (out, c)) (\<lambda>_ w. finished cfg out' w)"
  unfolding runs_def finished_def by (intro exI conjI) auto

lemma read_order: "rev [0..<4] = [3, 2, 1, 0 :: nat]"
  by code_simp

lemma one_sided_read_runs:
  assumes st: "stage cfg 0 0 L R [] sl c" and room: "regions cfg 3 768" and fresh: "fresh_keys env"
  shows "runs (one_sided_read (server_net env) (out, c)) (\<lambda>_ w. finished cfg (out @
    [say ''Populated remote MR with '', Dec 4, say '' records'', newline] @ concat (map read_line [3, 2, 1, 0])) w)"
  unfolding one_sided_read_def
  apply (rule verb_reg [OF st fresh])
   apply (rule regions_room [OF room]; simp)
  apply clarsimp
  apply (rule verb_reg [OF _ fresh], assumption)
   apply (rule regions_room [OF room]; simp)
  apply (clarsimp split: if_split_asm)
  apply (rule runs_seq)
   apply (rule populate_runs, assumption, simp, simp, simp, simp, simp, simp, simp, simp)
  apply clarsimp
  apply (rule verb_poll, assumption)
  apply (clarsimp simp: app_simps)
  apply (rule verb_reg [OF _ fresh], assumption)
   apply (rule regions_room [OF room]; simp)
  apply (clarsimp split: if_split_asm)
  apply (rule runs_seq)
   apply (rule read_records_runs, assumption, simp, simp, fastforce, simp, simp)
    apply (use record_facts in \<open>fastforce simp: str_from_utf8_def unwrap_def\<close>)
   apply simp
  apply clarsimp
  apply (rule verb_poll, assumption)
  apply (simp add: read_order)
  by (rule runs_finished_exact, assumption) simp

text \<open>The output of the example: three sends are accepted, the fourth is not.\<close>

definition err_rnr_demo_output :: "piece list" where
  "err_rnr_demo_output = send_line 1 True @ send_line 2 True @ send_line 3 True @ send_line 4 False @ alive_output @
     [newline, say ''Server receive queue exhausted after 3 SENDs. Connection remains usable for RDMA operations.'', newline]"

lemma sends_four: "sends_output (Suc 0) 4 3 = send_line 1 True @ send_line 2 True @ send_line 3 True @ send_line 4 False"
  by (simp add: eval_nat_numeral)

lemma err_rnr_demo_runs:
  assumes st: "stage cfg 0 0 L R [] 3 c" and room: "regions cfg 2 320" and fresh: "fresh_keys env"
  shows "runs (err_rnr_demo (server_net env) (out, c)) (\<lambda>_ w. finished cfg (out @ err_rnr_demo_output) w)"
  unfolding err_rnr_demo_def
  apply (rule verb_reg [OF st fresh])
   apply (rule regions_room [OF room]; simp)
  apply clarsimp
  apply (rule verb_write_local, assumption, simp, simp)
  apply clarsimp
  apply (rule runs_seq)
   apply (rule send_loop_runs, assumption, simp, simp add: length_put_slice, simp)
  apply clarsimp
  apply (rule runs_seq)
   apply (rule still_alive_runs [OF _ _ _ _ fresh], assumption, simp, simp add: length_put_slice)
   apply (rule regions_room [OF room]; simp)
  apply (clarsimp simp: app_simps sends_four)
  by (rule runs_finished_exact, assumption) (simp add: err_rnr_demo_output_def)

section \<open>Properties\<close>

definition hello :: "u16 \<Rightarrow> u32 \<Rightarrow> piece list" where
  "hello port session = [say ''Connecting to '', Text (embedded_url port), say ''...'', newline,
     say ''Session established (id: 0x'', Hex 8 (unat session), say '')'', newline]"

text \<open>
  The platform starts the embedded server with these limits, and the dialler reaches it.
\<close>

definition embeds :: "('cert, 'roots, 'tls, 'listener) platform \<Rightarrow> ('roots, 'tls, 'listener, server_peer) embedded_dialler
    \<Rightarrow> server_config \<Rightarrow> u16 \<Rightarrow> bool" where
  "embeds pf dial cfg port \<longleftrightarrow> (\<exists>em now. start_embedded_server pf cfg = (Ok em :: (boxed_error, _) result) \<and> em_port em = port \<and>
     dial em (embedded_url port) = Ok (Some SUBPROTOCOL, fresh_peer cfg now))"

lemma default_room: "regions server_config_default 3 12288" "cfg_max_outstanding_reads server_config_default \<noteq> 0"
  "unat (cfg_recv_queue_depth server_config_default) = 128"
  by (simp_all add: regions_def server_config_default_def)

lemma three_slots_room: "regions three_slots 3 12288" "cfg_max_outstanding_reads three_slots \<noteq> 0"
  "unat (cfg_recv_queue_depth three_slots) = 3"
  by (simp_all add: regions_def three_slots_def server_config_default_def)

lemma embeds_runs:
  assumes "embeds pf dial cfg port" and "cfg_max_outstanding_reads cfg \<noteq> 0" and "unat (cfg_recv_queue_depth cfg) < 16383"
    and "\<And>c. cn_session_id c = from_be (os_rng 0) \<Longrightarrow> stage cfg 0 0 Map.empty Map.empty [] (unat (cfg_recv_queue_depth cfg)) c \<Longrightarrow>
      runs (rest (if announce then [say ''Connecting to '', Text (embedded_url port), say ''...'', newline] else [], c)) (\<lambda>_ w. P (fst w))"
  shows "\<exists>out. with_connection (embedded_connect announce pf (server_net env) dial os_rng cfg) rest = (Ok (), out) \<and> P out"
  using assms connected_runs unfolding embeds_def by blast

lemma example_runs:
  assumes "embeds pf dial cfg port" and "cfg_max_outstanding_reads cfg \<noteq> 0" and "unat (cfg_recv_queue_depth cfg) < 16383"
    and body: "\<And>c. stage cfg 0 0 Map.empty Map.empty [] (unat (cfg_recv_queue_depth cfg)) c \<Longrightarrow>
      runs (body (hello port (from_be (os_rng 0)), c)) (\<lambda>_ w. \<exists>x. finished cfg (hello port (from_be (os_rng 0)) @ out x) w)"
  shows "\<exists>x. with_connection (embedded_connect True pf (server_net env) dial os_rng cfg)
    (\<lambda>w. sbind (println (session_line w) w) (\<lambda>_ w. and_disconnect (server_net env) bye (body w))) =
      (Ok (), hello port (from_be (os_rng 0)) @ out x @ [Text bye, newline])"
proof -
  let ?P = "\<lambda>o'. \<exists>x. o' = hello port (from_be (os_rng 0)) @ out x @ [Text bye, newline]"
  have "\<exists>o'. with_connection (embedded_connect True pf (server_net env) dial os_rng cfg)
    (\<lambda>w. sbind (println (session_line w) w) (\<lambda>_ w. and_disconnect (server_net env) bye (body w))) = (Ok (), o') \<and> ?P o'"
    by (rule embeds_runs [OF assms(1-3)])
      (use runs_and_disconnect [OF body] in \<open>simp add: app_simps session_line_def hello_def\<close>)
  then show ?thesis by auto
qed

text \<open>
  (C21) The examples work. On a platform that can start the embedded server, each of
  \<open>one_sided_write.rs\<close>, \<open>one_sided_read.rs\<close>, \<open>atomic_counter.rs\<close> and \<open>echo_send_recv.rs\<close> runs to its
  end: the assertions and the calls of \<open>unwrap\<close> succeed, and the output shows the payload read
  back, the records in reverse order, the counter at five and the completed send.
\<close>

theorem examples_succeed:
  assumes em: "embeds pf dial server_config_default port" and fresh: "fresh_keys env"
  shows "(\<exists>rk. one_sided_write_main pf (server_net env) dial os_rng =
      (Ok (), hello port (from_be (os_rng 0)) @ one_sided_write_output rk @ [say ''Disconnected.'', newline])) \<and>
    (\<exists>rk. atomic_counter_main pf (server_net env) dial os_rng =
      (Ok (), hello port (from_be (os_rng 0)) @ atomic_output rk @ [say ''Disconnected.'', newline])) \<and>
    (\<exists>lk rk. echo_send_recv_main pf (server_net env) dial os_rng =
      (Ok (), hello port (from_be (os_rng 0)) @ echo_output lk rk @ [say ''Disconnected.'', newline])) \<and>
    one_sided_read_main pf (server_net env) dial os_rng =
      (Ok (), [say ''Session 0x'', Hex 8 (unat (from_be (os_rng 0) :: u32)), say '' established'', newline,
        say ''Populated remote MR with '', Dec 4, say '' records'', newline] @ concat (map read_line [3, 2, 1, 0]) @ [say ''Done.'', newline])"
    (is "?put \<and> ?atomic \<and> ?echo \<and> ?read")
proof (intro conjI)
  note small = regions_less [OF default_room(1)]
  have depth: "unat (cfg_recv_queue_depth server_config_default) < 16383" by (simp add: default_room)
  show ?put
    unfolding one_sided_write_main_def
    by (rule example_runs [OF em default_room(2) depth]) (rule one_sided_write_runs [OF _ default_room(1) fresh])
  show ?atomic
    unfolding atomic_counter_main_def
    by (rule example_runs [OF em default_room(2) depth], rule demo_atomic_runs [OF _ _ fresh]) (simp_all add: small)
  have "\<exists>k. echo_send_recv_main pf (server_net env) dial os_rng =
      (Ok (), hello port (from_be (os_rng 0)) @ echo_output (fst k) (snd k) @ [say ''Disconnected.'', newline])"
    unfolding echo_send_recv_main_def
    by (rule example_runs [OF em default_room(2) depth]) (use send_greeting_runs [OF _ _ _ fresh] in \<open>simp add: small default_room\<close>)
  then show ?echo by auto
  have "\<exists>out. one_sided_read_main pf (server_net env) dial os_rng = (Ok (), out) \<and>
      out = [say ''Session 0x'', Hex 8 (unat (from_be (os_rng 0) :: u32)), say '' established'', newline,
        say ''Populated remote MR with '', Dec 4, say '' records'', newline] @ concat (map read_line [3, 2, 1, 0]) @ [say ''Done.'', newline]"
    unfolding one_sided_read_main_def
    by (rule embeds_runs [OF em default_room(2) depth], simp add: app_simps,
        rule runs_mono [OF runs_and_disconnect_exact [OF one_sided_read_runs [OF _ _ fresh]]], assumption)
      (simp_all add: small)
  then show ?read by simp
qed

text \<open>The sample platform's listener has port 40000.\<close>

lemma sample_embeds:
  "embeds sample_platform (\<lambda>_ _. Ok (Some SUBPROTOCOL, fresh_peer cfg 0)) cfg 40000"
  unfolding embeds_def start_embedded_server_def embedded_server_def unwrap_def
  by (rule exI, rule exI [of _ 0]) (simp add: sample_platform_def, rule conjI, rule refl, simp)

theorem examples_succeed_witness:
  "(\<exists>rk. one_sided_write_main sample_platform (server_net counting_env)
      (\<lambda>_ _. Ok (Some SUBPROTOCOL, fresh_peer server_config_default 0)) (\<lambda>_. [0, 0, 0, 7]) =
    (Ok (), hello 40000 (from_be [0, 0, 0, 7]) @ one_sided_write_output rk @ [say ''Disconnected.'', newline]))"
  using examples_succeed [OF sample_embeds counting_fresh, of "\<lambda>_. [0, 0, 0, 7]"] by blast

text \<open>
  The receive-queue example does what its comment says. With the embedded server's receive
  queue of three, exactly the first three sends are accepted, the fourth reports \<open>ERR_RNR\<close> and
  has a completion with that status, and the RDMA write afterwards succeeds.
\<close>

theorem err_rnr_example:
  assumes em: "embeds pf dial three_slots port" and fresh: "fresh_keys env"
  shows "err_rnr_demo_main pf (server_net env) dial os_rng =
    (Ok (), hello port (from_be (os_rng 0)) @ [newline] @ err_rnr_demo_output)"
proof -
  have depth: "unat (cfg_recv_queue_depth three_slots) < 16383" by (simp add: three_slots_room)
  have fin: "runs (sbind (err_rnr_demo (server_net env) (out, c)) (\<lambda>_ w. on_conn (disconnect (server_net env)) w))
      (\<lambda>_ w. fst w = out @ err_rnr_demo_output)" if "stage three_slots 0 0 Map.empty Map.empty [] 3 c" for out c
    by (rule runs_seq [OF err_rnr_demo_runs [OF that regions_less [OF three_slots_room(1)] fresh]])
      (use finished_disconnect [of three_slots _ _ env] in \<open>fastforce simp: runs_def\<close>)+
  have "\<exists>out. err_rnr_demo_main pf (server_net env) dial os_rng = (Ok (), out) \<and>
      out = hello port (from_be (os_rng 0)) @ [newline] @ err_rnr_demo_output"
    unfolding err_rnr_demo_main_def
    by (rule embeds_runs [OF em three_slots_room(2) depth], simp add: app_simps session_line_def three_slots_room,
        rule runs_mono [OF fin], assumption) (simp add: hello_def)
  then show ?thesis by simp
qed

theorem err_rnr_example_witness:
  "err_rnr_demo_main sample_platform (server_net counting_env)
      (\<lambda>_ _. Ok (Some SUBPROTOCOL, fresh_peer three_slots 0)) (\<lambda>_. [0, 0, 0, 7]) =
    (Ok (), hello 40000 (from_be [0, 0, 0, 7]) @ [newline] @ err_rnr_demo_output)"
  using err_rnr_example [OF sample_embeds counting_fresh, of "\<lambda>_. [0, 0, 0, 7]"] by blast

end
