(* ===== verification/Kv_Main.thy ===== *)
theory Kv_Main
  imports Kv_Api Examples
begin

text \<open>
  The main function of the key-value server (\<open>rdows-kv/src/main.rs\<close>), from the command line to
  the store that the HTTP listener serves. Serving requests is left to axum; what each request
  does is in \<open>Kv_Api\<close>.
\<close>

section \<open>Definitions\<close>

definition start_embedded :: "('cert, 'roots, 'tls, 'listener) platform \<Rightarrow> 'p network
    \<Rightarrow> ('roots, 'tls, 'listener, 'p) embedded_dialler \<Rightarrow> (nat \<Rightarrow> bytes) \<Rightarrow> u16
    \<Rightarrow> (boxed_error, 'p rdows_connection \<times> rstring) result" where
  "start_embedded pf net dial os_rng rdows_port =
     rbind (map_err Message (embedded_server pf (lit ''127.0.0.1:'' @ show_dec (unat rdows_port)) server_config_default)) (\<lambda>em.
     let url = embedded_url (em_port em) in
     rbind (map_err Rdows (connection_connect net (dial em) os_rng url)) (\<lambda>conn.
     Ok (conn, url)))"

text \<open>The connection: to a given server, or to an embedded one.\<close>

definition kv_connect :: "('cert, 'roots, 'tls, 'listener) platform \<Rightarrow> 'p network \<Rightarrow> ('roots client_tls \<Rightarrow> 'p dialler)
    \<Rightarrow> ('roots, 'tls, 'listener, 'p) embedded_dialler \<Rightarrow> (nat \<Rightarrow> bytes) \<Rightarrow> kv_args \<Rightarrow> unit app
    \<Rightarrow> (boxed_error, 'p rdows_connection \<times> rstring) result \<times> unit app" where
  "kv_connect pf net dial_remote dial os_rng args w =
     (case ka_remote args of
        Some remote_url \<Rightarrow>
          sbind (map_err Message (build_remote_tls_config pf (ka_cert args) (ka_insecure args)), w) (\<lambda>client_config w.
          sbind (println [say ''Connecting to remote RDoWS server: '', Text remote_url] w) (\<lambda>_ w.
          sbind (map_err Rdows (connection_connect net (dial_remote client_config) os_rng remote_url), w) (\<lambda>conn w.
          (Ok (conn, remote_url), w))))
      | None \<Rightarrow> (start_embedded pf net dial os_rng (ka_rdows_port args), w))"

text \<open>The start-up messages. The times sign is U+00D7.\<close>

definition kv_banner :: "rstring \<Rightarrow> u32 \<Rightarrow> rkey \<Rightarrow> u16 \<Rightarrow> piece list" where
  "kv_banner url session_id rkey http_port =
     [say ''RDoWS KV server starting...'', newline,
      say ''  RDoWS server: '', Text url, newline,
      say ''  Session: 0x'', Hex 8 (unat session_id), newline,
      say ''  Remote MR: R_Key=0x'', key_hex rkey, say '', '', Dec (unat MR_SIZE), say '' bytes ('', Dec SLOT_COUNT,
        say '' slots '', Text [0xC3, 0x97], say '' '', Dec SLOT_SIZE, say '' bytes)'', newline,
      say ''  HTTP UI: http://localhost:'', Dec (unat http_port), newline,
      newline,
      say ''Open http://localhost:'', Dec (unat http_port), say '' in your browser.'']"

text \<open>The result is the store and the listener with which the HTTP server runs.\<close>

definition kv_main :: "('cert, 'roots, 'tls, 'listener) platform \<Rightarrow> 'p network \<Rightarrow> ('roots client_tls \<Rightarrow> 'p dialler)
    \<Rightarrow> ('roots, 'tls, 'listener, 'p) embedded_dialler \<Rightarrow> (nat \<Rightarrow> bytes) \<Rightarrow> rstring list
    \<Rightarrow> (boxed_error, 'p kv_store \<times> 'listener) result \<times> unit app" where
  "kv_main pf net dial_remote dial os_rng argv =
     sbind (parse_args argv, ([], ())) (\<lambda>args w.
     sbind (kv_connect pf net dial_remote dial os_rng args w) (\<lambda>(conn, rdows_url) w.
     sbind (map_err Rdows (fst (kv_setup net conn)), w) (\<lambda>store w.
     sbind (println (kv_banner rdows_url (cn_session_id conn) (kv_remote_rkey store) (ka_http_port args)) w) (\<lambda>_ w.
     sbind (map_err Message (bind_listener pf (lit ''0.0.0.0:'' @ show_dec (unat (ka_http_port args)))), w) (\<lambda>http_listener w.
     (Ok (store, http_listener), w))))))"

section \<open>Lemmas\<close>

lemma kv_sizes: "unat MR_SIZE = SLOT_COUNT * SLOT_SIZE" "unat (of_nat SLOT_SIZE :: u64) = SLOT_SIZE"
  by (simp_all add: MR_SIZE_def slot_layout)

text \<open>An empty store, in terms of the RDMA machine.\<close>

lemma kv_ready_machine:
  assumes h: "holds cfg k b m c" and m: "rd_queue m = []" "rd_capacity m = 65536" "rd_max_msg m = 16777216"
    and r: "rd_remote m rk = Some \<lparr>rg_access = af_bitor REMOTE_WRITE REMOTE_READ, rg_lkey = lk1,
      rg_bytes = replicate (unat MR_SIZE) 0\<rparr>"
    and l: "rd_local m lk = Some (replicate SLOT_SIZE 0)" and n: "n + 2 < usize_limit"
  shows "kv_ready cfg n (kv_store_new c session rk lk)" and "decodes (kv_slot (kv_store_new c session rk lk)) (\<lambda>_. None)"
proof -
  have mc: "machine_of c = m" and link: "linked cfg c" using h by (simp_all add: holds_def)
  obtain e where e: "mr_lookup (remote c) rk = Some e" "me_access_flags e = af_bitor REMOTE_WRITE REMOTE_READ"
      "me_data e = replicate (SLOT_COUNT * SLOT_SIZE) 0"
    using arg_cong [OF mc, of "\<lambda>m. rd_remote m rk"] r kv_sizes by (auto simp: machine_of_def region_view_def)
  have "local_bytes c lk = Some (replicate SLOT_SIZE 0)" "cq_entries (cn_cq c) = []" "cq_capacity (cn_cq c) = 65536"
      "unat (se_max_msg_size (peer_session c)) = 16777216"
    using arg_cong [OF mc, of "\<lambda>m. rd_local m lk"] arg_cong [OF mc, of rd_queue] arg_cong [OF mc, of rd_capacity]
      arg_cong [OF mc, of rd_max_msg] m l by (simp_all add: machine_of_def)
  then show "kv_ready cfg n (kv_store_new c session rk lk)" using link e n
    by (auto simp: kv_ready_def kv_store_new_def linked_def mr_bytes_def mr_allows_def slot_layout)
  show "decodes (kv_slot (kv_store_new c session rk lk)) (\<lambda>_. None)"
    using slot_va(2) e by (simp add: decodes_def kv_slot_def kv_store_new_def mr_bytes_def sub_slice_replicate decode_zero_slot)
qed

text \<open>The set-up of the store on a new connection, with any source of fresh keys.\<close>

lemma kv_setup_fresh:
  assumes st: "stage cfg 0 0 Map.empty Map.empty [] sl c" and fresh: "fresh_keys env" and n: "n + 2 < usize_limit"
    and room: "regions cfg 2 (unat MR_SIZE + SLOT_SIZE)"
  shows "\<exists>kv. fst (kv_setup (server_net env) c) = Ok kv \<and> kv_ready cfg n kv \<and> decodes (kv_slot kv) (\<lambda>_. None)"
proof -
  obtain m where m: "holds cfg 0 0 m c" "rd_queue m = []" "rd_capacity m = 65536" "rd_max_msg m = 16777216"
    using st by (auto simp: stage_def cq_view_def)
  have "runs (kv_setup (server_net env) c) (\<lambda>kv _. kv_ready cfg n kv \<and> decodes (kv_slot kv) (\<lambda>_. None))"
    unfolding kv_setup_def Let_def
    apply (rule runs_bind, rule runs_reg_mr [OF m(1) fresh])
     apply (rule regions_room [OF room]; simp add: kv_sizes slot_layout)
    apply (rule runs_bind, rule runs_reg_mr [OF _ fresh], assumption)
     apply (rule regions_room [OF room]; simp add: kv_sizes slot_layout)
    apply (rule runs_Ok, simp split: if_split_asm)
    apply (intro conjI; rule kv_ready_machine, assumption)
    using m n kv_sizes by simp_all
  then show ?thesis by (auto simp: runs_def)
qed

section \<open>Properties\<close>

text \<open>
  (C12) The key-value server starts. When its command line parses and names no remote server, the
  embedded server comes up and the HTTP port can be bound, it serves a store whose table is in
  the embedded server's memory and empty, after the start-up messages; the store is good for
  any number of accesses that the work request ids suffice for.
\<close>

theorem kv_main_serves:
  assumes args: "parse_args argv = Ok args" "ka_remote args = None"
    and em: "embedded_server pf (lit ''127.0.0.1:'' @ show_dec (unat (ka_rdows_port args))) server_config_default = Ok em"
    and dial: "dial em (embedded_url (em_port em)) = Ok (Some SUBPROTOCOL, fresh_peer server_config_default now)"
    and http: "bind_listener pf (lit ''0.0.0.0:'' @ show_dec (unat (ka_http_port args))) = Ok listener"
    and fresh: "fresh_keys env" and n: "n + 2 < usize_limit"
  shows "\<exists>kv. kv_main pf (server_net env) dial_remote dial os_rng argv = (Ok (kv, listener),
      (kv_banner (embedded_url (em_port em)) (from_be (os_rng 0)) (kv_remote_rkey kv) (ka_http_port args) @ [newline], ())) \<and>
    kv_ready server_config_default n kv \<and> decodes (kv_slot kv) (\<lambda>_. None)"
proof -
  have depth: "unat (cfg_recv_queue_depth server_config_default) < 16383" by (simp add: default_room)
  obtain c where c: "connection_connect (server_net env) (dial em) os_rng (embedded_url (em_port em)) = Ok c"
      "cn_session_id c = from_be (os_rng 0)"
      "stage server_config_default 0 0 Map.empty Map.empty [] (unat (cfg_recv_queue_depth server_config_default)) c"
    by (rule connected_stage [of _ "dial em" server_config_default now env os_rng, OF embedded_url_secure dial default_room(2) depth])
  have "regions server_config_default 2 (unat MR_SIZE + SLOT_SIZE)"
    by (simp add: regions_def server_config_default_def kv_sizes slot_layout)
  then obtain kv where "fst (kv_setup (server_net env) c) = Ok kv" "kv_ready server_config_default n kv" "decodes (kv_slot kv) (\<lambda>_. None)"
    using kv_setup_fresh [OF c(3) fresh n] by blast
  then show ?thesis
    using assms c by (auto simp: kv_main_def kv_connect_def start_embedded_def app_simps Let_def)
qed

theorem kv_main_serves_witness:
  "\<exists>kv. kv_main sample_platform (server_net counting_env) (\<lambda>_ _. Err (Protocol ErrRnr))
      (\<lambda>_ _. Ok (Some SUBPROTOCOL, fresh_peer server_config_default 0)) (\<lambda>_. [0, 0, 0, 7]) [lit ''rdows-kv'', lit ''--insecure''] =
    (Ok (kv, ()), (kv_banner (embedded_url 40000) (from_be [0, 0, 0, 7]) (kv_remote_rkey kv) 8080 @ [newline], ())) \<and>
    kv_ready server_config_default 1000 kv"
proof -
  let ?em = "\<lparr>em_listener = (), em_acceptor = \<lparr>st_config = (), st_key_log = True\<rparr>, em_config = server_config_default,
    em_port = 40000, em_client_tls = \<lparr>ct_verifier = RootCertificates {9 :: nat}, ct_key_log = True\<rparr>\<rparr>"
  have "parse_args [lit ''rdows-kv'', lit ''--insecure''] = Ok (kv_args_default\<lparr>ka_insecure := True\<rparr>)"
    by (simp add: parse_args_def)
  moreover have "embedded_server sample_platform addr server_config_default = Ok ?em" for addr
    by (simp add: embedded_server_def sample_platform_def)
  moreover have "bind_listener sample_platform addr = Ok ()" for addr by (simp add: sample_platform_def)
  ultimately show ?thesis
    using kv_main_serves [where argv = "[lit ''rdows-kv'', lit ''--insecure'']" and pf = sample_platform and em = ?em and now = 0 and n = 1000
        and env = counting_env and os_rng = "\<lambda>_. [0, 0, 0, 7]" and dial_remote = "\<lambda>_ _. Err (Protocol ErrRnr)"
        and dial = "\<lambda>_ _. Ok (Some SUBPROTOCOL, fresh_peer server_config_default 0)"] counting_fresh
    by (auto simp: kv_args_default_def)
qed

end
