(* ===== verification/Tracker.thy ===== *)
theory Tracker
  imports Server_Props "HOL-Library.Multiset"
begin

text \<open>
  The accept loop and the per-address session limit of \<open>rdows-server/src/lib.rs\<close>. Every
  accepted TCP connection runs \<open>handle_connection\<close> in a task of its own; the tasks share the
  table of session counts. The steps of the tasks interleave at their awaits, so the server is
  a transition system over the table and the tasks: admission, the TLS handshake, the
  WebSocket upgrade, and the session. TLS and the upgrade are outside the sources; both of
  their outcomes are steps. A task that panics ends without running the code after the panic.
\<close>

section \<open>Definitions\<close>

type_synonym 'ip session_tracker = "('ip, u32) fmap"

text \<open>The limit check at the start of \<open>handle_connection\<close>.\<close>

definition admit :: "server_config \<Rightarrow> 'ip \<Rightarrow> 'ip session_tracker
    \<Rightarrow> (rstring, unit) result \<times> 'ip session_tracker" where
  "admit config ip tracker =
     (let n = (case fmlookup tracker ip of Some n \<Rightarrow> n | None \<Rightarrow> 0);
          tracker = fmupd ip n tracker
      in
      if n \<ge> cfg_max_sessions_per_ip config
      then (Err (lit ''per-IP session limit exceeded''), tracker)
      else
        sbind (u32_add n 1, tracker) (\<lambda>n tracker. (Ok (), fmupd ip n tracker)))"

text \<open>The decrement that follows a failed handshake, a failed upgrade and a finished session.\<close>

definition release :: "'ip \<Rightarrow> 'ip session_tracker \<Rightarrow> (rstring, unit) result \<times> 'ip session_tracker" where
  "release ip tracker =
     (case fmlookup tracker ip of
        Some n \<Rightarrow>
          sbind (u32_sub n 1, tracker) (\<lambda>n tracker.
          let tracker = fmupd ip n tracker in
          (Ok (), if n = 0 then fmdrop ip tracker else tracker))
      | None \<Rightarrow> (Ok (), tracker))"

text \<open>Where a task of \<open>handle_connection\<close> stands after it was admitted.\<close>

datatype phase =
    Handshaking
  | Upgrading
  | Serving
  | Crashed

type_synonym 'ip server = "'ip session_tracker \<times> ('ip \<times> phase) multiset"

definition server_new :: "'ip server" where
  "server_new = (fmempty, {#})"

inductive server_step :: "server_config \<Rightarrow> 'ip server \<Rightarrow> 'ip server \<Rightarrow> bool" for config where
  accepted: "admit config ip tracker = (Ok (), tracker') \<Longrightarrow>
    server_step config (tracker, tasks) (tracker', add_mset (ip, Handshaking) tasks)"
| rejected: "admit config ip tracker = (Err e, tracker') \<Longrightarrow>
    server_step config (tracker, tasks) (tracker', tasks)"
| tls_ok: "server_step config (tracker, add_mset (ip, Handshaking) tasks)
    (tracker, add_mset (ip, Upgrading) tasks)"
| tls_failed: "release ip tracker = (Ok (), tracker') \<Longrightarrow>
    server_step config (tracker, add_mset (ip, Handshaking) tasks) (tracker', tasks)"
| ws_ok: "server_step config (tracker, add_mset (ip, Upgrading) tasks)
    (tracker, add_mset (ip, Serving) tasks)"
| ws_failed: "release ip tracker = (Ok (), tracker') \<Longrightarrow>
    server_step config (tracker, add_mset (ip, Upgrading) tasks) (tracker', tasks)"
| session_ended: "fst (run_session config now outcome stream) = Ok () \<Longrightarrow>
    release ip tracker = (Ok (), tracker') \<Longrightarrow>
    server_step config (tracker, add_mset (ip, Serving) tasks) (tracker', tasks)"
| session_panicked: "fst (run_session config now outcome stream) = Panic \<Longrightarrow>
    server_step config (tracker, add_mset (ip, Serving) tasks) (tracker, add_mset (ip, Crashed) tasks)"

inductive server_reach :: "server_config \<Rightarrow> 'ip server \<Rightarrow> 'ip server \<Rightarrow> bool" for config where
  start: "server_reach config sv sv"
| more: "server_reach config sv sv' \<Longrightarrow> server_step config sv' sv'' \<Longrightarrow> server_reach config sv sv''"

text \<open>The tasks of one address, and those of them that still run.\<close>

definition tasks_of :: "'ip \<Rightarrow> ('ip \<times> phase) multiset \<Rightarrow> nat" where
  "tasks_of ip tasks = size (filter_mset (\<lambda>t. fst t = ip) tasks)"

definition running_of :: "'ip \<Rightarrow> ('ip \<times> phase) multiset \<Rightarrow> nat" where
  "running_of ip tasks = size (filter_mset (\<lambda>t. fst t = ip \<and> snd t \<noteq> Crashed) tasks)"

definition crashed_of :: "'ip \<Rightarrow> ('ip \<times> phase) multiset \<Rightarrow> nat" where
  "crashed_of ip tasks = count tasks (ip, Crashed)"

text \<open>The table counts the tasks of each address and keeps no entry for an address without any.\<close>

definition entry_ok :: "u32 \<Rightarrow> nat \<Rightarrow> u32 option \<Rightarrow> bool" where
  "entry_ok limit n entry \<longleftrightarrow> n \<le> unat limit \<and>
     (case entry of None \<Rightarrow> n = 0 | Some k \<Rightarrow> unat k = n \<and> (n = 0 \<longrightarrow> limit = 0))"

fun tracker_ok :: "server_config \<Rightarrow> 'ip server \<Rightarrow> bool" where
  "tracker_ok config (tracker, tasks) \<longleftrightarrow>
     (\<forall>ip. entry_ok (cfg_max_sessions_per_ip config) (tasks_of ip tasks) (fmlookup tracker ip))"

section \<open>Lemmas\<close>

lemma tasks_of_simps [simp]:
  "tasks_of ip {#} = 0"
  "tasks_of ip (add_mset (ip', ph) tasks) = (if ip' = ip then 1 else 0) + tasks_of ip tasks"
  by (simp_all add: tasks_of_def)

lemma tasks_of_split: "tasks_of ip tasks = running_of ip tasks + crashed_of ip tasks"
  by (induction tasks) (auto simp: tasks_of_def running_of_def crashed_of_def)

lemma tracker_okD:
  assumes "tracker_ok config (tracker, tasks)"
  shows "tasks_of ip tasks \<le> unat (cfg_max_sessions_per_ip config)"
    and "fmlookup tracker ip = None \<Longrightarrow> tasks_of ip tasks = 0"
    and "fmlookup tracker ip = Some n \<Longrightarrow> unat n = tasks_of ip tasks"
  using assms by (auto simp: entry_ok_def dest: spec [of _ ip])

lemma unat_eq_zero: "unat (n :: u32) = 0 \<Longrightarrow> n = 0"
  by (simp add: unsigned_eq_0_iff)

lemma of_nat_entry: "unat (n :: u32) = k \<Longrightarrow> n = of_nat k"
  by (auto simp: unsigned_eq_0_iff)

lemma admit_eq:
  assumes "tracker_ok config (tracker, tasks)"
  shows "admit config ip tracker =
    (if tasks_of ip tasks \<ge> unat (cfg_max_sessions_per_ip config)
     then (Err (lit ''per-IP session limit exceeded''), fmupd ip (of_nat (tasks_of ip tasks)) tracker)
     else (Ok (), fmupd ip (of_nat (tasks_of ip tasks + 1)) tracker))"
proof -
  let ?n = "case fmlookup tracker ip of Some n \<Rightarrow> n | None \<Rightarrow> 0"
  have n: "unat ?n = tasks_of ip tasks"
    using tracker_okD(2,3) [OF assms, of ip] by (auto split: option.split)
  then have "?n = of_nat (tasks_of ip tasks)" by (rule of_nat_entry)
  with n show ?thesis
    using unat_less_u32 [of "cfg_max_sessions_per_ip config"]
    by (auto simp: admit_def Let_def u32_add_def word_le_nat_alt not_le add.commute)
qed

lemma release_eq:
  assumes "tracker_ok config (tracker, tasks)" and "tasks_of ip tasks = Suc k"
  shows "release ip tracker = (Ok (), if k = 0 then fmdrop ip tracker else fmupd ip (of_nat k) tracker)"
proof -
  obtain n where n: "fmlookup tracker ip = Some n" "unat n = Suc k"
    using tracker_okD(2,3) [OF assms(1), of ip] assms(2) by (cases "fmlookup tracker ip") auto
  have "n = of_nat (Suc k)" using n(2) by (rule of_nat_entry)
  then have pred: "n - 1 = of_nat k" by simp
  have k: "unat (of_nat k :: u32) = k"
    using unat_less_u32 [of n] n(2) by (intro unat_of_nat_u32) simp
  have zero: "(of_nat k :: u32) = 0 \<longleftrightarrow> k = 0"
  proof
    assume "(of_nat k :: u32) = 0"
    with k show "k = 0" by simp
  qed simp
  have "1 \<le> n" using n(2) by (simp add: word_le_nat_alt)
  then have "release ip tracker = (Ok (), if k = 0 then fmdrop ip (fmupd ip (of_nat k) tracker)
      else fmupd ip (of_nat k) tracker)"
    unfolding release_def n(1) u32_sub_def by (simp add: pred zero Let_def)
  then show ?thesis by (simp add: fmdrop_fmupd_same)
qed

lemma tracker_ok_upd:
  assumes "tracker_ok config (tracker, tasks)" and "\<And>i. i \<noteq> ip \<Longrightarrow> tasks_of i tasks' = tasks_of i tasks"
    and "tasks_of ip tasks' \<le> unat (cfg_max_sessions_per_ip config)"
    and "tasks_of ip tasks' = 0 \<Longrightarrow> cfg_max_sessions_per_ip config = 0"
  shows "tracker_ok config (fmupd ip (of_nat (tasks_of ip tasks')) tracker, tasks')"
proof -
  have "tasks_of ip tasks' < 4294967296"
    using assms(3) unat_less_u32 [of "cfg_max_sessions_per_ip config"] by linarith
  then have "unat (of_nat (tasks_of ip tasks') :: u32) = tasks_of ip tasks'" by (rule unat_of_nat_u32)
  then have "entry_ok (cfg_max_sessions_per_ip config) (tasks_of ip tasks') (Some (of_nat (tasks_of ip tasks')))"
    using assms(3,4) by (simp add: entry_ok_def)
  then show ?thesis using assms(1,2) by auto
qed

lemma tracker_ok_drop:
  assumes "tracker_ok config (tracker, tasks)" and "\<And>i. i \<noteq> ip \<Longrightarrow> tasks_of i tasks' = tasks_of i tasks"
    and "tasks_of ip tasks' = 0"
  shows "tracker_ok config (fmdrop ip tracker, tasks')"
proof -
  have "entry_ok (cfg_max_sessions_per_ip config) (tasks_of ip tasks') None"
    using assms(3) by (simp add: entry_ok_def)
  then show ?thesis using assms(1,2) by auto
qed

lemma release_ok:
  assumes ok: "tracker_ok config (tracker, add_mset (ip, ph) tasks)" and "release ip tracker = (Ok (), tracker')"
  shows "tracker_ok config (tracker', tasks)"
proof -
  have "tasks_of ip (add_mset (ip, ph) tasks) = Suc (tasks_of ip tasks)" by simp
  from release_eq [OF ok this] assms(2)
  have t: "tracker' = (if tasks_of ip tasks = 0 then fmdrop ip tracker
      else fmupd ip (of_nat (tasks_of ip tasks)) tracker)" by simp
  have "tasks_of ip tasks \<le> unat (cfg_max_sessions_per_ip config)"
    using tracker_okD(1) [OF ok, of ip] by simp
  then show ?thesis
    unfolding t using tracker_ok_drop [OF ok, of ip tasks] tracker_ok_upd [OF ok, of ip tasks] by simp
qed

lemma admit_ok:
  assumes ok: "tracker_ok config (tracker, tasks)" and ad: "admit config ip tracker = (r, tracker')"
  shows "r = Ok () \<Longrightarrow> tracker_ok config (tracker', add_mset (ip, ph) tasks)"
    and "r \<noteq> Ok () \<Longrightarrow> tracker_ok config (tracker', tasks)"
proof -
  note eq = ad [unfolded admit_eq [OF ok]]
  show "r = Ok () \<Longrightarrow> tracker_ok config (tracker', add_mset (ip, ph) tasks)"
    using eq tracker_ok_upd [OF ok, of ip "add_mset (ip, ph) tasks"]
    by (simp split: if_split_asm del: tracker_ok.simps)
  show "r \<noteq> Ok () \<Longrightarrow> tracker_ok config (tracker', tasks)"
    using eq tracker_ok_upd [OF ok, of ip tasks] tracker_okD(1) [OF ok, of ip]
      unat_eq_zero [of "cfg_max_sessions_per_ip config"]
    by (auto split: if_split_asm simp del: tracker_ok.simps)
qed

lemma server_step_ok: "server_step config sv sv' \<Longrightarrow> tracker_ok config sv \<Longrightarrow> tracker_ok config sv'"
proof (induction rule: server_step.induct)
  case (accepted ip tracker tracker' tasks)
  show ?case by (rule admit_ok(1) [OF accepted.prems accepted.hyps refl])
next
  case (rejected ip tracker e tracker' tasks)
  show ?case by (rule admit_ok(2) [OF rejected.prems rejected.hyps]) simp
next
  case (tls_failed ip tracker tracker' tasks)
  show ?case by (rule release_ok [OF tls_failed.prems tls_failed.hyps])
next
  case (ws_failed ip tracker tracker' tasks)
  show ?case by (rule release_ok [OF ws_failed.prems ws_failed.hyps])
next
  case (session_ended now outcome stream ip tracker tracker' tasks)
  show ?case by (rule release_ok [OF session_ended.prems session_ended.hyps(2)])
qed simp_all

lemma server_reach_ok: "server_reach config sv sv' \<Longrightarrow> tracker_ok config sv \<Longrightarrow> tracker_ok config sv'"
  by (induction rule: server_reach.induct) (auto intro: server_step_ok)

lemma server_new_ok: "tracker_ok config server_new"
  by (simp add: entry_ok_def server_new_def)

lemma crashed_step: "server_step config sv sv' \<Longrightarrow> crashed_of ip (snd sv) \<le> crashed_of ip (snd sv')"
  by (induction rule: server_step.induct) (auto simp: crashed_of_def)

lemma crashed_reach: "server_reach config sv sv' \<Longrightarrow> crashed_of ip (snd sv) \<le> crashed_of ip (snd sv')"
  by (induction rule: server_reach.induct) (auto dest: crashed_step [of _ _ _ ip])

lemma reach_trans: "server_reach config sv' sv'' \<Longrightarrow> server_reach config sv sv' \<Longrightarrow> server_reach config sv sv''"
  by (induction rule: server_reach.induct) (auto intro: server_reach.more)

section \<open>Properties\<close>

text \<open>
  (C13) The per-address limit holds however the connection tasks interleave: at most
  \<open>max_sessions_per_ip\<close> connections of an address are past admission at any time. The table
  entry of an address counts its running tasks and those that crashed, and when an address
  has neither, it has no entry (unless the limit is zero).
\<close>

theorem ip_limit_respected:
  assumes "server_reach config server_new (tracker, tasks)"
  shows "running_of ip tasks + crashed_of ip tasks \<le> unat (cfg_max_sessions_per_ip config) \<and>
    (case fmlookup tracker ip of
       Some n \<Rightarrow> unat n = running_of ip tasks + crashed_of ip tasks
     | None \<Rightarrow> running_of ip tasks + crashed_of ip tasks = 0) \<and>
    (running_of ip tasks + crashed_of ip tasks = 0 \<and> cfg_max_sessions_per_ip config \<noteq> 0 \<longrightarrow>
       fmlookup tracker ip = None)"
  using server_reach_ok [OF assms server_new_ok] unfolding tasks_of_split [symmetric]
  by (auto simp: entry_ok_def split: option.splits dest: spec [of _ ip])

text \<open>
  The counting itself never fails: in every reachable state admission returns or refuses
  (the increment cannot overflow), and the decrement of any task that is still counted
  returns (it finds its entry and cannot underflow).
\<close>

theorem tracker_never_panics:
  assumes "server_reach config server_new (tracker, tasks)"
  shows "fst (admit config ip tracker) \<noteq> Panic \<and> fst (admit config ip tracker) \<noteq> Blocked \<and>
    ((ip, ph) \<in># tasks \<longrightarrow> (\<exists>n. fmlookup tracker ip = Some n \<and> n \<noteq> 0) \<and> fst (release ip tracker) = Ok ())"
proof -
  have ok: "tracker_ok config (tracker, tasks)" using server_reach_ok [OF assms server_new_ok] .
  have "(\<exists>n. fmlookup tracker ip = Some n \<and> n \<noteq> 0) \<and> fst (release ip tracker) = Ok ()"
    if mem: "(ip, ph) \<in># tasks"
  proof -
    obtain rest where "tasks = add_mset (ip, ph) rest" using mem by (blast dest: multi_member_split)
    then have k: "tasks_of ip tasks = Suc (tasks_of ip rest)" by simp
    have "\<exists>n. fmlookup tracker ip = Some n \<and> n \<noteq> 0"
      using tracker_okD(2,3) [OF ok, of ip] k by (cases "fmlookup tracker ip") auto
    with release_eq [OF ok k] show ?thesis by simp
  qed
  then show ?thesis using admit_eq [OF ok, of ip] by simp
qed

text \<open>
  (C37) A session that panics never gives its slot back: once as many sessions of an address
  have panicked as the limit allows, every later connection from that address is refused, in
  every state the server can reach from there.
\<close>

theorem panics_lock_out_address:
  assumes "server_reach config server_new (tracker, tasks)"
    and "unat (cfg_max_sessions_per_ip config) \<le> crashed_of ip tasks"
    and "server_reach config (tracker, tasks) (tracker', tasks')"
  shows "fst (admit config ip tracker') = Err (lit ''per-IP session limit exceeded'')"
proof -
  have "tracker_ok config (tracker', tasks')"
    using server_reach_ok [OF reach_trans [OF assms(3,1)] server_new_ok] .
  moreover have "unat (cfg_max_sessions_per_ip config) \<le> tasks_of ip tasks'"
    using crashed_reach [OF assms(3), of ip] assms(2) by (simp add: tasks_of_split)
  ultimately show ?thesis by (simp add: admit_eq del: tracker_ok.simps)
qed

subsection \<open>One address, one crash\<close>

definition one_session :: server_config where
  "one_session = sample_cfg\<lparr>cfg_max_sessions_per_ip := 1\<rparr>"

lemma one_crash: "server_reach one_session server_new (fmupd (7 :: nat) 1 fmempty, {#(7, Crashed)#})"
proof -
  let ?t = "fmupd (7 :: nat) 1 fmempty"
  have 1: "server_step one_session server_new (?t, {#(7, Handshaking)#})"
    unfolding server_new_def by (rule accepted)
      (simp add: admit_def one_session_def u32_add_def Let_def)
  have 2: "server_step one_session (?t, {#(7, Handshaking)#}) (?t, {#(7, Upgrading)#})"
    by (rule tls_ok)
  have 3: "server_step one_session (?t, {#(7, Upgrading)#}) (?t, {#(7, Serving)#})"
    by (rule ws_ok)
  have 4: "server_step one_session (?t, {#(7, Serving)#}) (?t, {#(7, Crashed)#})"
    by (rule session_panicked [of _ 0 "\<lambda>_. Ok ()" "[\<lparr>ar_event = Binary evil_frame, ar_now = 0, ar_rng = \<lambda>_. []\<rparr>]"])
      (simp add: run_session_def evil_frame_panics)
  show ?thesis
    by (rule server_reach.more [OF server_reach.more [OF server_reach.more [OF server_reach.more
      [OF server_reach.start 1] 2] 3] 4])
qed

theorem ip_limit_respected_witness:
  "running_of 7 {#(7 :: nat, Crashed)#} + crashed_of 7 {#(7 :: nat, Crashed)#} \<le> 1"
  using ip_limit_respected [OF one_crash, of 7] by (simp add: one_session_def)

theorem tracker_never_panics_witness:
  "fst (release 7 (fmupd (7 :: nat) 1 fmempty)) = Ok ()"
  using tracker_never_panics [OF one_crash, of 7 Crashed] by simp

theorem panics_lock_out_address_witness:
  "fst (admit one_session 7 (fmupd (7 :: nat) 1 fmempty)) = Err (lit ''per-IP session limit exceeded'')"
  using panics_lock_out_address [OF one_crash _ server_reach.start, of 7]
  by (simp add: one_session_def crashed_of_def)

end
