(* ===== verification/Verb_Props.thy ===== *)
theory Verb_Props
  imports Verbs
begin

text \<open>
  Properties of the client that hold for every network: how a verb's result shows in the
  completion queue, what the receive loop does with credit updates, and reading back what was
  written to a local region.
\<close>

section \<open>Definitions\<close>

text \<open>
  A verb with this work request id and opcode added at most one entry to the completion
  queue. An entry it added carries its id and opcode and the status of its result: zero when
  the verb succeeded, the error code when it failed with one. A verb that succeeded did add
  an entry.
\<close>

definition is_Ok :: "('e, 'a) result \<Rightarrow> bool" where
  "is_Ok r \<longleftrightarrow> (\<exists>x. r = Ok x)"

definition has_status :: "u16 \<Rightarrow> (rdows_error, 'a) result \<Rightarrow> bool" where
  "has_status status r \<longleftrightarrow> (case r of
     Ok _ \<Rightarrow> status = 0 | Err (Protocol code) \<Rightarrow> status = error_code_to_u16 code | _ \<Rightarrow> False)"

definition reports :: "u64 \<Rightarrow> opcode \<Rightarrow> 'p rdows_connection \<Rightarrow> (rdows_error, 'a) result \<times> 'p rdows_connection \<Rightarrow> bool" where
  "reports wrid op c out \<longleftrightarrow> (\<exists>es.
     cq_entries (cn_cq (snd out)) = cq_entries (cn_cq c) @ es \<and> length es \<le> 1 \<and>
     (\<forall>e \<in> set es. cqe_wrid e = WorkRequestId wrid \<and> cqe_opcode e = op \<and>
        has_status (cqe_status e) (fst out)) \<and>
     (is_Ok (fst out) \<longrightarrow> es \<noteq> []))"

section \<open>Lemmas\<close>

lemma is_Ok_simps [simp]: "is_Ok (Ok x)" "\<not> is_Ok (Err e)" "\<not> is_Ok Panic" "\<not> is_Ok Blocked"
  by (simp_all add: is_Ok_def)

text \<open>The part of a connection that only the verbs themselves change.\<close>

definition core :: "'p rdows_connection \<Rightarrow> completion_queue \<times> u32 \<times> (u32, memory_region_handle) fmap" where
  "core c = (cn_cq c, cn_session_id c, cn_local_mrs c)"

lemma core_updates [simp]:
  "core (c\<lparr>cn_socket := so\<rparr>) = core c" "core (c\<lparr>cn_next_seq := n\<rparr>) = core c"
  "core (c\<lparr>cn_expected_remote_seq := e\<rparr>) = core c" "core (c\<lparr>cn_send_credits := k\<rparr>) = core c"
  by (simp_all add: core_def)

lemma core_bind:
  assumes "core (snd m) = v" and "\<And>x s. m = (Ok x, s) \<Longrightarrow> core (snd (f x s)) = v"
  shows "core (snd (sbind m f)) = v"
  using assms by (cases "(m, f)" rule: sbind.cases) auto

lemma cn_send_core [simp]: "core (snd (cn_send net m c)) = core c"
  by (simp add: cn_send_def split: prod.split)

lemma cn_recv_core [simp]: "core (snd (cn_recv c)) = core c"
  by (simp add: cn_recv_def split: prod.split)

lemma validate_remote_seq_core [simp]: "core (snd (validate_remote_seq m c)) = core c"
  by (simp add: validate_remote_seq_def Let_def split: option.split)

lemma recv_app_message_core [simp]: "core (snd (recv_app_message c)) = core c"
proof (induction c rule: recv_app_message.induct)
  case (1 c)
  show ?case
  proof (subst recv_app_message.simps, intro core_bind)
    fix m c1 u c2
    assume rc: "cn_recv c = (Ok m, c1)" and v: "validate_remote_seq m c1 = (Ok u, c2)"
    have eq: "core c2 = core c"
      using cn_recv_core [of c] validate_remote_seq_core [of m c1] rc v by simp
    have "core (snd (recv_app_message (c2\<lparr>cn_send_credits := n\<rparr>))) = core c"
      if "m = CreditUpdate h p" "u32_add (cn_send_credits c2) (cu_credit_increment p) = (Ok n :: (rdows_error, u32) result)"
      for h p n
      using 1 [OF rc v that(1)] that(2) eq by simp
    then show "core (snd (case m of
        CreditUpdate header payload \<Rightarrow>
          sbind (u32_add (cn_send_credits c2) (cu_credit_increment payload), c2) (\<lambda>credits c.
          recv_app_message (c\<lparr>cn_send_credits := credits\<rparr>))
      | other \<Rightarrow> (Ok other, c2))) = core c"
      using eq by (cases m) (auto intro: core_bind)
  qed (use cn_recv_core [of c] in \<open>auto dest: arg_cong [where f = "core \<circ> snd"]\<close>)
qed

lemma cq_of_core: "core c = core c' \<Longrightarrow> cn_cq c = cn_cq c' \<and> cn_session_id c = cn_session_id c' \<and>
    cn_local_mrs c = cn_local_mrs c'"
  by (simp add: core_def)

text \<open>How a verb reports: it stops early, or it ends in one of three ways after the response.\<close>

lemma reports_stopped: "core (snd out) = core c \<Longrightarrow> \<not> is_Ok (fst out) \<Longrightarrow> reports wrid op c out"
  by (auto simp: reports_def dest!: cq_of_core intro: exI [of _ "[]"])

lemma reports_complete:
  assumes "\<not> cq_is_full (cn_cq c)" and "cn_cq c' = cn_cq c"
    and "has_status status r"
  shows "reports wrid op c (r, cn_complete wrid status op n c')"
  using assms by (simp add: reports_def cn_complete_def cq_push_def cq_is_full_def)

lemma reports_bind:
  assumes "core (snd m) = core c" and "\<And>x s. m = (Ok x, s) \<Longrightarrow> core s = core c \<Longrightarrow> reports wrid op c (f x s)"
  shows "reports wrid op c (sbind m f)"
  using assms by (cases "(m, f)" rule: sbind.cases) (auto intro: reports_stopped)

lemma reports_cases [simp]:
  "core c' = core c \<Longrightarrow> reports wrid op c (Err e, c')"
  "core c' = core c \<Longrightarrow> \<not> cq_is_full (cn_cq c) \<Longrightarrow> reports wrid op c (Ok x, cn_complete wrid 0 op n c')"
  "core c' = core c \<Longrightarrow> \<not> cq_is_full (cn_cq c) \<Longrightarrow>
     reports wrid op c (Err (Protocol code), cn_complete wrid (error_code_to_u16 code) op n c')"
  by (auto intro: reports_stopped reports_complete dest: cq_of_core simp: has_status_def)

lemma rdma_write_reports: "reports wrid opcode.Write c (rdma_write net wrid rk va sgs c)"
  by (auto simp: rdma_write_def Let_def cn_next_header_def intro!: reports_bind split: rdows_message.split)

lemma post_send_reports: "reports wrid opcode.Send c (post_send net wrid sgs c)"
  by (auto simp: post_send_def Let_def cn_next_header_def intro!: reports_bind split: rdows_message.split)

lemma post_atomic_reports: "reports wrid opcode.AtomicReq c (post_atomic net wrid rk va ty op1 op2 c)"
  by (auto simp: post_atomic_def Let_def cn_next_header_def intro!: reports_bind split: rdows_message.split)

lemma reports_store_local [simp]:
  "core c' = core c \<Longrightarrow> \<not> cq_is_full (cn_cq c) \<Longrightarrow>
     reports wrid op c (Ok x, cn_complete wrid 0 op n (c'\<lparr>cn_local_mrs := mrs\<rparr>))"
  by (auto intro!: reports_complete dest: cq_of_core simp: has_status_def)

lemma rdma_read_reports: "reports wrid opcode.ReadReq c (rdma_read net wrid rk va len lk lva c)"
  by (auto simp: rdma_read_def Let_def cn_next_header_def intro!: reports_bind
      split: rdows_message.split)

section \<open>Properties\<close>

text \<open>
  (C23) Whatever the peer does, a verb shows its result in the completion queue: SEND, RDMA
  WRITE, RDMA READ and the atomics each add at most one entry, with the verb's work request
  id, opcode and status, and a verb that returns success has added one.
\<close>

theorem verbs_report_once:
  "reports wrid opcode.Send c (post_send net wrid sgs c) \<and>
   reports wrid opcode.Write c (rdma_write net wrid rk va sgs c) \<and>
   reports wrid opcode.ReadReq c (rdma_read net wrid rk va len lk lva c) \<and>
   reports wrid opcode.AtomicReq c (atomic_cas net wrid rk va expect swap c) \<and>
   reports wrid opcode.AtomicReq c (atomic_faa net wrid rk va addend c)"
  by (simp add: post_send_reports rdma_write_reports rdma_read_reports post_atomic_reports
      atomic_cas_def atomic_faa_def)

text \<open>
  A local region gives back what was last written to it: after a local write that is
  accepted, reading the same range returns the data, and reading any disjoint range or any
  other region returns what it returned before.
\<close>

theorem local_read_after_write:
  assumes "local_inv c" and "write_local_mr lk off data c = (Ok (), c')"
  shows "read_local_mr lk off (length data) c' = Ok data \<and>
    (lk2 \<noteq> lk \<or> off2 + len2 \<le> off \<or> off + length data \<le> off2 \<longrightarrow>
       read_local_mr lk2 off2 len2 c' = Ok bs \<longleftrightarrow> read_local_mr lk2 off2 len2 c = Ok bs)"
  using loc.load_after_store [OF assms, of "length data"]
    loc.load_after_store_other_key [OF assms, of lk2 off2 len2 bs]
    loc.load_after_store_disjoint [OF assms, of off2 len2 bs]
  by (cases "lk2 = lk") simp_all

definition sample_local :: "unit rdows_connection" where
  "sample_local = \<lparr>cn_socket = ((), []), cn_session_id = 7, cn_pd = ProtectionDomain 1,
     cn_max_msg_size = 4096, cn_next_seq = 2, cn_expected_remote_seq = Some 2, cn_send_credits = 65535,
     cn_cq = \<lparr>cq_entries = [], cq_capacity = 8\<rparr>, cn_local_mrs = fmupd 1 \<lparr>mh_lkey = LKey 1, mh_rkey = RKey 9,
       mh_len = 4, mh_local_buf = [1, 2, 3, 4]\<rparr> fmempty\<rparr>"

theorem local_read_after_write_witness:
  "read_local_mr (LKey 1) 1 2 (snd (write_local_mr (LKey 1) 1 [8, 9] sample_local)) = Ok [8, 9] \<and>
   read_local_mr (LKey 1) 3 1 (snd (write_local_mr (LKey 1) 1 [8, 9] sample_local)) = Ok [4]"
proof -
  have inv: "local_inv sample_local" by (simp add: local_inv_def sample_local_def)
  obtain c' where c': "write_local_mr (LKey 1) 1 [8, 9] sample_local = (Ok (), c')"
    by (simp add: write_local_mr_def sample_local_def usize_add_def Let_def)
  have "read_local_mr (LKey 1) 3 1 sample_local = Ok [4]"
    by (simp add: read_local_mr_def sample_local_def usize_add_def sub_slice_def)
  then show ?thesis
    using local_read_after_write [OF inv c', of "LKey 1" 3 1 "[4]"] c' by (simp add: numeral_2_eq_2)
qed

section \<open>Credit updates\<close>

fun credit_frames :: "u32 \<Rightarrow> u32 \<Rightarrow> u32 list \<Rightarrow> inbox_item list" where
  "credit_frames sid sq [] = []"
| "credit_frames sid sq (n # ns) = Item (Binary (message_encode
     (CreditUpdate (header_new opcode.CreditUpdate sid sq 0) \<lparr>cu_credit_increment = n\<rparr>)))
     # credit_frames sid (sq + 1) ns"

lemma recv_credit_update:
  assumes "cn_socket c = (peer, Item (Binary (message_encode (CreditUpdate h p))) # rest)"
    and "message_wf (CreditUpdate h p)" and "cn_expected_remote_seq c = Some (h_sequence h)"
    and "unat (cn_send_credits c) + unat (cu_credit_increment p) < 4294967296"
  shows "recv_app_message c = recv_app_message (c\<lparr>cn_socket := (peer, rest),
    cn_expected_remote_seq := Some (h_sequence h + 1),
    cn_send_credits := cn_send_credits c + cu_credit_increment p\<rparr>)"
  using assms by (subst recv_app_message.simps)
    (simp add: cn_recv_def message_decode_encode validate_remote_seq_def on_wire_def u32_add_def)

text \<open>
  Credit updates that arrive before the answer to a verb are consumed by the receive
  loop: it returns the answer, with every increment added to the send credits and the
  expected sequence number moved past all of them.
\<close>

theorem recv_skips_credit_updates:
  assumes "cn_socket c = (peer, credit_frames sid sq ns @ Item (Binary (message_encode m)) # rest)"
    and "cn_expected_remote_seq c = Some sq" and "message_wf m" and "\<forall>h p. m \<noteq> CreditUpdate h p"
    and "h_sequence (message_header m) = sq + of_nat (length ns)"
    and "unat (cn_send_credits c) + sum_list (map unat ns) < 4294967296"
  shows "recv_app_message c = (Ok (on_wire m), c\<lparr>cn_socket := (peer, rest),
    cn_expected_remote_seq := Some (sq + of_nat (length ns) + 1),
    cn_send_credits := cn_send_credits c + sum_list ns\<rparr>)"
  using assms
proof (induction ns arbitrary: c sq)
  case Nil
  then show ?case
    by (subst recv_app_message.simps, cases m)
      (simp_all add: cn_recv_def message_decode_encode validate_remote_seq_def on_wire_def)
next
  case (Cons n ns)
  let ?cu = "CreditUpdate (header_new opcode.CreditUpdate sid sq 0) \<lparr>cu_credit_increment = n\<rparr>"
  let ?c1 = "c\<lparr>cn_socket := (peer, credit_frames sid (sq + 1) ns @ Item (Binary (message_encode m)) # rest),
    cn_expected_remote_seq := Some (sq + 1), cn_send_credits := cn_send_credits c + n\<rparr>"
  have small: "unat (cn_send_credits c + n) = unat (cn_send_credits c) + unat n"
    using Cons.prems(6) by (simp add: unat_word_ariths)
  have "recv_app_message c = recv_app_message ?c1"
    using recv_credit_update [of c peer "header_new opcode.CreditUpdate sid sq 0" "\<lparr>cu_credit_increment = n\<rparr>"]
      Cons.prems by (simp add: message_wf_def)
  also have "\<dots> = (Ok (on_wire m), ?c1\<lparr>cn_socket := (peer, rest),
      cn_expected_remote_seq := Some (sq + 1 + of_nat (length ns) + 1),
      cn_send_credits := cn_send_credits ?c1 + sum_list ns\<rparr>)"
    using Cons.prems small by (intro Cons.IH) (simp_all add: algebra_simps)
  finally show ?case by (simp add: algebra_simps)
qed

theorem recv_skips_credit_updates_witness:
  "recv_app_message (sample_local\<lparr>cn_socket := ((), credit_frames 7 2 [5, 6] @
     [Item (Binary (message_encode (RecvComp (header_new opcode.RecvComp 7 4 0))))])\<rparr>) =
   (Ok (RecvComp (header_new opcode.RecvComp 7 4 0)), sample_local\<lparr>cn_socket := ((), []),
     cn_expected_remote_seq := Some 5, cn_send_credits := 65546\<rparr>)"
  using recv_skips_credit_updates [of "sample_local\<lparr>cn_socket := ((), credit_frames 7 2 [5, 6] @
     [Item (Binary (message_encode (RecvComp (header_new opcode.RecvComp 7 4 0))))])\<rparr>" "()" 7 2 "[5, 6]"
     "RecvComp (header_new opcode.RecvComp 7 4 0)" "[]"]
  by (simp add: sample_local_def message_wf_def on_wire_def header_new_def del: credit_frames.simps)

end
