(* ===== verification/Dissector.thy ===== *)
theory Dissector
  imports Startup
begin

text \<open>
  The Wireshark dissector (\<open>wireshark/rdows.lua\<close>): the tree of fields it shows for a frame and the
  text of the info column. A field of the tree is shown with the bytes of the frame it was
  added for. A range outside the frame is an error of the Lua interpreter. The conversions of a
  64-bit number and of a range of bytes to text are part of Wireshark, the record \<open>wireshark\<close>.

  The theorems relate it to the encoder of the protocol: what it shows of an encoded message are
  the fields of the message.
\<close>

section \<open>Definitions\<close>

subsection \<open>Fields\<close>

datatype field =
    F_version | F_opcode | F_flags | F_flag_f | F_flag_l | F_flag_s | F_session_id | F_sequence | F_wrid | F_payload_len
  | F_pd_handle | F_cap_flags | F_max_msg_size | F_icc
  | F_access_flags | F_region_len
  | F_lkey | F_rkey | F_status
  | F_remote_va | F_write_len
  | F_read_len | F_local_lkey | F_local_va
  | F_frag_offset
  | F_atomic_type | F_operand1 | F_operand2
  | F_orig_value
  | F_error_code | F_failing_seq | F_desc_len | F_desc
  | F_credit_inc
  | F_sg_count | F_sg_lkey | F_sg_offset | F_sg_length
  | F_data

text \<open>The declared width in bytes; strings and byte fields have any length.\<close>

fun field_width :: "field \<Rightarrow> nat option" where
  "field_width F_version = Some 1"
| "field_width F_opcode = Some 1"
| "field_width F_flags = Some 2"
| "field_width F_flag_f = Some 2"
| "field_width F_flag_l = Some 2"
| "field_width F_flag_s = Some 2"
| "field_width F_session_id = Some 4"
| "field_width F_sequence = Some 4"
| "field_width F_wrid = Some 8"
| "field_width F_payload_len = Some 4"
| "field_width F_pd_handle = Some 4"
| "field_width F_cap_flags = Some 4"
| "field_width F_max_msg_size = Some 4"
| "field_width F_icc = Some 4"
| "field_width F_access_flags = Some 4"
| "field_width F_region_len = Some 8"
| "field_width F_lkey = Some 4"
| "field_width F_rkey = Some 4"
| "field_width F_status = Some 2"
| "field_width F_remote_va = Some 8"
| "field_width F_write_len = Some 8"
| "field_width F_read_len = Some 8"
| "field_width F_local_lkey = Some 4"
| "field_width F_local_va = Some 8"
| "field_width F_frag_offset = Some 8"
| "field_width F_atomic_type = Some 1"
| "field_width F_operand1 = Some 8"
| "field_width F_operand2 = Some 8"
| "field_width F_orig_value = Some 8"
| "field_width F_error_code = Some 2"
| "field_width F_failing_seq = Some 4"
| "field_width F_desc_len = Some 2"
| "field_width F_desc = None"
| "field_width F_credit_inc = Some 4"
| "field_width F_sg_count = Some 2"
| "field_width F_sg_lkey = Some 4"
| "field_width F_sg_offset = Some 8"
| "field_width F_sg_length = Some 4"
| "field_width F_data = None"

text \<open>The bits of the flags word that a boolean field shows.\<close>

fun field_mask :: "field \<Rightarrow> u16 option" where
  "field_mask F_flag_f = Some 0x8000"
| "field_mask F_flag_l = Some 0x4000"
| "field_mask F_flag_s = Some 0x2000"
| "field_mask f = None"

subsection \<open>Lookup tables\<close>

definition opcode_names :: "(nat \<times> string) list" where
  "opcode_names =
     [(0x01, ''CONNECT''), (0x02, ''CONNECT_ACK''), (0x03, ''DISCONNECT''), (0x10, ''MR_REG''), (0x11, ''MR_REG_ACK''),
      (0x12, ''MR_DEREG''), (0x13, ''MR_DEREG_ACK''), (0x20, ''SEND''), (0x21, ''SEND_DATA''), (0x22, ''RECV_COMP''),
      (0x30, ''WRITE''), (0x31, ''WRITE_DATA''), (0x32, ''WRITE_COMP''), (0x40, ''READ_REQ''), (0x41, ''READ_RESP''),
      (0x50, ''ATOMIC_REQ''), (0x51, ''ATOMIC_RESP''), (0x60, ''ACK''), (0x61, ''CREDIT_UPDATE''), (0xF0, ''ERROR'')]"

definition error_names :: "(nat \<times> string) list" where
  "error_names =
     [(0x0000, ''SUCCESS''), (0x0001, ''ERR_PROTO_VERSION''), (0x0002, ''ERR_UNKNOWN_OPCODE''), (0x0003, ''ERR_INVALID_PD''),
      (0x0004, ''ERR_INVALID_LKEY''), (0x0005, ''ERR_INVALID_MKEY''), (0x0006, ''ERR_ACCESS_DENIED''), (0x0007, ''ERR_BOUNDS''),
      (0x0008, ''ERR_ALIGNMENT''), (0x0009, ''ERR_PAYLOAD_SIZE''), (0x0010, ''ERR_RNR''), (0x0020, ''ERR_CQ_OVERFLOW''),
      (0x0030, ''ERR_SEQ_GAP''), (0x0040, ''ERR_TIMEOUT''), (0xFFFF, ''ERR_INTERNAL'')]"

definition atomic_type_names :: "(nat \<times> string) list" where
  "atomic_type_names = [(0x01, ''Compare-and-Swap''), (0x02, ''Fetch-and-Add'')]"

text \<open>A table lookup with the number in hexadecimal as the default.\<close>

definition name_of :: "(nat \<times> string) list \<Rightarrow> (nat \<Rightarrow> piece list) \<Rightarrow> nat \<Rightarrow> piece list" where
  "name_of table other n = (case map_of table n of Some s \<Rightarrow> [Text (lit s)] | None \<Rightarrow> other n)"

definition error_name :: "nat \<Rightarrow> piece list" where
  "error_name = name_of error_names (\<lambda>n. [Text (lit ''0x''), Hex 4 n])"

fun join_bar :: "string list \<Rightarrow> string" where
  "join_bar [] = ''NONE''"
| "join_bar [s] = s"
| "join_bar (s # ss) = s @ ''|'' @ join_bar ss"

definition access_flags_str :: "nat \<Rightarrow> rstring" where
  "access_flags_str flags =
     lit (join_bar ((if flags mod 2 \<noteq> 0 then [''LOCAL_WRITE''] else []) @
       (if flags div 2 mod 2 \<noteq> 0 then [''REMOTE_WRITE''] else []) @
       (if flags div 4 mod 2 \<noteq> 0 then [''REMOTE_READ''] else []) @
       (if flags div 8 mod 2 \<noteq> 0 then [''REMOTE_ATOMIC''] else [])))"

subsection \<open>Buffers and trees\<close>

datatype lua_error = OutOfBounds

record wireshark =
  to_text :: "nat \<Rightarrow> rstring"
  range_string :: "bytes \<Rightarrow> rstring"

definition tvb :: "bytes \<Rightarrow> nat \<Rightarrow> nat \<Rightarrow> (lua_error, bytes) result" where
  "tvb buffer offset len = (if offset + len \<le> length buffer then Ok (sub_slice buffer offset (offset + len)) else Err OutOfBounds)"

definition be_nat :: "bytes \<Rightarrow> nat" where
  "be_nat bs = foldl (\<lambda>n b. n * 256 + unat b) 0 bs"

definition tvb_uint :: "bytes \<Rightarrow> nat \<Rightarrow> nat \<Rightarrow> (lua_error, nat) result" where
  "tvb_uint buffer offset len = rbind (tvb buffer offset len) (\<lambda>bs. Ok (be_nat bs))"

datatype node =
    Leaf field bytes "piece list" "node list"
  | Branch "piece list" bytes "node list"
  | Expert rstring

definition add_field :: "bytes \<Rightarrow> field \<times> nat \<times> nat \<Rightarrow> (lua_error, node) result" where
  "add_field buffer = (\<lambda>(f, offset, len). rbind (tvb buffer offset len) (\<lambda>bs. Ok (Leaf f bs [] [])))"

fun append_text :: "piece list \<Rightarrow> node \<Rightarrow> node" where
  "append_text ps (Leaf f bs qs ns) = Leaf f bs (qs @ ps) ns"
| "append_text ps n = n"

fun add_children :: "node list \<Rightarrow> node \<Rightarrow> node" where
  "add_children ns (Leaf f bs ps ms) = Leaf f bs ps (ms @ ns)"
| "add_children ns n = n"

definition add_text :: "(lua_error, node) result \<Rightarrow> piece list \<Rightarrow> (lua_error, node) result" where
  "add_text r ps = rbind r (\<lambda>n. Ok (append_text ps n))"

text \<open>A subtree over a range, with nodes that are added to it.\<close>

definition add_tree :: "bytes \<Rightarrow> nat \<Rightarrow> nat \<Rightarrow> piece list \<Rightarrow> (lua_error, node) result list \<Rightarrow> (lua_error, node) result" where
  "add_tree buffer offset len label nodes =
     rbind (tvb buffer offset len) (\<lambda>bs. rbind (collect nodes) (\<lambda>ns. Ok (Branch label bs ns)))"

definition SG_SIZE :: nat where "SG_SIZE = 16"

text \<open>The loop over \<open>n\<close> entries from number \<open>i\<close> on; it ends early where the frame does.\<close>

fun parse_sg_entries :: "bytes \<Rightarrow> nat \<Rightarrow> nat \<Rightarrow> nat \<Rightarrow> (lua_error, node list \<times> nat) result" where
  "parse_sg_entries buffer offset i 0 = Ok ([], 0)"
| "parse_sg_entries buffer offset i (Suc n) =
     (let base = offset + i * SG_SIZE in
      if base + SG_SIZE > length buffer then Ok ([], 0)
      else
        rbind (add_tree buffer base SG_SIZE [Text (lit ''SG Entry [''), Dec i, Text (lit '']'')]
          [add_field buffer (F_sg_lkey, base, 4), add_field buffer (F_sg_offset, base + 4, 8),
           add_field buffer (F_sg_length, base + 12, 4)]) (\<lambda>t.
        rbind (tvb_uint buffer (base + 12) 4) (\<lambda>len.
        rbind (parse_sg_entries buffer offset (i + 1) n) (\<lambda>(ts, total). Ok (t # ts, len + total)))))"

subsection \<open>The payloads\<close>

text \<open>
  One function per opcode, on the whole frame. The result is what is added to the tree and the
  text of the info column. The number of bytes after the header is \<open>remaining\<close>.
\<close>

type_synonym dissection = "(lua_error, node list \<times> piece list) result"

abbreviation (input) payload_offset :: nat where
  "payload_offset \<equiv> 24"

definition remaining :: "bytes \<Rightarrow> nat" where
  "remaining buffer = length buffer - payload_offset"

definition connect_tree :: "bytes \<Rightarrow> string \<Rightarrow> (lua_error, node list) result" where
  "connect_tree buffer label =
     (if remaining buffer \<ge> 16 then
        rbind (add_tree buffer payload_offset 16 [Text (lit label)]
          [add_field buffer (F_pd_handle, payload_offset, 4), add_field buffer (F_cap_flags, payload_offset + 4, 4),
           add_field buffer (F_max_msg_size, payload_offset + 8, 4), add_field buffer (F_icc, payload_offset + 12, 4)])
          (\<lambda>t. Ok [t])
      else Ok [])"

definition dissect_connect :: "bytes \<Rightarrow> nat \<Rightarrow> dissection" where
  "dissect_connect buffer session_id =
     rbind (connect_tree buffer ''Connect Payload'') (\<lambda>ts.
     rbind (if remaining buffer \<ge> 16 then tvb_uint buffer (payload_offset + 8) 4 else Ok 0) (\<lambda>n.
     Ok (ts, [Text (lit ''CONNECT Session=0x''), Hex 8 session_id, Text (lit '' MaxMsg=''), Dec n])))"

definition dissect_connect_ack :: "bytes \<Rightarrow> nat \<Rightarrow> dissection" where
  "dissect_connect_ack buffer session_id =
     rbind (connect_tree buffer ''Connect Ack Payload'') (\<lambda>ts.
     rbind (if remaining buffer \<ge> 16 then tvb_uint buffer (payload_offset + 12) 4 else Ok 0) (\<lambda>n.
     Ok (ts, [Text (lit ''CONNECT_ACK Session=0x''), Hex 8 session_id, Text (lit '' ICC=''), Dec n])))"

definition dissect_mr_reg :: "wireshark \<Rightarrow> bytes \<Rightarrow> dissection" where
  "dissect_mr_reg ws buffer =
     (if remaining buffer \<ge> 16 then
        rbind (tvb_uint buffer (payload_offset + 4) 4) (\<lambda>af.
        rbind (add_tree buffer payload_offset (min (remaining buffer) 20) [Text (lit ''MR_REG Payload'')]
          ([add_field buffer (F_pd_handle, payload_offset, 4),
            add_text (add_field buffer (F_access_flags, payload_offset + 4, 4)) [Text (lit '' (''), Text (access_flags_str af), Text (lit '')'')],
            add_field buffer (F_region_len, payload_offset + 8, 8)] @
           (if remaining buffer \<ge> 20 then [add_text (add_field buffer (F_lkey, payload_offset + 16, 4)) [Text (lit '' (suggested)'')]]
            else []))) (\<lambda>t.
        rbind (tvb_uint buffer (payload_offset + 8) 8) (\<lambda>rlen.
        rbind (tvb_uint buffer payload_offset 4) (\<lambda>pd.
        Ok ([t], [Text (lit ''MR_REG PD=0x''), Hex 8 pd, Text (lit '' Len=''), Text (to_text ws rlen), Text (lit '' Flags=''),
          Text (access_flags_str af)])))))
      else Ok ([], [Text (lit ''MR_REG'')]))"

definition dissect_mr_reg_ack :: "bytes \<Rightarrow> dissection" where
  "dissect_mr_reg_ack buffer =
     (if remaining buffer \<ge> 16 then
        rbind (add_tree buffer payload_offset 16 [Text (lit ''MR_REG_ACK Payload'')]
          [add_field buffer (F_pd_handle, payload_offset, 4), add_field buffer (F_lkey, payload_offset + 4, 4),
           add_field buffer (F_rkey, payload_offset + 8, 4), add_field buffer (F_status, payload_offset + 12, 2)]) (\<lambda>t.
        rbind (tvb_uint buffer (payload_offset + 4) 4) (\<lambda>lk.
        rbind (tvb_uint buffer (payload_offset + 8) 4) (\<lambda>rk.
        Ok ([t], [Text (lit ''MR_REG_ACK L_Key=0x''), Hex 8 lk, Text (lit '' R_Key=0x''), Hex 8 rk]))))
      else Ok ([], [Text (lit ''MR_REG_ACK'')]))"

definition dissect_mr_dereg :: "bytes \<Rightarrow> dissection" where
  "dissect_mr_dereg buffer =
     (if remaining buffer \<ge> 8 then
        rbind (add_tree buffer payload_offset 8 [Text (lit ''MR_DEREG Payload'')]
          [add_field buffer (F_pd_handle, payload_offset, 4), add_field buffer (F_lkey, payload_offset + 4, 4)]) (\<lambda>t.
        rbind (tvb_uint buffer payload_offset 4) (\<lambda>pd.
        rbind (tvb_uint buffer (payload_offset + 4) 4) (\<lambda>lk.
        Ok ([t], [Text (lit ''MR_DEREG PD=0x''), Hex 8 pd, Text (lit '' L_Key=0x''), Hex 8 lk]))))
      else Ok ([], [Text (lit ''MR_DEREG'')]))"

definition dissect_mr_dereg_ack :: "bytes \<Rightarrow> dissection" where
  "dissect_mr_dereg_ack buffer =
     (if remaining buffer \<ge> 8 then
        rbind (tvb_uint buffer payload_offset 2) (\<lambda>st.
        rbind (add_tree buffer payload_offset 8 [Text (lit ''MR_DEREG_ACK Payload'')]
          [add_field buffer (F_status, payload_offset, 2)]) (\<lambda>t.
        Ok ([t], [Text (lit ''MR_DEREG_ACK Status='')] @ error_name st)))
      else Ok ([], [Text (lit ''MR_DEREG_ACK'')]))"

definition dissect_send :: "bytes \<Rightarrow> dissection" where
  "dissect_send buffer =
     (if remaining buffer \<ge> 4 then
        rbind (tvb_uint buffer payload_offset 2) (\<lambda>sg_count.
        rbind (parse_sg_entries buffer (payload_offset + 4) 0 sg_count) (\<lambda>(sgs, total_bytes).
        rbind (add_tree buffer payload_offset (min (remaining buffer) (4 + sg_count * SG_SIZE)) [Text (lit ''Send Payload'')]
          (add_field buffer (F_sg_count, payload_offset, 2) # map Ok sgs)) (\<lambda>t.
        Ok ([t], [Text (lit ''SEND [''), Dec sg_count, Text (lit '' SG entr''), Text (if sg_count = 1 then lit ''y'' else lit ''ies''),
          Text (lit '', ''), Dec total_bytes, Text (lit '' bytes]'')]))))
      else Ok ([], [Text (lit ''SEND'')]))"

definition dissect_data :: "string \<Rightarrow> bytes \<Rightarrow> nat \<Rightarrow> dissection" where
  "dissect_data name buffer payload_len =
     rbind (if remaining buffer > 0 then rbind (add_field buffer (F_data, payload_offset, remaining buffer)) (\<lambda>t. Ok [t]) else Ok [])
       (\<lambda>ts. Ok (ts, [Text (lit name), Text (lit '' [''), Dec payload_len, Text (lit '' bytes]'')]))"

text \<open>
  The number of entries after a WRITE is a quotient of floating point numbers; the loop over
  them counts up to its integral part.
\<close>

definition dissect_write :: "wireshark \<Rightarrow> bytes \<Rightarrow> nat \<Rightarrow> dissection" where
  "dissect_write ws buffer payload_len =
     (if remaining buffer \<ge> 24 then
        rbind (tvb_uint buffer payload_offset 4) (\<lambda>rk.
        rbind (tvb_uint buffer (payload_offset + 8) 8) (\<lambda>va.
        rbind (tvb_uint buffer (payload_offset + 16) 8) (\<lambda>wlen.
        rbind (if remaining buffer > 24
               then parse_sg_entries buffer (payload_offset + 24) 0 ((remaining buffer - 24) div SG_SIZE) else Ok ([], 0)) (\<lambda>(sgs, _).
        rbind (add_tree buffer payload_offset (min (remaining buffer) payload_len) [Text (lit ''Write Payload'')]
          ([add_field buffer (F_rkey, payload_offset, 4), add_field buffer (F_remote_va, payload_offset + 8, 8),
            add_field buffer (F_write_len, payload_offset + 16, 8)] @ map Ok sgs)) (\<lambda>t.
        Ok ([t], [Text (lit ''WRITE R_Key=0x''), Hex 8 rk, Text (lit '' VA=0x''), Text (to_text ws va), Text (lit '' ''),
          Text (to_text ws wlen), Text (lit '' bytes'')]))))))
      else Ok ([], [Text (lit ''WRITE'')]))"

definition dissect_read_req :: "wireshark \<Rightarrow> bytes \<Rightarrow> dissection" where
  "dissect_read_req ws buffer =
     (if remaining buffer \<ge> 40 then
        rbind (add_tree buffer payload_offset 40 [Text (lit ''Read Request Payload'')]
          [add_field buffer (F_rkey, payload_offset, 4), add_field buffer (F_remote_va, payload_offset + 8, 8),
           add_field buffer (F_read_len, payload_offset + 16, 8), add_field buffer (F_local_lkey, payload_offset + 24, 4),
           add_field buffer (F_local_va, payload_offset + 32, 8)]) (\<lambda>t.
        rbind (tvb_uint buffer payload_offset 4) (\<lambda>rk.
        rbind (tvb_uint buffer (payload_offset + 8) 8) (\<lambda>va.
        rbind (tvb_uint buffer (payload_offset + 16) 8) (\<lambda>rlen.
        Ok ([t], [Text (lit ''READ_REQ R_Key=0x''), Hex 8 rk, Text (lit '' VA=0x''), Text (to_text ws va), Text (lit '' Len=''),
          Text (to_text ws rlen)])))))
      else Ok ([], [Text (lit ''READ_REQ'')]))"

definition dissect_read_resp :: "wireshark \<Rightarrow> bytes \<Rightarrow> dissection" where
  "dissect_read_resp ws buffer =
     (if remaining buffer \<ge> 8 then
        rbind (tvb_uint buffer payload_offset 8) (\<lambda>fo.
        let data_len = remaining buffer - 8 in
        rbind (add_tree buffer payload_offset (remaining buffer) [Text (lit ''Read Response Payload'')]
          (add_field buffer (F_frag_offset, payload_offset, 8) #
           (if data_len > 0 then [add_field buffer (F_data, payload_offset + 8, data_len)] else []))) (\<lambda>t.
        Ok ([t], [Text (lit ''READ_RESP Offset=''), Text (to_text ws fo), Text (lit '' [''), Dec data_len, Text (lit '' bytes]'')])))
      else Ok ([], [Text (lit ''READ_RESP'')]))"

definition dissect_atomic_req :: "wireshark \<Rightarrow> bytes \<Rightarrow> dissection" where
  "dissect_atomic_req ws buffer =
     (if remaining buffer \<ge> 32 then
        rbind (tvb_uint buffer (payload_offset + 4) 1) (\<lambda>at.
        let at_name = name_of atomic_type_names (\<lambda>n. [Text (lit ''0x''), Hex 2 n]) at in
        rbind (add_tree buffer payload_offset 32 [Text (lit ''Atomic Request Payload'')]
          [add_field buffer (F_rkey, payload_offset, 4),
           add_text (add_field buffer (F_atomic_type, payload_offset + 4, 1)) ([Text (lit '' ('')] @ at_name @ [Text (lit '')'')]),
           add_field buffer (F_remote_va, payload_offset + 8, 8), add_field buffer (F_operand1, payload_offset + 16, 8),
           add_field buffer (F_operand2, payload_offset + 24, 8)]) (\<lambda>t.
        rbind (tvb_uint buffer payload_offset 4) (\<lambda>rk.
        rbind (tvb_uint buffer (payload_offset + 8) 8) (\<lambda>va.
        let short_name = if at = 1 then [Text (lit ''CAS'')] else if at = 2 then [Text (lit ''FAA'')] else at_name in
        Ok ([t], [Text (lit ''ATOMIC_REQ '')] @ short_name @ [Text (lit '' R_Key=0x''), Hex 8 rk, Text (lit '' VA=0x''),
          Text (to_text ws va)])))))
      else Ok ([], [Text (lit ''ATOMIC_REQ'')]))"

definition dissect_atomic_resp :: "wireshark \<Rightarrow> bytes \<Rightarrow> dissection" where
  "dissect_atomic_resp ws buffer =
     (if remaining buffer \<ge> 16 then
        rbind (add_tree buffer payload_offset 16 [Text (lit ''Atomic Response Payload'')]
          [add_field buffer (F_orig_value, payload_offset, 8), add_field buffer (F_status, payload_offset + 8, 2)]) (\<lambda>t.
        rbind (tvb_uint buffer payload_offset 8) (\<lambda>ov.
        Ok ([t], [Text (lit ''ATOMIC_RESP Original=''), Text (to_text ws ov)])))
      else Ok ([], [Text (lit ''ATOMIC_RESP'')]))"

definition dissect_credit_update :: "bytes \<Rightarrow> dissection" where
  "dissect_credit_update buffer =
     (if remaining buffer \<ge> 4 then
        rbind (add_tree buffer payload_offset (min (remaining buffer) 8) [Text (lit ''Credit Update Payload'')]
          [add_field buffer (F_credit_inc, payload_offset, 4)]) (\<lambda>t.
        rbind (tvb_uint buffer payload_offset 4) (\<lambda>inc.
        Ok ([t], [Text (lit ''CREDIT_UPDATE +''), Dec inc])))
      else Ok ([], [Text (lit ''CREDIT_UPDATE'')]))"

definition dissect_error :: "wireshark \<Rightarrow> bytes \<Rightarrow> dissection" where
  "dissect_error ws buffer =
     (if remaining buffer \<ge> 10 then
        rbind (tvb_uint buffer payload_offset 2) (\<lambda>ec.
        rbind (tvb_uint buffer (payload_offset + 4) 4) (\<lambda>fseq.
        rbind (tvb_uint buffer (payload_offset + 8) 2) (\<lambda>dlen.
        let described = dlen > 0 \<and> remaining buffer \<ge> 10 + dlen in
        rbind (add_tree buffer payload_offset (min (remaining buffer) (10 + dlen)) [Text (lit ''Error Payload'')]
          ([add_text (add_field buffer (F_error_code, payload_offset, 2)) ([Text (lit '' ('')] @ error_name ec @ [Text (lit '')'')]),
            add_field buffer (F_failing_seq, payload_offset + 4, 4), add_field buffer (F_desc_len, payload_offset + 8, 2)] @
           (if described then [add_field buffer (F_desc, payload_offset + 10, dlen)] else []))) (\<lambda>t.
        rbind (if described then rbind (tvb buffer (payload_offset + 10) dlen) (\<lambda>bs. Ok (range_string ws bs)) else Ok []) (\<lambda>desc_str.
        Ok ([t], [Text (lit ''ERROR '')] @ error_name ec @ [Text (lit '' Seq=''), Dec fseq] @
          (if desc_str \<noteq> [] then [Text (lit '' ''), Text [34], Text desc_str, Text [34]] else [])))))))
      else Ok ([], [Text (lit ''ERROR'')]))"

subsection \<open>Frames\<close>

definition header_tree :: "bytes \<Rightarrow> piece list \<Rightarrow> (lua_error, node) result" where
  "header_tree buffer op_name =
     add_tree buffer 0 24 [Text (lit ''Header'')]
       [add_field buffer (F_version, 0, 1),
        add_text (add_field buffer (F_opcode, 1, 1)) ([Text (lit '' ('')] @ op_name @ [Text (lit '')'')]),
        rbind (add_field buffer (F_flags, 2, 2)) (\<lambda>flags_item.
        rbind (collect [add_field buffer (F_flag_f, 2, 2), add_field buffer (F_flag_l, 2, 2), add_field buffer (F_flag_s, 2, 2)]) (\<lambda>ns.
        Ok (add_children ns flags_item))),
        add_field buffer (F_session_id, 4, 4), add_field buffer (F_sequence, 8, 4), add_field buffer (F_wrid, 12, 8),
        add_field buffer (F_payload_len, 20, 4)]"

text \<open>The dispatch on the opcode. The arguments after it are the numbers of the header it prints.\<close>

definition dissect_payload :: "wireshark \<Rightarrow> bytes \<Rightarrow> nat \<Rightarrow> piece list \<Rightarrow> nat \<Rightarrow> nat \<Rightarrow> nat \<Rightarrow> nat \<Rightarrow> dissection" where
  "dissect_payload ws buffer opcode op_name session_id seq wrid payload_len =
     (if opcode = 0x01 then dissect_connect buffer session_id
      else if opcode = 0x02 then dissect_connect_ack buffer session_id
      else if opcode = 0x03 then Ok ([], [Text (lit ''DISCONNECT Session=0x''), Hex 8 session_id])
      else if opcode = 0x10 then dissect_mr_reg ws buffer
      else if opcode = 0x11 then dissect_mr_reg_ack buffer
      else if opcode = 0x12 then dissect_mr_dereg buffer
      else if opcode = 0x13 then dissect_mr_dereg_ack buffer
      else if opcode = 0x20 then dissect_send buffer
      else if opcode = 0x21 then dissect_data ''SEND_DATA'' buffer payload_len
      else if opcode = 0x22 then Ok ([], [Text (lit ''RECV_COMP WRID=''), Text (to_text ws wrid)])
      else if opcode = 0x30 then dissect_write ws buffer payload_len
      else if opcode = 0x31 then dissect_data ''WRITE_DATA'' buffer payload_len
      else if opcode = 0x32 then Ok ([], [Text (lit ''WRITE_COMP WRID=''), Text (to_text ws wrid)])
      else if opcode = 0x40 then dissect_read_req ws buffer
      else if opcode = 0x41 then dissect_read_resp ws buffer
      else if opcode = 0x50 then dissect_atomic_req ws buffer
      else if opcode = 0x51 then dissect_atomic_resp ws buffer
      else if opcode = 0x60 then Ok ([], [Text (lit ''ACK Seq=''), Dec seq])
      else if opcode = 0x61 then dissect_credit_update buffer
      else if opcode = 0xF0 then dissect_error ws buffer
      else Ok ([], [Text (lit ''RDoWS '')] @ op_name @ [Text (lit '' Seq=''), Dec seq]))"

record shown =
  col_protocol :: rstring
  col_info :: "piece list"
  shown_tree :: node

definition dissector :: "wireshark \<Rightarrow> bytes \<Rightarrow> (lua_error, shown option) result" where
  "dissector ws buffer =
     (if length buffer < 24 then Ok None
      else
        rbind (tvb_uint buffer 0 1) (\<lambda>version.
        rbind (tvb_uint buffer 1 1) (\<lambda>opcode.
        rbind (tvb_uint buffer 2 2) (\<lambda>flags.
        rbind (tvb_uint buffer 4 4) (\<lambda>session_id.
        rbind (tvb_uint buffer 8 4) (\<lambda>seq.
        rbind (tvb_uint buffer 12 8) (\<lambda>wrid.
        rbind (tvb_uint buffer 20 4) (\<lambda>payload_len.
        let op_name = name_of opcode_names (\<lambda>n. [Text (lit ''UNKNOWN(0x''), Hex 2 n, Text (lit '')'')]) opcode in
        rbind (header_tree buffer op_name) (\<lambda>hdr_tree.
        rbind (if remaining buffer = 0 \<and> payload_len > 0 then Ok ([Expert (lit ''Payload missing'')], op_name)
               else dissect_payload ws buffer opcode op_name session_id seq wrid payload_len) (\<lambda>(ts, info).
        Ok (Some \<lparr>col_protocol = lit ''RDoWS'', col_info = info,
          shown_tree = Branch ([Text (lit ''RDoWS '')] @ op_name) buffer (hdr_tree # ts)\<rparr>)))))))))))"

text \<open>The fallback: it answers whether the frame is one of the protocol, and shows it then.\<close>

definition rdows_heuristic :: "wireshark \<Rightarrow> bytes \<Rightarrow> (lua_error, bool \<times> shown option) result" where
  "rdows_heuristic ws buffer =
     (if length buffer < 24 then Ok (False, None)
      else
        rbind (tvb_uint buffer 0 1) (\<lambda>version.
        rbind (tvb_uint buffer 1 1) (\<lambda>opcode.
        if version \<noteq> 0x01 then Ok (False, None)
        else if map_of opcode_names opcode = None then Ok (False, None)
        else rbind (dissector ws buffer) (\<lambda>v. Ok (True, v)))))"

section \<open>Lemmas\<close>

subsection \<open>The fields of a tree\<close>

fun leaves :: "node \<Rightarrow> (field \<times> bytes) list" where
  "leaves (Leaf f bs ps ns) = (f, bs) # concat (map leaves ns)"
| "leaves (Branch ps bs ns) = concat (map leaves ns)"
| "leaves (Expert t) = []"

definition slice_at :: "bytes \<Rightarrow> field \<times> nat \<times> nat \<Rightarrow> field \<times> bytes" where
  "slice_at buffer = (\<lambda>(f, offset, len). (f, sub_slice buffer offset (offset + len)))"

lemma slice_at_simp [simp]: "slice_at buffer (f, offset, len) = (f, sub_slice buffer offset (offset + len))"
  by (simp add: slice_at_def)

text \<open>A dissection that ends normally and adds the fields \<open>rs\<close> of the frame.\<close>

definition presents :: "dissection \<Rightarrow> bytes \<Rightarrow> (field \<times> nat \<times> nat) list \<Rightarrow> bool" where
  "presents d buffer rs \<longleftrightarrow> (\<exists>ts info. d = Ok (ts, info) \<and> concat (map leaves ts) = map (slice_at buffer) rs)"

lemma presents_Ok [simp]: "presents (Ok (ts, info)) buffer rs \<longleftrightarrow> concat (map leaves ts) = map (slice_at buffer) rs"
  by (simp add: presents_def)

named_theorems in_frame

lemma remaining_ge [simp]: "0 < n \<Longrightarrow> n \<le> remaining buffer \<longleftrightarrow> 24 + n \<le> length buffer"
  by (auto simp: remaining_def)

lemma remaining_pos [simp]: "0 < remaining buffer \<longleftrightarrow> 24 < length buffer"
  by (auto simp: remaining_def)

lemma min_remaining [simp]: "24 \<le> length buffer \<Longrightarrow> 24 + min (remaining buffer) n \<le> length buffer"
  by (auto simp: remaining_def)

lemma tvb_in [in_frame]: "offset + len \<le> length buffer \<Longrightarrow> tvb buffer offset len = Ok (sub_slice buffer offset (offset + len))"
  by (simp add: tvb_def)

lemma tvb_uint_in [in_frame]:
  "offset + len \<le> length buffer \<Longrightarrow> tvb_uint buffer offset len = Ok (be_nat (sub_slice buffer offset (offset + len)))"
  by (simp add: tvb_uint_def tvb_in)

lemma add_field_in [in_frame]:
  "offset + len \<le> length buffer \<Longrightarrow>
   add_field buffer (f, offset, len) = Ok (Leaf f (sub_slice buffer offset (offset + len)) [] [])"
  by (simp add: add_field_def tvb_in)

lemma add_text_Ok [simp]: "add_text (Ok n) ps = Ok (append_text ps n)"
  by (simp add: add_text_def)

lemma add_tree_in [in_frame]:
  "offset + len \<le> length buffer \<Longrightarrow>
   add_tree buffer offset len label nodes =
     rbind (collect nodes) (\<lambda>ns. Ok (Branch label (sub_slice buffer offset (offset + len)) ns))"
  by (simp add: add_tree_def tvb_in)

lemma collect_map_Ok [simp]: "collect (map Ok xs) = Ok xs"
  by (induction xs) simp_all

subsection \<open>Where the fields are\<close>

text \<open>The ranges of the entries from number \<open>i\<close> on, as far as a frame of \<open>sz\<close> bytes has them.\<close>

fun sg_ranges :: "nat \<Rightarrow> nat \<Rightarrow> nat \<Rightarrow> nat \<Rightarrow> (field \<times> nat \<times> nat) list" where
  "sg_ranges sz offset i 0 = []"
| "sg_ranges sz offset i (Suc n) =
     (let base = offset + i * 16 in
      if base + 16 > sz then []
      else [(F_sg_lkey, base, 4), (F_sg_offset, base + 4, 8), (F_sg_length, base + 12, 4)] @ sg_ranges sz offset (i + 1) n)"

definition ranges_header :: "(field \<times> nat \<times> nat) list" where
  "ranges_header =
     [(F_version, 0, 1), (F_opcode, 1, 1), (F_flags, 2, 2), (F_flag_f, 2, 2), (F_flag_l, 2, 2), (F_flag_s, 2, 2),
      (F_session_id, 4, 4), (F_sequence, 8, 4), (F_wrid, 12, 8), (F_payload_len, 20, 4)]"

abbreviation ranges_connect :: "(field \<times> nat \<times> nat) list" where
  "ranges_connect \<equiv> [(F_pd_handle, 24, 4), (F_cap_flags, 28, 4), (F_max_msg_size, 32, 4), (F_icc, 36, 4)]"

abbreviation ranges_data :: "nat \<Rightarrow> (field \<times> nat \<times> nat) list" where
  "ranges_data sz \<equiv> if 24 < sz then [(F_data, 24, sz - 24)] else []"

text \<open>The ranges shown for a payload, by the opcode and the size of the frame, and for some opcodes a count in it.\<close>

definition ranges_payload :: "nat \<Rightarrow> bytes \<Rightarrow> (field \<times> nat \<times> nat) list" where
  "ranges_payload opcode buffer =
     (let sz = length buffer in
      if opcode = 0x01 \<or> opcode = 0x02 then (if 40 \<le> sz then ranges_connect else [])
      else if opcode = 0x10 then
        (if 40 \<le> sz then [(F_pd_handle, 24, 4), (F_access_flags, 28, 4), (F_region_len, 32, 8)] else []) @
        (if 44 \<le> sz then [(F_lkey, 40, 4)] else [])
      else if opcode = 0x11 then
        (if 40 \<le> sz then [(F_pd_handle, 24, 4), (F_lkey, 28, 4), (F_rkey, 32, 4), (F_status, 36, 2)] else [])
      else if opcode = 0x12 then (if 32 \<le> sz then [(F_pd_handle, 24, 4), (F_lkey, 28, 4)] else [])
      else if opcode = 0x13 then (if 32 \<le> sz then [(F_status, 24, 2)] else [])
      else if opcode = 0x20 then
        (if 28 \<le> sz then (F_sg_count, 24, 2) # sg_ranges sz 28 0 (be_nat (sub_slice buffer 24 26)) else [])
      else if opcode = 0x21 \<or> opcode = 0x31 then ranges_data sz
      else if opcode = 0x30 then
        (if 48 \<le> sz
         then [(F_rkey, 24, 4), (F_remote_va, 32, 8), (F_write_len, 40, 8)] @ sg_ranges sz 48 0 ((sz - 48) div 16) else [])
      else if opcode = 0x40 then
        (if 64 \<le> sz then [(F_rkey, 24, 4), (F_remote_va, 32, 8), (F_read_len, 40, 8), (F_local_lkey, 48, 4), (F_local_va, 56, 8)]
         else [])
      else if opcode = 0x41 then
        (if 32 \<le> sz then (F_frag_offset, 24, 8) # (if 32 < sz then [(F_data, 32, sz - 32)] else []) else [])
      else if opcode = 0x50 then
        (if 56 \<le> sz then [(F_rkey, 24, 4), (F_atomic_type, 28, 1), (F_remote_va, 32, 8), (F_operand1, 40, 8), (F_operand2, 48, 8)]
         else [])
      else if opcode = 0x51 then (if 40 \<le> sz then [(F_orig_value, 24, 8), (F_status, 32, 2)] else [])
      else if opcode = 0x61 then (if 28 \<le> sz then [(F_credit_inc, 24, 4)] else [])
      else if opcode = 0xF0 then
        (if 34 \<le> sz then
           [(F_error_code, 24, 2), (F_failing_seq, 28, 4), (F_desc_len, 32, 2)] @
           (let dlen = be_nat (sub_slice buffer 32 34) in if dlen > 0 \<and> 34 + dlen \<le> sz then [(F_desc, 34, dlen)] else [])
         else [])
      else [])"

lemma parse_sg_presents:
  "\<exists>ts total. parse_sg_entries buffer offset i n = Ok (ts, total) \<and>
     concat (map leaves ts) = map (slice_at buffer) (sg_ranges (length buffer) offset i n)"
proof (induction n arbitrary: i)
  case (Suc n)
  then obtain ts m where "parse_sg_entries buffer offset (i + 1) n = Ok (ts, m)"
    "concat (map leaves ts) = map (slice_at buffer) (sg_ranges (length buffer) offset (i + 1) n)" by metis
  then show ?case by (simp add: Let_def SG_SIZE_def in_frame add.assoc)
qed simp

lemma presents_connect: "presents (dissect_connect buffer s) buffer (ranges_payload 0x01 buffer)"
  by (simp add: dissect_connect_def connect_tree_def ranges_payload_def in_frame)

lemma presents_connect_ack: "presents (dissect_connect_ack buffer s) buffer (ranges_payload 0x02 buffer)"
  by (simp add: dissect_connect_ack_def connect_tree_def ranges_payload_def in_frame)

lemma presents_mr_reg: "presents (dissect_mr_reg ws buffer) buffer (ranges_payload 0x10 buffer)"
  by (simp add: dissect_mr_reg_def ranges_payload_def in_frame Let_def)

lemma presents_mr_reg_ack: "presents (dissect_mr_reg_ack buffer) buffer (ranges_payload 0x11 buffer)"
  by (simp add: dissect_mr_reg_ack_def ranges_payload_def in_frame)

lemma presents_mr_dereg: "presents (dissect_mr_dereg buffer) buffer (ranges_payload 0x12 buffer)"
  by (simp add: dissect_mr_dereg_def ranges_payload_def in_frame)

lemma presents_mr_dereg_ack: "presents (dissect_mr_dereg_ack buffer) buffer (ranges_payload 0x13 buffer)"
  by (simp add: dissect_mr_dereg_ack_def ranges_payload_def in_frame)

lemma presents_read_req: "presents (dissect_read_req ws buffer) buffer (ranges_payload 0x40 buffer)"
  by (simp add: dissect_read_req_def ranges_payload_def in_frame)

lemma presents_atomic_req: "presents (dissect_atomic_req ws buffer) buffer (ranges_payload 0x50 buffer)"
  by (simp add: dissect_atomic_req_def ranges_payload_def in_frame Let_def)

lemma presents_atomic_resp: "presents (dissect_atomic_resp ws buffer) buffer (ranges_payload 0x51 buffer)"
  by (simp add: dissect_atomic_resp_def ranges_payload_def in_frame)

lemma presents_credit_update: "presents (dissect_credit_update buffer) buffer (ranges_payload 0x61 buffer)"
  by (simp add: dissect_credit_update_def ranges_payload_def in_frame)

lemma presents_send: "presents (dissect_send buffer) buffer (ranges_payload 0x20 buffer)"
proof -
  obtain ts n where "parse_sg_entries buffer 28 0 (be_nat (sub_slice buffer 24 26)) = Ok (ts, n)"
    "concat (map leaves ts) = map (slice_at buffer) (sg_ranges (length buffer) 28 0 (be_nat (sub_slice buffer 24 26)))"
    using parse_sg_presents by metis
  then show ?thesis by (simp add: dissect_send_def ranges_payload_def in_frame Let_def)
qed

lemma presents_write: "presents (dissect_write ws buffer pl) buffer (ranges_payload 0x30 buffer)"
proof -
  obtain ts n where "parse_sg_entries buffer 48 0 ((length buffer - 48) div 16) = Ok (ts, n)"
    "concat (map leaves ts) = map (slice_at buffer) (sg_ranges (length buffer) 48 0 ((length buffer - 48) div 16))"
    using parse_sg_presents by metis
  moreover have "remaining buffer - 24 = length buffer - 48" by (simp add: remaining_def)
  moreover have "24 < remaining buffer \<longleftrightarrow> 48 < length buffer" by (auto simp: remaining_def)
  ultimately show ?thesis by (simp add: dissect_write_def ranges_payload_def in_frame Let_def SG_SIZE_def)
qed

lemma presents_data:
  "presents (dissect_data name buffer pl) buffer (ranges_payload 0x21 buffer)"
  "presents (dissect_data name buffer pl) buffer (ranges_payload 0x31 buffer)"
  by (simp_all add: dissect_data_def ranges_payload_def in_frame remaining_def)

lemma presents_read_resp: "presents (dissect_read_resp ws buffer) buffer (ranges_payload 0x41 buffer)"
  by (auto simp: dissect_read_resp_def ranges_payload_def in_frame Let_def remaining_def)

lemma presents_error: "presents (dissect_error ws buffer) buffer (ranges_payload 0xF0 buffer)"
  by (simp add: dissect_error_def ranges_payload_def in_frame Let_def)

lemmas presents_payloads =
  presents_connect presents_connect_ack presents_mr_reg presents_mr_reg_ack presents_mr_dereg presents_mr_dereg_ack
  presents_send presents_data presents_write presents_read_req presents_read_resp presents_atomic_req presents_atomic_resp
  presents_credit_update presents_error

lemma presents_payload:
  "presents (dissect_payload ws buffer opcode op_name session_id sq wrid pl) buffer (ranges_payload opcode buffer)"
proof (cases "opcode \<in> {1, 2, 16, 17, 18, 19, 32, 33, 48, 49, 64, 65, 80, 81, 97, 240}")
  case True
  then show ?thesis
    by (elim insertE emptyE) (simp_all add: dissect_payload_def presents_payloads del: One_nat_def)
next
  case False
  then show ?thesis by (simp add: dissect_payload_def ranges_payload_def)
qed

text \<open>On every frame of at least a header the dissector ends normally and shows these ranges.\<close>

lemma header_tree_presents:
  "24 \<le> length buffer \<Longrightarrow> \<exists>t. header_tree buffer op_name = Ok t \<and> leaves t = map (slice_at buffer) ranges_header"
  by (simp add: header_tree_def ranges_header_def in_frame)

abbreviation payload_missing :: "bytes \<Rightarrow> bool" where
  "payload_missing buffer \<equiv> length buffer = 24 \<and> be_nat (sub_slice buffer 20 24) > 0"

lemma ranges_payload_short: "length buffer = 24 \<Longrightarrow> ranges_payload opcode buffer = []"
  by (simp add: ranges_payload_def Let_def)

lemma dissector_presents:
  assumes "24 \<le> length buffer"
  obtains v where "dissector ws buffer = Ok (Some v)"
    and "leaves (shown_tree v) = map (slice_at buffer) (ranges_header @ ranges_payload (be_nat (sub_slice buffer 1 2)) buffer)"
proof -
  let ?opcode = "be_nat (sub_slice buffer 1 2)"
  let ?name = "name_of opcode_names (\<lambda>n. [Text (lit ''UNKNOWN(0x''), Hex 2 n, Text (lit '')'')]) ?opcode"
  obtain t where t: "header_tree buffer ?name = Ok t" "leaves t = map (slice_at buffer) ranges_header"
    using header_tree_presents [OF assms] by metis
  let ?d = "if remaining buffer = 0 \<and> be_nat (sub_slice buffer 20 24) > 0 then Ok ([Expert (lit ''Payload missing'')], ?name)
    else dissect_payload ws buffer ?opcode ?name (be_nat (sub_slice buffer 4 8)) (be_nat (sub_slice buffer 8 12))
      (be_nat (sub_slice buffer 12 20)) (be_nat (sub_slice buffer 20 24))"
  have "presents ?d buffer (ranges_payload ?opcode buffer)"
    using assms ranges_payload_short [of buffer ?opcode] by (auto simp: presents_payload remaining_def)
  then obtain ts info where d: "?d = Ok (ts, info)" "concat (map leaves ts) = map (slice_at buffer) (ranges_payload ?opcode buffer)"
    unfolding presents_def by metis
  show thesis
    by (rule that [of "\<lparr>col_protocol = lit ''RDoWS'', col_info = info,
        shown_tree = Branch ([Text (lit ''RDoWS '')] @ ?name) buffer (t # ts)\<rparr>"])
      (use assms t d in \<open>simp_all add: dissector_def in_frame Let_def del: One_nat_def split del: if_split\<close>)
qed

text \<open>Every one of these ranges is in the frame and as wide as the field.\<close>

definition range_ok :: "nat \<Rightarrow> field \<times> nat \<times> nat \<Rightarrow> bool" where
  "range_ok sz = (\<lambda>(f, offset, len). offset + len \<le> sz \<and> field_width f \<in> {None, Some len})"

lemma sg_ranges_ok: "list_all (range_ok sz) (sg_ranges sz offset i n)"
  by (induction n arbitrary: i) (auto simp: range_ok_def Let_def)

lemma ranges_header_ok: "24 \<le> sz \<Longrightarrow> list_all (range_ok sz) ranges_header"
  by (simp add: ranges_header_def range_ok_def)

lemma ranges_payload_ok: "list_all (range_ok (length buffer)) (ranges_payload opcode buffer)"
  using sg_ranges_ok [of "length buffer"] by (simp add: ranges_payload_def Let_def range_ok_def)

subsection \<open>The fields of an encoded message\<close>

definition sg_fields :: "scatter_gather_entry \<Rightarrow> (field \<times> bytes) list" where
  "sg_fields e = [(F_sg_lkey, put_u32 (lkey_val (sg_lkey e))), (F_sg_offset, put_u64 (sg_offset e)), (F_sg_length, put_u32 (sg_length e))]"

definition header_fields :: "rdows_header \<Rightarrow> (field \<times> bytes) list" where
  "header_fields h =
     [(F_version, put_u8 (h_version h)), (F_opcode, put_u8 (opcode_to_u8 (h_opcode h))), (F_flags, put_u16 (h_flags h)),
      (F_flag_f, put_u16 (h_flags h)), (F_flag_l, put_u16 (h_flags h)), (F_flag_s, put_u16 (h_flags h)),
      (F_session_id, put_u32 (h_session_id h)), (F_sequence, put_u32 (h_sequence h)), (F_wrid, put_u64 (h_wrid h)),
      (F_payload_len, put_u32 (h_payload_length h))]"

definition connect_fields :: "connect_payload \<Rightarrow> (field \<times> bytes) list" where
  "connect_fields p =
     [(F_pd_handle, put_u32 (pd_val (cp_pd p))), (F_cap_flags, put_u32 (cp_capability_flags p)),
      (F_max_msg_size, put_u32 (cp_max_msg_size p)), (F_icc, put_u32 (cp_icc p))]"

definition data_fields :: "bytes \<Rightarrow> (field \<times> bytes) list" where
  "data_fields bs = (if bs = [] then [] else [(F_data, bs)])"

primrec payload_fields :: "rdows_message \<Rightarrow> (field \<times> bytes) list" where
  "payload_fields (Connect h p) = connect_fields p"
| "payload_fields (ConnectAck h p) = connect_fields p"
| "payload_fields (Disconnect h) = []"
| "payload_fields (MrReg h p) =
     [(F_pd_handle, put_u32 (pd_val (mr_pd p))), (F_access_flags, put_u32 (af_bits (mr_access_flags p))),
      (F_region_len, put_u64 (mr_region_len p))] @
     (case mr_suggested_lkey p of Some lkey \<Rightarrow> [(F_lkey, put_u32 (lkey_val lkey))] | None \<Rightarrow> [])"
| "payload_fields (MrRegAck h p) =
     [(F_pd_handle, put_u32 (pd_val (mra_pd p))), (F_lkey, put_u32 (lkey_val (mra_lkey p))),
      (F_rkey, put_u32 (rkey_val (mra_rkey p))), (F_status, put_u16 (mra_status p))]"
| "payload_fields (MrDereg h p) = [(F_pd_handle, put_u32 (pd_val (md_pd p))), (F_lkey, put_u32 (lkey_val (md_lkey p)))]"
| "payload_fields (MrDeregAck h p) = [(F_status, put_u16 (mda_status p))]"
| "payload_fields (Send h p) = (F_sg_count, put_u16 (of_nat (length (sp_sg_list p)))) # concat (map sg_fields (sp_sg_list p))"
| "payload_fields (SendData h p) = data_fields (dp_data p)"
| "payload_fields (RecvComp h) = []"
| "payload_fields (Write h p) =
     [(F_rkey, put_u32 (rkey_val (wp_rkey p))), (F_remote_va, put_u64 (wp_remote_va p)), (F_write_len, put_u64 (wp_length p))] @
     concat (map sg_fields (wp_sg_list p))"
| "payload_fields (WriteData h p) = data_fields (dp_data p)"
| "payload_fields (WriteComp h) = []"
| "payload_fields (ReadReq h p) =
     [(F_rkey, put_u32 (rkey_val (rq_rkey p))), (F_remote_va, put_u64 (rq_remote_va p)), (F_read_len, put_u64 (rq_read_len p)),
      (F_local_lkey, put_u32 (lkey_val (rq_local_lkey p))), (F_local_va, put_u64 (rq_local_va p))]"
| "payload_fields (ReadResp h p) = (F_frag_offset, put_u64 (rr_fragment_offset p)) # data_fields (rr_data p)"
| "payload_fields (AtomicReq h p) =
     [(F_rkey, put_u32 (rkey_val (aq_rkey p))), (F_atomic_type, put_u8 (aq_atomic_type p)), (F_remote_va, put_u64 (aq_remote_va p)),
      (F_operand1, put_u64 (aq_operand1 p)), (F_operand2, put_u64 (aq_operand2 p))]"
| "payload_fields (AtomicResp h p) = [(F_orig_value, put_u64 (ar_original_value p)), (F_status, put_u16 (ar_status p))]"
| "payload_fields (Ack h) = []"
| "payload_fields (CreditUpdate h p) = [(F_credit_inc, put_u32 (cu_credit_increment p))]"
| "payload_fields (Error h p) =
     [(F_error_code, put_u16 (error_code_to_u16 (ep_error_code p))), (F_failing_seq, put_u32 (ep_failing_seq p)),
      (F_desc_len, put_u16 (of_nat (length (ep_description p))))] @
     (if ep_description p = [] then [] else [(F_desc, ep_description p)])"

lemma be_nat_Nil [simp]: "be_nat [] = 0"
  by (simp add: be_nat_def)

lemma be_nat_one [simp]: "be_nat [b] = unat b"
  by (simp add: be_nat_def)

lemma be_nat_snoc: "be_nat (bs @ [b]) = be_nat bs * 256 + unat b"
  by (simp add: be_nat_def)

lemma to_be_numeral: "to_be (numeral k) w = ucast (drop_bit (8 * pred_numeral k) w) # to_be (pred_numeral k) w"
  by (simp add: numeral_eq_Suc)

lemma be_nat_to_be: "be_nat (to_be n (w :: 'a::len word)) = unat w mod 256 ^ n"
proof (induction n arbitrary: w)
  case (Suc n)
  have "be_nat (to_be (Suc n) w) = unat (drop_bit 8 w) mod 256 ^ n * 256 + unat (ucast w :: u8)"
    by (simp only: to_be_snoc be_nat_snoc Suc.IH)
  moreover have "unat (drop_bit 8 w) = unat w div 256"
    by (simp only: unat_drop_bit_eq) (simp add: drop_bit_eq_div)
  moreover have "unat (ucast w :: u8) = unat w mod 256"
    by (simp add: unsigned_ucast_eq take_bit_eq_mod)
  ultimately show ?case by (simp add: mod_mult2_eq)
qed simp

lemma be_nat_u16 [simp]: "be_nat (put_u16 w) = unat w"
proof -
  have "unat w < 2 ^ 16" by (rule order.strict_trans2 [OF unsigned_less]) simp
  then show ?thesis by (simp add: be_nat_to_be)
qed

lemma slice_skip [simp]:
  "length xs \<le> a \<Longrightarrow> sub_slice (xs @ ys) a b = sub_slice ys (a - length xs) (b - length xs)"
  by (simp add: sub_slice_def)

lemma slice_first [simp]: "length xs = n \<Longrightarrow> sub_slice (xs @ ys) 0 n = xs"
  by (simp add: sub_slice_def)

lemma slice_all [simp]: "length xs = n \<Longrightarrow> sub_slice xs 0 n = xs"
  by (simp add: sub_slice_def)

lemma slice_Cons [simp]:
  "0 < a \<Longrightarrow> sub_slice (x # xs) a b = sub_slice xs (a - 1) (b - 1)"
  "sub_slice (x # xs) 0 (Suc 0) = [x]"
  by (simp_all add: sub_slice_def drop_Cons')

lemma header_slices:
  "map (slice_at (header_encode h @ bs)) ranges_header = header_fields h"
  "sub_slice (header_encode h @ bs) 1 2 = [opcode_to_u8 (h_opcode h)]"
  by (simp_all add: ranges_header_def header_fields_def header_encode_def sub_slice_def)

lemma sg_slices:
  assumes "length pre = offset + i * 16" and "buffer = pre @ concat (map sg_encode es)"
  shows "map (slice_at buffer) (sg_ranges (length buffer) offset i (length es)) = concat (map sg_fields es)"
  using assms
proof (induction es arbitrary: pre i)
  case (Cons e es)
  have "map (slice_at buffer) (sg_ranges (length buffer) offset (i + 1) (length es)) = concat (map sg_fields es)"
    by (rule Cons.IH [of "pre @ sg_encode e"]) (use Cons.prems in \<open>simp_all add: sg_encode_def\<close>)
  then show ?case using Cons.prems by (simp add: Let_def sg_fields_def [of e] sg_encode_def [of e])
qed simp

text \<open>What the ranges hold, for a payload behind a header of its opcode.\<close>

lemma u64_from_halves: "put_u32 (ucast (drop_bit 32 w)) @ put_u32 (ucast (w :: u64)) = put_u64 w"
  by (simp add: numeral_eq_Suc) (intro conjI; rule bit_word_eqI; auto simp: bit_simps)

lemma payload_slices:
  assumes "payload_wf m" and "length hd24 = 24"
  shows "map (slice_at (hd24 @ message_payload_encode m)) (ranges_payload (unat (opcode_to_u8 (message_opcode m))) (hd24 @ message_payload_encode m)) =
    payload_fields m"
proof (cases m)
  case (Connect h p)
  then show ?thesis using assms by (simp add: ranges_payload_def Let_def connect_fields_def connect_payload_encode_def)
next
  case (ConnectAck h p)
  then show ?thesis using assms by (simp add: ranges_payload_def Let_def connect_fields_def connect_payload_encode_def)
next
  case (MrReg h p)
  moreover have "mr_reg_payload_encode p = put_u32 (pd_val (mr_pd p)) @ put_u32 (af_bits (mr_access_flags p)) @
     put_u64 (mr_region_len p) @ (case mr_suggested_lkey p of Some lkey \<Rightarrow> put_u32 (lkey_val lkey) | None \<Rightarrow> [])"
    by (simp add: mr_reg_payload_encode_def flip: u64_from_halves)
  ultimately show ?thesis using assms by (simp add: ranges_payload_def Let_def split: option.split)
next
  case (Send h p)
  then show ?thesis
    using assms sg_slices [of "hd24 @ put_u16 (of_nat (length (sp_sg_list p))) @ put_u16 0" 28 0 _ "sp_sg_list p", OF _ refl]
    by (simp add: ranges_payload_def Let_def send_payload_encode_def unat_of_nat_u16)
next
  case (Write h p)
  then show ?thesis
    using assms sg_slices [of "hd24 @ put_u32 (rkey_val (wp_rkey p)) @ put_u32 0 @ put_u64 (wp_remote_va p) @ put_u64 (wp_length p)"
        48 0 _ "wp_sg_list p", OF _ refl]
    by (simp add: ranges_payload_def Let_def write_payload_encode_def sg.length_concat_enc SG_ENTRY_SIZE_def)
next
  case (Error h p)
  then show ?thesis using assms by (simp add: ranges_payload_def Let_def error_payload_encode_def unat_of_nat_u16)
qed (use assms in \<open>simp_all add: ranges_payload_def Let_def data_fields_def mr_reg_ack_payload_encode_def
  mr_dereg_payload_encode_def mr_dereg_ack_payload_encode_def data_payload_encode_def read_req_payload_encode_def
  read_resp_payload_encode_def atomic_req_payload_encode_def atomic_resp_payload_encode_def credit_update_payload_encode_def\<close>)

lemma message_encode_eq: "message_encode m = header_encode (message_header (on_wire m)) @ message_payload_encode m"
  by (simp add: message_encode_def on_wire_def Let_def)

lemma unat_u8_eq: "n < 256 \<Longrightarrow> unat b = n \<longleftrightarrow> b = (of_nat n :: u8)"
  by (auto simp: unsigned_of_nat take_bit_nat_eq_self)

lemma opcode_names_try_from:
  "map_of opcode_names (unat b) = None \<longleftrightarrow> (\<forall>op. opcode_try_from b \<noteq> Ok op)"
  by (simp add: opcode_names_def opcode_try_from_def unat_u8_eq)

text \<open>A field that is shown is part of the frame and as wide as declared.\<close>

definition leaf_ok :: "bytes \<Rightarrow> field \<times> bytes \<Rightarrow> bool" where
  "leaf_ok buffer = (\<lambda>(f, bs). field_width f \<in> {None, Some (length bs)} \<and> (\<exists>pre post. buffer = pre @ bs @ post))"

lemma range_leaf_ok: "range_ok (length buffer) r \<Longrightarrow> leaf_ok buffer (slice_at buffer r)"
proof -
  assume ok: "range_ok (length buffer) r"
  obtain f offset len where r: "r = (f, offset, len)" by (cases r)
  have "buffer = take offset buffer @ sub_slice buffer offset (offset + len) @ drop (offset + len) buffer"
    by (simp add: sub_slice_def flip: drop_drop) (metis append_take_drop_id add.commute drop_drop)
  then show ?thesis using ok r by (auto simp: leaf_ok_def range_ok_def)
qed

section \<open>Properties\<close>

text \<open>
  (C27) For a well-formed message the dissector shows, in this order, the header fields as they
  are on the wire and exactly the fields of the payload, each with the bytes the encoder wrote
  for it.
\<close>

theorem dissector_shows_message:
  assumes "message_wf m"
  shows "\<exists>v. dissector ws (message_encode m) = Ok (Some v) \<and>
    leaves (shown_tree v) = header_fields (message_header (on_wire m)) @ payload_fields m"
proof -
  let ?h = "message_header (on_wire m)"
  have op: "h_opcode ?h = message_opcode m" and wf: "payload_wf m"
    using assms by (simp_all add: message_wf_def)
  have "24 \<le> length (message_encode m)" by (simp add: length_message_encode HEADER_SIZE_def)
  then obtain v where "dissector ws (message_encode m) = Ok (Some v)"
    "leaves (shown_tree v) = map (slice_at (message_encode m)) (ranges_header @ ranges_payload (be_nat (sub_slice (message_encode m) 1 2)) (message_encode m))"
    by (rule dissector_presents)
  then show ?thesis
    using payload_slices [OF wf, of "header_encode ?h"]
    by (simp only: message_encode_eq header_slices op be_nat_one map_append) (simp add: HEADER_SIZE_def)
qed

definition sample_wireshark :: wireshark where
  "sample_wireshark = \<lparr>to_text = show_dec, range_string = id\<rparr>"

definition sample_frame :: rdows_message where
  "sample_frame = Write (header_new opcode.Write 7 2 9)
     \<lparr>wp_rkey = RKey 0xAB, wp_remote_va = 16, wp_length = 300,
      wp_sg_list = [\<lparr>sg_lkey = LKey 5, sg_offset = 8, sg_length = 300\<rparr>]\<rparr>"

definition sample_frame_fields :: "(field \<times> bytes) list" where
  "sample_frame_fields =
     [(F_version, [1]), (F_opcode, [0x30]), (F_flags, [0, 0]), (F_flag_f, [0, 0]), (F_flag_l, [0, 0]), (F_flag_s, [0, 0]),
      (F_session_id, [0, 0, 0, 7]), (F_sequence, [0, 0, 0, 2]), (F_wrid, [0, 0, 0, 0, 0, 0, 0, 9]),
      (F_payload_len, [0, 0, 0, 40]), (F_rkey, [0, 0, 0, 0xAB]), (F_remote_va, [0, 0, 0, 0, 0, 0, 0, 16]),
      (F_write_len, [0, 0, 0, 0, 0, 0, 1, 44]), (F_sg_lkey, [0, 0, 0, 5]), (F_sg_offset, [0, 0, 0, 0, 0, 0, 0, 8]),
      (F_sg_length, [0, 0, 1, 44])]"

theorem dissector_shows_message_witness:
  "message_wf sample_frame \<and>
   (\<exists>v. dissector sample_wireshark (message_encode sample_frame) = Ok (Some v) \<and> leaves (shown_tree v) = sample_frame_fields)"
proof -
  have wf: "message_wf sample_frame"
    by (simp add: message_wf_def sample_frame_def write_payload_encoded_len_def
        SG_ENTRY_SIZE_def WRITE_HEADER_SIZE_def)
  have eq: "header_fields (message_header (on_wire sample_frame)) @ payload_fields sample_frame = sample_frame_fields"
    by (simp add: sample_frame_def sample_frame_fields_def header_fields_def sg_fields_def on_wire_def header_new_def
        RDOWS_VERSION_def write_payload_encode_def sg_encode_def to_be_numeral)
  show ?thesis using wf dissector_shows_message [OF wf, of sample_wireshark] unfolding eq by (rule conjI)
qed

text \<open>
  (C28) On every buffer the dissector ends without an error of the interpreter: it ignores what is
  shorter than a header, and of everything else each field it shows is a part of the frame, as
  wide as the field is declared.
\<close>

theorem dissector_total:
  "case dissector ws buffer of
     Ok None \<Rightarrow> length buffer < HEADER_SIZE
   | Ok (Some v) \<Rightarrow> HEADER_SIZE \<le> length buffer \<and> list_all (leaf_ok buffer) (leaves (shown_tree v))
   | _ \<Rightarrow> False"
proof (cases "24 \<le> length buffer")
  case True
  then obtain v where "dissector ws buffer = Ok (Some v)"
    "leaves (shown_tree v) = map (slice_at buffer) (ranges_header @ ranges_payload (be_nat (sub_slice buffer 1 2)) buffer)"
    by (rule dissector_presents)
  moreover have "list_all (range_ok (length buffer)) (ranges_header @ ranges_payload (be_nat (sub_slice buffer 1 2)) buffer)"
    using ranges_header_ok [OF True] ranges_payload_ok by simp
  ultimately show ?thesis using True range_leaf_ok by (auto simp: HEADER_SIZE_def list_all_iff)
qed (simp add: dissector_def HEADER_SIZE_def)

text \<open>
  (C29) The fallback claims a frame exactly when the header decoder of the protocol accepts it,
  and shows what the dissector shows for it.
\<close>

theorem heuristic_exact:
  "rdows_heuristic ws buffer =
     (case header_decode buffer of
        Ok _ \<Rightarrow> rbind (dissector ws buffer) (\<lambda>v. Ok (True, v))
      | _ \<Rightarrow> Ok (False, None))"
proof (cases "24 \<le> length buffer")
  case True
  then have "sub_slice buffer 0 1 = [buffer ! 0]" "sub_slice buffer 1 2 = [buffer ! 1]"
    by (cases buffer; cases "tl buffer"; simp add: sub_slice_def)+
  moreover have "unat (buffer ! 0) = 1 \<longleftrightarrow> buffer ! 0 = RDOWS_VERSION"
    by (simp add: unat_u8_eq RDOWS_VERSION_def)
  ultimately show ?thesis
    using True opcode_names_try_from [of "buffer ! 1"]
    by (simp add: rdows_heuristic_def header_decode_long HEADER_SIZE_def in_frame del: One_nat_def split: result.split)
qed (simp add: rdows_heuristic_def header_decode_short HEADER_SIZE_def)

end
