(* ===== verification/Dialling.thy ===== *)
theory Dialling
  imports Refinement
begin

text \<open>
  From the URL to the WebSocket: the first half of \<open>connect\<close> in \<open>rdows-client/src/connection.rs\<close>.
  The libraries it calls are the fields of the record \<open>transport\<close>, with the texts of their
  errors. \<open>open_websocket\<close> is a dialler for the connection of \<open>Client\<close>.
\<close>

section \<open>Definitions\<close>

text \<open>
  \<open>tr_request\<close> is \<open>into_client_request\<close> with the host and the port of the request's URI, \<open>tr_upgrade\<close> is
  \<open>client_async\<close>, which sends the request with its subprotocol header and gives the header of the
  response.
\<close>

record ('conf, 'tcp, 'name, 'tls, 'p) transport =
  tr_request :: "rstring \<Rightarrow> (rstring, rstring option \<times> u16 option) result"
  tr_tcp :: "rstring \<Rightarrow> (rstring, 'tcp) result"
  tr_server_name :: "rstring \<Rightarrow> (rstring, 'name) result"
  tr_tls :: "'conf \<Rightarrow> 'name \<Rightarrow> 'tcp \<Rightarrow> (rstring, 'tls) result"
  tr_upgrade :: "rstring \<Rightarrow> rstring \<Rightarrow> 'tls \<Rightarrow> (rstring, rstring option \<times> 'p) result"

definition tcp_address :: "rstring \<Rightarrow> u16 option \<Rightarrow> rstring" where
  "tcp_address host port = host @ lit '':'' @ show_dec (unat (case port of Some p \<Rightarrow> p | None \<Rightarrow> 443))"

definition open_websocket :: "('conf, 'tcp, 'name, 'tls, 'p) transport \<Rightarrow> 'conf \<Rightarrow> 'p dialler" where
  "open_websocket tr tls_config url =
     rbind (map_err WebSocket (tr_request tr url)) (\<lambda>(host, port).
     rbind (ok_or (ConnectionRejected (lit ''no host in URL'')) host) (\<lambda>host.
     rbind (map_err (\<lambda>e. WebSocket (lit ''TCP connect: '' @ e)) (tr_tcp tr (tcp_address host port))) (\<lambda>tcp.
     rbind (map_err (\<lambda>e. Tls (lit ''invalid server name: '' @ e)) (tr_server_name tr host)) (\<lambda>server_name.
     rbind (map_err (\<lambda>e. Tls (lit ''TLS handshake: '' @ e)) (tr_tls tr tls_config server_name tcp)) (\<lambda>tls_stream.
     map_err (\<lambda>e. WebSocket (lit ''WS upgrade: '' @ e)) (tr_upgrade tr url SUBPROTOCOL tls_stream))))))"

section \<open>Lemmas\<close>

lemma map_err_Ok_iff: "map_err f r = Ok a \<longleftrightarrow> r = Ok a"
  by (cases r) simp_all

text \<open>The steps of a successful upgrade: the name that TLS checks is the host that TCP reached.\<close>

lemma open_websocket_Ok_iff:
  "open_websocket tr conf url = Ok (answer, peer) \<longleftrightarrow>
     (\<exists>host port tcp name stream. tr_request tr url = Ok (Some host, port) \<and> tr_tcp tr (tcp_address host port) = Ok tcp \<and>
        tr_server_name tr host = Ok name \<and> tr_tls tr conf name tcp = Ok stream \<and>
        tr_upgrade tr url SUBPROTOCOL stream = Ok (answer, peer))"
  by (auto simp: open_websocket_def rbind_Ok_iff map_err_Ok_iff ok_or_Ok_iff)

lemma connect_Ok_dialled:
  assumes "connect_with_config net dial os_rng url config = Ok c"
  shows "\<not> starts_with url (lit ''ws://'') \<and> (\<exists>answer peer. dial url = Ok (answer, peer) \<and> response_ok answer)"
  using assms by (auto simp: connect_with_config_def connect_def rbind_Ok_iff split: if_split_asm)

section \<open>Properties\<close>

text \<open>
  (C32) No connection without TLS. Whenever \<open>connect\<close> succeeds, the connection was upgraded over a TLS
  stream that was established with the caller's configuration, for the host that the URL names
  and over a TCP connection to this host and the URL's port (443 if it has none), and the
  response to the offer of \<open>rdows.v1\<close> contains this subprotocol. A URL with the scheme \<open>ws\<close> is
  refused.
\<close>

theorem connect_requires_tls:
  assumes "connect_with_config net (open_websocket tr tls_config) os_rng url config = Ok c"
  shows "\<not> starts_with url (lit ''ws://'') \<and>
    (\<exists>host port tcp name stream answer peer.
       tr_request tr url = Ok (Some host, port) \<and> tr_tcp tr (tcp_address host port) = Ok tcp \<and>
       tr_server_name tr host = Ok name \<and> tr_tls tr tls_config name tcp = Ok stream \<and>
       tr_upgrade tr url SUBPROTOCOL stream = Ok (answer, peer) \<and> response_ok answer)"
  using connect_Ok_dialled [OF assms] unfolding open_websocket_Ok_iff by blast

text \<open>A transport that connects every URL to a new session.\<close>

definition sample_transport :: "(nat, rstring, rstring, nat \<times> rstring, server_peer) transport" where
  "sample_transport = \<lparr>tr_request = (\<lambda>_. Ok (Some (lit ''localhost''), None)),
     tr_tcp = (\<lambda>addr. if addr = lit ''localhost:443'' then Ok addr else Err (lit ''refused'')),
     tr_server_name = Ok, tr_tls = (\<lambda>conf name tcp. Ok (conf, name)),
     tr_upgrade = (\<lambda>_ offer _. Ok (Some offer, fresh_peer sample_cfg 0))\<rparr>"

theorem connect_requires_tls_witness:
  "(\<exists>c. connect_with_config (server_net (\<lambda>_. (0, \<lambda>_. []))) (open_websocket sample_transport 5) (\<lambda>_. [0, 0, 0, 7])
      (lit ''wss://localhost/rdows'') connect_config_default = Ok c) \<and>
   (\<exists>tcp stream. tr_tcp sample_transport (lit ''localhost:443'') = Ok tcp \<and>
      tr_tls sample_transport 5 (lit ''localhost'') tcp = Ok stream)"
proof -
  let ?url = "lit ''wss://localhost/rdows''"
  have addr: "tcp_address (lit ''localhost'') None = lit ''localhost:443''" by code_simp
  have dial: "open_websocket sample_transport 5 ?url = Ok (Some SUBPROTOCOL, fresh_peer sample_cfg 0)"
    unfolding open_websocket_Ok_iff by (simp add: sample_transport_def addr)
  have url: "\<not> starts_with ?url (lit ''ws://'')" by (simp add: starts_with_def lit_def)
  have room: "cfg_max_outstanding_reads sample_cfg \<noteq> 0" "unat (cfg_recv_queue_depth sample_cfg) < 16383"
    by (simp_all add: sample_cfg_def server_config_default_def)
  obtain c where c: "connect_with_config (server_net (\<lambda>_. (0, \<lambda>_. []))) (open_websocket sample_transport 5) (\<lambda>_. [0, 0, 0, 7])
      ?url connect_config_default = Ok c"
    using connect_linked [of ?url "open_websocket sample_transport 5", OF url dial room, of connect_config_default]
    by (auto simp: connect_config_default_def DEFAULT_CQ_CAPACITY_def)
  from connect_requires_tls [OF c] have "\<exists>tcp stream. tr_tcp sample_transport (lit ''localhost:443'') = Ok tcp \<and>
      tr_tls sample_transport 5 (lit ''localhost'') tcp = Ok stream"
    using addr by (auto simp: sample_transport_def)
  with c show ?thesis by blast
qed

end
