(* ===== verification/Unit_Tests.thy ===== *)
theory Unit_Tests
  imports Messages
begin

text \<open>
  The unit tests of \<open>rdows-core\<close> (the \<open>tests\<close> modules of \<open>error.rs\<close>, \<open>frame.rs\<close>, \<open>memory.rs\<close>,
  \<open>message.rs\<close>, \<open>opcode.rs\<close> and \<open>queue.rs\<close>), run on the model. A test is a truth value: it is
  false when an assertion fails or an \<open>unwrap\<close> panics.
\<close>

section \<open>Definitions\<close>

subsection \<open>Error codes\<close>

definition test_error_codes :: "(u16 \<times> error_code) list" where
  "test_error_codes =
     [(0x0000, Success), (0x0001, ErrProtoVersion), (0x0002, ErrUnknownOpcode), (0x0003, ErrInvalidPd),
      (0x0004, ErrInvalidLkey), (0x0005, ErrInvalidMkey), (0x0006, ErrAccessDenied), (0x0007, ErrBounds),
      (0x0008, ErrAlignment), (0x0009, ErrPayloadSize), (0x0010, ErrRnr), (0x0020, ErrCqOverflow),
      (0x0030, ErrSeqGap), (0x0040, ErrTimeout), (0xFFFF, ErrInternal)]"

definition round_trip_all_error_codes :: bool where
  "round_trip_all_error_codes =
     list_all (\<lambda>(val, expect). case error_code_try_from val of
       Ok code \<Rightarrow> code = expect \<and> error_code_to_u16 code = val | _ \<Rightarrow> False) test_error_codes"

definition unknown_error_code :: bool where
  "unknown_error_code \<longleftrightarrow> is_err (error_code_try_from 0x00FF) \<and> is_err (error_code_try_from 0x000A)"

subsection \<open>Frame header\<close>

definition header_round_trip :: bool where
  "header_round_trip =
     (let header = \<lparr>h_version = RDOWS_VERSION, h_opcode = opcode.Write, h_flags = FLAG_F OR FLAG_S, h_session_id = 0xDEADBEEF,
            h_sequence = 42, h_wrid = 0x0123456789ABCDEF, h_payload_length = 1024\<rparr>;
          buf = header_encode header
      in length buf = HEADER_SIZE \<and> (case header_decode buf of Ok (decoded, _) \<Rightarrow> decoded = header | _ \<Rightarrow> False))"

definition boundary_values :: bool where
  "boundary_values =
     (let header = \<lparr>h_version = RDOWS_VERSION, h_opcode = opcode.Ack, h_flags = 0xFFFF, h_session_id = 0xFFFFFFFF,
            h_sequence = 0xFFFFFFFF, h_wrid = 0xFFFFFFFFFFFFFFFF, h_payload_length = 0xFFFFFFFF\<rparr>;
          buf = header_encode header
      in case header_decode buf of Ok (decoded, _) \<Rightarrow> decoded = header | _ \<Rightarrow> False)"

definition invalid_version :: bool where
  "invalid_version =
     (let buf = put_u8 0x02 @ put_u8 0x01 @ put_bytes 0 22 in
      case header_decode buf of Err err \<Rightarrow> err = InvalidVersion 0x02 | _ \<Rightarrow> False)"

definition invalid_opcode_test :: bool where
  "invalid_opcode_test =
     (let buf = put_u8 RDOWS_VERSION @ put_u8 0xFF @ put_bytes 0 22 in
      case header_decode buf of Err err \<Rightarrow> err = InvalidOpcode 0xFF | _ \<Rightarrow> False)"

definition too_short :: bool where
  "too_short = (case header_decode [0x01, 0x02, 0x03] of Err err \<Rightarrow> err = HeaderTooShort 3 | _ \<Rightarrow> False)"

definition flag_helpers :: bool where
  "flag_helpers =
     (let h = header_new opcode.Send 1 0 0; f = h\<lparr>h_flags := FLAG_F\<rparr>; fl = h\<lparr>h_flags := FLAG_F OR FLAG_L\<rparr>; s = h\<lparr>h_flags := FLAG_S\<rparr> in
      \<not> is_fragment h \<and> \<not> is_last_fragment h \<and> \<not> is_solicited h \<and> is_fragment f \<and> \<not> is_last_fragment f \<and>
      is_fragment fl \<and> is_last_fragment fl \<and> is_solicited s)"

subsection \<open>Access flags\<close>

definition access_flags_contains :: bool where
  "access_flags_contains =
     (let flags = af_bitor REMOTE_WRITE REMOTE_READ in
      af_contains flags REMOTE_WRITE \<and> af_contains flags REMOTE_READ \<and> \<not> af_contains flags LOCAL_WRITE \<and>
      \<not> af_contains flags REMOTE_ATOMIC)"

definition access_flags_empty :: bool where
  "access_flags_empty \<longleftrightarrow> af_is_empty (AccessFlags 0) \<and> \<not> af_is_empty LOCAL_WRITE"

definition access_flags_bitor_assign :: bool where
  "access_flags_bitor_assign =
     (let flags = AccessFlags 0;
          flags = af_bitor_assign flags LOCAL_WRITE;
          flags = af_bitor_assign flags REMOTE_READ in
      af_contains flags LOCAL_WRITE \<and> af_contains flags REMOTE_READ \<and> af_bits flags = 0x05)"

subsection \<open>Opcodes\<close>

definition test_opcodes :: "(u8 \<times> opcode) list" where
  "test_opcodes =
     [(0x01, opcode.Connect), (0x02, opcode.ConnectAck), (0x03, opcode.Disconnect), (0x10, opcode.MrReg), (0x11, opcode.MrRegAck),
      (0x12, opcode.MrDereg), (0x13, opcode.MrDeregAck), (0x20, opcode.Send), (0x21, opcode.SendData), (0x22, opcode.RecvComp),
      (0x30, opcode.Write), (0x31, opcode.WriteData), (0x32, opcode.WriteComp), (0x40, opcode.ReadReq), (0x41, opcode.ReadResp),
      (0x50, opcode.AtomicReq), (0x51, opcode.AtomicResp), (0x60, opcode.Ack), (0x61, opcode.CreditUpdate), (0xF0, opcode.Error)]"

definition round_trip_all_opcodes :: bool where
  "round_trip_all_opcodes =
     list_all (\<lambda>(byte, expect). case opcode_try_from byte of
       Ok op \<Rightarrow> op = expect \<and> opcode_to_u8 op = byte | _ \<Rightarrow> False) test_opcodes"

definition unknown_opcode_errors :: bool where
  "unknown_opcode_errors =
     list_all (\<lambda>byte. is_err (opcode_try_from byte)) [0x00, 0x04, 0x0F, 0x14, 0x23, 0x33, 0x42, 0x52, 0x62, 0xEF, 0xF1, 0xFF]"

definition protocol_messages :: bool where
  "protocol_messages \<longleftrightarrow>
     is_protocol_message opcode.Connect \<and> is_protocol_message opcode.ConnectAck \<and> is_protocol_message opcode.Ack \<and>
     is_protocol_message opcode.Error \<and> is_protocol_message opcode.CreditUpdate \<and> \<not> is_protocol_message opcode.Send \<and>
     \<not> is_protocol_message opcode.Write"

subsection \<open>Queue entries\<close>

definition sg_entry_round_trip :: bool where
  "sg_entry_round_trip =
     (let entry = \<lparr>sg_lkey = LKey 0x12345678, sg_offset = 0xDEADBEEFCAFEBABE, sg_length = 4096\<rparr>; buf = sg_encode entry in
      length buf = SG_ENTRY_SIZE \<and> (case sg_decode buf of Ok (decoded, _) \<Rightarrow> decoded = entry | _ \<Rightarrow> False))"

definition cqe_round_trip :: bool where
  "cqe_round_trip =
     (let cqe = \<lparr>cqe_wrid = WorkRequestId 42, cqe_status = 0, cqe_opcode = opcode.Write, cqe_vendor_error = 0,
            cqe_byte_count = 8192, cqe_qp_number = 0xDEADBEEF\<rparr>;
          buf = cqe_encode cqe
      in length buf = CQE_SIZE \<and> (case cqe_decode buf of Ok (decoded, _) \<Rightarrow> decoded = cqe | _ \<Rightarrow> False))"

definition cqe_with_error :: bool where
  "cqe_with_error =
     (let cqe = \<lparr>cqe_wrid = WorkRequestId 99, cqe_status = 0x0005, cqe_opcode = opcode.ReadReq, cqe_vendor_error = 0x42,
            cqe_byte_count = 0, cqe_qp_number = 1\<rparr>;
          buf = cqe_encode cqe
      in case cqe_decode buf of Ok (decoded, _) \<Rightarrow> decoded = cqe | _ \<Rightarrow> False)"

subsection \<open>Messages\<close>

text \<open>
  The helper of the tests. The payload length of a message under test is zero, and the encoder
  fills it in, so the test compares the encodings and the two decoded values.
\<close>

definition round_trip :: "rdows_message \<Rightarrow> bool" where
  "round_trip msg =
     (let encoded = message_encode msg in
      case message_decode encoded of
        Ok decoded \<Rightarrow>
          let re_encoded = message_encode decoded; encoded2 = message_encode msg in
          re_encoded = encoded2 \<and>
          (case message_decode encoded2 of Ok decoded2 \<Rightarrow> decoded = decoded2 | _ \<Rightarrow> False)
      | _ \<Rightarrow> False)"

definition make_header :: "opcode \<Rightarrow> rdows_header" where
  "make_header opcode = header_new opcode 0xABCD 1 42"

definition connect_round_trip :: bool where
  "connect_round_trip = round_trip (Connect (make_header opcode.Connect)
     \<lparr>cp_pd = ProtectionDomain 1, cp_capability_flags = 0, cp_max_msg_size = 16 * 1024 * 1024, cp_icc = 65535\<rparr>)"

definition connect_ack_round_trip :: bool where
  "connect_ack_round_trip = round_trip (ConnectAck (make_header opcode.ConnectAck)
     \<lparr>cp_pd = ProtectionDomain 2, cp_capability_flags = 0xFF, cp_max_msg_size = 1024, cp_icc = 128\<rparr>)"

definition disconnect_round_trip :: bool where
  "disconnect_round_trip = round_trip (Disconnect (make_header opcode.Disconnect))"

definition mr_reg_without_suggested_lkey :: bool where
  "mr_reg_without_suggested_lkey = round_trip (MrReg (make_header opcode.MrReg)
     \<lparr>mr_pd = ProtectionDomain 1, mr_access_flags = af_bitor REMOTE_WRITE REMOTE_READ, mr_region_len = 4096,
      mr_suggested_lkey = None\<rparr>)"

definition mr_reg_with_suggested_lkey :: bool where
  "mr_reg_with_suggested_lkey = round_trip (MrReg (make_header opcode.MrReg)
     \<lparr>mr_pd = ProtectionDomain 1, mr_access_flags = LOCAL_WRITE, mr_region_len = 0x100000000,
      mr_suggested_lkey = Some (LKey 99)\<rparr>)"

definition mr_reg_ack_round_trip :: bool where
  "mr_reg_ack_round_trip = round_trip (MrRegAck (make_header opcode.MrRegAck)
     \<lparr>mra_pd = ProtectionDomain 1, mra_lkey = LKey 10, mra_rkey = RKey 0xDEADBEEF, mra_status = 0\<rparr>)"

definition mr_dereg_round_trip :: bool where
  "mr_dereg_round_trip = round_trip (MrDereg (make_header opcode.MrDereg) \<lparr>md_pd = ProtectionDomain 1, md_lkey = LKey 10\<rparr>)"

definition mr_dereg_ack_round_trip :: bool where
  "mr_dereg_ack_round_trip = round_trip (MrDeregAck (make_header opcode.MrDeregAck) \<lparr>mda_status = 0\<rparr>)"

definition send_empty_sg :: bool where
  "send_empty_sg = round_trip (Send (make_header opcode.Send) \<lparr>sp_sg_list = []\<rparr>)"

definition send_multiple_sg :: bool where
  "send_multiple_sg = round_trip (Send (make_header opcode.Send)
     \<lparr>sp_sg_list =
       [\<lparr>sg_lkey = LKey 1, sg_offset = 0, sg_length = 100\<rparr>,
        \<lparr>sg_lkey = LKey 2, sg_offset = 256, sg_length = 200\<rparr>,
        \<lparr>sg_lkey = LKey 3, sg_offset = 0, sg_length = 50\<rparr>]\<rparr>)"

definition send_data_round_trip :: bool where
  "send_data_round_trip = round_trip (SendData (make_header opcode.SendData) \<lparr>dp_data = lit ''Hello, RDoWS!''\<rparr>)"

definition recv_comp_round_trip :: bool where
  "recv_comp_round_trip = round_trip (RecvComp (make_header opcode.RecvComp))"

definition write_round_trip :: bool where
  "write_round_trip = round_trip (Write (make_header opcode.Write)
     \<lparr>wp_rkey = RKey 0xCAFEBABE, wp_remote_va = 1024, wp_length = 100,
      wp_sg_list = [\<lparr>sg_lkey = LKey 1, sg_offset = 0, sg_length = 100\<rparr>]\<rparr>)"

definition write_data_round_trip :: bool where
  "write_data_round_trip = round_trip (WriteData (make_header opcode.WriteData) \<lparr>dp_data = replicate 256 0xAB\<rparr>)"

definition write_comp_round_trip :: bool where
  "write_comp_round_trip = round_trip (WriteComp (make_header opcode.WriteComp))"

definition read_req_round_trip :: bool where
  "read_req_round_trip = round_trip (ReadReq (make_header opcode.ReadReq)
     \<lparr>rq_rkey = RKey 0x12345678, rq_remote_va = 0, rq_read_len = 4096, rq_local_lkey = LKey 5, rq_local_va = 0\<rparr>)"

definition read_resp_round_trip :: bool where
  "read_resp_round_trip = round_trip (ReadResp (make_header opcode.ReadResp)
     \<lparr>rr_fragment_offset = 0, rr_data = replicate 128 42\<rparr>)"

definition atomic_req_round_trip :: bool where
  "atomic_req_round_trip = round_trip (AtomicReq (make_header opcode.AtomicReq)
     \<lparr>aq_rkey = RKey 1, aq_atomic_type = ATOMIC_TYPE_CAS, aq_remote_va = 0, aq_operand1 = 100, aq_operand2 = 200\<rparr>)"

definition atomic_resp_round_trip :: bool where
  "atomic_resp_round_trip = round_trip (AtomicResp (make_header opcode.AtomicResp) \<lparr>ar_original_value = 100, ar_status = 0\<rparr>)"

definition ack_round_trip :: bool where
  "ack_round_trip = round_trip (Ack (make_header opcode.Ack))"

definition credit_update_round_trip :: bool where
  "credit_update_round_trip = round_trip (CreditUpdate (make_header opcode.CreditUpdate) \<lparr>cu_credit_increment = 128\<rparr>)"

definition error_with_description :: bool where
  "error_with_description = round_trip (Error (make_header opcode.Error)
     \<lparr>ep_error_code = ErrInvalidMkey, ep_failing_seq = 7, ep_description = lit ''R_Key 0xDEADBEEF not found''\<rparr>)"

definition error_without_description :: bool where
  "error_without_description = round_trip (Error (make_header opcode.Error)
     \<lparr>ep_error_code = ErrRnr, ep_failing_seq = 0, ep_description = []\<rparr>)"

subsection \<open>The suites\<close>

definition basic_tests :: "bool list" where
  "basic_tests =
     [round_trip_all_error_codes, unknown_error_code, header_round_trip, boundary_values, invalid_version, invalid_opcode_test,
      too_short, flag_helpers, access_flags_contains, access_flags_empty, access_flags_bitor_assign, round_trip_all_opcodes,
      unknown_opcode_errors, protocol_messages, sg_entry_round_trip, cqe_round_trip, cqe_with_error]"

definition message_tests :: "bool list" where
  "message_tests =
     [connect_round_trip, connect_ack_round_trip, disconnect_round_trip, mr_reg_without_suggested_lkey, mr_reg_with_suggested_lkey,
      mr_reg_ack_round_trip, mr_dereg_round_trip, mr_dereg_ack_round_trip, send_empty_sg, send_multiple_sg, send_data_round_trip,
      recv_comp_round_trip, write_round_trip, write_data_round_trip, write_comp_round_trip, read_req_round_trip,
      read_resp_round_trip, atomic_req_round_trip, atomic_resp_round_trip, ack_round_trip, credit_update_round_trip,
      error_with_description, error_without_description]"

section \<open>Lemmas\<close>

text \<open>The helper succeeds on every well-formed message, not only on those of the tests.\<close>

lemma round_trip_wf: "message_wf m \<Longrightarrow> round_trip m"
  by (simp add: round_trip_def message_decode_encode)

lemmas message_test_defs =
  connect_round_trip_def connect_ack_round_trip_def disconnect_round_trip_def mr_reg_without_suggested_lkey_def
  mr_reg_with_suggested_lkey_def mr_reg_ack_round_trip_def mr_dereg_round_trip_def mr_dereg_ack_round_trip_def
  send_empty_sg_def send_multiple_sg_def send_data_round_trip_def recv_comp_round_trip_def write_round_trip_def
  write_data_round_trip_def write_comp_round_trip_def read_req_round_trip_def read_resp_round_trip_def
  atomic_req_round_trip_def atomic_resp_round_trip_def ack_round_trip_def credit_update_round_trip_def
  error_with_description_def error_without_description_def

lemma message_tests_pass: "list_all id message_tests"
  by (simp add: message_tests_def message_test_defs round_trip_wf message_wf_def make_header_def is_utf8_ascii lit_def
      write_payload_encoded_len_def read_resp_payload_encoded_len_def WRITE_HEADER_SIZE_def SG_ENTRY_SIZE_def)

lemma codec_tests_pass: "header_round_trip" "boundary_values" "sg_entry_round_trip" "cqe_round_trip" "cqe_with_error"
  using header_decode_encode [where rest = "[]"] sg.dec_enc [where rest = "[]"] cqe.dec_enc [where rest = "[]"]
  by (simp_all add: header_round_trip_def boundary_values_def sg_entry_round_trip_def cqe_round_trip_def cqe_with_error_def
      sg.enc_width cqe.enc_width)

lemma table_tests_pass: "round_trip_all_error_codes" "unknown_error_code" "round_trip_all_opcodes" "unknown_opcode_errors" "protocol_messages"
  by (simp_all add: round_trip_all_error_codes_def test_error_codes_def unknown_error_code_def round_trip_all_opcodes_def
      test_opcodes_def unknown_opcode_errors_def protocol_messages_def error_code_try_from_def opcode_try_from_def)

lemma header_tests_pass: "invalid_version" "invalid_opcode_test" "too_short" "flag_helpers"
  by (simp_all add: invalid_version_def invalid_opcode_test_def too_short_def flag_helpers_def header_decode_def HEADER_SIZE_def
      RDOWS_VERSION_def opcode_try_from_def is_fragment_def is_last_fragment_def is_solicited_def header_new_def
      FLAG_F_def FLAG_L_def FLAG_S_def Let_def)

lemma flag_tests_pass: "access_flags_contains" "access_flags_empty" "access_flags_bitor_assign"
  by (simp_all add: access_flags_contains_def access_flags_empty_def access_flags_bitor_assign_def af_contains_def af_bitor_def af_bitor_assign_def Let_def
      af_is_empty_def LOCAL_WRITE_def REMOTE_WRITE_def REMOTE_READ_def REMOTE_ATOMIC_def)

section \<open>Properties\<close>

text \<open>The unit tests of the core library pass on the model.\<close>

theorem core_tests_pass: "list_all id (basic_tests @ message_tests)"
  by (simp add: basic_tests_def message_tests_pass codec_tests_pass table_tests_pass header_tests_pass flag_tests_pass)

end
