(* ===== verification/Integration_Tests.thy ===== *)
theory Integration_Tests
  imports Startup Verbs
begin

text \<open>
  The integration tests of the client crate (\<open>rdows-client/tests/integration.rs\<close>): programs over
  the verbs with assertions, each run against a server it starts. A test panics when an
  assertion or an \<open>unwrap\<close> fails. \<open>Test_Runs\<close> shows that they pass.
\<close>

section \<open>Calls and assertions\<close>

type_synonym 'p test = "'p network \<Rightarrow> 'p rdows_connection \<Rightarrow> (rdows_error, unit) result \<times> 'p rdows_connection"

text \<open>A call followed by \<open>unwrap\<close>, and a call whose result is kept.\<close>

definition unwrapped :: "('e, 'a) result \<times> 'c \<Rightarrow> (rdows_error, 'a) result \<times> 'c" where
  "unwrapped p = (unwrap (fst p), snd p)"

definition caught :: "('e, 'a) result \<times> 'c \<Rightarrow> (rdows_error, ('e, 'a) result) result \<times> 'c" where
  "caught p = (case fst p of Panic \<Rightarrow> Panic | Blocked \<Rightarrow> Blocked | r \<Rightarrow> Ok r, snd p)"

definition assert :: "bool \<Rightarrow> 'c \<Rightarrow> (rdows_error, unit) result \<times> 'c" where
  "assert b c = (if b then Ok () else Panic, c)"

text \<open>\<open>assert!(err.is_err())\<close> and the match on the error that follows it.\<close>

definition assert_code :: "error_code \<Rightarrow> (rdows_error, 'a) result \<Rightarrow> 'c \<Rightarrow> (rdows_error, unit) result \<times> 'c" where
  "assert_code code err c =
     sbind (assert (is_err err) c) (\<lambda>_ c. (case err of Err (Protocol e) \<Rightarrow> assert (e = code) c | _ \<Rightarrow> (Panic, c)))"

definition poll_cq :: "usize \<Rightarrow> 'p rdows_connection \<Rightarrow> (rdows_error, completion_queue_entry list) result \<times> 'p rdows_connection" where
  "poll_cq limit c = (case cn_poll_cq limit c of (cqes, c) \<Rightarrow> (Ok cqes, c))"

definition read_local :: "lkey \<Rightarrow> usize \<Rightarrow> usize \<Rightarrow> 'p rdows_connection \<Rightarrow> (rdows_error, bytes) result \<times> 'p rdows_connection" where
  "read_local lkey offset len c = (unwrap (read_local_mr lkey offset len c), c)"

text \<open>The assertions on a polled list: its length, and fields of \<open>cqes[0]\<close>.\<close>

definition one_cqe :: "(completion_queue_entry \<Rightarrow> bool) \<Rightarrow> completion_queue_entry list \<Rightarrow> bool" where
  "one_cqe P cqes \<longleftrightarrow> length cqes = 1 \<and> P (cqes ! 0)"

abbreviation entry :: "lkey \<Rightarrow> u32 \<Rightarrow> scatter_gather_entry" where
  "entry lkey len \<equiv> \<lparr>sg_lkey = lkey, sg_offset = 0, sg_length = len\<rparr>"

definition finish :: "'p test" where
  "finish net c = unwrapped (disconnect net c)"

section \<open>Connection\<close>

definition connect_and_disconnect :: "'p test" where
  "connect_and_disconnect net c =
     sbind (assert (cn_session_id c \<noteq> 0) c) (\<lambda>_ c.
     finish net c)"

text \<open>The one test without a server. The text of the error is that of \<open>RdowsError\<close>.\<close>

definition contains :: "rstring \<Rightarrow> rstring \<Rightarrow> bool" where
  "contains s t = list_ex (\<lambda>i. starts_with (drop i s) t) [0..<Suc (length s)]"

definition reject_ws_url :: "'p network \<Rightarrow> 'p dialler \<Rightarrow> (nat \<Rightarrow> bytes) \<Rightarrow> bool" where
  "reject_ws_url net dial os_rng =
     (case connection_connect net dial os_rng (lit ''ws://localhost:1234/rdows'') of
        Err e \<Rightarrow> contains (rdows_error_display e) (lit ''TLS required'')
      | _ \<Rightarrow> False)"

section \<open>Memory regions\<close>

definition register_and_deregister_mr :: "'p test" where
  "register_and_deregister_mr net c =
     sbind (unwrapped (reg_mr net (af_bitor REMOTE_WRITE REMOTE_READ) 4096 c)) (\<lambda>mr c.
     sbind (assert (rkey_val (mh_rkey mr) \<noteq> 0 \<and> lkey_val (mh_lkey mr) \<noteq> 0 \<and> mh_len mr = 4096) c) (\<lambda>_ c.
     sbind (unwrapped (dereg_mr net (mh_lkey mr) c)) (\<lambda>_ c.
     finish net c)))"

definition unique_rkeys :: "'p test" where
  "unique_rkeys net c =
     sbind (unwrapped (reg_mr net REMOTE_READ 64 c)) (\<lambda>mr1 c.
     sbind (unwrapped (reg_mr net REMOTE_READ 64 c)) (\<lambda>mr2 c.
     sbind (unwrapped (reg_mr net REMOTE_READ 64 c)) (\<lambda>mr3 c.
     sbind (assert (mh_rkey mr1 \<noteq> mh_rkey mr2 \<and> mh_rkey mr2 \<noteq> mh_rkey mr3 \<and> mh_rkey mr1 \<noteq> mh_rkey mr3) c) (\<lambda>_ c.
     finish net c))))"

section \<open>Sending\<close>

definition post_send_test :: "'p test" where
  "post_send_test net c =
     sbind (unwrapped (reg_mr net LOCAL_WRITE 256 c)) (\<lambda>mr c.
     sbind (unwrapped (write_local_mr (mh_lkey mr) 0 (lit ''Hello, RDoWS!'') c)) (\<lambda>_ c.
     sbind (unwrapped (post_send net 1 [entry (mh_lkey mr) 13] c)) (\<lambda>_ c.
     sbind (poll_cq 10 c) (\<lambda>cqes c.
     sbind (assert (one_cqe (\<lambda>e. wrid_val (cqe_wrid e) = 1 \<and> cqe_status e = 0 \<and> cqe_byte_count e = 13) cqes) c) (\<lambda>_ c.
     finish net c)))))"

section \<open>Writing and reading\<close>

definition test_data :: bytes where
  "test_data = lit ''The CPU never saw this coming''"

definition rdma_write_and_read :: "'p test" where
  "rdma_write_and_read net c =
     sbind (unwrapped (reg_mr net (af_bitor REMOTE_WRITE REMOTE_READ) 1024 c)) (\<lambda>remote_mr c.
     sbind (unwrapped (reg_mr net LOCAL_WRITE 1024 c)) (\<lambda>local_mr c.
     sbind (unwrapped (write_local_mr (mh_lkey local_mr) 0 test_data c)) (\<lambda>_ c.
     sbind (unwrapped (rdma_write net 10 (mh_rkey remote_mr) 100 [entry (mh_lkey local_mr) (of_nat (length test_data))] c)) (\<lambda>_ c.
     sbind (poll_cq 10 c) (\<lambda>cqes c.
     sbind (assert (one_cqe (\<lambda>e. wrid_val (cqe_wrid e) = 10 \<and> cqe_status e = 0) cqes) c) (\<lambda>_ c.
     sbind (unwrapped (reg_mr net LOCAL_WRITE 1024 c)) (\<lambda>read_mr c.
     sbind (unwrapped (rdma_read net 20 (mh_rkey remote_mr) 100 (of_nat (length test_data)) (mh_lkey read_mr) 0 c)) (\<lambda>_ c.
     sbind (poll_cq 10 c) (\<lambda>cqes c.
     sbind (assert (one_cqe (\<lambda>e. wrid_val (cqe_wrid e) = 20 \<and> cqe_status e = 0) cqes) c) (\<lambda>_ c.
     sbind (read_local (mh_lkey read_mr) 0 (length test_data) c) (\<lambda>read_back c.
     sbind (assert (read_back = test_data) c) (\<lambda>_ c.
     finish net c))))))))))))"

definition rdma_write_access_denied :: "'p test" where
  "rdma_write_access_denied net c =
     sbind (unwrapped (reg_mr net REMOTE_READ 256 c)) (\<lambda>mr c.
     sbind (unwrapped (reg_mr net LOCAL_WRITE 256 c)) (\<lambda>local_mr c.
     sbind (unwrapped (write_local_mr (mh_lkey local_mr) 0 (lit ''data'') c)) (\<lambda>_ c.
     sbind (caught (rdma_write net 1 (mh_rkey mr) 0 [entry (mh_lkey local_mr) 4] c)) (\<lambda>err c.
     sbind (assert_code ErrAccessDenied err c) (\<lambda>_ c.
     finish net c)))))"

definition rdma_write_bounds_error :: "'p test" where
  "rdma_write_bounds_error net c =
     sbind (unwrapped (reg_mr net REMOTE_WRITE 64 c)) (\<lambda>mr c.
     sbind (unwrapped (reg_mr net LOCAL_WRITE 256 c)) (\<lambda>local_mr c.
     sbind (unwrapped (write_local_mr (mh_lkey local_mr) 0 (replicate 128 0xAA) c)) (\<lambda>_ c.
     sbind (caught (rdma_write net 1 (mh_rkey mr) 0 [entry (mh_lkey local_mr) 128] c)) (\<lambda>err c.
     sbind (assert_code ErrBounds err c) (\<lambda>_ c.
     finish net c)))))"

definition rdma_read_invalid_rkey :: "'p test" where
  "rdma_read_invalid_rkey net c =
     sbind (unwrapped (reg_mr net LOCAL_WRITE 256 c)) (\<lambda>local_mr c.
     sbind (caught (rdma_read net 1 (RKey 0xDEADBEEF) 0 64 (mh_lkey local_mr) 0 c)) (\<lambda>err c.
     sbind (assert_code ErrInvalidMkey err c) (\<lambda>_ c.
     finish net c)))"

section \<open>Atomics\<close>

definition write_remote_u64 :: "rkey \<Rightarrow> u64 \<Rightarrow> u64 \<Rightarrow> 'p test" where
  "write_remote_u64 rkey offset v net c =
     sbind (unwrapped (reg_mr net LOCAL_WRITE 8 c)) (\<lambda>local_mr c.
     sbind (unwrapped (write_local_mr (mh_lkey local_mr) 0 (put_u64 v) c)) (\<lambda>_ c.
     sbind (unwrapped (rdma_write net 0 rkey offset [entry (mh_lkey local_mr) 8] c)) (\<lambda>_ c.
     sbind (poll_cq 10 c) (\<lambda>_ c.
     (Ok (), c)))))"

definition read_remote_u64 :: "rkey \<Rightarrow> u64 \<Rightarrow> 'p network \<Rightarrow> 'p rdows_connection \<Rightarrow> (rdows_error, u64) result \<times> 'p rdows_connection" where
  "read_remote_u64 rkey offset net c =
     sbind (unwrapped (reg_mr net LOCAL_WRITE 8 c)) (\<lambda>local_mr c.
     sbind (unwrapped (rdma_read net 0 rkey offset 8 (mh_lkey local_mr) 0 c)) (\<lambda>_ c.
     sbind (poll_cq 10 c) (\<lambda>_ c.
     sbind (read_local (mh_lkey local_mr) 0 8 c) (\<lambda>data c.
     (if length data = 8 then Ok (from_be data) else Panic, c)))))"

abbreviation all_remote :: access_flags where
  "all_remote \<equiv> af_bitor (af_bitor REMOTE_ATOMIC REMOTE_WRITE) REMOTE_READ"

definition atomic_cas_success :: "'p test" where
  "atomic_cas_success net c =
     sbind (unwrapped (reg_mr net all_remote 64 c)) (\<lambda>mr c.
     sbind (write_remote_u64 (mh_rkey mr) 0 0xDEADBEEF net c) (\<lambda>_ c.
     sbind (unwrapped (atomic_cas net 1 (mh_rkey mr) 0 0xDEADBEEF 0xCAFEBABE c)) (\<lambda>original c.
     sbind (assert (original = 0xDEADBEEF) c) (\<lambda>_ c.
     sbind (poll_cq 10 c) (\<lambda>cqes c.
     sbind (assert (one_cqe (\<lambda>e. wrid_val (cqe_wrid e) = 1 \<and> cqe_status e = 0 \<and> cqe_byte_count e = 8) cqes) c) (\<lambda>_ c.
     sbind (read_remote_u64 (mh_rkey mr) 0 net c) (\<lambda>readback c.
     sbind (assert (readback = 0xCAFEBABE) c) (\<lambda>_ c.
     finish net c))))))))"

definition atomic_cas_no_match :: "'p test" where
  "atomic_cas_no_match net c =
     sbind (unwrapped (reg_mr net all_remote 64 c)) (\<lambda>mr c.
     sbind (write_remote_u64 (mh_rkey mr) 0 0xDEADBEEF net c) (\<lambda>_ c.
     sbind (unwrapped (atomic_cas net 1 (mh_rkey mr) 0 0x1111 0xCAFE c)) (\<lambda>original c.
     sbind (assert (original = 0xDEADBEEF) c) (\<lambda>_ c.
     sbind (read_remote_u64 (mh_rkey mr) 0 net c) (\<lambda>readback c.
     sbind (assert (readback = 0xDEADBEEF) c) (\<lambda>_ c.
     finish net c))))))"

definition atomic_faa_test :: "'p test" where
  "atomic_faa_test net c =
     sbind (unwrapped (reg_mr net all_remote 64 c)) (\<lambda>mr c.
     sbind (write_remote_u64 (mh_rkey mr) 0 100 net c) (\<lambda>_ c.
     sbind (unwrapped (atomic_faa net 1 (mh_rkey mr) 0 50 c)) (\<lambda>original c.
     sbind (assert (original = 100) c) (\<lambda>_ c.
     sbind (read_remote_u64 (mh_rkey mr) 0 net c) (\<lambda>readback c.
     sbind (assert (readback = 150) c) (\<lambda>_ c.
     finish net c))))))"

text \<open>The three tests of refused atomics have the same text but for four constants.\<close>

definition atomic_refused :: "access_flags \<Rightarrow> u64 \<Rightarrow> u64 \<Rightarrow> error_code \<Rightarrow> 'p test" where
  "atomic_refused flags len offset code net c =
     sbind (unwrapped (reg_mr net flags len c)) (\<lambda>mr c.
     sbind (caught (atomic_cas net 1 (mh_rkey mr) offset 0 0 c)) (\<lambda>err c.
     sbind (assert_code code err c) (\<lambda>_ c.
     finish net c)))"

definition atomic_alignment_error :: "'p test" where
  "atomic_alignment_error = atomic_refused REMOTE_ATOMIC 64 3 ErrAlignment"

definition atomic_access_denied :: "'p test" where
  "atomic_access_denied = atomic_refused REMOTE_WRITE 64 0 ErrAccessDenied"

definition atomic_bounds_error :: "'p test" where
  "atomic_bounds_error = atomic_refused REMOTE_ATOMIC 16 16 ErrBounds"

section \<open>The receive queue\<close>

text \<open>The loop of the sends that succeed.\<close>

fun send_all :: "'p network \<Rightarrow> scatter_gather_entry list \<Rightarrow> u64 list \<Rightarrow> 'p rdows_connection
    \<Rightarrow> (rdows_error, unit) result \<times> 'p rdows_connection" where
  "send_all net sg [] c = (Ok (), c)"
| "send_all net sg (i # is) c =
     sbind (unwrapped (post_send net i sg c)) (\<lambda>_ c.
     sbind (poll_cq 10 c) (\<lambda>cqes c.
     sbind (assert (one_cqe (\<lambda>e. cqe_status e = 0) cqes) c) (\<lambda>_ c.
     send_all net sg is c)))"

definition send_exhausts_recv_queue :: "'p test" where
  "send_exhausts_recv_queue net c =
     sbind (unwrapped (reg_mr net LOCAL_WRITE 256 c)) (\<lambda>mr c.
     sbind (unwrapped (write_local_mr (mh_lkey mr) 0 (lit ''hello'') c)) (\<lambda>_ c.
     let sg = [entry (mh_lkey mr) 5] in
     sbind (send_all net sg [1, 2, 3] c) (\<lambda>_ c.
     sbind (caught (post_send net 4 sg c)) (\<lambda>err c.
     sbind (assert_code ErrRnr err c) (\<lambda>_ c.
     sbind (poll_cq 10 c) (\<lambda>cqes c.
     sbind (assert (one_cqe (\<lambda>e. cqe_status e = error_code_to_u16 ErrRnr) cqes) c) (\<lambda>_ c.
     sbind (unwrapped (reg_mr net REMOTE_WRITE 64 c)) (\<lambda>remote_mr c.
     sbind (unwrapped (write_local_mr (mh_lkey mr) 0 (lit ''alive'') c)) (\<lambda>_ c.
     sbind (unwrapped (rdma_write net 10 (mh_rkey remote_mr) 0 [entry (mh_lkey mr) 5] c)) (\<lambda>_ c.
     sbind (poll_cq 10 c) (\<lambda>cqes c.
     sbind (assert (one_cqe (\<lambda>e. cqe_status e = 0) cqes) c) (\<lambda>_ c.
     finish net c))))))))))))"

definition send_recv_queue_depth_one :: "'p test" where
  "send_recv_queue_depth_one net c =
     sbind (unwrapped (reg_mr net LOCAL_WRITE 256 c)) (\<lambda>mr c.
     sbind (unwrapped (write_local_mr (mh_lkey mr) 0 (lit ''data'') c)) (\<lambda>_ c.
     let sg = [entry (mh_lkey mr) 4] in
     sbind (unwrapped (post_send net 1 sg c)) (\<lambda>_ c.
     sbind (poll_cq 10 c) (\<lambda>cqes c.
     sbind (assert (one_cqe (\<lambda>e. cqe_status e = 0) cqes) c) (\<lambda>_ c.
     sbind (caught (post_send net 2 sg c)) (\<lambda>err c.
     sbind (assert_code ErrRnr err c) (\<lambda>_ c.
     finish net c)))))))"

definition send_recv_queue_depth_zero :: "'p test" where
  "send_recv_queue_depth_zero net c =
     sbind (unwrapped (reg_mr net LOCAL_WRITE 256 c)) (\<lambda>mr c.
     sbind (unwrapped (write_local_mr (mh_lkey mr) 0 (lit ''data'') c)) (\<lambda>_ c.
     let sg = [entry (mh_lkey mr) 4] in
     sbind (caught (post_send net 1 sg c)) (\<lambda>err c.
     sbind (assert_code ErrRnr err c) (\<lambda>_ c.
     finish net c))))"

definition err_rnr_does_not_close_connection :: "'p test" where
  "err_rnr_does_not_close_connection net c =
     sbind (unwrapped (reg_mr net LOCAL_WRITE 256 c)) (\<lambda>mr c.
     sbind (unwrapped (write_local_mr (mh_lkey mr) 0 (lit ''data'') c)) (\<lambda>_ c.
     let sg = [entry (mh_lkey mr) 4] in
     sbind (caught (post_send net 1 sg c)) (\<lambda>err c.
     sbind (assert (is_err err) c) (\<lambda>_ c.
     sbind (poll_cq 10 c) (\<lambda>_ c.
     sbind (unwrapped (reg_mr net (af_bitor REMOTE_WRITE REMOTE_READ) 256 c)) (\<lambda>remote_mr c.
     sbind (unwrapped (write_local_mr (mh_lkey mr) 0 (lit ''test'') c)) (\<lambda>_ c.
     sbind (unwrapped (rdma_write net 10 (mh_rkey remote_mr) 0 [entry (mh_lkey mr) 4] c)) (\<lambda>_ c.
     sbind (poll_cq 10 c) (\<lambda>cqes c.
     sbind (assert (one_cqe (\<lambda>e. cqe_status e = 0) cqes) c) (\<lambda>_ c.
     sbind (unwrapped (reg_mr net LOCAL_WRITE 256 c)) (\<lambda>read_mr c.
     sbind (unwrapped (rdma_read net 20 (mh_rkey remote_mr) 0 4 (mh_lkey read_mr) 0 c)) (\<lambda>_ c.
     sbind (poll_cq 10 c) (\<lambda>cqes c.
     sbind (assert (one_cqe (\<lambda>e. cqe_status e = 0) cqes) c) (\<lambda>_ c.
     sbind (read_local (mh_lkey read_mr) 0 4 c) (\<lambda>read_back c.
     sbind (assert (read_back = lit ''test'') c) (\<lambda>_ c.
     finish net c))))))))))))))))"

section \<open>Completion queue, sequence numbers and credits\<close>

definition cq_overflow :: "'p test" where
  "cq_overflow net c =
     sbind (unwrapped (reg_mr net LOCAL_WRITE 256 c)) (\<lambda>mr c.
     sbind (unwrapped (write_local_mr (mh_lkey mr) 0 (lit ''hello'') c)) (\<lambda>_ c.
     let sg = [entry (mh_lkey mr) 5] in
     sbind (unwrapped (post_send net 1 sg c)) (\<lambda>_ c.
     sbind (unwrapped (post_send net 2 sg c)) (\<lambda>_ c.
     sbind (caught (post_send net 3 sg c)) (\<lambda>err c.
     sbind (assert_code ErrCqOverflow err c) (\<lambda>_ c.
     sbind (poll_cq 10 c) (\<lambda>cqes c.
     sbind (assert (length cqes = 2) c) (\<lambda>_ c.
     sbind (unwrapped (post_send net 4 sg c)) (\<lambda>_ c.
     finish net c)))))))))"

definition sequence_validation_normal :: "'p test" where
  "sequence_validation_normal net c =
     sbind (unwrapped (reg_mr net (af_bitor (af_bitor (af_bitor LOCAL_WRITE REMOTE_WRITE) REMOTE_READ) REMOTE_ATOMIC) 256 c)) (\<lambda>mr c.
     let lkey = mh_lkey mr; rkey = mh_rkey mr in
     sbind (unwrapped (write_local_mr lkey 0 (lit ''seq test'') c)) (\<lambda>_ c.
     sbind (unwrapped (post_send net 1 [entry lkey 8] c)) (\<lambda>_ c.
     sbind (poll_cq 10 c) (\<lambda>_ c.
     sbind (unwrapped (write_local_mr lkey 0 (lit ''wdata123'') c)) (\<lambda>_ c.
     sbind (unwrapped (rdma_write net 2 rkey 0 [entry lkey 8] c)) (\<lambda>_ c.
     sbind (poll_cq 10 c) (\<lambda>_ c.
     sbind (unwrapped (reg_mr net LOCAL_WRITE 256 c)) (\<lambda>read_mr c.
     sbind (unwrapped (rdma_read net 3 rkey 0 8 (mh_lkey read_mr) 0 c)) (\<lambda>_ c.
     sbind (poll_cq 10 c) (\<lambda>_ c.
     sbind (unwrapped (write_local_mr lkey 0 (put_u64 0) c)) (\<lambda>_ c.
     sbind (unwrapped (rdma_write net 4 rkey 0 [entry lkey 8] c)) (\<lambda>_ c.
     sbind (poll_cq 10 c) (\<lambda>_ c.
     sbind (unwrapped (atomic_cas net 5 rkey 0 0 42 c)) (\<lambda>old c.
     sbind (assert (old = 0) c) (\<lambda>_ c.
     sbind (poll_cq 10 c) (\<lambda>_ c.
     finish net c))))))))))))))))"

definition send_credits_exhausted :: "'p test" where
  "send_credits_exhausted net c =
     sbind (unwrapped (reg_mr net LOCAL_WRITE 256 c)) (\<lambda>mr c.
     sbind (unwrapped (write_local_mr (mh_lkey mr) 0 (lit ''credit'') c)) (\<lambda>_ c.
     let sg = [entry (mh_lkey mr) 6] in
     sbind (Ok (), set_send_credits 2 c) (\<lambda>_ c.
     sbind (unwrapped (post_send net 1 sg c)) (\<lambda>_ c.
     sbind (poll_cq 10 c) (\<lambda>_ c.
     sbind (unwrapped (post_send net 2 sg c)) (\<lambda>_ c.
     sbind (poll_cq 10 c) (\<lambda>_ c.
     sbind (caught (post_send net 3 sg c)) (\<lambda>err c.
     sbind (assert (is_err err) c) (\<lambda>_ c.
     sbind (assert (err = Err SendCreditsExhausted) c) (\<lambda>_ c.
     finish net c))))))))))"

section \<open>Limits\<close>

fun reg_all :: "'p network \<Rightarrow> nat \<Rightarrow> 'p rdows_connection \<Rightarrow> (rdows_error, unit) result \<times> 'p rdows_connection" where
  "reg_all net 0 c = (Ok (), c)"
| "reg_all net (Suc n) c = sbind (unwrapped (reg_mr net REMOTE_READ 64 c)) (\<lambda>_ c. reg_all net n c)"

definition max_mrs_per_session :: "'p test" where
  "max_mrs_per_session net c =
     sbind (reg_all net 3 c) (\<lambda>_ c.
     sbind (caught (reg_mr net REMOTE_READ 64 c)) (\<lambda>err c.
     sbind (assert_code ErrInternal err c) (\<lambda>_ c.
     finish net c)))"

definition max_total_memory :: "'p test" where
  "max_total_memory net c =
     sbind (unwrapped (reg_mr net REMOTE_READ 512 c)) (\<lambda>_ c.
     sbind (unwrapped (reg_mr net REMOTE_READ 512 c)) (\<lambda>_ c.
     sbind (caught (reg_mr net REMOTE_READ 256 c)) (\<lambda>err c.
     sbind (assert_code ErrBounds err c) (\<lambda>_ c.
     finish net c))))"

definition mr_dereg_frees_capacity :: "'p test" where
  "mr_dereg_frees_capacity net c =
     sbind (unwrapped (reg_mr net REMOTE_READ 64 c)) (\<lambda>mr1 c.
     sbind (unwrapped (reg_mr net REMOTE_READ 64 c)) (\<lambda>_ c.
     sbind (caught (reg_mr net REMOTE_READ 64 c)) (\<lambda>err c.
     sbind (assert (is_err err) c) (\<lambda>_ c.
     sbind (unwrapped (dereg_mr net (mh_lkey mr1) c)) (\<lambda>_ c.
     sbind (unwrapped (reg_mr net REMOTE_READ 64 c)) (\<lambda>_ c.
     finish net c))))))"

section \<open>The suite\<close>

text \<open>Each test with the configurations of its server and of its connection.\<close>

definition integration_tests :: "(server_config \<times> connect_config \<times> 'p test) list" where
  "integration_tests =
     map (\<lambda>t. (server_config_default, connect_config_default, t))
       [connect_and_disconnect, register_and_deregister_mr, unique_rkeys, post_send_test, rdma_write_and_read,
        rdma_write_access_denied, rdma_write_bounds_error, rdma_read_invalid_rkey, atomic_cas_success, atomic_cas_no_match,
        atomic_faa_test, atomic_alignment_error, atomic_access_denied, atomic_bounds_error, sequence_validation_normal,
        send_credits_exhausted] @
     [(server_config_default\<lparr>cfg_recv_queue_depth := 3\<rparr>, connect_config_default, send_exhausts_recv_queue),
      (server_config_default\<lparr>cfg_recv_queue_depth := 1\<rparr>, connect_config_default, send_recv_queue_depth_one),
      (server_config_default\<lparr>cfg_recv_queue_depth := 0\<rparr>, connect_config_default, send_recv_queue_depth_zero),
      (server_config_default\<lparr>cfg_recv_queue_depth := 0\<rparr>, connect_config_default, err_rnr_does_not_close_connection),
      (server_config_default, \<lparr>cc_cq_capacity = 2\<rparr>, cq_overflow),
      (server_config_default\<lparr>cfg_max_regions_per_session := 3\<rparr>, connect_config_default, max_mrs_per_session),
      (server_config_default\<lparr>cfg_max_total_bytes_per_session := 1024\<rparr>, connect_config_default, max_total_memory),
      (server_config_default\<lparr>cfg_max_regions_per_session := 2\<rparr>, connect_config_default, mr_dereg_frees_capacity)]"

text \<open>
  \<open>TestServer::start_with_config\<close>. Unlike the embedded server of the examples it logs no keys.
  Every step of it is followed by \<open>unwrap\<close>.
\<close>

definition start_with_config :: "('cert, 'roots, 'tls, 'listener) platform \<Rightarrow> server_config
    \<Rightarrow> (rdows_error, ('roots, 'tls, 'listener) embedded) result" where
  "start_with_config pf config = unwrap
     (rbind (self_signed pf [lit ''localhost'']) (\<lambda>(cert_der, key_der).
      rbind (with_single_cert pf [cert_der] key_der) (\<lambda>server_config.
      rbind (add_certs (roots_add pf) [cert_der] (roots_empty pf)) (\<lambda>root_store.
      rbind (bind_listener pf (lit ''127.0.0.1:0'')) (\<lambda>listener.
      rbind (local_port pf listener) (\<lambda>port.
      Ok \<lparr>em_listener = listener, em_acceptor = \<lparr>st_config = server_config, st_key_log = False\<rparr>,
          em_config = config, em_port = port,
          em_client_tls = \<lparr>ct_verifier = RootCertificates root_store, ct_key_log = False\<rparr>\<rparr>))))))"

definition server_url :: "('roots, 'tls, 'listener) embedded \<Rightarrow> rstring" where
  "server_url server = lit ''wss://localhost:'' @ show_dec (unat (em_port server)) @ lit ''/rdows''"

text \<open>Running a test: it starts its server, connects with the server's certificate as the only root, and goes on.\<close>

definition run_test :: "('cert, 'roots, 'tls, 'listener) platform \<Rightarrow> 'p network \<Rightarrow> (('roots, 'tls, 'listener) embedded \<Rightarrow> 'p dialler)
    \<Rightarrow> (nat \<Rightarrow> bytes) \<Rightarrow> server_config \<times> connect_config \<times> 'p test \<Rightarrow> (rdows_error, unit) result" where
  "run_test pf net dial os_rng = (\<lambda>(config, connect_config, test).
     rbind (start_with_config pf config) (\<lambda>server.
     rbind (unwrap (connect_with_config net (dial server) os_rng (server_url server) connect_config)) (\<lambda>conn.
     fst (test net conn))))"

end
