(* ===== verification/Test_Rules.thy ===== *)
theory Test_Rules
  imports Integration_Tests Programs
begin

text \<open>
  Rules for the integration tests. A test knows its connection exactly: the machine it
  implements, the number and the bytes of the server's regions, and how many registrations it
  has asked for. A verb gives the result of the machine's verb, an error included.
\<close>

section \<open>The state of a test\<close>

fun accounts :: "nat \<Rightarrow> nat \<Rightarrow> nat \<Rightarrow> u32 fset \<times> u64 \<times> u32 \<times> u32 fset \<times> u32 \<Rightarrow> bool" where
  "accounts n b k (lks, bytes, next_lkey, rks, regs) \<longleftrightarrow>
     fcard lks = n \<and> unat bytes = b \<and> 0 < unat next_lkey \<and> unat next_lkey \<le> k + 1 \<and> fcard rks \<le> k \<and> unat regs \<le> k"

definition knows :: "server_config \<Rightarrow> nat \<Rightarrow> nat \<Rightarrow> nat \<Rightarrow> rdma \<Rightarrow> server_peer rdows_connection \<Rightarrow> bool" where
  "knows cfg n b k m c \<longleftrightarrow> linked cfg c \<and> machine_of c = m \<and> accounts n b k (spent c)"

lemma knows_step:
  assumes "knows cfg n b k m c" and "rd_admits m v" and "calm v"
  obtains r c' where "perform env v c = (r, c')" and "rd_step m v r (machine_of c')"
    and "knows cfg n b k (machine_of c') c'"
proof -
  have "admitted_verb env cfg v c" using assms by (cases v) (simp_all add: knows_def)
  then have "simulated env cfg v c" using assms(1) by (intro admitted_simulated) (simp_all add: knows_def)
  with that assms(1,3) show thesis by (auto simp: simulated_def knows_def)
qed

lemma sbind_answer:
  fixes p :: "('e, 'a) result \<times> 'c"
  shows "sbind p (\<lambda>a c. (Ok (g a), c)) = (rbind (fst p) (\<lambda>a. Ok (g a)), snd p)"
  by (cases p; cases "fst p") auto

text \<open>The outcome of a verb without a value, and of an atomic.\<close>

definition no_value :: "outcome \<Rightarrow> (rdows_error, unit) result" where
  "no_value r = rbind r (\<lambda>_. Ok ())"

definition original :: "outcome \<Rightarrow> (rdows_error, u64) result" where
  "original r = rbind r (\<lambda>a. case a of Original v \<Rightarrow> Ok v | _ \<Rightarrow> Panic)"

lemma no_value_simps [simp]: "no_value (Ok a) = Ok ()" "no_value (Err e) = Err e"
  by (simp_all add: no_value_def)

lemma original_simps [simp]: "original (Ok (Original v)) = Ok v" "original (Err e) = Err e"
  by (simp_all add: original_def)

lemma no_value_rbind [simp]: "no_value (rbind x (\<lambda>u. Ok Done)) = x"
  by (cases x) (simp_all add: no_value_def)

lemma original_rbind [simp]: "original (rbind x (\<lambda>v. Ok (Original v))) = x"
  by (cases x) (simp_all add: original_def)

lemma write_local_value:
  assumes "knows cfg n b k m c" and "a + length data < usize_limit" and "rd_write_local lk a data m = (r, m')"
  obtains c' where "write_local_mr lk a data c = (no_value r, c')" and "knows cfg n b k m' c'"
proof -
  from knows_step [OF assms(1), of "WriteLocal lk a data" undefined] assms(2) obtain x c' where
      p: "perform undefined (WriteLocal lk a data) c = (x, c')" "rd_step m (WriteLocal lk a data) x (machine_of c')"
        "knows cfg n b k (machine_of c') c'"
    by auto
  then have "x = r" "machine_of c' = m'" using assms(3) by (auto elim!: rd_step_WriteLocalE)
  with p that [of c'] show thesis by (auto simp: sbind_answer prod_eq_iff)
qed

lemma write_value:
  assumes "knows cfg n b k m c" and "rd_admits m (RdmaWrite wrid rk va sgs)" and "rd_write wrid rk va sgs m = (r, m')"
  obtains c' where "rdma_write (server_net env) wrid rk va sgs c = (no_value r, c')" and "knows cfg n b k m' c'"
proof -
  from knows_step [OF assms(1,2), of env] obtain x c' where
      p: "perform env (RdmaWrite wrid rk va sgs) c = (x, c')" "rd_step m (RdmaWrite wrid rk va sgs) x (machine_of c')"
        "knows cfg n b k (machine_of c') c'"
    by auto
  then have "x = r" "machine_of c' = m'" using assms(3) by (auto elim!: rd_step_WriteE)
  with p that [of c'] show thesis by (auto simp: sbind_answer prod_eq_iff)
qed

lemma read_value:
  assumes "knows cfg n b k m c" and "rd_admits m (RdmaRead wrid rk va len lk lva)"
    and "rd_read wrid rk va len lk lva m = (r, m')"
  obtains c' where "rdma_read (server_net env) wrid rk va len lk lva c = (no_value r, c')" and "knows cfg n b k m' c'"
proof -
  from knows_step [OF assms(1,2), of env] obtain x c' where
      p: "perform env (RdmaRead wrid rk va len lk lva) c = (x, c')"
        "rd_step m (RdmaRead wrid rk va len lk lva) x (machine_of c')" "knows cfg n b k (machine_of c') c'"
    by auto
  then have "x = r" "machine_of c' = m'" using assms(3) by (auto elim!: rd_step_ReadE)
  with p that [of c'] show thesis by (auto simp: sbind_answer prod_eq_iff)
qed

inductive_cases rd_step_ReadLocalE: "rd_step m (ReadLocal lk a l) r m'"
inductive_cases rd_step_CasE: "rd_step m (AtomicCas wrid rk va want swap) r m'"

lemma cas_value:
  assumes "knows cfg n b k m c" and "rd_atomic wrid rk va (\<lambda>old. if old = want then swap else old) m = (r, m')"
  obtains c' where "atomic_cas (server_net env) wrid rk va want swap c = (original r, c')" and "knows cfg n b k m' c'"
proof -
  from knows_step [OF assms(1), of "AtomicCas wrid rk va want swap" env] obtain x c' where
      p: "perform env (AtomicCas wrid rk va want swap) c = (x, c')"
        "rd_step m (AtomicCas wrid rk va want swap) x (machine_of c')" "knows cfg n b k (machine_of c') c'"
    by auto
  then have "x = r" "machine_of c' = m'" using assms(2) by (auto elim!: rd_step_CasE)
  with p that [of c'] show thesis by (auto simp: sbind_answer prod_eq_iff)
qed

lemma faa_value:
  assumes "knows cfg n b k m c" and "rd_atomic wrid rk va (\<lambda>old. old + addend) m = (r, m')"
  obtains c' where "atomic_faa (server_net env) wrid rk va addend c = (original r, c')" and "knows cfg n b k m' c'"
proof -
  from knows_step [OF assms(1), of "AtomicFaa wrid rk va addend" env] obtain x c' where
      p: "perform env (AtomicFaa wrid rk va addend) c = (x, c')"
        "rd_step m (AtomicFaa wrid rk va addend) x (machine_of c')" "knows cfg n b k (machine_of c') c'"
    by auto
  then have "x = r" "machine_of c' = m'" using assms(2) by (auto elim!: rd_step_FaaE)
  with p that [of c'] show thesis by (auto simp: sbind_answer prod_eq_iff)
qed

lemma send_value:
  assumes "knows cfg n b k m c" and "rd_fits m 4 sgs" and "rd_send wrid sgs m = (r, m')"
  obtains c' where "post_send (server_net env) wrid sgs c = (no_value r, c')" and "knows cfg n b k m' c'"
proof -
  from knows_step [OF assms(1), of "PostSend wrid sgs" env] assms(2) obtain x c' where
      p: "perform env (PostSend wrid sgs) c = (x, c')" "rd_step m (PostSend wrid sgs) x (machine_of c')"
        "knows cfg n b k (machine_of c') c'"
    by auto
  then have "x = r" "machine_of c' = m'" using assms(3) by (auto elim!: rd_step_SendE)
  with p that [of c'] show thesis by (auto simp: sbind_answer prod_eq_iff)
qed

lemma polled_value:
  assumes "knows cfg n b k m c"
  obtains c' where "poll_cq l c = (Ok (take l (rd_queue m)), c')" and "knows cfg n b k (m\<lparr>rd_queue := drop l (rd_queue m)\<rparr>) c'"
proof -
  from knows_step [OF assms(1), of "PollCq l" undefined] obtain x c' where
      p: "perform undefined (PollCq l) c = (x, c')" "rd_step m (PollCq l) x (machine_of c')"
        "knows cfg n b k (machine_of c') c'"
    by auto
  then have "x = Ok (Completions (take l (rd_queue m)))" "machine_of c' = m\<lparr>rd_queue := drop l (rd_queue m)\<rparr>"
    by (auto elim!: rd_step_PollE)
  with p that [of c'] show thesis by (auto simp: poll_cq_def case_prod_beta prod_eq_iff)
qed

lemma read_local_known:
  assumes "knows cfg n b k m c" and "a + l < usize_limit" and "rd_local m lk = Some bs" and "a + l \<le> length bs"
  shows "read_local lk a l c = (Ok (sub_slice bs a (a + l)), c)"
proof -
  from knows_step [OF assms(1), of "ReadLocal lk a l" undefined] assms(2) obtain x c' where
      p: "perform undefined (ReadLocal lk a l) c = (x, c')" "rd_step m (ReadLocal lk a l) x (machine_of c')"
    by auto
  then have "rbind (read_local_mr lk a l c) (\<lambda>data. Ok (Data data)) = Ok (Data (sub_slice bs a (a + l)))"
    using assms(3,4) by (auto simp: rd_read_local_def elim!: rd_step_ReadLocalE)
  then show ?thesis by (cases "read_local_mr lk a l c") (simp_all add: read_local_def unwrap_def)
qed

section \<open>Registrations\<close>

lemma unat_add_exact: "unat a + unat b \<le> unat (c :: 'a :: len word) \<Longrightarrow> unat (a + b) = unat a + unat (b :: 'a word)"
  by (metis le_less_trans mod_less unat_word_ariths(1) unsigned_less)

lemma reg_value:
  assumes h: "knows cfg n b k m c" and fresh: "fresh_keys env"
    and room: "n < cfg_max_regions_per_session cfg" "k < unat (cfg_mr_reg_rate_limit cfg)" "k < 1000"
      "b + unat len \<le> unat (cfg_max_total_bytes_per_session cfg)" "unat len \<le> isize_max"
  obtains lk rk c' where "reg_mr (server_net env) fl len c = (Ok \<lparr>mh_lkey = lk, mh_rkey = rk, mh_len = len,
      mh_local_buf = replicate (unat len) 0\<rparr>, c')"
    and "rd_local m lk = None" and "rd_remote m rk = None" and "lkey_val lk \<noteq> 0" and "rkey_val rk \<noteq> 0"
    and "\<exists>conn j. rk = RKey (from_be (snd (env conn) j))"
    and "knows cfg (Suc n) (b + unat len) (Suc k) (rd_reg fl len lk rk m) c'"
proof -
  let ?st = "remote c"
  have link: "linked cfg c" and m: "machine_of c = m" and sp: "accounts n b k (spent c)" using h by (simp_all add: knows_def)
  obtain now os_rng where env: "env (peer_session c, peer_sink c) = (now, os_rng)" by (metis surj_pair)
  have ok: "session_ok cfg (peer_session c)" using linked_sync [OF link] by (simp add: in_sync_def)
  have lim: "ms_max_regions ?st = cfg_max_regions_per_session cfg" "ms_max_total_bytes ?st = cfg_max_total_bytes_per_session cfg"
    using ok by (simp_all add: session_ok_def remote_def)
  obtain j where "j < 1000" "from_be (os_rng j) \<noteq> (0 :: u32)" "from_be (os_rng j) |\<notin>| ms_used_rkeys ?st"
    using fresh [unfolded fresh_keys_def, rule_format, of "(peer_session c, peer_sink c)"] sp room env
    by (auto simp: spent_def remote_def)
  then obtain lk rk st where reg: "register os_rng (cn_pd c) fl len ?st = (Ok (lk, rk), st)"
    using register_succeeds [of ?st len j os_rng "cn_pd c" fl] sp room lim by (auto simp: spent_def)
  have count: "unat (se_mr_reg_count (window now (peer_session c))) \<le> k"
    using sp by (auto simp: spent_def window_def)
  then have rate: "se_mr_reg_count (window now (peer_session c)) < cfg_mr_reg_rate_limit cfg"
    using room by (simp add: word_less_nat_alt)
  obtain c' where c': "reg_mr (server_net env) fl len c = (Ok \<lparr>mh_lkey = lk, mh_rkey = rk, mh_len = len,
        mh_local_buf = replicate (unat len) 0\<rparr>, c')" "linked cfg c'"
      "rd_step (machine_of c) (RegMr fl len) (Ok (Keys lk rk)) (machine_of c')" "remote c' = st"
      "se_mr_reg_count (peer_session c') = se_mr_reg_count (window now (peer_session c)) + 1"
    using link env rate reg by (rule reg_mr_machine)
  have new: "rd_local m lk = None" "rd_remote m rk = None" "machine_of c' = rd_reg fl len lk rk m"
    using c'(3) m by (auto simp: rd_reg_def elim!: rd_step_RegE)
  have slot: "fmlookup (ms_regions ?st) (lkey_val lk) = None" by (rule register_effect(4) [OF linked_store [OF link] reg])
  have draw: "lkey_val lk \<noteq> 0" "rkey_val rk \<noteq> 0" "\<exists>j. rk = RKey (from_be (os_rng j))"
    "accounts (Suc n) (b + unat len) (Suc k) (spent c')"
    using sp count c'(5) slot room(4) lim(2) unat_add_1_le [of "se_mr_reg_count (window now (peer_session c))"]
    by (rule_tac register_OkE [OF reg];
        auto simp: spent_def c'(4) fcard_finsert_if unat_add_exact fmdom_notI unat_word_ariths)+
  moreover have "snd (env (peer_session c, peer_sink c)) = os_rng" using env by simp
  ultimately show thesis using c'(1,2) new that [of lk rk c'] by (auto simp: knows_def)
qed

text \<open>A registration beyond the server's limits.\<close>

definition limit_code :: "server_config \<Rightarrow> nat \<Rightarrow> nat \<Rightarrow> nat \<Rightarrow> error_code option" where
  "limit_code cfg n b len =
     (if cfg_max_regions_per_session cfg \<le> n then Some ErrInternal
      else if unat (cfg_max_total_bytes_per_session cfg) < b + len \<and> b + len < usize_limit then Some ErrBounds
      else None)"

lemma reg_refused_value:
  assumes h: "knows cfg n b k m c" and rate: "k < unat (cfg_mr_reg_rate_limit cfg)"
    and code: "limit_code cfg n b (unat len) = Some code"
  obtains c' where "reg_mr (server_net env) fl len c = (Err (Protocol code), c')" and "knows cfg n b (Suc k) m c'"
proof -
  let ?st = "remote c"
  have link: "linked cfg c" and m: "machine_of c = m" and sp: "accounts n b k (spent c)" using h by (simp_all add: knows_def)
  obtain now os_rng where env: "env (peer_session c, peer_sink c) = (now, os_rng)" by (metis surj_pair)
  have ok: "session_ok cfg (peer_session c)" using linked_sync [OF link] by (simp add: in_sync_def)
  have lim: "ms_max_regions ?st = cfg_max_regions_per_session cfg" "ms_max_total_bytes ?st = cfg_max_total_bytes_per_session cfg"
    using ok by (simp_all add: session_ok_def remote_def)
  have reg: "register os_rng (cn_pd c) fl len ?st = (Err code, ?st)"
    using code sp lim
    by (auto simp: register_def limit_code_def spent_def u64_add_def word_less_nat_alt unat_word_ariths split: if_split_asm)
  have count: "unat (se_mr_reg_count (window now (peer_session c))) \<le> k"
    using sp by (auto simp: spent_def window_def)
  then have "refuses cfg now os_rng fl len c code (se_mr_reg_count (window now (peer_session c)) + 1) ?st"
    using rate reg by (simp add: refuses_def Let_def word_less_nat_alt)
  with link env obtain c' where c': "reg_mr (server_net env) fl len c = (Err (Protocol code), c')" "linked cfg c'"
      "machine_of c' = machine_of c" "remote c' = ?st"
      "se_mr_reg_count (peer_session c') = se_mr_reg_count (window now (peer_session c)) + 1"
    by (rule reg_mr_refused_machine)
  have "accounts n b (Suc k) (spent c')"
    using sp c'(4,5) count unat_add_1_le [of "se_mr_reg_count (window now (peer_session c))"] by (auto simp: spent_def)
  then show thesis using that [of c'] c' m by (simp add: knows_def)
qed

inductive_cases rd_step_DeregE: "rd_step m (DeregMr lk) r m'"

lemma dereg_value:
  assumes h: "knows cfg n b k m c" and r: "rd_remote m rk = Some r" "rg_lkey r = lk"
  obtains c' where "dereg_mr (server_net env) lk c = (Ok (), c')"
    and "knows cfg (n - 1) (b - length (rg_bytes r)) k (snd (rd_dereg lk m)) c'"
proof -
  have link: "linked cfg c" and m: "machine_of c = m" and sp: "accounts n b k (spent c)" using h by (simp_all add: knows_def)
  obtain x c' where p: "perform env (DeregMr lk) c = (x, c')" "linked cfg c'" "rd_step m (DeregMr lk) x (machine_of c')"
    using simulated_dereg [OF link, of env lk] m by (auto simp: simulated_def)
  have "rd_dereg lk m = (x, machine_of c')" using p(3) by (auto elim!: rd_step_DeregE)
  moreover have "\<exists>rk r. rd_remote m rk = Some r \<and> rg_lkey r = lk" using r by blast
  then have "fst (rd_dereg lk m) = Ok Done" unfolding rd_dereg_def by (simp only: if_True fst_conv)
  ultimately have x: "x = Ok Done" "machine_of c' = snd (rd_dereg lk m)" by simp_all
  obtain res st where op: "deregister (cn_pd c) lk (remote c) = (res, st)" by (metis surj_pair)
  have size: "40 \<le> unat (se_max_msg_size (peer_session c))" using link by (simp add: linked_def)
  obtain c1 where c1: "dereg_mr (server_net env) lk c = (map_err Protocol res, c1)" "remote c1 = st" "same_link c c1"
    using dereg_mr_ok [OF linked_sync [OF link] size op] by blast
  then have eq: "c1 = c'" "res = Ok ()" using p(1) x by (cases res; simp)+
  have "region_view (remote c) rk = Some r" using r(1) m by (metis machine_of_simps(6))
  then obtain e where e: "mr_lookup (remote c) rk = Some e" "me_lkey e = lk" "me_data e = rg_bytes r"
    using r(2) unfolding region_view_def by fastforce
  have slot: "fmlookup (ms_regions (remote c)) (lkey_val lk) = Some e" using region_lkey [OF linked_keys [OF link] e(1)] e(2) by simp
  have "accounts (n - 1) (b - length (rg_bytes r)) k (spent c')"
  proof (rule deregister_OkE [OF op [unfolded eq(2)]])
    fix e' assume e': "fmlookup (ms_regions (remote c)) (lkey_val lk) = Some e'"
        "of_nat (length (me_data e')) \<le> ms_total_registered_bytes (remote c)"
        "st = (remote c)\<lparr>ms_rkey_to_lkey := fmdrop (rkey_val (me_rkey e')) (ms_rkey_to_lkey (remote c)),
          ms_regions := fmdrop (lkey_val lk) (ms_regions (remote c)),
          ms_total_registered_bytes := ms_total_registered_bytes (remote c) - of_nat (length (me_data e'))\<rparr>"
    let ?len = "length (rg_bytes r)"
    have e2: "me_data e' = rg_bytes r" using e'(1) slot e(3) by simp
    have "?len < usize_limit" using mr_data_bound [OF linked_store [OF link] e(1)] e(3) by simp
    then have "unat (ms_total_registered_bytes (remote c) - of_nat ?len) = b - ?len"
      using e'(2) sp by (simp add: e2 spent_def unat_sub unat_of_nat)
    moreover have "fcard (fmdom (ms_regions (remote c)) |-| {|lkey_val lk|}) = n - 1"
      using sp fmdomI [OF slot] by (simp add: spent_def fcard_fminus_fsingleton)
    ultimately show ?thesis
      using sp c1(2,3) eq(1) e'(3) by (simp add: spent_def same_link_def e2)
  qed
  then show thesis using that [of c'] c1(1) eq p(2) x(2) by (simp add: knows_def)
qed

section \<open>Credits, refused writes and the end\<close>

definition passes :: "('e, unit) result \<times> 'c \<Rightarrow> bool" where
  "passes p \<longleftrightarrow> fst p = Ok ()"

lemma set_credits_value:
  assumes "knows cfg n b k m c"
  shows "knows cfg n b k (m\<lparr>rd_credits := unat x\<rparr>) (set_send_credits x c)"
  using assms by (auto simp: knows_def set_send_credits_def linked_def in_sync_def machine_of_def spent_def remote_def
      peer_session_def peer_sink_def local_inv_def local_bytes_def rd_wf_def)

text \<open>The end of a connection does not mind frames that were never read.\<close>

lemma finish_passes:
  assumes "cn_socket c = (((s, k), True), inbox)" and "se_state s = Ready" and "se_expected_remote_seq s = Some (cn_next_seq c)"
  shows "passes (finish (server_net env) c)"
proof -
  let ?m = "Disconnect (header_new opcode.Disconnect (cn_session_id c) (cn_next_seq c) 0)"
  have wf: "message_wf ?m" by (simp add: message_wf_def)
  have adm: "admitted s (on_wire ?m)" using assms by (intro admitted_on_wire) simp_all
  have "handle_message now rng (on_wire ?m) (s, k) = (Ok (), (s\<lparr>se_expected_remote_seq := Some (cn_next_seq c + 1),
      se_state := Closed\<rparr>, k))" for now rng
    using handle_message_admitted [OF adm] by (simp add: on_wire_def handle_ready_def)
  then show ?thesis
    using assms wf by (simp add: passes_def finish_def unwrapped_def unwrap_def disconnect_def cn_send_def socket_send_def
        server_net_def serve_frame_def message_decode_encode frames_since_def peer_session_def)
qed

lemma knows_finish:
  assumes "knows cfg n b k m c"
  shows "passes (finish (server_net env) c)"
proof -
  have "in_sync cfg c" using assms linked_sync by (simp add: knows_def)
  then obtain s k where "cn_socket c = (((s, k), True), [])" "se_state s = Ready" "se_expected_remote_seq s = Some (cn_next_seq c)"
    by (rule in_syncE)
  then show ?thesis by (rule finish_passes)
qed

text \<open>A write refused for its permission can only be followed by the end of the connection here.\<close>

lemma refused_write_value:
  assumes h: "knows cfg n b k m c" and cq: "\<not> rd_full m" and fit: "rd_fits m WRITE_HEADER_SIZE sgs"
    and data: "rd_gather (rd_local m) sgs = Ok data" and r: "rd_remote m rk = Some r"
    and acc: "\<not> af_contains (rg_access r) REMOTE_WRITE"
  obtains c' where "rdma_write (server_net env) wrid rk va sgs c = (Err (Protocol ErrAccessDenied), c')"
    and "passes (finish (server_net env) c')"
proof -
  have link: "linked cfg c" and m: "machine_of c = m" using h by (simp_all add: knows_def)
  have view: "region_view (remote c) rk = Some r" using r m by (metis machine_of_simps(6))
  then have "validate_rkey rk REMOTE_WRITE (remote c) = Err ErrAccessDenied"
    using acc by (auto simp: region_view_def validate_rkey_eq)
  moreover have "\<not> cq_is_full (cn_cq c)" "gather_sg_data (cn_local_mrs c) sgs = Ok data"
      "WRITE_HEADER_SIZE + length sgs * SG_ENTRY_SIZE \<le> unat (se_max_msg_size (peer_session c))"
      "length data \<le> unat (se_max_msg_size (peer_session c))"
    using cq fit data gather_machine [of sgs c] unfolding m [symmetric]
    by (simp_all add: rd_full_def cq_is_full_def rd_fits_def)
  ultimately obtain k2 where "rdma_write (server_net env) wrid rk va sgs c = (Err (Protocol ErrAccessDenied),
    cn_complete wrid (error_code_to_u16 ErrAccessDenied) opcode.Write 0 (c\<lparr>cn_next_seq := cn_next_seq c + 1 + 1,
      cn_socket := ((((peer_session c)\<lparr>se_expected_remote_seq := Some (cn_next_seq c + 1 + 1),
        se_next_seq := se_next_seq (peer_session c) + 1 + 1\<rparr>, k2), True), [Item (Binary (message_encode
          (error_reply ErrUnknownOpcode 0 (lit ''unexpected WRITE_DATA without preceding WRITE'') (bump (peer_session c)))))]),
      cn_expected_remote_seq := Some (se_next_seq (peer_session c) + 1)\<rparr>))"
    using refused_write_leaves_error [OF linked_sync [OF link]] by blast
  then show thesis
    by (rule that) (rule finish_passes, simp add: cn_complete_def,
        simp_all add: cn_complete_def linked_sync [OF link, unfolded in_sync_def])
qed

section \<open>Executing a test\<close>

text \<open>
  The rules in the form in which a test uses them: a call that starts from a known machine
  leaves the rest of the test at the machine after the call.
\<close>

named_theorems test_calls

lemma passes_assert [simp]: "passes (sbind (assert b c) f) \<longleftrightarrow> b \<and> passes (f () c)"
  by (simp add: assert_def passes_def)

lemma passes_assert_code [simp]: "passes (sbind (assert_code code (Err (Protocol e)) c) f) \<longleftrightarrow> e = code \<and> passes (f () c)"
  by (simp add: assert_code_def assert_def passes_def)

lemma unwrapped_Ok [simp]: "unwrapped (Ok a, c) = (Ok a, c)"
  by (simp add: unwrapped_def unwrap_def)

lemma caught_Err [simp]: "caught (Err e, c) = (Ok (Err e), c)"
  by (simp add: caught_def)

definition drawn :: "environment \<Rightarrow> rkey \<Rightarrow> bool" where
  "drawn env rk \<longleftrightarrow> (\<exists>conn j. rk = RKey (from_be (snd (env conn) j)))"

definition unused :: "('k \<Rightarrow> 'v option) \<Rightarrow> 'k \<Rightarrow> bool" where
  "unused f x \<longleftrightarrow> (\<forall>y \<in> dom f. x \<noteq> y \<and> y \<noteq> x)"

lemma call_reg [test_calls]:
  assumes "knows cfg n b k m c" and "fresh_keys env"
    and "n < cfg_max_regions_per_session cfg" "k < unat (cfg_mr_reg_rate_limit cfg)" "k < 1000"
      "b + unat len \<le> unat (cfg_max_total_bytes_per_session cfg)" "unat len \<le> isize_max"
    and "\<And>lk rk c'. unused (rd_local m) lk \<Longrightarrow> unused (rd_remote m) rk \<Longrightarrow> lkey_val lk \<noteq> 0 \<Longrightarrow> rkey_val rk \<noteq> 0 \<Longrightarrow> drawn env rk \<Longrightarrow>
      knows cfg (Suc n) (b + unat len) (Suc k) (rd_reg fl len lk rk m) c' \<Longrightarrow>
      passes (f \<lparr>mh_lkey = lk, mh_rkey = rk, mh_len = len, mh_local_buf = replicate (unat len) 0\<rparr> c')"
  shows "passes (sbind (unwrapped (reg_mr (server_net env) fl len c)) f)"
  by (rule reg_value [OF assms(1-7), of fl]) (simp, rule assms(8); auto simp: unused_def drawn_def)

lemma call_reg_refused [test_calls]:
  assumes "knows cfg n b k m c" and "k < unat (cfg_mr_reg_rate_limit cfg)" and "limit_code cfg n b (unat len) = Some code"
    and "\<And>c'. knows cfg n b (Suc k) m c' \<Longrightarrow> passes (f (Err (Protocol code)) c')"
  shows "passes (sbind (caught (reg_mr (server_net env) fl len c)) f)"
  by (rule reg_refused_value [OF assms(1-3), of env fl]) (use assms(4) in simp)

lemma call_dereg:
  assumes "knows cfg n b k m c"
    and "\<exists>rk \<in> dom (rd_remote m). rg_lkey (the (rd_remote m rk)) = lk \<and> length (rg_bytes (the (rd_remote m rk))) = l"
    and "\<And>c'. knows cfg (n - 1) (b - l) k (snd (rd_dereg lk m)) c' \<Longrightarrow> passes (f () c')"
  shows "passes (sbind (unwrapped (dereg_mr (server_net env) lk c)) f)"
proof -
  obtain rk r where "rd_remote m rk = Some r" "rg_lkey r = lk" "length (rg_bytes r) = l" using assms(2) by force
  then show ?thesis by (metis dereg_value [OF assms(1)] assms(3) sbind.simps(1) unwrapped_Ok)
qed

lemma call_write_local [test_calls]:
  assumes "knows cfg n b k m c" and "a + length data < usize_limit" and "fst (rd_write_local lk a data m) = Ok Done"
    and "\<And>c'. knows cfg n b k (snd (rd_write_local lk a data m)) c' \<Longrightarrow> passes (f () c')"
  shows "passes (sbind (unwrapped (write_local_mr lk a data c)) f)"
  by (rule write_local_value [where lk = lk, OF assms(1,2) prod.collapse [symmetric]]) (use assms(3,4) in simp)

lemma call_write [test_calls]:
  assumes "knows cfg n b k m c" and "rd_admits m (RdmaWrite wrid rk va sgs)" and "fst (rd_write wrid rk va sgs m) = Ok Done"
    and "\<And>c'. knows cfg n b k (snd (rd_write wrid rk va sgs m)) c' \<Longrightarrow> passes (f () c')"
  shows "passes (sbind (unwrapped (rdma_write (server_net env) wrid rk va sgs c)) f)"
  by (rule write_value [OF assms(1,2) prod.collapse [symmetric], of env]) (use assms(3,4) in simp)

lemma call_write_failing:
  assumes "knows cfg n b k m c" and "rd_admits m (RdmaWrite wrid rk va sgs)" and "fst (rd_write wrid rk va sgs m) = Err e"
    and "\<And>c'. knows cfg n b k (snd (rd_write wrid rk va sgs m)) c' \<Longrightarrow> passes (f (Err e) c')"
  shows "passes (sbind (caught (rdma_write (server_net env) wrid rk va sgs c)) f)"
  by (rule write_value [OF assms(1,2) prod.collapse [symmetric], of env]) (use assms(3,4) in simp)

lemma call_write_denied:
  assumes "knows cfg n b k m c" and "\<not> rd_full m" and "rd_fits m WRITE_HEADER_SIZE sgs"
    and "rd_gather (rd_local m) sgs = Ok data" and "rd_remote m rk = Some r" and "\<not> af_contains (rg_access r) REMOTE_WRITE"
    and "\<And>c'. passes (finish (server_net env) c') \<Longrightarrow> passes (f (Err (Protocol ErrAccessDenied)) c')"
  shows "passes (sbind (caught (rdma_write (server_net env) wrid rk va sgs c)) f)"
  by (rule refused_write_value [OF assms(1-6), of env wrid va]) (use assms(7) in simp)

lemma call_read [test_calls]:
  assumes "knows cfg n b k m c" and "rd_admits m (RdmaRead wrid rk va len lk lva)"
    and "fst (rd_read wrid rk va len lk lva m) = Ok Done"
    and "\<And>c'. knows cfg n b k (snd (rd_read wrid rk va len lk lva m)) c' \<Longrightarrow> passes (f () c')"
  shows "passes (sbind (unwrapped (rdma_read (server_net env) wrid rk va len lk lva c)) f)"
  by (rule read_value [OF assms(1,2) prod.collapse [symmetric], of env]) (use assms(3,4) in simp)

lemma call_read_failing [test_calls]:
  assumes "knows cfg n b k m c" and "rd_admits m (RdmaRead wrid rk va len lk lva)"
    and "fst (rd_read wrid rk va len lk lva m) = Err e"
    and "\<And>c'. knows cfg n b k (snd (rd_read wrid rk va len lk lva m)) c' \<Longrightarrow> passes (f (Err e) c')"
  shows "passes (sbind (caught (rdma_read (server_net env) wrid rk va len lk lva c)) f)"
  by (rule read_value [OF assms(1,2) prod.collapse [symmetric], of env]) (use assms(3,4) in simp)

lemma call_cas [test_calls]:
  assumes "knows cfg n b k m c" and "fst (rd_atomic wrid rk va (\<lambda>old. if old = want then swap else old) m) = Ok (Original v)"
    and "\<And>c'. knows cfg n b k (snd (rd_atomic wrid rk va (\<lambda>old. if old = want then swap else old) m)) c' \<Longrightarrow>
      passes (f v c')"
  shows "passes (sbind (unwrapped (atomic_cas (server_net env) wrid rk va want swap c)) f)"
  by (rule cas_value [where env = env and wrid = wrid and rk = rk and va = va and want = want and swap = swap,
      OF assms(1) prod.collapse [symmetric]]) (use assms(2,3) in simp)

lemma call_cas_failing [test_calls]:
  assumes "knows cfg n b k m c" and "fst (rd_atomic wrid rk va (\<lambda>old. if old = want then swap else old) m) = Err e"
    and "\<And>c'. knows cfg n b k (snd (rd_atomic wrid rk va (\<lambda>old. if old = want then swap else old) m)) c' \<Longrightarrow>
      passes (f (Err e) c')"
  shows "passes (sbind (caught (atomic_cas (server_net env) wrid rk va want swap c)) f)"
  by (rule cas_value [where env = env and wrid = wrid and rk = rk and va = va and want = want and swap = swap,
      OF assms(1) prod.collapse [symmetric]]) (use assms(2,3) in simp)

lemma call_faa [test_calls]:
  assumes "knows cfg n b k m c" and "fst (rd_atomic wrid rk va (\<lambda>old. old + addend) m) = Ok (Original v)"
    and "\<And>c'. knows cfg n b k (snd (rd_atomic wrid rk va (\<lambda>old. old + addend) m)) c' \<Longrightarrow> passes (f v c')"
  shows "passes (sbind (unwrapped (atomic_faa (server_net env) wrid rk va addend c)) f)"
  by (rule faa_value [where env = env and wrid = wrid and rk = rk and va = va and addend = addend,
      OF assms(1) prod.collapse [symmetric]]) (use assms(2,3) in simp)

lemma call_send [test_calls]:
  assumes "knows cfg n b k m c" and "rd_fits m 4 sgs" and "fst (rd_send wrid sgs m) = Ok Done"
    and "\<And>c'. knows cfg n b k (snd (rd_send wrid sgs m)) c' \<Longrightarrow> passes (f () c')"
  shows "passes (sbind (unwrapped (post_send (server_net env) wrid sgs c)) f)"
  by (rule send_value [where env = env and wrid = wrid, OF assms(1,2) prod.collapse [symmetric]]) (use assms(3,4) in simp)

lemma call_send_failing [test_calls]:
  assumes "knows cfg n b k m c" and "rd_fits m 4 sgs" and "fst (rd_send wrid sgs m) = Err e"
    and "\<And>c'. knows cfg n b k (snd (rd_send wrid sgs m)) c' \<Longrightarrow> passes (f (Err e) c')"
  shows "passes (sbind (caught (post_send (server_net env) wrid sgs c)) f)"
  by (rule send_value [where env = env and wrid = wrid, OF assms(1,2) prod.collapse [symmetric]]) (use assms(3,4) in simp)

lemma call_poll [test_calls]:
  assumes "knows cfg n b k m c"
    and "\<And>c'. knows cfg n b k (m\<lparr>rd_queue := drop l (rd_queue m)\<rparr>) c' \<Longrightarrow> passes (f (take l (rd_queue m)) c')"
  shows "passes (sbind (poll_cq l c) f)"
  by (rule polled_value [OF assms(1), of l]) (use assms(2) in simp)

lemma call_read_local [test_calls]:
  assumes "knows cfg n b k m c" and "a + l < usize_limit" and "rd_local m lk = Some bs" and "a + l \<le> length bs"
    and "knows cfg n b k m c \<Longrightarrow> passes (f (sub_slice bs a (a + l)) c)"
  shows "passes (sbind (read_local lk a l c) f)"
  using read_local_known [OF assms(1-4)] assms(1,5) by simp

end
