(* ===== verification/Test_Runs.thy ===== *)
theory Test_Runs
  imports Test_Rules Demo_Props
begin

text \<open>
  The integration tests pass. Each test is executed on the abstract machine with the rules of
  \<open>Test_Rules\<close>.
\<close>

section \<open>The machine of a new connection\<close>

abbreviation machine :: "u32 \<Rightarrow> nat \<Rightarrow> nat \<Rightarrow> rdma" where
  "machine sid capacity slots \<equiv> \<lparr>rd_session = sid, rd_max_msg = 16777216, rd_capacity = capacity, rd_queue = [],
     rd_local = Map.empty, rd_remote = Map.empty, rd_slots = slots, rd_credits = 65535\<rparr>"

definition roomy :: "server_config \<Rightarrow> bool" where
  "roomy cfg \<longleftrightarrow> 16 \<le> cfg_max_regions_per_session cfg \<and> 65536 \<le> unat (cfg_max_total_bytes_per_session cfg) \<and>
     16 \<le> unat (cfg_mr_reg_rate_limit cfg)"

lemma sub_slice_put_slice [simp]:
  "b = a + length d \<Longrightarrow> b \<le> length bs \<Longrightarrow> sub_slice (put_slice bs a d) a b = d"
  by (simp add: sub_slice_put_slice_same)

declare put_slice_all [simp]

lemma length_lit [simp]: "length (lit s) = length s"
  by (simp add: lit_def)

lemma length_test_data [simp]: "length test_data = 29"
  by (simp add: test_data_def)

lemmas test_simps = rd_reg_def rd_write_local_def rd_local_put_def rd_write_def rd_full_def rd_access_def rd_complete_def
  rd_cqe_def rd_remote_put_def rd_read_def rd_atomic_def rd_send_def rd_fail_def rd_fits_def sg_sane_def word_at_def
  WRITE_HEADER_SIZE_def SG_ENTRY_SIZE_def one_cqe_def Let_def sbind_assoc roomy_def limit_code_def unused_def
  af_contains_def af_bitor_def REMOTE_READ_def REMOTE_WRITE_def REMOTE_ATOMIC_def LOCAL_WRITE_def

section \<open>The tests\<close>

text \<open>
  The tests with a server of the usual limits: each is executed, call by call. The server
  must draw new keys, which is all that is not determined.
\<close>

lemma plain_tests_pass:
  assumes "knows cfg 0 0 0 (machine sid 65536 128) c" and "fresh_keys env" and "roomy cfg"
  shows "passes (unique_rkeys (server_net env) c)"
    and "passes (post_send_test (server_net env) c)"
    and "passes (rdma_write_and_read (server_net env) c)"
    and "passes (atomic_cas_success (server_net env) c)"
    and "passes (atomic_cas_no_match (server_net env) c)"
    and "passes (atomic_faa_test (server_net env) c)"
    and "passes (atomic_alignment_error (server_net env) c)"
    and "passes (atomic_access_denied (server_net env) c)"
    and "passes (atomic_bounds_error (server_net env) c)"
    and "passes (sequence_validation_normal (server_net env) c)"
  using assms
  unfolding unique_rkeys_def post_send_test_def rdma_write_and_read_def atomic_cas_success_def atomic_cas_no_match_def atomic_faa_test_def
    atomic_alignment_error_def atomic_access_denied_def atomic_bounds_error_def sequence_validation_normal_def
    write_remote_u64_def read_remote_u64_def atomic_refused_def
  by - ((erule test_calls, (simp add: test_simps)+)+, erule knows_finish)+

lemma rdma_write_bounds_error_passes:
  assumes "knows cfg 0 0 0 (machine sid 65536 128) c" and "fresh_keys env" and "roomy cfg"
  shows "passes (rdma_write_bounds_error (server_net env) c)"
  using assms unfolding rdma_write_bounds_error_def
  by - ((erule test_calls call_write_failing, (simp add: test_simps)+)+, erule knows_finish)

lemma rdma_write_access_denied_passes:
  assumes "knows cfg 0 0 0 (machine sid 65536 128) c" and "fresh_keys env" and "roomy cfg"
  shows "passes (rdma_write_access_denied (server_net env) c)"
  using assms unfolding rdma_write_access_denied_def
  by - ((erule test_calls, (simp add: test_simps)+)+, erule call_write_denied, (simp add: test_simps)+)

lemma send_credits_exhausted_passes:
  assumes "knows cfg 0 0 0 (machine sid 65536 128) c" and "fresh_keys env" and "roomy cfg"
  shows "passes (send_credits_exhausted (server_net env) c)"
  using assms unfolding send_credits_exhausted_def
  by - ((erule test_calls, (simp add: test_simps)+)+, drule set_credits_value [where x = 2],
      (erule test_calls, (simp add: test_simps)+)+, erule knows_finish)

lemma register_and_deregister_mr_passes:
  assumes "knows cfg 0 0 0 (machine sid 65536 128) c" and "fresh_keys env" and "roomy cfg"
  shows "passes (register_and_deregister_mr (server_net env) c)"
  using assms unfolding register_and_deregister_mr_def
  by - (erule call_reg, (simp add: test_simps)+, erule call_dereg [where l = 4096], (simp add: test_simps)+,
      erule knows_finish)

lemma connect_and_disconnect_passes:
  assumes "knows cfg 0 0 0 (machine sid 65536 128) c" and "sid \<noteq> 0"
  shows "passes (connect_and_disconnect (server_net env) c)"
proof -
  have "cn_session_id c = sid" using assms(1) by (auto simp: knows_def machine_of_def)
  then show ?thesis using assms knows_finish [OF assms(1)] by (simp add: connect_and_disconnect_def)
qed

text \<open>The key of \<open>rdma_read_invalid_rkey\<close> is invalid unless the server happens to draw it.\<close>

lemma rdma_read_invalid_rkey_passes:
  assumes "knows cfg 0 0 0 (machine sid 65536 128) c" and "fresh_keys env" and "roomy cfg"
    and "\<And>rk. drawn env rk \<Longrightarrow> rk \<noteq> RKey 0xDEADBEEF \<and> RKey 0xDEADBEEF \<noteq> rk"
  shows "passes (rdma_read_invalid_rkey (server_net env) c)"
  using assms unfolding rdma_read_invalid_rkey_def
  by - ((erule test_calls, (simp add: test_simps)+)+, erule knows_finish)

text \<open>The tests with a receive queue or a completion queue of their own, and those of the limits.\<close>

lemma send_exhausts_recv_queue_passes:
  assumes "knows cfg 0 0 0 (machine sid 65536 3) c" and "fresh_keys env" and "roomy cfg"
  shows "passes (send_exhausts_recv_queue (server_net env) c)"
  using assms unfolding send_exhausts_recv_queue_def
  by - ((erule test_calls, (simp add: test_simps)+)+, erule knows_finish)

lemma send_recv_queue_depth_one_passes:
  assumes "knows cfg 0 0 0 (machine sid 65536 1) c" and "fresh_keys env" and "roomy cfg"
  shows "passes (send_recv_queue_depth_one (server_net env) c)"
  using assms unfolding send_recv_queue_depth_one_def
  by - ((erule test_calls, (simp add: test_simps)+)+, erule knows_finish)

lemma no_slot_tests_pass:
  assumes "knows cfg 0 0 0 (machine sid 65536 0) c" and "fresh_keys env" and "roomy cfg"
  shows "passes (send_recv_queue_depth_zero (server_net env) c)"
    and "passes (err_rnr_does_not_close_connection (server_net env) c)"
  using assms unfolding send_recv_queue_depth_zero_def err_rnr_does_not_close_connection_def
  by - ((erule test_calls, (simp add: test_simps)+)+, erule knows_finish)+

lemma cq_overflow_passes:
  assumes "knows cfg 0 0 0 (machine sid 2 128) c" and "fresh_keys env" and "roomy cfg"
  shows "passes (cq_overflow (server_net env) c)"
  using assms unfolding cq_overflow_def
  by - ((erule test_calls, (simp add: test_simps)+)+, erule knows_finish)

lemma reg_all_numeral:
  "reg_all net (numeral n) c = sbind (unwrapped (reg_mr net REMOTE_READ 64 c)) (\<lambda>_. reg_all net (pred_numeral n))"
  by (simp add: numeral_eq_Suc)

lemma max_mrs_per_session_passes:
  assumes "knows cfg 0 0 0 (machine sid 65536 128) c" and "fresh_keys env" and "cfg_max_regions_per_session cfg = 3" and "65536 \<le> unat (cfg_max_total_bytes_per_session cfg)"
    and "16 \<le> unat (cfg_mr_reg_rate_limit cfg)"
  shows "passes (max_mrs_per_session (server_net env) c)"
  using assms unfolding max_mrs_per_session_def
  by - (simp add: reg_all_numeral sbind_assoc, (erule test_calls, (simp add: test_simps)+)+, erule knows_finish)

lemma max_total_memory_passes:
  assumes "knows cfg 0 0 0 (machine sid 65536 128) c" and "fresh_keys env" and "16 \<le> cfg_max_regions_per_session cfg" and "unat (cfg_max_total_bytes_per_session cfg) = 1024"
    and "16 \<le> unat (cfg_mr_reg_rate_limit cfg)"
  shows "passes (max_total_memory (server_net env) c)"
  using assms unfolding max_total_memory_def
  by - ((erule test_calls, (simp add: test_simps)+)+, erule knows_finish)

lemma mr_dereg_frees_capacity_passes:
  assumes "knows cfg 0 0 0 (machine sid 65536 128) c" and "fresh_keys env" and "cfg_max_regions_per_session cfg = 2" and "65536 \<le> unat (cfg_max_total_bytes_per_session cfg)"
    and "16 \<le> unat (cfg_mr_reg_rate_limit cfg)"
  shows "passes (mr_dereg_frees_capacity (server_net env) c)"
  using assms unfolding mr_dereg_frees_capacity_def
  by - ((erule test_calls, (simp add: test_simps)+)+, erule call_dereg [where l = 64], (simp add: test_simps)+,
      erule test_calls, (simp add: test_simps)+, erule knows_finish)

section \<open>The suite\<close>

text \<open>A server that a test can reach.\<close>

definition reachable_server :: "('cert, 'roots, 'tls, 'listener) platform \<Rightarrow> (('roots, 'tls, 'listener) embedded \<Rightarrow> server_peer dialler)
    \<Rightarrow> server_config \<Rightarrow> bool" where
  "reachable_server pf dial cfg \<longleftrightarrow> (\<exists>server now. start_with_config pf cfg = Ok server \<and>
     dial server (server_url server) = Ok (Some SUBPROTOCOL, fresh_peer cfg now))"

lemma run_test_passes:
  assumes "reachable_server pf dial cfg" and "\<And>c. knows cfg 0 0 0 (machine (from_be (os_rng 0)) capacity slots) c \<Longrightarrow> passes (test (server_net env) c)"
    and size: "cc_cq_capacity config = capacity" "unat (cfg_recv_queue_depth cfg) = slots"
    and room: "cfg_max_outstanding_reads cfg \<noteq> 0" "slots < 16383" "capacity * 24 \<le> isize_max"
  shows "run_test pf (server_net env) dial os_rng (cfg, config, test) = Ok ()"
proof -
  obtain server now where server: "start_with_config pf cfg = Ok server"
      "dial server (server_url server) = Ok (Some SUBPROTOCOL, fresh_peer cfg now)"
    using assms(1) unfolding reachable_server_def by blast
  have "\<not> starts_with (server_url server) (lit ''ws://'')" by (simp add: starts_with_def server_url_def lit_def)
  from connect_linked [of _ "dial server", OF this server(2) room(1), of config env os_rng] obtain c where
      c: "connect_with_config (server_net env) (dial server) os_rng (server_url server) config = Ok c" "linked cfg c"
        "machine_of c = machine (from_be (os_rng 0)) capacity slots"
        "spent c = ({||}, 0, 1, {||}, 0)"
    using size room(2,3) by blast
  then have "passes (test (server_net env) c)" by (intro assms(2)) (simp add: knows_def fcard_fempty)
  then show ?thesis using server(1) c(1) by (simp add: run_test_def unwrap_def passes_def)
qed

text \<open>The configurations of the suite have room for their tests.\<close>

lemma suite_configs:
  "roomy server_config_default" "roomy (server_config_default\<lparr>cfg_recv_queue_depth := d\<rparr>)"
  "cfg_max_outstanding_reads server_config_default \<noteq> 0" "unat (cfg_recv_queue_depth server_config_default) = 128"
  "cc_cq_capacity connect_config_default = 65536"
  by (simp_all add: roomy_def server_config_default_def connect_config_default_def DEFAULT_CQ_CAPACITY_def)

lemma default_suite:
  assumes reach: "reachable_server pf dial server_config_default"
    and fresh: "fresh_keys env" and odd: "\<not> drawn env (RKey 0xDEADBEEF)" and sid: "from_be (os_rng 0) \<noteq> (0 :: u32)"
  shows "list_all (\<lambda>t. run_test pf (server_net env) dial os_rng (server_config_default, connect_config_default, t) = Ok ())
    [connect_and_disconnect, register_and_deregister_mr, unique_rkeys, post_send_test, rdma_write_and_read,
     rdma_write_access_denied, rdma_write_bounds_error, rdma_read_invalid_rkey, atomic_cas_success, atomic_cas_no_match,
     atomic_faa_test, atomic_alignment_error, atomic_access_denied, atomic_bounds_error, sequence_validation_normal,
     send_credits_exhausted]"
proof -
  have other: "rk \<noteq> RKey 0xDEADBEEF \<and> RKey 0xDEADBEEF \<noteq> rk" if "drawn env rk" for rk using that odd by auto
  note tests = plain_tests_pass [OF _ fresh suite_configs(1)] rdma_write_bounds_error_passes [OF _ fresh suite_configs(1)]
    rdma_write_access_denied_passes [OF _ fresh suite_configs(1)] send_credits_exhausted_passes [OF _ fresh suite_configs(1)]
    register_and_deregister_mr_passes [OF _ fresh suite_configs(1)] connect_and_disconnect_passes [OF _ sid]
    rdma_read_invalid_rkey_passes [OF _ fresh suite_configs(1) other]
  have run: "run_test pf (server_net env) dial os_rng (server_config_default, connect_config_default, test) = Ok ()"
    if "\<And>c. knows server_config_default 0 0 0 (machine (from_be (os_rng 0)) 65536 128) c \<Longrightarrow> passes (test (server_net env) c)" for test
    using that by (rule run_test_passes [OF reach]) (simp add: suite_configs)+
  show ?thesis unfolding list.pred_inject
    by (intro conjI run) (assumption | rule tests | simp)+
qed

lemma configured_suite:
  fixes pf dial os_rng env
  assumes fresh: "fresh_keys env"
  defines "run cfg cc test \<equiv> reachable_server pf dial cfg \<longrightarrow> run_test pf (server_net env) dial os_rng (cfg, cc, test) = Ok ()"
  shows "run (server_config_default\<lparr>cfg_recv_queue_depth := 3\<rparr>) connect_config_default send_exhausts_recv_queue"
    and "run (server_config_default\<lparr>cfg_recv_queue_depth := 1\<rparr>) connect_config_default send_recv_queue_depth_one"
    and "run (server_config_default\<lparr>cfg_recv_queue_depth := 0\<rparr>) connect_config_default send_recv_queue_depth_zero"
    and "run (server_config_default\<lparr>cfg_recv_queue_depth := 0\<rparr>) connect_config_default err_rnr_does_not_close_connection"
    and "run server_config_default \<lparr>cc_cq_capacity = 2\<rparr> cq_overflow"
    and "run (server_config_default\<lparr>cfg_max_regions_per_session := 3\<rparr>) connect_config_default max_mrs_per_session"
    and "run (server_config_default\<lparr>cfg_max_total_bytes_per_session := 1024\<rparr>) connect_config_default max_total_memory"
    and "run (server_config_default\<lparr>cfg_max_regions_per_session := 2\<rparr>) connect_config_default mr_dereg_frees_capacity"
  unfolding run_def
  by ((rule impI, erule run_test_passes, erule send_exhausts_recv_queue_passes [OF _ fresh suite_configs(2)]
      send_recv_queue_depth_one_passes [OF _ fresh suite_configs(2)] no_slot_tests_pass [OF _ fresh suite_configs(2)]
      cq_overflow_passes [OF _ fresh suite_configs(1)] max_mrs_per_session_passes [OF _ fresh] max_total_memory_passes [OF _ fresh]
      mr_dereg_frees_capacity_passes [OF _ fresh]); simp add: server_config_default_def connect_config_default_def DEFAULT_CQ_CAPACITY_def)+

lemma reject_ws_url_holds: "reject_ws_url net dial os_rng"
proof -
  have "connection_connect net dial os_rng (lit ''ws://localhost:1234/rdows'') =
      Err (ConnectionRejected (lit ''TLS required: use wss:// not ws://''))"
    by (simp add: connection_connect_def connect_with_config_def connect_def starts_with_def lit_def)
  moreover have "contains (rdows_error_display (ConnectionRejected (lit ''TLS required: use wss:// not ws://'')))
      (lit ''TLS required'')"
    by code_simp
  ultimately show ?thesis by (simp add: reject_ws_url_def)
qed

text \<open>
  (C7) The integration tests pass. Every test of \<open>rdows-client/tests/integration.rs\<close>, run with its
  configurations against the server it starts, ends without a failed assertion, a failed
  \<open>unwrap\<close> or a hang, provided that the server is reachable, that its random numbers give new keys
  and never the key the test of invalid keys makes up, and that the client's are not zero.
\<close>

theorem integration_tests_pass:
  assumes reach: "list_all (\<lambda>t. reachable_server pf dial (fst t)) (integration_tests :: (_ \<times> _ \<times> server_peer test) list)"
    and fresh: "fresh_keys env" and odd: "\<not> drawn env (RKey 0xDEADBEEF)" and sid: "from_be (os_rng 0) \<noteq> (0 :: u32)"
  shows "list_all (\<lambda>t. run_test pf (server_net env) dial os_rng t = Ok ()) integration_tests \<and> reject_ws_url net d rng"
proof -
  have "reachable_server pf dial server_config_default" using reach by (simp add: integration_tests_def)
  note default_suite [where pf = pf and dial = dial and env = env and os_rng = os_rng, OF this fresh odd sid]
    configured_suite [OF fresh, of pf dial os_rng]
  then show ?thesis
    using reach reject_ws_url_holds unfolding integration_tests_def by (simp add: list.pred_map comp_def)
qed

text \<open>The counting source of random numbers, starting again after a thousand.\<close>

definition cycling_env :: environment where
  "cycling_env = (\<lambda>conn. (0, \<lambda>j. snd (counting_env conn) (j mod 1000)))"

lemma cycling_fresh: "fresh_keys cycling_env"
  using counting_fresh by (fastforce simp: fresh_keys_def cycling_env_def)

lemma cycling_never: "\<not> drawn cycling_env (RKey 0xDEADBEEF)"
proof -
  have "of_nat (j mod 1000 + 1) \<noteq> (0xDEADBEEF :: u32)" for j
  proof
    assume "of_nat (j mod 1000 + 1) = (0xDEADBEEF :: u32)"
    then have "unat (of_nat (j mod 1000 + 1) :: u32) = unat (0xDEADBEEF :: u32)" by (rule arg_cong)
    moreover have "j mod 1000 < 1000" by simp
    ultimately show False using unat_of_nat [of "j mod 1000 + 1", where 'a = 32] by simp
  qed
  then show ?thesis by (auto simp: drawn_def cycling_env_def counting_env_def)
qed

theorem integration_tests_pass_witness:
  "list_all (\<lambda>t. run_test sample_platform (server_net cycling_env)
     (\<lambda>server _. Ok (Some SUBPROTOCOL, fresh_peer (em_config server) 0)) (\<lambda>_. [0, 0, 0, 7]) t = Ok ()) integration_tests"
proof -
  let ?dial = "\<lambda>server _. Ok (Some SUBPROTOCOL, fresh_peer (em_config server) 0)"
  have "reachable_server sample_platform ?dial cfg" for cfg
    by (auto simp: reachable_server_def start_with_config_def sample_platform_def unwrap_def)
  then have reach: "list_all (\<lambda>t. reachable_server sample_platform ?dial (fst t)) integration_tests"
    by (simp add: list_all_iff)
  have "from_be [0, 0, 0, 7] \<noteq> (0 :: u32)" by code_simp
  then show ?thesis
    using integration_tests_pass [of sample_platform ?dial cycling_env "\<lambda>_. [0, 0, 0, 7]", OF reach cycling_fresh cycling_never]
    by blast
qed

end
