(* ===== verification/Spec2Isabelle.thy ===== *)
theory Spec2Isabelle
  imports Kv_Main Tracker Verb_Props Dissector Dialling Unit_Tests Test_Runs
begin

text \<open>
  \<^bold>\<open>A verification library for RDoWS, remote direct memory access over WebSockets\<close>

  RDoWS carries RDMA verbs in the binary messages of a WebSocket. A client connects to a server
  (CONNECT and CONNECT_ACK), registers memory regions in the server and gets a pair of keys for
  each, and then sends messages (SEND), writes, reads and atomically updates the server's
  regions (RDMA WRITE, RDMA READ, compare-and-swap, fetch-and-add). Every message starts with a
  header of 24 bytes carrying a sequence number that the receiver checks. Each verb of the client
  ends in an entry of its completion queue. A demonstration program keeps a hash table in a
  remote region and serves it over HTTP.

  \<^bold>\<open>Theories and the code they model\<close> (paths under \<open>src/crates\<close>)

  \<^item> \<open>Prelude\<close>, \<open>Utf8\<close>: machine integers, byte strings, the result type and its two sequencing
    operators, UTF-8 validation and lossy decoding. \<open>Ok\<close> and \<open>Err\<close> are the values of Rust's
    \<open>Result\<close>; \<open>Panic\<close> is a panic; \<open>Blocked\<close> is an \<open>await\<close> that does not complete.
  \<^item> \<open>Opcodes\<close>, \<open>Errors\<close>, \<open>Frame\<close>, \<open>Mem_Types\<close>, \<open>Queues\<close>, \<open>Payloads\<close>, \<open>Messages\<close>: the files
    \<open>opcode.rs\<close>, \<open>error.rs\<close>, \<open>frame.rs\<close>, \<open>memory.rs\<close>, \<open>queue.rs\<close> and \<open>message.rs\<close> of
    \<open>rdows-core/src\<close>. Each wire structure is a record with its encoder and decoder. \<open>Codec\<close> holds
    the locales of a wire format, interpreted for every structure; from their laws follow the
    round trip of whole messages, the stability of decoded messages, and the exact inputs on
    which decoding panics.
  \<^item> \<open>Byte_Regions\<close>, \<open>Memory_Store\<close>: \<open>rdows-server/src/memory_store.rs\<close>. The locale \<open>byte_store\<close> is the
    contract of keyed byte regions (what a read returns after any sequence of writes, overlapping
    or not, and which writes are accepted); it is interpreted for the server's
    store and for the client's local regions. The lemmas give the store's invariant, its quotas,
    the uniqueness and revocation of keys, and the behaviour of reads, writes and atomics on
    every branch.
  \<^item> \<open>Websocket\<close>: the transport as the code uses it, and the subprotocol check of
    \<open>rdows-server/src/lib.rs\<close>.
  \<^item> \<open>Sessions\<close>, \<open>Handlers\<close>: \<open>session.rs\<close> and \<open>handler.rs\<close> of \<open>rdows-server/src\<close>, the session record,
    the receive loop and one function per handler. \<open>Server_Inv\<close> has the invariant and the
    reachable sessions; \<open>Server_Props\<close> has what they give: resource limits, frame numbering,
    flow control, connection set-up, sequencing, the rate limit, and how a session can end. What
    they say about the answers of a session is stated on the frames it has sent, as a client
    decodes them.
  \<^item> \<open>Tracker\<close>: \<open>handle_connection\<close> and \<open>run_server\<close> of \<open>rdows-server/src/lib.rs\<close>. The connection tasks
    are a transition system on the shared table of sessions per address. A session may take any
    time, return or panic; each is a step.
  \<^item> \<open>Completion\<close>, \<open>Client\<close>, \<open>Verbs\<close>: \<open>completion.rs\<close>, \<open>connection.rs\<close>, \<open>lib.rs\<close> and \<open>verbs.rs\<close> of
    \<open>rdows-client/src\<close>. The network is a parameter: a function from the peer's state and a sent
    message to the peer's next state and the frames it answers with. The completion queue
    implements the locale \<open>bounded_queue\<close>. \<open>Verb_Props\<close> has what holds against any peer. \<open>Dialling\<close> is
    the part of \<open>connect\<close> that goes from the URL to the WebSocket, over the libraries for TCP, TLS
    and the upgrade as parameters.
  \<^item> \<open>End_To_End\<close>, \<open>Remote_Ops\<close>, \<open>Send_Ops\<close>: the client with the modelled server session as its peer. The
    relation \<open>in_sync\<close> says that both sides agree on the session and on both sequence numbers and
    that nothing is in transit (the transport \<open>server_net\<close> delivers frames of any size; only the
    protocol's own size checks are modelled); the verbs keep it and implement the operations of the server's
    store. A refused write is the exception, shown as such. \<open>Refusals\<close> has the registrations that
    the server refuses.
  \<^item> \<open>Rdma_Machine\<close>, \<open>Refinement\<close>: what the verbs promise, as an abstract RDMA machine without
    messages, sessions or sequence numbers (two memories, a completion queue, receive slots and
    credits; one step per verb), and the proof that client and server together implement it.
    The locale \<open>simulation\<close> lifts the simulation of single verbs to sequences; it is interpreted
    on the client's verbs over the server's session.
  \<^item> \<open>Programs\<close>: total correctness of programs over the verbs, with a rule for each verb in terms of
    the machine. The programs need of the random numbers that one of the 1000 draws for a key is
    new as long as fewer than 1000 keys were given out (\<open>fresh_keys\<close>).
  \<^item> \<open>Startup\<close>: the command lines and TLS configurations of the binaries, \<open>main\<close> of
    \<open>rdows-server/src/main.rs\<close>, and the embedded server. The file system, the sockets and the TLS
    and certificate crates are the fields of the record \<open>platform\<close>.
  \<^item> \<open>Demos\<close>, \<open>Demo_Props\<close>, \<open>Examples\<close>: the demonstration client \<open>rdows-client/src/main.rs\<close> and the five
    programs of \<open>rdows-client/examples\<close>. What they print is a list of format pieces. Run against
    the server's session, all of them end without an error or a failed assertion, with the
    output given.
  \<^item> \<open>Kv_Slots\<close>, \<open>Kv_Table\<close>, \<open>Kv_Store\<close>, \<open>Kv_Props\<close>, \<open>Kv_Api\<close>, \<open>Kv_Main\<close>: \<open>kv.rs\<close>, \<open>api.rs\<close> and \<open>main.rs\<close>
    of \<open>rdows-kv/src\<close>. \<open>Kv_Table\<close> is the abstract table with linear probing. The locale
    \<open>slot_array\<close> is the contract of slot access; it is interpreted on the slots read and written
    by the client's verbs in the server's memory, so that the table lemmas hold of the program:
    sequences of puts and gets refine a map of bounded size.
  \<^item> \<open>Dissector\<close>: the Wireshark dissector \<open>src/wireshark/rdows.lua\<close>, one function per opcode. For every
    encoded message it shows the fields of the message, and it ends without an error on every
    buffer. The text conversions of Wireshark are the fields of the record \<open>wireshark\<close>.
  \<^item> \<open>Unit_Tests\<close>: the tests in the files of \<open>rdows-core/src\<close>, as Boolean values that are shown to be
    true.
  \<^item> \<open>Integration_Tests\<close>, \<open>Test_Rules\<close>, \<open>Test_Runs\<close>: the tests of \<open>rdows-client/tests/integration.rs\<close>, as
    programs over the verbs with their assertions. A test knows the machine of its connection and
    the server's accounts exactly, so that refused registrations are determined, too. Each verb
    has a rule, and executing the tests with these rules shows that they pass.

  \<^bold>\<open>Conventions\<close>

  \<^item> Integers have the width of the source (\<open>usize\<close> is a natural number with the limit of 64 bits).
    Arithmetic that the source does not mark as wrapping is modelled with overflow checks on, as
    in the debug and test profiles: it panics where it overflows. The workspace sets no profile.
  \<^item> Slicing out of range, \<open>copy_from_slice\<close> of another length, and a vector or queue whose capacity
    in bytes exceeds \<open>isize::MAX\<close> are \<open>Panic\<close>.
  \<^item> Time, random numbers, the outcome of each send, and the header text conversion of the HTTP
    library are parameters. The generation of an R_Key tries 1000 random numbers, as the code
    does, and fails when none is free; only the theorems about whole programs assume that this
    does not happen.
  \<^item> Loops over received events and over slots are recursions on the list of events or slots, so
    no fuel is needed. The receive loop of the client recurses on the frames in transit and is
    \<open>Blocked\<close> when there are none.

  \<^bold>\<open>Not modelled\<close>

  \<^item> TLS, TCP, the WebSocket protocol, certificates, files and the HTTP server: libraries, which
    appear as parameters; so the size limits of the WebSocket library are not modelled. Logging and the standard error stream.
  \<^item> The signature checks and the scheme list of the insecure certificate verifier: they pass
    values of the TLS crate through.
  \<^item> The web page, which only displays the table, and the JSON of results, derived by serde.
\<close>

end
